(* ===== verification/Prelude.thy ===== *)
theory Prelude
  imports Complex_Main
begin

text \<open>
  What every component shares: the collections of facts the component proofs rest on, and
  generic lemmas on options, lists, sums and association lists.

  \<^item> \<open>js_simps\<close>: unconditional equations of the language layer (strings, numbers, values);
  \<^item> \<open>wire_defs\<close>: the definitions that build requests for the backend.
\<close>

named_theorems js_simps
named_theorems wire_defs

section \<open>Errors and sums\<close>

text \<open>The exceptions the modelled code can raise (or catch).\<close>

datatype js_error = URIError | TypeError | RangeError | SyntaxError

type_synonym 'a result = "js_error + 'a"

definition map_result :: "('a \<Rightarrow> 'b) \<Rightarrow> 'a result \<Rightarrow> 'b result" where
  "map_result f r = (case r of Inl e \<Rightarrow> Inl e | Inr x \<Rightarrow> Inr (f x))"

lemma map_result_simps [simp]:
  "map_result f (Inl e) = Inl e"
  "map_result f (Inr x) = Inr (f x)"
  by (simp_all add: map_result_def)

lemma map_result_eq_Inr [simp]: "map_result f r = Inr y \<longleftrightarrow> (\<exists>x. r = Inr x \<and> y = f x)"
  by (auto simp: map_result_def split: sum.splits)

lemma map_result_eq_Inl [simp]: "map_result f r = Inl e \<longleftrightarrow> r = Inl e"
  by (auto simp: map_result_def split: sum.splits)

section \<open>Options as nullable values\<close>

text \<open>
  A value of type \<open>T | null | undefined\<close> is an option; \<open>a ?? b\<close> takes the right operand only
  when the left one is null or undefined.
\<close>

definition nullish :: "'a option \<Rightarrow> 'a option \<Rightarrow> 'a option" where
  "nullish a b = (case a of Some x \<Rightarrow> Some x | None \<Rightarrow> b)"

definition or_default :: "'a option \<Rightarrow> 'a \<Rightarrow> 'a" where
  "or_default a d = (case a of Some x \<Rightarrow> x | None \<Rightarrow> d)"

lemma nullish_simps [simp]:
  "nullish None b = b"
  "nullish (Some x) b = Some x"
  by (simp_all add: nullish_def)

lemma nullish_None [simp]: "nullish a None = a"
  by (cases a) simp_all

lemma nullish_eq_None [simp]: "nullish a b = None \<longleftrightarrow> a = None \<and> b = None"
  by (cases a) simp_all

lemma nullish_assoc: "nullish (nullish a b) c = nullish a (nullish b c)"
  by (cases a) simp_all

lemma or_default_simps [simp]:
  "or_default None d = d"
  "or_default (Some x) d = x"
  by (simp_all add: or_default_def)

section \<open>Lists and association lists\<close>

text \<open>Inserting into a JS \<open>Set\<close>: the list of its elements in insertion order.\<close>

definition set_add :: "'a \<Rightarrow> 'a list \<Rightarrow> 'a list" where
  "set_add x xs = (if x \<in> set xs then xs else xs @ [x])"

definition set_of_list :: "'a list \<Rightarrow> 'a list" where
  "set_of_list xs = fold set_add xs []"

lemma set_set_add [simp]: "set (set_add x xs) = insert x (set xs)"
  by (auto simp: set_add_def)

lemma distinct_set_add [intro]: "distinct xs \<Longrightarrow> distinct (set_add x xs)"
  by (auto simp: set_add_def)

lemma set_fold_set_add [simp]: "set (fold set_add xs acc) = set acc \<union> set xs"
  by (induction xs arbitrary: acc) auto

lemma distinct_fold_set_add: "distinct acc \<Longrightarrow> distinct (fold set_add xs acc)"
  by (induction xs arbitrary: acc) auto

lemma set_set_of_list [simp]: "set (set_of_list xs) = set xs"
  by (simp add: set_of_list_def)

lemma distinct_set_of_list [simp]: "distinct (set_of_list xs)"
  by (simp add: set_of_list_def distinct_fold_set_add)

lemma fold_set_add_prefix: "\<exists>ys. fold set_add xs acc = acc @ ys"
proof (induction xs arbitrary: acc)
  case Nil
  then show ?case by simp
next
  case (Cons x xs)
  obtain zs where "fold set_add xs (set_add x acc) = set_add x acc @ zs"
    using Cons.IH by blast
  moreover have "set_add x acc = acc @ (if x \<in> set acc then [] else [x])"
    by (simp add: set_add_def)
  ultimately show ?case by simp
qed

end
