(* ===== verification/Js_String.thy ===== *)
theory Js_String
  imports Prelude
begin

text \<open>
  JavaScript strings and the string operations the frontend uses. A string is the list of its
  UTF-16 code units (numbers below 65536), as in ECMAScript; \<open>js ''abc''\<close> is a literal. White
  space is ECMAScript's \<open>WhiteSpace\<close> and \<open>LineTerminator\<close>, which is also what \<open>\s\<close> matches in a
  regular expression. \<open>toLowerCase\<close> rests on the Unicode tables, which are not part of the
  repository: functions that use it take it as an argument \<open>lower\<close>.
\<close>

type_synonym jstring = "nat list"

definition js :: "string \<Rightarrow> jstring" where
  "js s = map of_char s"

lemma js_eq_iff [simp, js_simps]: "js s = js t \<longleftrightarrow> s = t"
proof -
  have "inj (of_char :: char \<Rightarrow> nat)"
    by (rule injI) simp
  then show ?thesis
    by (simp add: js_def inj_map_eq_map)
qed

lemma js_append [js_simps]: "js (s @ t) = js s @ js t"
  by (simp add: js_def)

lemma js_Nil [simp, js_simps]: "js [] = []"
  by (simp add: js_def)

lemma js_eq_Nil [simp]: "js s = [] \<longleftrightarrow> s = []" "[] = js s \<longleftrightarrow> s = []"
  by (auto simp: js_def)

lemma js_Cons: "js (c # s) = of_char c # js s"
  by (simp add: js_def)

lemma length_js [simp]: "length (js s) = length s"
  by (simp add: js_def)

definition wf_js :: "jstring \<Rightarrow> bool" where
  "wf_js s \<longleftrightarrow> (\<forall>u \<in> set s. u < 65536)"

lemma of_char_less: "(of_char c :: nat) < 256"
  using of_char_mod_256 [of c, where 'a = nat] by (metis mod_less_divisor zero_less_numeral)

lemma wf_js_js [simp]: "wf_js (js s)"
proof -
  have "(of_char c :: nat) < 65536" for c
    by (rule less_trans [OF of_char_less]) simp
  then show ?thesis
    by (auto simp: wf_js_def js_def)
qed

lemma wf_js_simps [simp]:
  "wf_js []" "wf_js (u # s) \<longleftrightarrow> u < 65536 \<and> wf_js s" "wf_js (s @ t) \<longleftrightarrow> wf_js s \<and> wf_js t"
  by (auto simp: wf_js_def)

section \<open>White space and trimming\<close>

definition is_ws :: "nat \<Rightarrow> bool" where
  "is_ws u \<longleftrightarrow> (9 \<le> u \<and> u \<le> 13) \<or> u = 32 \<or> u = 160 \<or> u = 5760 \<or> (8192 \<le> u \<and> u \<le> 8202)
     \<or> u = 8232 \<or> u = 8233 \<or> u = 8239 \<or> u = 8287 \<or> u = 12288 \<or> u = 65279"

definition trim_start :: "jstring \<Rightarrow> jstring" where
  "trim_start s = dropWhile is_ws s"

definition trim_end :: "jstring \<Rightarrow> jstring" where
  "trim_end s = rev (dropWhile is_ws (rev s))"

definition trim :: "jstring \<Rightarrow> jstring" where
  "trim s = trim_end (trim_start s)"

lemma trim_end_snoc: "trim_end (s @ [u]) = (if is_ws u then trim_end s else s @ [u])"
  by (simp add: trim_end_def)

lemma trim_Nil [simp]: "trim [] = []"
  by (simp add: trim_def trim_end_def trim_start_def)

lemma set_trim: "set (trim s) \<subseteq> set s"
proof -
  have "set (trim s) \<subseteq> set (dropWhile is_ws s)"
    by (auto simp: trim_def trim_end_def trim_start_def dest: set_dropWhileD)
  then show ?thesis by (auto dest: set_dropWhileD)
qed

lemma trim_no_ws: "(\<And>u. u \<in> set s \<Longrightarrow> \<not> is_ws u) \<Longrightarrow> trim s = s"
proof -
  assume no: "\<And>u. u \<in> set s \<Longrightarrow> \<not> is_ws u"
  then have "dropWhile is_ws s = s"
    by (cases s) auto
  moreover have "dropWhile is_ws (rev s) = rev s"
    using no by (cases "rev s") (auto simp: rev_swap)
  ultimately show ?thesis
    by (simp add: trim_def trim_start_def trim_end_def)
qed

lemma dropWhile_all: "(\<forall>u \<in> set (dropWhile P s). P u) \<longleftrightarrow> (\<forall>u \<in> set s. P u)"
proof (induction s)
  case (Cons a s)
  then show ?case by (cases "P a") simp_all
qed simp

lemma trim_eq_Nil: "trim s = [] \<longleftrightarrow> (\<forall>u \<in> set s. is_ws u)"
  unfolding trim_def trim_end_def trim_start_def
  by (simp only: rev_is_Nil_conv dropWhile_eq_Nil_conv set_rev dropWhile_all)

lemma hd_trim_not_ws: "trim s \<noteq> [] \<Longrightarrow> \<not> is_ws (hd (trim s))"
proof -
  assume ne: "trim s \<noteq> []"
  let ?d = "dropWhile is_ws s"
  have split: "?d = trim s @ rev (takeWhile is_ws (rev ?d))"
    by (simp add: trim_def trim_end_def trim_start_def)
       (metis rev_append rev_rev_ident takeWhile_dropWhile_id)
  have "?d \<noteq> []"
  proof
    assume "?d = []"
    then have "trim s = []" by (simp add: trim_def trim_end_def trim_start_def dropWhile_all)
    with ne show False ..
  qed
  then have "\<not> is_ws (hd ?d)" by (rule hd_dropWhile)
  with split ne show ?thesis by (metis hd_append2)
qed

lemma last_trim_not_ws: "trim s \<noteq> [] \<Longrightarrow> \<not> is_ws (last (trim s))"
  unfolding trim_def trim_end_def
  by (simp only: last_rev rev_is_Nil_conv not_False_eq_True hd_dropWhile)

lemma trim_trim [simp]: "trim (trim s) = trim s"
proof (cases "trim s = []")
  case True
  then show ?thesis by simp
next
  case False
  have "dropWhile is_ws (trim s) = trim s"
    using hd_trim_not_ws [OF False] False by (cases "trim s") auto
  moreover have "dropWhile is_ws (rev (trim s)) = rev (trim s)"
    using last_trim_not_ws [OF False] False
    by (cases "rev (trim s)") (auto simp: hd_rev [symmetric])
  ultimately show ?thesis
    by (subst trim_def) (simp add: trim_start_def trim_end_def)
qed

section \<open>Lower case\<close>

text \<open>
  What the proofs use of \<open>toLowerCase\<close>: the empty string and strings of lower-case ASCII letters
  and digits are unchanged, the result has no capital ASCII letter, and a string some of whose
  already lower-case units are dropped is still lower-case. \<open>lower_ascii\<close> satisfies it.
\<close>

definition is_lower_alnum :: "nat \<Rightarrow> bool" where
  "is_lower_alnum u \<longleftrightarrow> (97 \<le> u \<and> u \<le> 122) \<or> (48 \<le> u \<and> u \<le> 57)"

definition no_surrogates :: "jstring \<Rightarrow> bool" where
  "no_surrogates s \<longleftrightarrow> (\<forall>u \<in> set s. u < 55296 \<or> 57343 < u)"

definition lower_laws :: "(jstring \<Rightarrow> jstring) \<Rightarrow> bool" where
  "lower_laws lower \<longleftrightarrow>
     (\<forall>s. (\<forall>u \<in> set s. is_lower_alnum u) \<longrightarrow> lower s = s) \<and>
     (\<forall>s. \<forall>u \<in> set (lower s). \<not> (65 \<le> u \<and> u \<le> 90)) \<and>
     (\<forall>s P. no_surrogates (lower s) \<longrightarrow> lower (filter P (lower s)) = filter P (lower s))"

definition lower_ascii :: "jstring \<Rightarrow> jstring" where
  "lower_ascii s = map (\<lambda>u. if 65 \<le> u \<and> u \<le> 90 then u + 32 else u) s"

lemma lower_laws_ascii: "lower_laws lower_ascii"
proof -
  have "lower_ascii (filter P (lower_ascii s)) = filter P (lower_ascii s)" for s P
    unfolding lower_ascii_def by (rule map_idI) auto
  moreover have "lower_ascii s = s" if "\<forall>u \<in> set s. is_lower_alnum u" for s
    using that unfolding lower_ascii_def by (intro map_idI) (auto simp: is_lower_alnum_def)
  ultimately show ?thesis by (auto simp: lower_laws_def lower_ascii_def)
qed

lemma lower_laws_Nil: "lower_laws lower \<Longrightarrow> lower [] = []"
  by (simp add: lower_laws_def)

section \<open>Searching, prefixes, splitting and joining\<close>

definition starts_with :: "jstring \<Rightarrow> jstring \<Rightarrow> bool" where
  "starts_with s p \<longleftrightarrow> take (length p) s = p"

definition ends_with :: "jstring \<Rightarrow> jstring \<Rightarrow> bool" where
  "ends_with s p \<longleftrightarrow> starts_with (rev s) (rev p)"

fun str_includes :: "jstring \<Rightarrow> jstring \<Rightarrow> bool" where
  "str_includes [] p = (p = [])"
| "str_includes (u # s) p = (starts_with (u # s) p \<or> str_includes s p)"

lemma starts_with_iff: "starts_with s p \<longleftrightarrow> (\<exists>t. s = p @ t)"
  by (auto simp: starts_with_def) (metis append_take_drop_id)

lemma starts_with_append [simp]: "starts_with (p @ t) p"
  by (auto simp: starts_with_iff)

lemma starts_with_drop: "starts_with s p \<Longrightarrow> p @ drop (length p) s = s"
  by (metis append_take_drop_id starts_with_def)

lemma ends_with_iff: "ends_with s p \<longleftrightarrow> (\<exists>t. s = t @ p)"
proof
  assume "ends_with s p"
  then obtain t where "rev s = rev p @ t" by (auto simp: ends_with_def starts_with_iff)
  then have "s = rev t @ p" by (metis rev_append rev_rev_ident)
  then show "\<exists>t. s = t @ p" ..
qed (auto simp: ends_with_def starts_with_iff)

lemma includes_iff: "str_includes s p \<longleftrightarrow> (\<exists>a b. s = a @ p @ b)"
proof (induction s)
  case Nil
  then show ?case by auto
next
  case (Cons u s)
  show ?case
  proof
    assume "str_includes (u # s) p"
    then consider "starts_with (u # s) p" | "str_includes s p" by auto
    then show "\<exists>a b. u # s = a @ p @ b"
    proof cases
      case 1
      then obtain b where "u # s = p @ b" by (auto simp: starts_with_iff)
      then have "u # s = [] @ p @ b" by simp
      then show ?thesis by blast
    next
      case 2
      then obtain a b where "s = a @ p @ b" using Cons.IH by blast
      then have "u # s = (u # a) @ p @ b" by simp
      then show ?thesis by blast
    qed
  next
    assume "\<exists>a b. u # s = a @ p @ b"
    then obtain a b where ab: "u # s = a @ p @ b" by blast
    show "str_includes (u # s) p"
    proof (cases a)
      case Nil
      with ab have "starts_with (u # s) p" by (simp add: starts_with_iff)
      then show ?thesis by simp
    next
      case (Cons v a')
      with ab have "s = a' @ p @ b" by simp
      then show ?thesis using Cons.IH by auto
    qed
  qed
qed

lemma includes_Nil [simp]: "str_includes s []"
  by (cases s) (auto simp: starts_with_def)

text \<open>\<open>split_units P s\<close> splits at every single code unit in \<open>P\<close>, like \<open>split(/[..]/)\<close>.\<close>

fun split_units :: "(nat \<Rightarrow> bool) \<Rightarrow> jstring \<Rightarrow> jstring list" where
  "split_units P [] = [[]]"
| "split_units P (u # s) =
     (if P u then [] # split_units P s
      else (case split_units P s of [] \<Rightarrow> [[u]] | x # xs \<Rightarrow> (u # x) # xs))"

lemma split_units_not_Nil [simp]: "split_units P s \<noteq> []"
  by (induction s) (auto split: list.splits)

lemma split_units_none: "(\<And>u. u \<in> set s \<Longrightarrow> \<not> P u) \<Longrightarrow> split_units P s = [s]"
  by (induction s) auto

lemma split_units_append_sep:
  "\<lbrakk>\<And>u. u \<in> set s \<Longrightarrow> \<not> P u; P c\<rbrakk> \<Longrightarrow> split_units P (s @ c # t) = s # split_units P t"
  by (induction s) auto

lemma split_units_pieces: "x \<in> set (split_units P s) \<Longrightarrow> u \<in> set x \<Longrightarrow> \<not> P u \<and> u \<in> set s"
proof (induction s arbitrary: x)
  case Nil
  then show ?case by simp
next
  case (Cons v s)
  obtain y ys where y: "split_units P s = y # ys"
    by (meson neq_Nil_conv split_units_not_Nil)
  show ?case
  proof (cases "P v")
    case True
    with Cons.prems show ?thesis using Cons.IH [of x] by auto
  next
    case False
    with Cons.prems y have "x = v # y \<or> x \<in> set ys" by auto
    with Cons.prems False Cons.IH [of y] Cons.IH [of x] y show ?thesis by auto
  qed
qed

fun join :: "jstring \<Rightarrow> jstring list \<Rightarrow> jstring" where
  "join sep [] = []"
| "join sep [x] = x"
| "join sep (x # y # xs) = x @ sep @ join sep (y # xs)"

lemma split_units_join:
  assumes "xs \<noteq> []" and "\<And>x u. x \<in> set xs \<Longrightarrow> u \<in> set x \<Longrightarrow> u \<noteq> c"
  shows "split_units (\<lambda>u. u = c) (join [c] xs) = xs"
  using assms
proof (induction xs rule: induct_list012)
  case 1
  then show ?case by simp
next
  case (2 x)
  then show ?case by (simp add: split_units_none)
next
  case (3 x y zs)
  have "split_units (\<lambda>u. u = c) (join [c] (y # zs)) = y # zs"
    by (rule "3.IH"(2)) (use "3.prems"(2) in auto)
  moreover have "u \<noteq> c" if "u \<in> set x" for u
    using that "3.prems"(2) [of x u] by simp
  ultimately show ?case
    by (simp add: split_units_append_sep)
qed

lemma join_split: "join [c] (split_units (\<lambda>u. u = c) s) = s"
proof (induction s)
  case (Cons u s)
  obtain x xs where x: "split_units (\<lambda>u. u = c) s = x # xs" by (meson neq_Nil_conv split_units_not_Nil)
  then show ?case using Cons by (cases xs) auto
qed simp

section \<open>Percent-encoding\<close>

text \<open>
  \<open>encodeURIComponent\<close> (ECMA-262, 19.2.6.4): the string is read as UTF-16 code points, each
  unreserved character is kept and every other one is replaced by the escapes of its UTF-8
  bytes; a lone surrogate raises \<open>URIError\<close>.
\<close>

definition is_high :: "nat \<Rightarrow> bool" where
  "is_high u \<longleftrightarrow> 55296 \<le> u \<and> u \<le> 56319"

definition is_low :: "nat \<Rightarrow> bool" where
  "is_low u \<longleftrightarrow> 56320 \<le> u \<and> u \<le> 57343"

fun code_points :: "jstring \<Rightarrow> nat list option" where
  "code_points [] = Some []"
| "code_points (u # s) =
     (if is_low u then None
      else if is_high u then
        (case s of
           [] \<Rightarrow> None
         | v # s' \<Rightarrow>
             (if is_low v
              then map_option (Cons (65536 + (u - 55296) * 1024 + (v - 56320))) (code_points s')
              else None))
      else map_option (Cons u) (code_points s))"

definition utf16 :: "nat \<Rightarrow> jstring" where
  "utf16 c = (if c < 65536 then [c]
              else [55296 + (c - 65536) div 1024, 56320 + (c - 65536) mod 1024])"

definition utf8 :: "nat \<Rightarrow> nat list" where
  "utf8 c =
     (if c < 128 then [c]
      else if c < 2048 then [192 + c div 64, 128 + c mod 64]
      else if c < 65536 then [224 + c div 4096, 128 + (c div 64) mod 64, 128 + c mod 64]
      else [240 + c div 262144, 128 + (c div 4096) mod 64, 128 + (c div 64) mod 64,
            128 + c mod 64])"

definition is_unreserved :: "nat \<Rightarrow> bool" where
  "is_unreserved u \<longleftrightarrow> (65 \<le> u \<and> u \<le> 90) \<or> (97 \<le> u \<and> u \<le> 122) \<or> (48 \<le> u \<and> u \<le> 57)
     \<or> u = 45 \<or> u = 95 \<or> u = 46 \<or> u = 33 \<or> u = 126 \<or> u = 42 \<or> u = 39 \<or> u = 40 \<or> u = 41"

definition hex_digit :: "nat \<Rightarrow> nat" where
  "hex_digit d = (if d < 10 then 48 + d else 55 + d)"

definition pct :: "nat \<Rightarrow> jstring" where
  "pct b = [37, hex_digit (b div 16), hex_digit (b mod 16)]"

definition enc_point :: "nat \<Rightarrow> jstring" where
  "enc_point c = (if is_unreserved c then [c] else concat (map pct (utf8 c)))"

definition encode_uri_component :: "jstring \<Rightarrow> jstring result" where
  "encode_uri_component s =
     (case code_points s of None \<Rightarrow> Inl URIError | Some cs \<Rightarrow> Inr (concat (map enc_point cs)))"

text \<open>
  \<open>decodeURIComponent\<close>, which is what the receiving side applies to a path segment: the escapes
  of one UTF-8 sequence are read together; a malformed or overlong sequence is \<open>URIError\<close>.
\<close>

definition hex_val :: "nat \<Rightarrow> nat option" where
  "hex_val u = (if 48 \<le> u \<and> u \<le> 57 then Some (u - 48)
                else if 65 \<le> u \<and> u \<le> 70 then Some (u - 55)
                else if 97 \<le> u \<and> u \<le> 102 then Some (u - 87) else None)"

fun take_pct :: "jstring \<Rightarrow> (nat \<times> jstring) option" where
  "take_pct (p # h # l # s) =
     (if p = 37 then (case (hex_val h, hex_val l) of
                        (Some a, Some b) \<Rightarrow> Some (16 * a + b, s) | _ \<Rightarrow> None)
      else None)"
| "take_pct _ = None"

definition take_cont :: "jstring \<Rightarrow> (nat \<times> jstring) option" where
  "take_cont s = (case take_pct s of
     Some (b, s') \<Rightarrow> if 128 \<le> b \<and> b < 192 then Some (b - 128, s') else None | None \<Rightarrow> None)"

definition take_point :: "jstring \<Rightarrow> (nat \<times> jstring) option" where
  "take_point s = (case take_pct s of
     None \<Rightarrow> None
   | Some (b, s1) \<Rightarrow>
       if b < 128 then Some (b, s1)
       else case take_cont s1 of
         None \<Rightarrow> None
       | Some (x, s2) \<Rightarrow>
           if 192 \<le> b \<and> b < 224 then
             (let c = (b - 192) * 64 + x in if 128 \<le> c then Some (c, s2) else None)
           else case take_cont s2 of
             None \<Rightarrow> None
           | Some (y, s3) \<Rightarrow>
               if 224 \<le> b \<and> b < 240 then
                 (let c = (b - 224) * 4096 + x * 64 + y
                  in if 2048 \<le> c \<and> \<not> is_high c \<and> \<not> is_low c then Some (c, s3) else None)
               else case take_cont s3 of
                 None \<Rightarrow> None
               | Some (z, s4) \<Rightarrow>
                   if 240 \<le> b \<and> b < 248 then
                     (let c = (b - 240) * 262144 + x * 4096 + y * 64 + z
                      in if 65536 \<le> c \<and> c < 1114112 then Some (c, s4) else None)
                   else None)"

lemma take_pct_length: "take_pct s = Some (b, s') \<Longrightarrow> length s' < length s"
  by (induction s rule: take_pct.induct) (auto split: if_splits option.splits)

lemma take_cont_length: "take_cont s = Some (b, s') \<Longrightarrow> length s' < length s"
  by (auto simp: take_cont_def dest: take_pct_length split: if_splits option.splits)

lemma take_point_length: "take_point s = Some (b, s') \<Longrightarrow> length s' < length s"
  by (auto simp: take_point_def Let_def dest!: take_pct_length take_cont_length
      split: if_splits option.splits)

function decode_uri_component :: "jstring \<Rightarrow> jstring result" where
  "decode_uri_component s = (case s of
     [] \<Rightarrow> Inr []
   | u # t \<Rightarrow>
       if u = 37 then
         (case take_point s of
            None \<Rightarrow> Inl URIError
          | Some (c, s') \<Rightarrow> map_result (append (utf16 c)) (decode_uri_component s'))
       else map_result (Cons u) (decode_uri_component t))"
  by pat_completeness auto
termination
  by (relation "measure length") (auto dest: take_point_length)

declare decode_uri_component.simps [simp del]

lemmas uri_eval = encode_uri_component_def enc_point_def is_unreserved_def utf8_def pct_def
  hex_digit_def is_high_def is_low_def js_def

section \<open>The encoding is inverted by the decoding\<close>

definition is_scalar :: "nat \<Rightarrow> bool" where
  "is_scalar c \<longleftrightarrow> c < 1114112 \<and> \<not> is_high c \<and> \<not> is_low c"

lemma hex_val_hex_digit: "d < 16 \<Longrightarrow> hex_val (hex_digit d) = Some d"
  by (auto simp: hex_val_def hex_digit_def)

lemma take_pct_pct: "b < 256 \<Longrightarrow> take_pct (pct b @ s) = Some (b, s)"
  by (simp add: pct_def hex_val_hex_digit)

lemma take_cont_pct: "x < 64 \<Longrightarrow> take_cont (pct (128 + x) @ s) = Some (x, s)"
  by (simp add: take_cont_def take_pct_pct)

lemma digits_64: "c = (c div 64) * 64 + c mod 64" for c :: nat
  by simp

lemma digits_4096: "c = (c div 4096) * 4096 + (c div 64) mod 64 * 64 + c mod 64" for c :: nat
proof -
  have "c div 4096 = c div 64 div 64" by (simp add: div_mult2_eq [symmetric])
  then show ?thesis
    using div_mult_mod_eq [of c 64] div_mult_mod_eq [of "c div 64" 64] by linarith
qed

lemma digits_262144:
  "c = (c div 262144) * 262144 + (c div 4096) mod 64 * 4096 + (c div 64) mod 64 * 64 + c mod 64"
  for c :: nat
proof -
  have "c div 262144 = c div 4096 div 64" by (simp add: div_mult2_eq [symmetric])
  then show ?thesis
    using digits_4096 [of c] div_mult_mod_eq [of "c div 4096" 64] by linarith
qed

lemma take_point_utf8:
  assumes "is_scalar c"
  shows "take_point (concat (map pct (utf8 c)) @ s) = Some (c, s)"
proof -
  consider (one) "c < 128" | (two) "128 \<le> c" "c < 2048" | (three) "2048 \<le> c" "c < 65536"
    | (four) "65536 \<le> c" by linarith
  then show ?thesis
  proof cases
    case one
    then show ?thesis by (simp add: utf8_def take_point_def take_pct_pct)
  next
    case two
    then have "c div 64 < 32" by (simp add: div_less_iff_less_mult)
    with two show ?thesis
      by (simp add: utf8_def take_point_def take_pct_pct take_cont_pct Let_def)
  next
    case three
    then have "c div 4096 < 16" by (simp add: div_less_iff_less_mult)
    with three assms digits_4096 [of c] show ?thesis
      by (simp add: utf8_def take_point_def take_pct_pct take_cont_pct Let_def is_scalar_def)
  next
    case four
    then have "c div 262144 < 5" using assms by (simp add: div_less_iff_less_mult is_scalar_def)
    with four assms digits_262144 [of c] show ?thesis
      by (simp add: utf8_def take_point_def take_pct_pct take_cont_pct Let_def is_scalar_def)
  qed
qed

lemma concat_pct_Cons: "concat (map pct (utf8 c)) = 37 # tl (concat (map pct (utf8 c)))"
  by (simp add: utf8_def pct_def)

lemma decode_enc_point:
  assumes "is_scalar c"
  shows "decode_uri_component (enc_point c @ s) = map_result (append (utf16 c)) (decode_uri_component s)"
proof (cases "is_unreserved c")
  case True
  then have "c \<noteq> 37" "utf16 c = [c]" by (auto simp: is_unreserved_def utf16_def)
  moreover have "append [c] = Cons c" by (simp add: fun_eq_iff)
  ultimately show ?thesis
    using True by (simp add: enc_point_def decode_uri_component.simps [of "c # s"])
next
  case False
  obtain r where r: "concat (map pct (utf8 c)) = 37 # r"
    using concat_pct_Cons by blast
  then have "take_point (37 # r @ s) = Some (c, s)"
    using take_point_utf8 [OF assms, of s] by simp
  with False r show ?thesis
    by (simp add: enc_point_def decode_uri_component.simps [of "37 # r @ s"])
qed

lemma code_points_scalar:
  "code_points s = Some cs \<Longrightarrow> wf_js s \<Longrightarrow> (\<forall>c \<in> set cs. is_scalar c) \<and> concat (map utf16 cs) = s"
proof (induction s arbitrary: cs rule: code_points.induct)
  case 1
  then show ?case by simp
next
  case (2 u s)
  show ?case
  proof (cases "is_high u")
    case True
    then have nl: "\<not> is_low u" by (auto simp: is_high_def is_low_def)
    with 2 True obtain v s' cs' where s: "s = v # s'" "is_low v" "code_points s' = Some cs'"
      and cs: "cs = (65536 + (u - 55296) * 1024 + (v - 56320)) # cs'"
      by (auto split: list.splits if_splits)
    let ?c = "65536 + (u - 55296) * 1024 + (v - 56320)"
    have hi: "u - 55296 < 1024" "55296 \<le> u" using True by (auto simp: is_high_def)
    have lo: "v - 56320 < 1024" "56320 \<le> v" using s(2) by (auto simp: is_low_def)
    have "?c - 65536 = (u - 55296) * 1024 + (v - 56320)" by simp
    moreover have "((u - 55296) * 1024 + (v - 56320)) div 1024 = u - 55296"
      "((u - 55296) * 1024 + (v - 56320)) mod 1024 = v - 56320" using lo(1) by simp_all
    ultimately have u16: "utf16 ?c = [u, v]" using hi lo by (simp add: utf16_def)
    have sc: "is_scalar ?c"
      using hi lo by (auto simp: is_scalar_def is_high_def is_low_def)
    have "(\<forall>c \<in> set cs'. is_scalar c) \<and> concat (map utf16 cs') = s'"
      using 2(1) [of v s' cs'] nl True s "2.prems" by simp
    with cs u16 sc s show ?thesis by simp
  next
    case False
    with 2 obtain cs' where "\<not> is_low u" "code_points s = Some cs'" "cs = u # cs'"
      by (auto split: if_splits)
    with 2(2) [of cs'] False "2.prems" show ?thesis
      by (auto simp: is_scalar_def utf16_def)
  qed
qed

lemma decode_enc_points:
  "(\<forall>c \<in> set cs. is_scalar c) \<Longrightarrow>
   decode_uri_component (concat (map enc_point cs)) = Inr (concat (map utf16 cs))"
  by (induction cs) (auto simp: decode_enc_point decode_uri_component.simps [of "[]"])

lemma decode_encode:
  assumes "encode_uri_component s = Inr e" and "wf_js s"
  shows "decode_uri_component e = Inr s"
  using assms code_points_scalar [of s] decode_enc_points
  by (auto simp: encode_uri_component_def split: option.splits)

lemma encode_inj:
  assumes "encode_uri_component s = Inr e" "encode_uri_component t = Inr e" "wf_js s" "wf_js t"
  shows "s = t"
  using decode_encode [OF assms(1,3)] decode_encode [OF assms(2,4)] by simp

text \<open>The encoded form is plain ASCII and has no character that delimits a URL component.\<close>

definition is_escape_unit :: "nat \<Rightarrow> bool" where
  "is_escape_unit u \<longleftrightarrow> is_unreserved u \<or> u = 37"

lemma hex_digit_unit: "d < 16 \<Longrightarrow> is_escape_unit (hex_digit d)"
  by (auto simp: is_escape_unit_def is_unreserved_def hex_digit_def)

lemma utf8_bytes: "is_scalar c \<Longrightarrow> b \<in> set (utf8 c) \<Longrightarrow> b < 256"
  by (auto simp: utf8_def is_scalar_def split: if_splits)

lemma pct_units: "b < 256 \<Longrightarrow> u \<in> set (pct b) \<Longrightarrow> is_escape_unit u"
  by (auto simp: pct_def hex_digit_unit) (simp add: is_escape_unit_def)

lemma enc_point_units: "is_scalar c \<Longrightarrow> u \<in> set (enc_point c) \<Longrightarrow> is_escape_unit u"
  by (auto simp: enc_point_def dest: utf8_bytes pct_units split: if_splits)
     (simp add: is_escape_unit_def)

lemma encode_units:
  assumes "encode_uri_component s = Inr e" "wf_js s" "u \<in> set e"
  shows "is_escape_unit u"
proof -
  obtain cs where cs: "code_points s = Some cs" "e = concat (map enc_point cs)"
    using assms(1) by (auto simp: encode_uri_component_def split: option.splits)
  with assms(2) have "\<forall>c \<in> set cs. is_scalar c" using code_points_scalar by blast
  with cs(2) assms(3) show ?thesis by (auto intro: enc_point_units)
qed

lemma encode_error_iff: "encode_uri_component s = Inl e \<longleftrightarrow> code_points s = None \<and> e = URIError"
  by (auto simp: encode_uri_component_def split: option.splits)

end
