(* ===== verification/Js_Number.thy ===== *)
theory Js_Number
  imports Js_String "HOL-Library.Log_Nat"
begin

text \<open>
  JavaScript numbers: IEEE 754 double precision. A finite number is its exact value, a rational
  (the sign of zero is not kept: no code modelled here can tell \<open>-0\<close> from \<open>0\<close>). \<open>rnd\<close> is rounding
  to the nearest double, ties to even, with overflow to infinity, and the arithmetic operations are
  the exact ones followed by \<open>rnd\<close>. Then come the conversions the frontend uses: \<open>toFixed\<close>,
  \<open>String(n)\<close> (the shortest decimal that reads back), \<open>Number(s)\<close>, \<open>parseInt(s, 10)\<close>, \<open>parseFloat\<close>.
\<close>

datatype jsnum = Fin rat | PInf | NInf | NaN

definition is_finite :: "jsnum \<Rightarrow> bool" where
  "is_finite x = (case x of Fin _ \<Rightarrow> True | _ \<Rightarrow> False)"

definition is_nan :: "jsnum \<Rightarrow> bool" where
  "is_nan x \<longleftrightarrow> x = NaN"

definition is_int_rat :: "rat \<Rightarrow> bool" where
  "is_int_rat q \<longleftrightarrow> of_int \<lfloor>q\<rfloor> = q"

definition is_integer :: "jsnum \<Rightarrow> bool" where
  "is_integer x = (case x of Fin q \<Rightarrow> is_int_rat q | _ \<Rightarrow> False)"

definition num :: "int \<Rightarrow> jsnum" where
  "num n = Fin (of_int n)"

lemma is_finite_simps [simp]:
  "is_finite (Fin q)" "\<not> is_finite PInf" "\<not> is_finite NInf" "\<not> is_finite NaN"
  by (simp_all add: is_finite_def)

lemma is_finite_iff: "is_finite x \<longleftrightarrow> (\<exists>q. x = Fin q)"
  by (cases x) auto

lemma is_int_rat_of_int [simp]: "is_int_rat (of_int n)"
  by (simp add: is_int_rat_def)

lemma is_int_ratE: "is_int_rat q \<Longrightarrow> (\<And>n. q = of_int n \<Longrightarrow> P) \<Longrightarrow> P"
  by (metis is_int_rat_def)

lemma is_integer_num [simp]: "is_integer (num n)"
  by (simp add: is_integer_def num_def)

lemma is_integerE: "is_integer x \<Longrightarrow> (\<And>n. x = num n \<Longrightarrow> P) \<Longrightarrow> P"
  by (cases x) (auto simp: is_integer_def num_def elim: is_int_ratE)

text \<open>Comparisons: false as soon as a side is NaN.\<close>

fun num_lt :: "jsnum \<Rightarrow> jsnum \<Rightarrow> bool" where
  "num_lt (Fin a) (Fin b) = (a < b)"
| "num_lt NaN y = False"
| "num_lt x NaN = False"
| "num_lt NInf y = (y \<noteq> NInf)"
| "num_lt x PInf = (x \<noteq> PInf)"
| "num_lt x y = False"

definition num_le :: "jsnum \<Rightarrow> jsnum \<Rightarrow> bool" where
  "num_le x y \<longleftrightarrow> num_lt x y \<or> (x = y \<and> x \<noteq> NaN)"

lemma num_le_Fin [simp]: "num_le (Fin a) (Fin b) \<longleftrightarrow> a \<le> b"
  by (auto simp: num_le_def)

lemma num_lt_num [simp]: "num_lt (num a) (num b) \<longleftrightarrow> a < b"
  by (simp add: num_def)

lemma num_le_num [simp]: "num_le (num a) (num b) \<longleftrightarrow> a \<le> b"
  by (simp add: num_def)

lemma num_eq_num [simp]: "num a = num b \<longleftrightarrow> a = b"
  by (simp add: num_def)

lemma is_finite_num [simp]: "is_finite (num n)"
  by (simp add: num_def)

section \<open>Rounding to doubles\<close>

definition pow2 :: "int \<Rightarrow> rat" where
  "pow2 e = (if 0 \<le> e then 2 ^ nat e else 1 / 2 ^ nat (- e))"

definition ilog2 :: "rat \<Rightarrow> int" where
  "ilog2 q =
     (let (n, d) = quotient_of q;
          k = int (floorlog 2 (nat n)) - int (floorlog 2 (nat d))
      in if pow2 k \<le> q then k else k - 1)"

definition round_even :: "rat \<Rightarrow> int" where
  "round_even q =
     (let f = \<lfloor>q\<rfloor>; r = q - of_int f
      in if r < 1 / 2 then f else if 1 / 2 < r then f + 1 else if even f then f else f + 1)"

text \<open>The exponent of the last bit a double near \<open>q\<close> can have.\<close>

definition dexp :: "rat \<Rightarrow> int" where
  "dexp q = max (ilog2 q - 52) (- 1074)"

definition round_abs :: "rat \<Rightarrow> rat" where
  "round_abs q = of_int (round_even (q / pow2 (dexp q))) * pow2 (dexp q)"

definition rnd :: "rat \<Rightarrow> jsnum" where
  "rnd q =
     (if q = 0 then Fin 0
      else let v = round_abs \<bar>q\<bar>
           in if pow2 1024 \<le> v then (if 0 < q then PInf else NInf)
              else Fin (if 0 < q then v else - v))"

lemma pow2_pos [simp]: "0 < pow2 e"
  by (simp add: pow2_def)

lemma pow2_nonneg [simp]: "0 \<le> pow2 e" "\<bar>pow2 e\<bar> = pow2 e" "pow2 e \<noteq> 0" "\<not> pow2 e < 0"
  by (simp_all add: pow2_def)

lemma pow2_add: "pow2 (a + b) = pow2 a * pow2 b"
proof -
  have 1: "pow2 e = (2 :: rat) powi e" for e
    by (simp add: pow2_def power_int_def field_simps)
  show ?thesis by (simp add: 1 power_int_add)
qed

lemma pow2_minus: "pow2 (- a) = 1 / pow2 a"
  using pow2_add [of a "- a"] pow2_pos [of a] by (simp add: field_simps pow2_def)

lemma pow2_diff: "pow2 (a - b) = pow2 a / pow2 b"
  using pow2_add [of a "- b"] by (simp add: pow2_minus)

lemma pow2_of_nat: "pow2 (int n) = 2 ^ n"
  by (simp add: pow2_def)

lemma pow2_le_iff [simp]: "pow2 a \<le> pow2 b \<longleftrightarrow> a \<le> b"
proof -
  have mono: "pow2 a \<le> pow2 b" if "a \<le> b" for a b
  proof -
    have "pow2 (b - a) = 2 ^ nat (b - a)" using that by (simp add: pow2_def)
    then have "1 \<le> pow2 (b - a)" by simp
    then have "pow2 a * 1 \<le> pow2 a * pow2 (b - a)" by (intro mult_left_mono) auto
    then show ?thesis using pow2_add [of a "b - a"] by simp
  qed
  have strict: "pow2 b < pow2 a" if "b < a" for a b
  proof -
    have "pow2 (b + 1) = 2 * pow2 b" by (simp add: pow2_add) (simp add: pow2_def)
    moreover have "pow2 (b + 1) \<le> pow2 a" using mono [of "b + 1" a] that by simp
    ultimately show ?thesis using pow2_pos [of b] by linarith
  qed
  show ?thesis using mono [of a b] strict [of b a] by (cases "a \<le> b") auto
qed

lemma pow2_less_iff [simp]: "pow2 a < pow2 b \<longleftrightarrow> a < b"
  using pow2_le_iff [of b a] by (simp add: not_le [symmetric])

lemma floorlog_bounds:
  assumes "0 < n"
  shows "pow2 (int (floorlog 2 n) - 1) \<le> of_nat n" "of_nat n < pow2 (int (floorlog 2 n))"
proof -
  have b: "2 ^ (floorlog 2 n - 1) \<le> n \<and> n < 2 ^ floorlog 2 n"
    using floorlog_bounds [of n 2] assms by simp
  have pos: "0 < floorlog 2 n" using assms by (simp add: floorlog_def)
  then have "int (floorlog 2 n) - 1 = int (floorlog 2 n - 1)" by simp
  then have "pow2 (int (floorlog 2 n) - 1) = 2 ^ (floorlog 2 n - 1)"
    by (simp only: pow2_of_nat)
  moreover have "(2 :: rat) ^ (floorlog 2 n - 1) \<le> of_nat n"
    using b by (metis of_nat_le_iff of_nat_numeral of_nat_power)
  ultimately show "pow2 (int (floorlog 2 n) - 1) \<le> of_nat n" by simp
  have "of_nat n < (2 :: rat) ^ floorlog 2 n"
    using b by (metis of_nat_less_iff of_nat_numeral of_nat_power)
  then show "of_nat n < pow2 (int (floorlog 2 n))" by (simp add: pow2_of_nat)
qed

lemma ilog2_bounds:
  assumes "0 < q"
  shows "pow2 (ilog2 q) \<le> q" and "q < pow2 (ilog2 q + 1)"
proof -
  obtain n d where nd: "quotient_of q = (n, d)" by force
  then have q: "q = of_int n / of_int d" and d: "0 < d"
    by (simp_all add: quotient_of_div quotient_of_denom_pos)
  with assms have n: "0 < n" by (simp add: zero_less_divide_iff)
  let ?a = "int (floorlog 2 (nat n))" and ?b = "int (floorlog 2 (nat d))"
  have N: "pow2 (?a - 1) \<le> of_int n" "of_int n < pow2 ?a"
    using floorlog_bounds [of "nat n"] n by simp_all
  have D: "pow2 (?b - 1) \<le> of_int d" "of_int d < pow2 ?b"
    using floorlog_bounds [of "nat d"] d by simp_all
  have dpos: "(0 :: rat) < of_int d" using d by simp
  have "pow2 (?a - ?b - 1) * of_int d \<le> pow2 (?a - ?b - 1) * pow2 ?b"
    using D(2) by (intro mult_left_mono) auto
  also have "\<dots> = pow2 (?a - 1)" by (simp add: pow2_add [symmetric])
  also have "\<dots> \<le> of_int n" by (rule N(1))
  finally have lo: "pow2 (?a - ?b - 1) \<le> q" using dpos q by (simp add: le_divide_eq)
  have "pow2 ?a = pow2 (?a - ?b + 1) * pow2 (?b - 1)" by (simp add: pow2_add [symmetric])
  also have "\<dots> \<le> pow2 (?a - ?b + 1) * of_int d"
    using D(1) by (intro mult_left_mono) auto
  finally have hi: "q < pow2 (?a - ?b + 1)" using dpos q N(2) by (simp add: divide_less_eq)
  show "pow2 (ilog2 q) \<le> q" and "q < pow2 (ilog2 q + 1)"
    using lo hi nd by (auto simp: ilog2_def Let_def)
qed

lemma round_even_of_int [simp]: "round_even (of_int n) = n"
  by (simp add: round_even_def)

lemma round_even_ge: "of_int m \<le> q \<Longrightarrow> m \<le> round_even q"
  by (auto simp: round_even_def Let_def le_floor_iff intro: add_increasing2)

lemma round_even_le: "q \<le> of_int m \<Longrightarrow> round_even q \<le> m"
proof -
  assume q: "q \<le> of_int m"
  then have "\<lfloor>q\<rfloor> \<le> m" by linarith
  moreover have "round_even q = \<lfloor>q\<rfloor>" if "\<lfloor>q\<rfloor> = m"
    using that q by (simp add: round_even_def Let_def)
  moreover have "round_even q \<le> \<lfloor>q\<rfloor> + 1" by (simp add: round_even_def Let_def)
  ultimately show ?thesis by linarith
qed

lemma round_even_error: "\<bar>of_int (round_even q) - q\<bar> \<le> 1 / 2"
proof -
  have "of_int \<lfloor>q\<rfloor> \<le> q" "q < of_int \<lfloor>q\<rfloor> + 1" by linarith+
  then show ?thesis by (auto simp: round_even_def Let_def abs_le_iff)
qed

lemma ilog2_mono: "0 < p \<Longrightarrow> p \<le> q \<Longrightarrow> ilog2 p \<le> ilog2 q"
proof -
  assume "0 < p" "p \<le> q"
  then have "pow2 (ilog2 p) < pow2 (ilog2 q + 1)"
    using ilog2_bounds [of p] ilog2_bounds [of q] by linarith
  then show ?thesis by simp
qed

lemma dexp_mono: "0 < p \<Longrightarrow> p \<le> q \<Longrightarrow> dexp p \<le> dexp q"
  using ilog2_mono [of p q] by (auto simp: dexp_def)

text \<open>The positive doubles: multiples of their last bit.\<close>

definition pos_double :: "rat \<Rightarrow> bool" where
  "pos_double x \<longleftrightarrow> 0 < x \<and> (\<exists>m. x = of_int m * pow2 (dexp x))"

lemma multiple_pow2:
  assumes "x = of_int m * pow2 k" "e \<le> k"
  shows "x / pow2 e = of_int (m * 2 ^ nat (k - e))"
proof -
  have "x / pow2 e = of_int m * pow2 (k - e)" using assms(1) by (simp add: pow2_diff)
  also have "\<dots> = of_int (m * 2 ^ nat (k - e))" using assms(2) by (simp add: pow2_def)
  finally show ?thesis .
qed

lemma pos_doubleI:
  assumes "0 < n" "n < 2 ^ 53" "- 1074 \<le> k"
  shows "pos_double (of_int n * pow2 k)"
proof -
  let ?q = "of_int n * pow2 k"
  have q: "0 < ?q" using assms by simp
  have "(of_int n :: rat) < of_int (2 ^ 53)" using assms(2) by (simp only: of_int_less_iff)
  then have "(of_int n :: rat) < pow2 53" by (simp add: pow2_def)
  then have "?q < pow2 (53 + k)" by (simp add: pow2_add)
  with ilog2_bounds(1) [OF q] have "pow2 (ilog2 ?q) < pow2 (53 + k)" by linarith
  then have "dexp ?q \<le> k" using assms(3) by (simp add: dexp_def)
  then have "?q / pow2 (dexp ?q) = of_int (n * 2 ^ nat (k - dexp ?q))"
    by (rule multiple_pow2 [OF refl])
  then have "?q = of_int (n * 2 ^ nat (k - dexp ?q)) * pow2 (dexp ?q)"
    by (metis nonzero_eq_divide_eq pow2_nonneg(3))
  with q show ?thesis unfolding pos_double_def by blast
qed

lemma round_abs_le:
  assumes "0 < q" "q \<le> x" "pos_double x"
  shows "round_abs q \<le> x"
proof -
  obtain m where m: "x = of_int m * pow2 (dexp x)" using assms(3) by (auto simp: pos_double_def)
  let ?m = "m * 2 ^ nat (dexp x - dexp q)"
  have x: "x / pow2 (dexp q) = of_int ?m"
    using multiple_pow2 [OF m] dexp_mono [OF assms(1,2)] by simp
  have "q / pow2 (dexp q) \<le> of_int ?m"
    using assms(2) x by (metis divide_right_mono pow2_nonneg(1))
  then have "round_even (q / pow2 (dexp q)) \<le> ?m" by (rule round_even_le)
  then have "(of_int (round_even (q / pow2 (dexp q))) :: rat) \<le> x / pow2 (dexp q)"
    unfolding x by (simp only: of_int_le_iff)
  then show ?thesis by (simp add: round_abs_def le_divide_eq)
qed

lemma round_abs_ge:
  assumes "x \<le> q" "pos_double x"
  shows "x \<le> round_abs q"
proof -
  have x: "0 < x" using assms(2) by (simp add: pos_double_def)
  obtain m where m: "x = of_int m * pow2 (dexp x)" using assms(2) by (auto simp: pos_double_def)
  have q: "0 < q" using x assms(1) by simp
  have ge: "of_int k * pow2 (dexp q) \<le> round_abs q" if "of_int k * pow2 (dexp q) \<le> q" for k
  proof -
    have "of_int k \<le> q / pow2 (dexp q)" using that by (simp add: le_divide_eq)
    then have "k \<le> round_even (q / pow2 (dexp q))" by (rule round_even_ge)
    then show ?thesis by (simp add: round_abs_def)
  qed
  show ?thesis
  proof (cases "dexp q = dexp x")
    case True
    with ge [of m] m assms(1) show ?thesis by simp
  next
    case False
    then have "dexp x < dexp q" using dexp_mono [OF x assms(1)] by simp
    then have d: "dexp q = ilog2 q - 52" and l: "ilog2 x < ilog2 q"
      by (auto simp: dexp_def max_def split: if_splits)
    have p: "of_int (2 ^ 52) * pow2 (dexp q) = pow2 (ilog2 q)"
    proof -
      have "of_int (2 ^ 52) * pow2 (dexp q) = pow2 52 * pow2 (ilog2 q - 52)"
        by (simp add: d pow2_def [of 52])
      also have "\<dots> = pow2 (52 + (ilog2 q - 52))" by (simp only: pow2_add)
      finally show ?thesis by simp
    qed
    have "x < pow2 (ilog2 x + 1)" by (rule ilog2_bounds(2) [OF x])
    also have "\<dots> \<le> pow2 (ilog2 q)" using l by simp
    also have "\<dots> \<le> round_abs q"
      using ge [of "2 ^ 52"] ilog2_bounds(1) [OF q] unfolding p .
    finally show ?thesis by simp
  qed
qed

lemma round_abs_double: "pos_double x \<Longrightarrow> round_abs x = x"
  using round_abs_le [of x x] round_abs_ge [of x x] by (force simp: pos_double_def)

lemma round_abs_error: "\<bar>round_abs q - q\<bar> \<le> pow2 (dexp q) / 2"
proof -
  let ?e = "pow2 (dexp q)"
  have "\<bar>of_int (round_even (q / ?e)) - q / ?e\<bar> * ?e \<le> 1 / 2 * ?e"
    by (rule mult_right_mono [OF round_even_error]) simp
  moreover have "\<bar>of_int (round_even (q / ?e)) - q / ?e\<bar> * ?e = \<bar>round_abs q - q\<bar>"
  proof -
    have "(of_int (round_even (q / ?e)) - q / ?e) * ?e = round_abs q - q"
      by (simp add: round_abs_def left_diff_distrib)
    then show ?thesis by (metis abs_mult pow2_nonneg(2))
  qed
  ultimately show ?thesis by simp
qed

lemma rnd_pos:
  assumes "0 < q" "q \<le> x" "pos_double x" "x < pow2 1024"
  shows "rnd q = Fin (round_abs q)"
  using assms round_abs_le [OF assms(1-3)] by (simp add: rnd_def Let_def)

text \<open>A number with at most 53 significant bits in range is a double, and is not changed.\<close>

lemma rnd_exact:
  assumes n: "\<bar>n\<bar> < 2 ^ 53" and k: "- 1074 \<le> k" "k \<le> 900"
  shows "rnd (of_int n * pow2 k) = Fin (of_int n * pow2 k)"
proof (cases "n = 0")
  case True
  then show ?thesis by (simp add: rnd_def)
next
  case False
  let ?q = "of_int \<bar>n\<bar> * pow2 k"
  have d: "pos_double ?q" using False n k by (intro pos_doubleI) auto
  have "(of_int \<bar>n\<bar> :: rat) < of_int (2 ^ 53)" using n by (simp only: of_int_less_iff)
  then have "(of_int \<bar>n\<bar> :: rat) < pow2 53" by (simp add: pow2_def)
  then have "?q < pow2 (53 + k)" by (simp add: pow2_add)
  also have "\<dots> \<le> pow2 1024" using k by simp
  finally have small: "\<not> pow2 1024 \<le> ?q" by simp
  have abs: "\<bar>of_int n * pow2 k\<bar> = ?q" by (simp add: abs_mult)
  show ?thesis
    using False small unfolding rnd_def Let_def abs round_abs_double [OF d]
    by (cases "0 < n") (auto simp: zero_less_mult_iff)
qed

lemma rnd_int: "\<bar>n\<bar> < 2 ^ 53 \<Longrightarrow> rnd (of_int n) = num n"
  using rnd_exact [of n 0] by (simp add: num_def pow2_def)

lemma rnd_0 [simp]: "rnd 0 = Fin 0"
  by (simp add: rnd_def)

section \<open>Arithmetic\<close>

fun num_neg :: "jsnum \<Rightarrow> jsnum" where
  "num_neg (Fin a) = Fin (- a)"
| "num_neg PInf = NInf"
| "num_neg NInf = PInf"
| "num_neg NaN = NaN"

fun num_add :: "jsnum \<Rightarrow> jsnum \<Rightarrow> jsnum" where
  "num_add (Fin a) (Fin b) = rnd (a + b)"
| "num_add NaN y = NaN"
| "num_add x NaN = NaN"
| "num_add PInf y = (if y = NInf then NaN else PInf)"
| "num_add NInf y = (if y = PInf then NaN else NInf)"
| "num_add (Fin a) y = y"

definition num_sub :: "jsnum \<Rightarrow> jsnum \<Rightarrow> jsnum" where
  "num_sub x y = num_add x (num_neg y)"

definition num_sign :: "jsnum \<Rightarrow> int" where
  "num_sign x = (case x of Fin q \<Rightarrow> (if 0 < q then 1 else if q < 0 then - 1 else 0)
                 | PInf \<Rightarrow> 1 | NInf \<Rightarrow> - 1 | NaN \<Rightarrow> 0)"

definition inf_of_sign :: "int \<Rightarrow> jsnum" where
  "inf_of_sign s = (if s = 0 then NaN else if 0 < s then PInf else NInf)"

fun num_mul :: "jsnum \<Rightarrow> jsnum \<Rightarrow> jsnum" where
  "num_mul (Fin a) (Fin b) = rnd (a * b)"
| "num_mul x y = (if x = NaN \<or> y = NaN then NaN else inf_of_sign (num_sign x * num_sign y))"

fun num_div :: "jsnum \<Rightarrow> jsnum \<Rightarrow> jsnum" where
  "num_div (Fin a) (Fin b) = (if b = 0 then inf_of_sign (num_sign (Fin a)) else rnd (a / b))"
| "num_div NaN y = NaN"
| "num_div x NaN = NaN"
| "num_div (Fin a) y = Fin 0"
| "num_div x (Fin b) = inf_of_sign (num_sign x * (if b < 0 then - 1 else 1))"
| "num_div x y = NaN"

definition num_min :: "jsnum \<Rightarrow> jsnum \<Rightarrow> jsnum" where
  "num_min x y = (if x = NaN \<or> y = NaN then NaN else if num_lt y x then y else x)"

definition num_max :: "jsnum \<Rightarrow> jsnum \<Rightarrow> jsnum" where
  "num_max x y = (if x = NaN \<or> y = NaN then NaN else if num_lt x y then y else x)"

text \<open>\<open>Math.round\<close>, \<open>Math.ceil\<close> and \<open>Math.floor\<close>: exact on doubles, ties of \<open>round\<close> go up.\<close>

definition num_round :: "jsnum \<Rightarrow> jsnum" where
  "num_round x = (case x of Fin q \<Rightarrow> num \<lfloor>q + 1 / 2\<rfloor> | _ \<Rightarrow> x)"

definition num_ceil :: "jsnum \<Rightarrow> jsnum" where
  "num_ceil x = (case x of Fin q \<Rightarrow> num \<lceil>q\<rceil> | _ \<Rightarrow> x)"

definition num_floor :: "jsnum \<Rightarrow> jsnum" where
  "num_floor x = (case x of Fin q \<Rightarrow> num \<lfloor>q\<rfloor> | _ \<Rightarrow> x)"

lemma rnd_not_nan [simp]: "rnd q \<noteq> NaN"
  by (simp add: rnd_def Let_def)

text \<open>\<open>x % y\<close>: the sign of the dividend; exact on doubles.\<close>

fun num_rem :: "jsnum \<Rightarrow> jsnum \<Rightarrow> jsnum" where
  "num_rem (Fin a) (Fin b) =
     (if b = 0 then NaN else Fin (a - b * of_int (if 0 \<le> a / b then \<lfloor>a / b\<rfloor> else \<lceil>a / b\<rceil>)))"
| "num_rem (Fin a) NaN = NaN"
| "num_rem (Fin a) y = Fin a"
| "num_rem x y = NaN"

lemma num_rem_num:
  assumes "0 \<le> a" "0 < b"
  shows "num_rem (num a) (num b) = num (a mod b)"
proof -
  have "(0 :: rat) \<le> of_int a / of_int b" using assms by simp
  moreover have "\<lfloor>(of_int a :: rat) / of_int b\<rfloor> = a div b" by (rule floor_divide_of_int_eq)
  moreover have "a - b * (a div b) = a mod b" by (simp add: minus_mult_div_eq_mod)
  ultimately show ?thesis using assms(2) unfolding num_def
    by simp (metis of_int_diff of_int_mult)
qed

text \<open>
  The floor of a quotient of two integers below \<open>2 ^ 53\<close> is the integer quotient: rounding the
  quotient to a double never reaches the next integer.
\<close>

lemma floor_quotient:
  assumes "0 \<le> d" "d < 2 ^ 53" "0 < k" "k < 2 ^ 53"
  shows "num_floor (num_div (num d) (num k)) = num (d div k)"
proof (cases "d = 0")
  case True
  then show ?thesis using assms(3) by (simp add: num_def num_floor_def)
next
  case False
  let ?q = "(of_int d :: rat) / of_int k"
  have kp: "(0 :: rat) < of_int k" "1 \<le> (of_int k :: rat)" using assms(3) by simp_all
  have dp: "(1 :: rat) \<le> of_int d" using False assms(1) by simp
  have q: "0 < ?q" using kp dp by simp
  have d53: "(of_int d :: rat) < 2 ^ 53" using assms(2) by (metis of_int_less_iff of_int_numeral of_int_power)
  have k53: "(of_int k :: rat) < 2 ^ 53" using assms(4) by (metis of_int_less_iff of_int_numeral of_int_power)
  have "pow2 (- 53) < ?q"
  proof -
    have "1 / 2 ^ 53 < 1 / (of_int k :: rat)" using k53 kp by (intro divide_strict_left_mono) auto
    also have "\<dots> \<le> ?q" using dp kp by (intro divide_right_mono) auto
    finally show ?thesis by (simp add: pow2_def)
  qed
  then have "pow2 (- 53) < pow2 (ilog2 ?q + 1)" using ilog2_bounds(2) [OF q] by linarith
  then have "dexp ?q = ilog2 ?q - 52" by (simp add: dexp_def)
  then have "pow2 (dexp ?q) / 2 = pow2 (ilog2 ?q) / 2 ^ 53"
    by (simp add: pow2_diff) (simp add: pow2_def [of 52])
  also have "\<dots> \<le> ?q / 2 ^ 53" using ilog2_bounds(1) [OF q] by (intro divide_right_mono) auto
  also have "\<dots> < 1 / of_int k"
    using d53 kp by (simp add: field_simps)
  finally have err: "\<bar>round_abs ?q - ?q\<bar> < 1 / of_int k" using round_abs_error [of ?q] by linarith
  define n where "n = d div k"
  have "d < (n + 1) * k" "n * k \<le> d" unfolding n_def
    using assms(3) by (auto simp: distrib_right) (smt (verit) div_mult_mod_eq pos_mod_bound, smt (verit) div_mult_mod_eq pos_mod_sign)
  then have "d + 1 \<le> (n + 1) * k" by linarith
  then have "(of_int (d + 1) :: rat) \<le> of_int ((n + 1) * k)" by (simp only: of_int_le_iff)
  then have up: "?q + 1 / of_int k \<le> of_int n + 1" using kp by (simp add: field_simps)
  have "(of_int (n * k) :: rat) \<le> of_int d" using \<open>n * k \<le> d\<close> by (simp only: of_int_le_iff)
  then have lo: "of_int n \<le> ?q" using kp by (simp add: le_divide_eq)
  have n0: "0 \<le> n" using assms(1,3) by (simp add: n_def pos_imp_zdiv_nonneg_iff)
  have "n * 1 \<le> n * k" using n0 assms(3) by (intro mult_left_mono) auto
  then have nd: "n \<le> d" using \<open>n * k \<le> d\<close> by linarith
  have "0 \<le> round_even (?q / pow2 (dexp ?q))"
    using divide_nonneg_pos [OF less_imp_le [OF q] pow2_pos] by (intro round_even_ge) simp
  then have r0: "0 \<le> round_abs ?q" unfolding round_abs_def by (intro mult_nonneg_nonneg) auto
  have ge: "of_int n \<le> round_abs ?q"
  proof (cases "n = 0")
    case True then show ?thesis using r0 by simp
  next
    case False
    then have "pos_double (of_int n)" using pos_doubleI [of n 0] n0 nd assms(2) by (simp add: pow2_def)
    then show ?thesis using round_abs_ge lo by blast
  qed
  have lt: "round_abs ?q < of_int n + 1" using err up by linarith
  have fl: "\<lfloor>round_abs ?q\<rfloor> = n" using ge lt by (simp add: floor_eq_iff)
  have "of_int (n + 1) \<le> (of_int (2 ^ 53) :: rat)" using nd assms(2) by (simp only: of_int_le_iff)
  also have "\<dots> = pow2 53" by (simp add: pow2_def)
  also have "\<dots> \<le> pow2 1024" by simp
  finally have "round_abs ?q < pow2 1024" using lt by simp
  moreover have "rnd x = Fin (round_abs x)" if "0 < x" "round_abs x < pow2 1024" for x
    using that by (simp add: rnd_def Let_def)
  ultimately have "rnd ?q = Fin (round_abs ?q)" using q by blast
  then show ?thesis using kp fl by (simp add: num_def num_floor_def n_def)
qed

section \<open>Numbers to strings\<close>

fun dec_digits :: "nat \<Rightarrow> jstring" where
  "dec_digits n = (if n < 10 then [48 + n] else dec_digits (n div 10) @ [48 + n mod 10])"

declare dec_digits.simps [simp del]

definition int_str :: "int \<Rightarrow> jstring" where
  "int_str n = (if n < 0 then 45 # dec_digits (nat (- n)) else dec_digits (nat n))"

definition is_digit :: "nat \<Rightarrow> bool" where
  "is_digit u \<longleftrightarrow> 48 \<le> u \<and> u \<le> 57"

lemma dec_digits_eval:
  "n < 10 \<Longrightarrow> dec_digits n = [48 + n]"
  "10 \<le> n \<Longrightarrow> dec_digits n = dec_digits (n div 10) @ [48 + n mod 10]"
  by (simp_all add: dec_digits.simps [of n])

lemma dec_digits_digit: "u \<in> set (dec_digits n) \<Longrightarrow> is_digit u"
  by (induction n rule: dec_digits.induct)
     (subst (asm) (2) dec_digits.simps, auto simp: is_digit_def split: if_splits)

lemma dec_digits_not_Nil [simp]: "dec_digits n \<noteq> []"
  by (subst dec_digits.simps) simp

fun digits_val :: "nat \<Rightarrow> jstring \<Rightarrow> nat" where
  "digits_val acc [] = acc"
| "digits_val acc (u # s) = digits_val (10 * acc + (u - 48)) s"

lemma digits_val_append: "digits_val acc (xs @ ys) = digits_val (digits_val acc xs) ys"
  by (induction acc xs rule: digits_val.induct) auto

lemma digits_val_dec_digits [simp]: "digits_val 0 (dec_digits n) = n"
proof (induction n rule: dec_digits.induct)
  case (1 n)
  then show ?case
    by (cases "n < 10") (simp_all add: dec_digits.simps [of n] digits_val_append)
qed

lemma dec_digits_inj [simp]: "dec_digits m = dec_digits n \<longleftrightarrow> m = n"
  by (metis digits_val_dec_digits)

definition dec_exp :: "rat \<Rightarrow> int" where
  "dec_exp q = (if 1 \<le> q then int (length (dec_digits (nat \<lfloor>q\<rfloor>)))
                else 1 - int (length (takeWhile (\<lambda>j. q * 10 ^ j < 1) [0..<400])))"

definition pow10 :: "int \<Rightarrow> rat" where
  "pow10 e = (if 0 \<le> e then 10 ^ nat e else 1 / 10 ^ nat (- e))"

text \<open>
  The decimal of \<open>k\<close> significant digits nearest to \<open>q\<close>: its digits and decimal exponent
  (\<open>s * 10 ^ (n - k)\<close>), if it reads back as \<open>q\<close>.
\<close>

definition try_digits :: "rat \<Rightarrow> nat \<Rightarrow> (int \<times> int) option" where
  "try_digits q k =
     (let n = dec_exp q;
          s = \<lfloor>q * pow10 (int k - n) + 1 / 2\<rfloor>;
          (s', n') = (if s = 10 ^ k then (s div 10, n + 1) else (s, n))
      in if rnd (of_int s' * pow10 (n' - int k)) = Fin q then Some (s', n') else None)"

fun shortest :: "rat \<Rightarrow> nat list \<Rightarrow> nat \<times> int \<times> int" where
  "shortest q [] = (17, \<lfloor>q * pow10 (17 - dec_exp q) + 1 / 2\<rfloor>, dec_exp q)"
| "shortest q (k # ks) = (case try_digits q k of Some (s, n) \<Rightarrow> (k, s, n) | None \<Rightarrow> shortest q ks)"

definition pos_str :: "rat \<Rightarrow> jstring" where
  "pos_str q =
     (let (k, s, n) = shortest q [1..<18]; ds = dec_digits (nat s)
      in if int k \<le> n \<and> n \<le> 21 then ds @ replicate (nat (n - int k)) 48
         else if 0 < n \<and> n \<le> 21 then take (nat n) ds @ 46 # drop (nat n) ds
         else if - 6 < n \<and> n \<le> 0 then [48, 46] @ replicate (nat (- n)) 48 @ ds
         else (take 1 ds @ (if k = 1 then [] else 46 # drop 1 ds)) @ 101
                # (if n - 1 < 0 then 45 else 43) # dec_digits (nat \<bar>n - 1\<bar>))"

definition num_str :: "jsnum \<Rightarrow> jstring" where
  "num_str x = (case x of
     NaN \<Rightarrow> js ''NaN'' | PInf \<Rightarrow> js ''Infinity'' | NInf \<Rightarrow> js ''-Infinity''
   | Fin q \<Rightarrow>
       if is_int_rat q \<and> \<bar>q\<bar> < 2 ^ 53 then int_str \<lfloor>q\<rfloor>
       else if q < 0 then 45 # pos_str (- q) else pos_str q)"

lemma num_str_num: "\<bar>n\<bar> < 2 ^ 53 \<Longrightarrow> num_str (num n) = int_str n"
proof -
  assume "\<bar>n\<bar> < 2 ^ 53"
  then have "of_int \<bar>n\<bar> < (of_int (2 ^ 53) :: rat)" by (simp only: of_int_less_iff)
  then show ?thesis by (simp add: num_str_def num_def)
qed

text \<open>\<open>toFixed(d)\<close>: the nearest multiple of \<open>10 ^ -d\<close>, ties away from zero.\<close>

definition fixed_units :: "nat \<Rightarrow> rat \<Rightarrow> nat" where
  "fixed_units d q = nat \<lfloor>\<bar>q\<bar> * 10 ^ d + 1 / 2\<rfloor>"

definition fixed_str :: "nat \<Rightarrow> nat \<Rightarrow> jstring" where
  "fixed_str d n =
     (if d = 0 then dec_digits n
      else let ds = dec_digits n; m = replicate (d + 1 - length ds) 48 @ ds;
               i = length m - d
           in take i m @ 46 # drop i m)"

definition to_fixed :: "nat \<Rightarrow> jsnum \<Rightarrow> jstring" where
  "to_fixed d x = (case x of
     Fin q \<Rightarrow>
       if 10 ^ 21 \<le> \<bar>q\<bar> then num_str x
       else if q < 0 then 45 # fixed_str d (fixed_units d q) else fixed_str d (fixed_units d q)
   | _ \<Rightarrow> num_str x)"

section \<open>Strings to numbers\<close>

definition exp_part :: "jstring \<Rightarrow> int \<times> jstring" where
  "exp_part s = (case s of
     u # t \<Rightarrow>
       if u = 101 \<or> u = 69 then
         (let (neg, t') = (case t of c # t2 \<Rightarrow> if c = 45 then (True, t2) else if c = 43 then (False, t2) else (False, t)
                           | [] \<Rightarrow> (False, t));
              ds = takeWhile is_digit t'
          in if ds = [] then (0, s)
             else ((if neg then - int (digits_val 0 ds) else int (digits_val 0 ds)),
                   dropWhile is_digit t'))
       else (0, s)
   | [] \<Rightarrow> (0, s))"

text \<open>The longest unsigned decimal literal at the head of a string, and what follows it.\<close>

definition dec_literal :: "jstring \<Rightarrow> (rat \<times> jstring) option" where
  "dec_literal s =
     (let ip = takeWhile is_digit s; r = dropWhile is_digit s;
          (fp, r') = (case r of
             u # t \<Rightarrow> if u = 46 then (takeWhile is_digit t, dropWhile is_digit t) else ([], r)
           | [] \<Rightarrow> ([], r))
      in if ip = [] \<and> fp = [] then None
         else let (e, rest) = exp_part r'
              in Some (of_nat (digits_val 0 (ip @ fp)) * pow10 (e - int (length fp)), rest))"

definition split_sign :: "jstring \<Rightarrow> bool \<times> jstring" where
  "split_sign s = (case s of
     u # t \<Rightarrow> if u = 45 then (True, t) else if u = 43 then (False, t) else (False, s)
   | [] \<Rightarrow> (False, s))"

definition radix_digit :: "nat \<Rightarrow> nat \<Rightarrow> nat option" where
  "radix_digit r u = (case hex_val u of Some d \<Rightarrow> if d < r then Some d else None | None \<Rightarrow> None)"

fun radix_val :: "nat \<Rightarrow> nat \<Rightarrow> jstring \<Rightarrow> nat option" where
  "radix_val r acc [] = Some acc"
| "radix_val r acc (u # s) =
     (case radix_digit r u of None \<Rightarrow> None | Some d \<Rightarrow> radix_val r (r * acc + d) s)"

definition radix_of :: "nat \<Rightarrow> nat option" where
  "radix_of u = (if u = 120 \<or> u = 88 then Some 16 else if u = 111 \<or> u = 79 then Some 8
                 else if u = 98 \<or> u = 66 then Some 2 else None)"

definition radix_literal :: "jstring \<Rightarrow> nat option" where
  "radix_literal s = (case s of
     z # x # t \<Rightarrow> (case radix_of x of
         Some r \<Rightarrow> if z = 48 \<and> t \<noteq> [] then radix_val r 0 t else None | None \<Rightarrow> None)
   | _ \<Rightarrow> None)"

text \<open>\<open>Number(s)\<close>: the whole trimmed string has to be a literal; the empty string is 0.\<close>

definition to_number :: "jstring \<Rightarrow> jsnum" where
  "to_number str =
     (let s = trim str; (neg, t) = split_sign s
      in if s = [] then Fin 0
         else case radix_literal s of
           Some n \<Rightarrow> rnd (of_nat n)
         | None \<Rightarrow>
             if t = js ''Infinity'' then (if neg then NInf else PInf)
             else (case dec_literal t of
                     Some (q, []) \<Rightarrow> rnd (if neg then - q else q)
                   | _ \<Rightarrow> NaN))"

text \<open>\<open>parseFloat\<close> and \<open>parseInt(_, 10)\<close>: the longest prefix that is a literal; NaN if there is none.\<close>

definition parse_float :: "jstring \<Rightarrow> jsnum" where
  "parse_float str =
     (let (neg, t) = split_sign (trim_start str)
      in if starts_with t (js ''Infinity'') then (if neg then NInf else PInf)
         else (case dec_literal t of Some (q, _) \<Rightarrow> rnd (if neg then - q else q) | None \<Rightarrow> NaN))"

definition parse_int :: "jstring \<Rightarrow> jsnum" where
  "parse_int str =
     (let (neg, t) = split_sign (trim_start str); ds = takeWhile is_digit t
      in if ds = [] then NaN
         else rnd (of_int (if neg then - int (digits_val 0 ds) else int (digits_val 0 ds))))"

section \<open>Decimal texts of integers\<close>

lemma digit_facts:
  "is_digit u \<Longrightarrow> \<not> is_ws u \<and> u \<noteq> 45 \<and> u \<noteq> 43 \<and> u \<noteq> 73 \<and> radix_of u = None"
  by (auto simp: is_digit_def is_ws_def radix_of_def)

lemma to_number_digits:
  assumes "s \<noteq> []" "\<forall>u \<in> set s. is_digit u"
  shows "to_number s = rnd (of_nat (digits_val 0 s))"
proof -
  obtain c t where s: "s = c # t" using assms(1) by (cases s) auto
  have c: "c \<noteq> 45" "c \<noteq> 43" "c \<noteq> 73" using assms(2) digit_facts [of c] by (simp_all add: s)
  have "trim s = s" by (rule trim_no_ws) (use assms(2) digit_facts in blast)
  moreover have "split_sign s = (False, s)" using c by (simp add: split_sign_def s)
  moreover have "radix_literal s = None"
    using assms(2) digit_facts by (auto simp: radix_literal_def s split: list.splits option.splits)
  moreover have "s \<noteq> js ''Infinity''" using c(3) by (auto simp: s js_def)
  moreover have tw: "takeWhile is_digit s = s" and dw: "dropWhile is_digit s = []"
    using assms(2) by (simp_all add: takeWhile_eq_all_conv)
  have "dec_literal s = Some (of_nat (digits_val 0 s), [])"
    unfolding dec_literal_def Let_def tw dw using assms(1) by (simp add: exp_part_def pow10_def)
  ultimately show ?thesis using assms(1) by (simp add: to_number_def)
qed

lemma to_number_dec_digits: "n < 2 ^ 53 \<Longrightarrow> to_number (dec_digits n) = num (int n)"
  using to_number_digits [of "dec_digits n"] rnd_int [of "int n"] dec_digits_digit
  by (auto simp: num_def)

lemma to_number_num_str:
  assumes "0 \<le> n" "n < 2 ^ 53"
  shows "to_number (num_str (num n)) = num n"
proof -
  have "num_str (num n) = dec_digits (nat n)"
    using assms num_str_num [of n] by (simp add: int_str_def)
  moreover have "nat n < 2 ^ 53" using assms by simp
  ultimately show ?thesis using to_number_dec_digits [of "nat n"] assms(1) by simp
qed

end
