(* ===== verification/Js_Value.thy ===== *)
theory Js_Value
  imports Js_Number
begin

text \<open>
  JSON-like values, for code that takes \<open>unknown\<close>: the tree of a parsed response. An object is the
  association list of its own properties. \<open>str\<close>, \<open>num\<close> and \<open>bool\<close> readers belong to the components.
  \<open>truthy\<close> is JavaScript's boolean conversion.
\<close>

datatype jsval =
    Undef | Null | JBool bool | JNum jsnum | JStr jstring | JArr "jsval list"
  | JObj "(jstring \<times> jsval) list"

definition prop_of :: "(jstring \<times> jsval) list \<Rightarrow> string \<Rightarrow> jsval" where
  "prop_of kvs k = (case map_of kvs (js k) of Some v \<Rightarrow> v | None \<Rightarrow> Undef)"

definition coalesce :: "jsval \<Rightarrow> jsval \<Rightarrow> jsval" where
  "coalesce a b = (case a of Undef \<Rightarrow> b | Null \<Rightarrow> b | _ \<Rightarrow> a)"

definition truthy :: "jsval \<Rightarrow> bool" where
  "truthy v = (case v of
     Undef \<Rightarrow> False | Null \<Rightarrow> False | JBool b \<Rightarrow> b
   | JNum x \<Rightarrow> x \<noteq> NaN \<and> x \<noteq> Fin 0 | JStr s \<Rightarrow> s \<noteq> [] | JArr _ \<Rightarrow> True | JObj _ \<Rightarrow> True)"

text \<open>\<open>a || b\<close> on a nullable string: the empty string is falsy too.\<close>

definition str_or :: "jstring option \<Rightarrow> jstring option \<Rightarrow> jstring option" where
  "str_or a b = (case a of Some s \<Rightarrow> if s = [] then b else Some s | None \<Rightarrow> b)"

definition nonempty :: "jstring option \<Rightarrow> jstring option" where
  "nonempty a = str_or a None"

lemma prop_of_simps [simp]:
  "prop_of [] k = Undef"
  "prop_of ((k', v) # kvs) k = (if k' = js k then v else prop_of kvs k)"
  by (auto simp: prop_of_def)

text \<open>
  The own property \<open>obj[k]\<close>, and \<open>{ ...obj, [k]: v }\<close>: a property that is there keeps its place, a new
  one comes last.
\<close>

definition own_prop :: "(jstring \<times> jsval) list \<Rightarrow> jstring \<Rightarrow> jsval" where
  "own_prop kvs k = (case map_of kvs k of Some v \<Rightarrow> v | None \<Rightarrow> Undef)"

fun put :: "jstring \<Rightarrow> jsval \<Rightarrow> (jstring \<times> jsval) list \<Rightarrow> (jstring \<times> jsval) list" where
  "put k v [] = [(k, v)]"
| "put k v ((k', v') # kvs) = (if k' = k then (k, v) # kvs else (k', v') # put k v kvs)"

lemma map_of_put: "map_of (put k v kvs) x = (if x = k then Some v else map_of kvs x)"
  by (induction kvs rule: put.induct) auto

lemma own_prop_put [simp]: "own_prop (put k v kvs) x = (if x = k then v else own_prop kvs x)"
  by (simp add: own_prop_def map_of_put)

lemma own_prop_js: "own_prop kvs (js k) = prop_of kvs k"
  by (simp add: own_prop_def prop_of_def)

lemma put_same: "map_of kvs k = Some v \<Longrightarrow> put k v kvs = kvs"
  by (induction kvs rule: put.induct) (auto split: if_splits)

lemma keys_put: "fst ` set (put k v kvs) = insert k (fst ` set kvs)"
  by (induction kvs rule: put.induct) auto

lemma coalesce_simps [simp]:
  "coalesce Undef b = b" "coalesce Null b = b" "coalesce (JBool x) b = JBool x"
  "coalesce (JNum n) b = JNum n" "coalesce (JStr s) b = JStr s" "coalesce (JArr a) b = JArr a"
  "coalesce (JObj p) b = JObj p"
  by (simp_all add: coalesce_def)

lemma str_or_simps [simp]:
  "str_or None b = b" "str_or (Some []) b = b" "s \<noteq> [] \<Longrightarrow> str_or (Some s) b = Some s"
  by (simp_all add: str_or_def)

lemma nonempty_simps [simp]:
  "nonempty None = None" "nonempty (Some []) = None" "s \<noteq> [] \<Longrightarrow> nonempty (Some s) = Some s"
  by (simp_all add: nonempty_def)

lemma nonempty_eq_Some [simp]: "nonempty a = Some s \<longleftrightarrow> a = Some s \<and> s \<noteq> []"
  by (auto simp: nonempty_def str_or_def split: option.splits)

lemma nonempty_eq_None [simp]: "nonempty a = None \<longleftrightarrow> a = None \<or> a = Some []"
  by (auto simp: nonempty_def str_or_def split: option.splits)

section \<open>Values as text\<close>

text \<open>\<open>String(v)\<close>; an array joins its elements with commas, null and undefined as empty.\<close>

fun to_str :: "jsval \<Rightarrow> jstring" where
  "to_str Undef = js ''undefined''"
| "to_str Null = js ''null''"
| "to_str (JBool b) = (if b then js ''true'' else js ''false'')"
| "to_str (JNum n) = num_str n"
| "to_str (JStr s) = s"
| "to_str (JArr xs) = join [44] (map (\<lambda>x. if x = Undef \<or> x = Null then [] else to_str x) xs)"
| "to_str (JObj kvs) = js ''[object Object]''"

section \<open>Property access\<close>

text \<open>
  \<open>v.k\<close> raises on null and undefined, \<open>v?.k\<close> is undefined there. The names the program reads are
  not among those a string, a number or an array inherits.
\<close>

definition member :: "jsval \<Rightarrow> string \<Rightarrow> jsval result" where
  "member v k = (case v of
     Undef \<Rightarrow> Inl TypeError | Null \<Rightarrow> Inl TypeError | JObj kvs \<Rightarrow> Inr (prop_of kvs k) | _ \<Rightarrow> Inr Undef)"

definition opt_member :: "jsval \<Rightarrow> string \<Rightarrow> jsval" where
  "opt_member v k = (case v of JObj kvs \<Rightarrow> prop_of kvs k | _ \<Rightarrow> Undef)"

lemma member_simps [simp]:
  "member Undef k = Inl TypeError" "member Null k = Inl TypeError" "member (JObj kvs) k = Inr (prop_of kvs k)"
  "member (JStr s) k = Inr Undef" "member (JNum n) k = Inr Undef" "member (JBool b) k = Inr Undef"
  "member (JArr xs) k = Inr Undef"
  by (simp_all add: member_def)

lemma opt_member_simps [simp]:
  "opt_member Undef k = Undef" "opt_member Null k = Undef" "opt_member (JObj kvs) k = prop_of kvs k"
  "opt_member (JStr s) k = Undef" "opt_member (JNum n) k = Undef" "opt_member (JBool b) k = Undef"
  "opt_member (JArr xs) k = Undef"
  by (simp_all add: opt_member_def)

lemma truthy_simps [simp]:
  "\<not> truthy Undef" "\<not> truthy Null" "truthy (JBool b) = b" "truthy (JStr s) \<longleftrightarrow> s \<noteq> []"
  "truthy (JArr xs)" "truthy (JObj kvs)"
  by (simp_all add: truthy_def)

section \<open>JSON\<close>

text \<open>
  \<open>JSON.parse(JSON.stringify(v))\<close>: \<open>None\<close> for undefined. An undefined property disappears, an
  undefined array element and a number that is not finite become null. \<open>is_json\<close> are the values a
  parsed text can have.
\<close>

fun json_image :: "jsval \<Rightarrow> jsval option" where
  "json_image Undef = None"
| "json_image (JNum n) = Some (case n of Fin _ \<Rightarrow> JNum n | _ \<Rightarrow> Null)"
| "json_image (JArr xs) = Some (JArr (map (\<lambda>x. case json_image x of Some y \<Rightarrow> y | None \<Rightarrow> Null) xs))"
| "json_image (JObj kvs) = Some (JObj (concat (map (\<lambda>p. case p of (k, v) \<Rightarrow>
      (case json_image v of Some y \<Rightarrow> [(k, y)] | None \<Rightarrow> [])) kvs)))"
| "json_image v = Some v"

fun is_json :: "jsval \<Rightarrow> bool" where
  "is_json Undef = False"
| "is_json (JNum n) = (case n of Fin _ \<Rightarrow> True | _ \<Rightarrow> False)"
| "is_json (JArr xs) = (\<forall>x \<in> set xs. is_json x)"
| "is_json (JObj kvs) = (\<forall>p \<in> set kvs. is_json (snd p))"
| "is_json _ = True"

lemma concat_map_singleton: "(\<And>p. p \<in> set kvs \<Longrightarrow> f p = [p]) \<Longrightarrow> concat (map f kvs) = kvs"
  by (induction kvs) auto

lemma json_image_is_json: "is_json v \<Longrightarrow> json_image v = Some v"
proof (induction v rule: is_json.induct)
  case (3 xs)
  then show ?case by (auto simp: map_idI)
next
  case (4 kvs)
  then show ?case by (auto intro!: concat_map_singleton)
qed (auto split: jsnum.splits)

lemma is_json_prop: "is_json (JObj kvs) \<Longrightarrow> is_json (prop_of kvs k) \<or> prop_of kvs k = Undef"
  by (auto simp: prop_of_def dest!: map_of_SomeD split: option.splits)

section \<open>Object literals used as lookup tables\<close>

text \<open>
  \<open>TABLE[key]\<close> on an object literal also finds what the literal inherits from
  \<open>Object.prototype\<close>: for those keys the result is a function (or, for \<open>__proto__\<close>, an object),
  not a string. \<open>Own\<close> is a string, \<open>Inherited\<close> such a property.
\<close>

datatype keyed = Own jstring | Inherited jstring

definition prototype_keys :: "jstring list" where
  "prototype_keys = map js
     [''constructor'', ''hasOwnProperty'', ''isPrototypeOf'', ''propertyIsEnumerable'',
      ''toLocaleString'', ''toString'', ''valueOf'', ''__defineGetter__'', ''__defineSetter__'',
      ''__lookupGetter__'', ''__lookupSetter__'', ''__proto__'']"

definition table_get :: "(string \<times> string) list \<Rightarrow> jstring \<Rightarrow> keyed option" where
  "table_get tab k =
     (case map_of (map (\<lambda>(a, b). (js a, js b)) tab) k of
        Some v \<Rightarrow> Some (Own v)
      | None \<Rightarrow> if k \<in> set prototype_keys then Some (Inherited k) else None)"

lemma map_of_js: "map_of (map (\<lambda>(a, b). (js a, js b)) tab) (js k) = map_option js (map_of tab k)"
  by (induction tab) auto

lemma table_get_js:
  "table_get tab (js k) =
     (case map_of tab k of
        Some v \<Rightarrow> Some (Own (js v))
      | None \<Rightarrow> if js k \<in> set prototype_keys then Some (Inherited (js k)) else None)"
  by (simp add: table_get_def map_of_js split: option.split)

end
