(* ===== verification/Subscription_Format.thy ===== *)
theory Subscription_Format
  imports Js_Value
begin

text \<open>
  \<open>lib/subscription-format.ts\<close>: the presentation helpers for quota, reset schedules and masked
  URLs. A value the API does not know is \<open>None\<close>. What the helpers take from outside the
  repository is an argument: \<open>lg q\<close> is the code's \<open>Math.floor(Math.log(q) / Math.log(1024))\<close>
  (\<open>Math.log\<close> is implementation-approximated), \<open>date_env\<close> is \<open>Date\<close>'s parser and \<open>Intl\<close>'s
  formatter, and \<open>parse_url\<close> is the URL parser.
\<close>

section \<open>Bytes\<close>

definition UNITS :: "string list" where
  "UNITS = [''B'', ''KiB'', ''MiB'', ''GiB'', ''TiB'', ''PiB'']"

text \<open>\<open>UNITS[i]\<close> inside a template literal: an index out of range prints \<open>undefined\<close>.\<close>

definition unit_at :: "string list \<Rightarrow> int \<Rightarrow> jstring" where
  "unit_at us i = (if 0 \<le> i \<and> nat i < length us then js (us ! nat i) else js ''undefined'')"

definition pow1024 :: "int \<Rightarrow> jsnum" where
  "pow1024 i = rnd (pow2 (10 * i))"

definition exact_digits :: "int \<Rightarrow> jsnum \<Rightarrow> nat" where
  "exact_digits i value =
     (if i = 0 then 0 else if num_le (num 100) value then 0 else if num_le (num 10) value then 1 else 2)"

definition formatBytesExact :: "(rat \<Rightarrow> int) \<Rightarrow> jsnum option \<Rightarrow> jstring option" where
  "formatBytesExact lg bytes = (case bytes of
     Some (Fin q) \<Rightarrow>
       if q < 0 then None
       else if q = 0 then Some (js ''0 B'')
       else let i = min (lg q) (int (length UNITS) - 1);
                value = num_div (Fin q) (pow1024 i);
                digits = exact_digits i value
            in Some (to_fixed digits value @ js '' '' @ unit_at UNITS i)
   | _ \<Rightarrow> None)"

definition formatGiB :: "jsnum option \<Rightarrow> jstring option" where
  "formatGiB bytes = (case bytes of
     Some (Fin q) \<Rightarrow>
       if q < 0 then None
       else let gib = num_div (Fin q) (pow1024 3);
                digits = (if is_integer gib then 0 else if num_le (num 100) gib then 1 else 2)
            in Some (to_fixed digits gib @ js '' GiB'')
   | _ \<Rightarrow> None)"

definition formatPercent :: "jsnum option \<Rightarrow> jsnum option \<Rightarrow> jsnum option" where
  "formatPercent used tot = (case (used, tot) of
     (Some u, Some t) \<Rightarrow>
       if \<not> is_finite u \<or> \<not> is_finite t \<or> num_le t (num 0) then None
       else Some (num_min (num_max (num_mul (num_div u t) (num 100)) (num 0)) (num 100))
   | _ \<Rightarrow> None)"

section \<open>Dates\<close>

text \<open>
  \<open>parse_date s\<close> is the time value of \<open>new Date(s)\<close> in milliseconds, \<open>None\<close> for an invalid date.
  \<open>date_format locale zone t\<close> is the fixed \<open>Intl.DateTimeFormat\<close> of the helpers applied to time
  \<open>t\<close>: \<open>zone = None\<close> is the browser's zone, the result \<open>None\<close> is the \<open>RangeError\<close> of an unknown
  zone or an invalid date.
\<close>

record date_env =
  parse_date :: "jstring \<Rightarrow> int option"
  date_format :: "jstring \<Rightarrow> jstring option \<Rightarrow> int \<Rightarrow> jstring option"

definition DEFAULT_LOCALE :: "(string \<times> string) list" where
  "DEFAULT_LOCALE = [(''en'', ''en-GB''), (''zh'', ''zh-CN'')]"

definition formatDateTime ::
    "date_env \<Rightarrow> jstring option \<Rightarrow> jstring \<Rightarrow> jstring option \<Rightarrow> jstring option" where
  "formatDateTime env ts locale timeZone = (case nonempty ts of
     None \<Rightarrow> None
   | Some s \<Rightarrow> (case parse_date env s of
       None \<Rightarrow> None
     | Some t \<Rightarrow> date_format env locale (nonempty timeZone) t))"

definition in_parens :: "jstring \<Rightarrow> jstring \<Rightarrow> jstring" where
  "in_parens a b = a @ js '' ('' @ b @ js '')''"

definition formatDateTimeWithZone ::
    "date_env \<Rightarrow> jstring option \<Rightarrow> jstring \<Rightarrow> jstring option \<Rightarrow> jstring option" where
  "formatDateTimeWithZone env ts locale timeZone =
     (case nonempty (formatDateTime env ts locale timeZone) of
        None \<Rightarrow> None
      | Some formatted \<Rightarrow> (case nonempty timeZone of
            Some tz \<Rightarrow> Some (in_parens formatted tz) | None \<Rightarrow> Some formatted))"

definition is_zulu :: "jstring \<Rightarrow> bool" where
  "is_zulu s \<longleftrightarrow> s = js ''Z'' \<or> s = js ''z''"

text \<open>\<open>/^([+-])(\d{2}):?(\d{2})$/\<close>: the sign, the hours and the minutes.\<close>

fun match_offset :: "jstring \<Rightarrow> (bool \<times> nat \<times> nat) option" where
  "match_offset [s, a, b, c, d] =
     (if (s = 43 \<or> s = 45) \<and> is_digit a \<and> is_digit b \<and> is_digit c \<and> is_digit d
      then Some (s = 43, digits_val 0 [a, b], digits_val 0 [c, d]) else None)"
| "match_offset [s, a, b, k, c, d] =
     (if (s = 43 \<or> s = 45) \<and> is_digit a \<and> is_digit b \<and> k = 58 \<and> is_digit c \<and> is_digit d
      then Some (s = 43, digits_val 0 [a, b], digits_val 0 [c, d]) else None)"
| "match_offset _ = None"

definition parseOffsetMs :: "jstring \<Rightarrow> int option" where
  "parseOffsetMs offset =
     (if is_zulu offset then Some 0
      else case match_offset offset of
        None \<Rightarrow> None
      | Some (pos, h, m) \<Rightarrow>
          let minutes = int h * 60 + int m in Some ((if pos then 1 else - 1) * minutes * 60000))"

definition offsetLabel :: "jstring \<Rightarrow> jstring" where
  "offsetLabel offset = (if is_zulu offset then js ''UTC'' else js ''UTC'' @ offset)"

text \<open>\<open>/(Z|[+-]\d{2}:?\d{2})$/\<close>: the leftmost match is the longest suffix of that form.\<close>

definition last_units :: "nat \<Rightarrow> jstring \<Rightarrow> jstring" where
  "last_units n s = drop (length s - n) s"

definition offset_suffix :: "jstring \<Rightarrow> jstring option" where
  "offset_suffix s =
     (if 6 \<le> length s \<and> match_offset (last_units 6 s) \<noteq> None then Some (last_units 6 s)
      else if 5 \<le> length s \<and> match_offset (last_units 5 s) \<noteq> None then Some (last_units 5 s)
      else if ends_with s (js ''Z'') then Some (js ''Z'')
      else None)"

definition max_time :: int where
  "max_time = 8640000000000000"

definition time_clip :: "int \<Rightarrow> int option" where
  "time_clip t = (if \<bar>t\<bar> \<le> max_time then Some t else None)"

definition formatApiDateTime ::
    "date_env \<Rightarrow> jstring option \<Rightarrow> jstring \<Rightarrow> jstring option \<Rightarrow> jstring option" where
  "formatApiDateTime env ts locale timeZone = (case nonempty ts of
     None \<Rightarrow> None
   | Some s \<Rightarrow>
       if nonempty timeZone \<noteq> None then formatDateTimeWithZone env ts locale timeZone
       else (case offset_suffix s of
         None \<Rightarrow> formatDateTime env ts locale None
       | Some off \<Rightarrow> (case parseOffsetMs off of
           None \<Rightarrow> formatDateTime env ts locale None
         | Some offsetMs \<Rightarrow> (case parse_date env s of
             None \<Rightarrow> None
           | Some t \<Rightarrow> (case time_clip (t + offsetMs) of
               None \<Rightarrow> None
             | Some shifted \<Rightarrow> (case date_format env locale (Some (js ''UTC'')) shifted of
                 None \<Rightarrow> None
               | Some wall \<Rightarrow> Some (in_parens wall (offsetLabel off))))))))"

section \<open>Masked URLs\<close>

text \<open>\<open>parse_url s\<close> gives the protocol and the host of \<open>new URL(s)\<close>, \<open>None\<close> when it throws.\<close>

definition mask_dots :: jstring where
  "mask_dots = replicate 4 8226"

definition maskUrl :: "(jstring \<Rightarrow> (jstring \<times> jstring) option) \<Rightarrow> jstring option \<Rightarrow> jstring option" where
  "maskUrl parse_url url = (case nonempty url of
     None \<Rightarrow> None
   | Some u \<Rightarrow> (case parse_url u of
       Some (protocol, host) \<Rightarrow> Some (protocol @ js ''//'' @ host @ js ''/'' @ mask_dots)
     | None \<Rightarrow> Some mask_dots))"

definition displayMaskedUrl ::
    "(jstring \<Rightarrow> (jstring \<times> jstring) option) \<Rightarrow> jstring option \<Rightarrow> jstring option \<Rightarrow> jstring option" where
  "displayMaskedUrl parse_url masked full =
     (case nonempty masked of Some m \<Rightarrow> Some m | None \<Rightarrow> maskUrl parse_url full)"

section \<open>Ages\<close>

definition daysUntil :: "date_env \<Rightarrow> jstring option \<Rightarrow> int \<Rightarrow> jsnum option" where
  "daysUntil env ts now = (case nonempty ts of
     None \<Rightarrow> None
   | Some s \<Rightarrow> (case parse_date env s of
       None \<Rightarrow> None
     | Some t \<Rightarrow>
         let ms = num_sub (num t) (num now)
         in if num_le ms (num 0) then Some (num 0)
            else Some (num_ceil (num_div ms (num 86400000)))))"

definition default_stale_minutes :: int where
  "default_stale_minutes = 24 * 60"

definition isStale :: "date_env \<Rightarrow> jstring option \<Rightarrow> int \<Rightarrow> int \<Rightarrow> bool" where
  "isStale env lastSuccessAt staleAfterMinutes now = (case nonempty lastSuccessAt of
     None \<Rightarrow> False
   | Some s \<Rightarrow> (case parse_date env s of
       None \<Rightarrow> False
     | Some t \<Rightarrow> num_lt (num_mul (num staleAfterMinutes) (num 60000)) (num_sub (num now) (num t))))"

section \<open>Lemmas\<close>

lemma rnd_100_ge:
  assumes "100 \<le> q"
  shows "num_le (num 100) (rnd q)"
proof -
  have "pos_double (of_int 100 * pow2 0)" by (rule pos_doubleI) auto
  then have "pos_double 100" by (simp add: pow2_def)
  with assms have "100 \<le> round_abs \<bar>q\<bar>" by (intro round_abs_ge) auto
  with assms show ?thesis by (auto simp: rnd_def Let_def num_def num_le_def)
qed

lemma rnd_1_ge:
  assumes "1 \<le> q"
  shows "rnd q = PInf \<or> (\<exists>r. rnd q = Fin r \<and> 1 \<le> r)"
proof -
  have "pos_double (of_int 1 * pow2 0)" by (rule pos_doubleI) auto
  then have "pos_double 1" by (simp add: pow2_def)
  with assms have "1 \<le> round_abs \<bar>q\<bar>" by (intro round_abs_ge) auto
  with assms show ?thesis by (auto simp: rnd_def Let_def)
qed

lemma round_even_nonneg: "0 \<le> q \<Longrightarrow> 0 \<le> round_even q"
  using round_even_ge [of 0 q] by simp

lemma round_abs_nonneg: "0 \<le> q \<Longrightarrow> 0 \<le> round_abs q"
  by (simp add: round_abs_def round_even_nonneg)

lemma rnd_sign:
  "0 < q \<Longrightarrow> num_le (num 0) (rnd q)"
  "q < 0 \<Longrightarrow> num_le (rnd q) (num 0)"
  using round_abs_nonneg [of "\<bar>q\<bar>"]
  by (auto simp: rnd_def Let_def num_def num_le_def)

lemma clamp_percent:
  assumes "x \<noteq> NaN"
  shows "\<exists>p. num_min (num_max x (num 0)) (num 100) = Fin p \<and> 0 \<le> p \<and> p \<le> 100"
  using assms by (cases x) (auto simp: num_min_def num_max_def num_def)

lemma clamp_percent_low: "num_le x (num 0) \<Longrightarrow> num_min (num_max x (num 0)) (num 100) = num 0"
  by (cases x) (auto simp: num_min_def num_max_def num_def num_le_def)

lemma clamp_percent_high: "num_le (num 100) x \<Longrightarrow> num_min (num_max x (num 0)) (num 100) = num 100"
  by (cases x) (auto simp: num_min_def num_max_def num_def num_le_def)

lemma num_le_sign_mul:
  "num_le (rnd a) (num 0) \<Longrightarrow> num_le (num_mul (rnd a) (num 100)) (num 0)"
proof -
  assume le: "num_le (rnd a) (num 0)"
  then consider r where "rnd a = Fin r" "r \<le> 0" | "rnd a = NInf"
    by (cases "rnd a") (auto simp: num_def num_le_def)
  then show ?thesis
  proof cases
    case 1
    then consider "r = 0" | "r * 100 < 0" by fastforce
    then show ?thesis using rnd_sign(2) [of "r * 100"]
      by cases (auto simp: 1 num_def)
  next
    case 2
    then show ?thesis
      by (simp add: num_def num_sign_def inf_of_sign_def num_le_def)
  qed
qed

lemma percent_high:
  assumes "1 \<le> q"
  shows "num_le (num 100) (num_mul (rnd q) (num 100))"
  using rnd_1_ge [OF assms]
proof
  assume "rnd q = PInf"
  then show ?thesis by (simp add: num_def num_sign_def inf_of_sign_def num_le_def)
next
  assume "\<exists>r. rnd q = Fin r \<and> 1 \<le> r"
  then obtain r where r: "rnd q = Fin r" "1 \<le> r" by blast
  then show ?thesis using rnd_100_ge [of "r * 100"] by (simp add: num_def)
qed

lemma num_mul_100_not_nan: "x \<noteq> NaN \<Longrightarrow> num_mul x (num 100) \<noteq> NaN"
  by (cases x) (auto simp: num_def num_sign_def inf_of_sign_def)

text \<open>
  \<open>formatPercent\<close> answers exactly when both counters are finite and the total is positive, and
  its answer is always between 0 and 100: 0 when nothing is used (or the counter is negative),
  exactly 100 as soon as the quota is used up, whatever the rounding of the division.
\<close>

theorem formatPercent_spec:
  "(formatPercent (Some (Fin u)) (Some (Fin t)) = None \<longleftrightarrow> t \<le> 0) \<and>
   (0 < t \<longrightarrow> (\<exists>p. formatPercent (Some (Fin u)) (Some (Fin t)) = Some (Fin p) \<and> 0 \<le> p \<and> p \<le> 100 \<and>
     (u \<le> 0 \<longrightarrow> p = 0) \<and> (t \<le> u \<longrightarrow> p = 100)))"
proof (cases "0 < t")
  case False
  then show ?thesis by (simp add: formatPercent_def num_def)
next
  case True
  let ?x = "num_mul (rnd (u / t)) (num 100)"
  have f: "formatPercent (Some (Fin u)) (Some (Fin t)) =
      Some (num_min (num_max ?x (num 0)) (num 100))"
    using True by (simp add: formatPercent_def num_def)
  obtain p where p: "num_min (num_max ?x (num 0)) (num 100) = Fin p" "0 \<le> p" "p \<le> 100"
    using clamp_percent [OF num_mul_100_not_nan [OF rnd_not_nan]] by blast
  have low: "p = 0" if "u \<le> 0"
  proof -
    have "num_le (rnd (u / t)) (num 0)"
      using that True rnd_sign(2) [of "u / t"] by (cases "u = 0") (auto simp: divide_neg_pos rnd_def num_def)
    then show ?thesis using clamp_percent_low [OF num_le_sign_mul] p(1) by (simp add: num_def)
  qed
  have high: "p = 100" if "t \<le> u"
  proof -
    have "1 \<le> u / t" using that True by (simp add: le_divide_eq)
    then show ?thesis using clamp_percent_high [OF percent_high] p(1) by (simp add: num_def)
  qed
  show ?thesis using True f p low high by auto
qed

theorem formatPercent_spec_witness:
  "\<exists>p. formatPercent (Some (Fin 3)) (Some (Fin 2)) = Some (Fin p) \<and> p = 100"
  using formatPercent_spec [of 3 2] by auto

section \<open>Byte counts\<close>

lemma pow2_10: "pow2 (10 * int k) = 1024 ^ k"
proof -
  have "pow2 (10 * int k) = 2 ^ nat (int (10 * k))" by (simp add: pow2_def)
  also have "\<dots> = (2 ^ 10) ^ k" by (simp only: nat_int power_mult)
  finally show ?thesis by simp
qed

lemma pow1024_exact: "k \<le> 5 \<Longrightarrow> pow1024 (int k) = Fin (1024 ^ k)"
  using rnd_exact [of 1 "10 * int k"] by (simp add: pow1024_def pow2_10)

lemma div_pow1024_exact:
  assumes "\<bar>n\<bar> < 2 ^ 53" "k \<le> 5"
  shows "num_div (num n) (pow1024 (int k)) = Fin (of_int n / 1024 ^ k)"
proof -
  have "rnd (of_int n * pow2 (- (10 * int k))) = Fin (of_int n * pow2 (- (10 * int k)))"
    using assms by (intro rnd_exact) auto
  then show ?thesis
    using assms by (simp add: pow1024_exact num_def pow2_minus pow2_10)
qed

lemma unit_index_bound:
  assumes "(1024 :: int) ^ k \<le> n" "n < 2 ^ 53"
  shows "k \<le> 5"
proof (rule ccontr)
  assume "\<not> k \<le> 5"
  then have "(1024 :: int) ^ 6 \<le> 1024 ^ k" by (intro power_increasing) auto
  with assms show False by simp
qed

lemma unit_at_js: "i < length us \<Longrightarrow> unit_at us (int i) = js (us ! i)"
  by (simp add: unit_at_def)

text \<open>The number of decimals \<open>formatBytesExact\<close> shows for \<open>n\<close> bytes in the \<open>k\<close>-th unit.\<close>

definition shown_digits :: "nat \<Rightarrow> int \<Rightarrow> nat" where
  "shown_digits k n =
     (if k = 0 then 0 else if 100 * 1024 ^ k \<le> n then 0 else if 10 * 1024 ^ k \<le> n then 1 else 2)"

lemma exact_digits_eq:
  "exact_digits (int k) (Fin (of_int n / 1024 ^ k)) = shown_digits k n"
proof -
  have c: "num_le (num c) (Fin (of_int n / 1024 ^ k)) \<longleftrightarrow> c * 1024 ^ k \<le> n" for c :: int
  proof -
    have "num_le (num c) (Fin (of_int n / 1024 ^ k)) \<longleftrightarrow> (of_int (c * 1024 ^ k) :: rat) \<le> of_int n"
      by (simp add: num_def le_divide_eq)
    then show ?thesis by (simp only: of_int_le_iff)
  qed
  show ?thesis by (simp add: exact_digits_def shown_digits_def c)
qed

lemma to_fixed_ratio:
  assumes "0 \<le> n" "n < 2 ^ 53"
  shows "to_fixed d (Fin (of_int n / 1024 ^ k)) =
    fixed_str d (nat \<lfloor>of_int n * 10 ^ d / (1024 :: rat) ^ k + 1 / 2\<rfloor>)"
proof -
  have "(of_int n :: rat) / 1024 ^ k \<le> of_int n / 1"
    using assms(1) by (intro divide_left_mono) auto
  moreover have "(of_int n :: rat) < 10 ^ 21"
  proof -
    have "(of_int n :: rat) < of_int (2 ^ 53)" using assms(2) by (simp only: of_int_less_iff)
    then show ?thesis by simp
  qed
  ultimately have "of_int n / (1024 :: rat) ^ k < 10 ^ 21" by simp
  moreover have "\<bar>of_int n :: rat\<bar> = of_int n" using assms(1) by simp
  moreover have "\<not> of_int n / (1024 :: rat) ^ k < 0" using assms(1) by (simp add: not_less)
  ultimately show ?thesis by (simp add: to_fixed_def fixed_units_def)
qed

text \<open>
  For a whole number of bytes below \<open>2^53\<close>, and a logarithm whose floor is right at that
  number, \<open>formatBytesExact\<close> prints the count in the unit \<open>k\<close> with \<open>1024^k \<le> n < 1024^(k+1)\<close>: the
  decimals are those of the exact quotient \<open>n / 1024^k\<close> rounded half up (no floating-point error
  reaches the text), none below 1 KiB or from 100 up, one from 10 up, two otherwise, and the
  mantissa lies between 1 and 1024.
\<close>

theorem formatBytesExact_spec:
  assumes "n < 2 ^ 53" "1024 ^ k \<le> n" "n < 1024 ^ (k + 1)" "lg (of_int n) = int k"
  shows "let d = shown_digits k n; u = nat \<lfloor>of_int n * 10 ^ d / (1024 :: rat) ^ k + 1 / 2\<rfloor>
    in formatBytesExact lg (Some (num n)) = Some (fixed_str d u @ js '' '' @ js (UNITS ! k))
       \<and> 10 ^ d \<le> u \<and> u \<le> 1024 * 10 ^ d \<and> k < length UNITS"
proof -
  let ?d = "shown_digits k n"
  let ?x = "of_int n * 10 ^ ?d / (1024 :: rat) ^ k"
  have k: "k \<le> 5" using unit_index_bound assms(1,2) by blast
  have "(1 :: int) \<le> 1024 ^ k" by simp
  with assms(2) have pos: "0 < n" by linarith
  have "(of_int (1024 ^ k) :: rat) \<le> of_int n" using assms(2) by (simp only: of_int_le_iff)
  then have "1 \<le> of_int n / (1024 :: rat) ^ k" by (simp add: le_divide_eq)
  then have "1 * 10 ^ ?d \<le> of_int n / (1024 :: rat) ^ k * 10 ^ ?d" by (intro mult_right_mono) auto
  then have lo: "of_int (10 ^ ?d) \<le> ?x" by simp
  have "(of_int n :: rat) < of_int (1024 ^ (k + 1))" using assms(3) by (simp only: of_int_less_iff)
  then have "of_int n / (1024 :: rat) ^ k \<le> 1024" by (simp add: divide_le_eq)
  then have "of_int n / (1024 :: rat) ^ k * 10 ^ ?d \<le> 1024 * 10 ^ ?d" by (intro mult_right_mono) auto
  then have hi: "?x \<le> of_int (1024 * 10 ^ ?d)" by simp
  have "10 ^ ?d \<le> \<lfloor>?x + 1 / 2\<rfloor>" "\<lfloor>?x + 1 / 2\<rfloor> \<le> 1024 * 10 ^ ?d"
    using lo hi by linarith+
  then have "10 ^ ?d \<le> nat \<lfloor>?x + 1 / 2\<rfloor>" "nat \<lfloor>?x + 1 / 2\<rfloor> \<le> 1024 * 10 ^ ?d"
    by (simp_all add: nat_le_iff le_nat_iff)
  moreover have "k < length UNITS" using k by (simp add: UNITS_def)
  moreover have "formatBytesExact lg (Some (num n)) =
      Some (fixed_str ?d (nat \<lfloor>?x + 1 / 2\<rfloor>) @ js '' '' @ js (UNITS ! k))"
  proof -
    have m: "min (lg (of_int n)) (int (length UNITS) - 1) = int k"
      using k assms(4) by (simp add: UNITS_def)
    have dv: "num_div (Fin (of_int n)) (pow1024 (int k)) = Fin (of_int n / 1024 ^ k)"
      using div_pow1024_exact [of n k] pos assms(1) k by (simp add: num_def)
    show ?thesis
      using pos assms(1) \<open>k < length UNITS\<close>
      by (simp add: formatBytesExact_def num_def m dv exact_digits_eq to_fixed_ratio unit_at_js)
  qed
  ultimately show ?thesis by (simp add: Let_def)
qed

theorem formatBytesExact_spec_witness:
  "formatBytesExact (\<lambda>q. \<lfloor>q / 1024\<rfloor>) (Some (num 1536)) = Some (js ''1.50 KiB'')"
proof -
  have d: "shown_digits 1 1536 = 2" by (simp add: shown_digits_def)
  have u: "nat \<lfloor>of_int 1536 * 10 ^ 2 / (1024 :: rat) ^ 1 + 1 / 2\<rfloor> = 150"
    by (simp add: floor_unique [of 150])
  have l: "\<lfloor>(3 :: rat) / 2\<rfloor> = 1" by (simp add: floor_unique)
  have "fixed_str 2 150 @ js '' '' @ js (UNITS ! 1) = js ''1.50 KiB''" by code_simp
  then show ?thesis
    using formatBytesExact_spec [of 1536 1 "\<lambda>q. \<lfloor>q / 1024\<rfloor>"] unfolding d u Let_def
    by (simp add: l)
qed

text \<open>
  Unknown is never rendered as a size. \<open>formatBytesExact\<close> and \<open>formatGiB\<close> answer \<open>null\<close> exactly
  for an absent, non-finite or negative count, whatever the logarithm computes.
\<close>

theorem unknown_bytes_null:
  "(formatBytesExact lg b = None \<longleftrightarrow> (\<forall>q. b = Some (Fin q) \<longrightarrow> q < 0)) \<and>
   (formatGiB b = None \<longleftrightarrow> (\<forall>q. b = Some (Fin q) \<longrightarrow> q < 0))"
  by (auto simp: formatBytesExact_def formatGiB_def Let_def split: option.splits jsnum.splits)

theorem unknown_bytes_null_witness:
  "formatBytesExact (\<lambda>_. 0) (Some NaN) = None \<and> formatGiB None = None"
  using unknown_bytes_null [of "\<lambda>_. 0" "Some NaN"] unknown_bytes_null [of "\<lambda>_. 0" None] by simp

text \<open>
  A positive count below one byte has a negative logarithm, and \<open>UNITS[i]\<close> is then read out of
  range: the text ends in \<open>undefined\<close>. Half a byte is shown as \<open>512 undefined\<close>.
\<close>

theorem fractional_bytes_undefined_unit:
  assumes "0 < q" "lg q < 0"
  shows "\<exists>s. formatBytesExact lg (Some (Fin q)) = Some (s @ js '' undefined'')"
proof -
  have "min (lg q) (int (length UNITS) - 1) = lg q" using assms by (simp add: UNITS_def)
  moreover have "js '' '' @ js ''undefined'' = js '' undefined''" by (simp add: js_append [symmetric])
  ultimately show ?thesis
    using assms by (auto simp: formatBytesExact_def unit_at_def Let_def)
qed

theorem fractional_bytes_undefined_unit_witness:
  "(\<exists>s. formatBytesExact (\<lambda>_. - 1) (Some (Fin (1 / 2))) = Some (s @ js '' undefined'')) \<and>
   num_div (Fin (1 / 2)) (num 1) = Fin (1 / 2)"
  using fractional_bytes_undefined_unit [of "1 / 2" "\<lambda>_. - 1"] rnd_exact [of 1 "- 1"]
  by (simp add: pow2_def num_def)

section \<open>Offsets, zones and masks\<close>

lemma offset_suffix_parse:
  assumes "offset_suffix s = Some off"
  shows "\<exists>m. parseOffsetMs off = Some (m * 60000) \<and> \<bar>m\<bar> \<le> 99 * 60 + 99"
proof -
  have b: "digits_val 0 [a, b] \<le> 99" if "is_digit a" "is_digit b" for a b
  proof -
    have "a - 48 \<le> 9" "b - 48 \<le> 9" using that by (auto simp: is_digit_def)
    then show ?thesis by simp
  qed
  have "\<exists>m. parseOffsetMs off = Some (m * 60000) \<and> \<bar>m\<bar> \<le> 99 * 60 + 99"
    if off: "match_offset off = Some (pos, h, m)" for pos h m
  proof -
    have hm: "h \<le> 99" "m \<le> 99"
      using off b by (induction off rule: match_offset.induct; auto split: if_splits simp del: digits_val.simps)+
    let ?n = "int h * 60 + int m"
    have "\<exists>k \<in> {0, ?n, - ?n}. parseOffsetMs off = Some (k * 60000)"
      using off by (auto simp: parseOffsetMs_def Let_def)
    then obtain k where "k \<in> {0, ?n, - ?n}" and k: "parseOffsetMs off = Some (k * 60000)" by blast
    then have "\<bar>k\<bar> \<le> 99 * 60 + 99" using hm by auto
    with k show ?thesis by blast
  qed
  moreover have "parseOffsetMs (js ''Z'') = Some 0" by (simp add: parseOffsetMs_def is_zulu_def)
  ultimately show ?thesis
    using assms by (force simp: offset_suffix_def split: if_splits)
qed

text \<open>
  Every offset suffix the regular expression of \<open>formatApiDateTime\<close> finds is one
  \<open>parseOffsetMs\<close> reads (so the \<open>offsetMs === null\<close> fallback after a match is dead code), and the
  offset is a whole number of minutes of at most \<open>99:99\<close>.
\<close>

theorem offset_suffix_parses:
  assumes "offset_suffix s = Some off"
  shows "\<exists>m. parseOffsetMs off = Some (m * 60000) \<and> \<bar>m\<bar> \<le> 99 * 60 + 99"
  using assms by (rule offset_suffix_parse)

theorem offset_suffix_parses_witness:
  "offset_suffix (js ''2026-11-10T12:00:00+08:00'') = Some (js ''+08:00'') \<and>
   (\<exists>m. parseOffsetMs (js ''+08:00'') = Some (m * 60000) \<and> \<bar>m\<bar> \<le> 99 * 60 + 99)"
proof -
  have h: "offset_suffix (js ''2026-11-10T12:00:00+08:00'') = Some (js ''+08:00'')" by code_simp
  show ?thesis using h offset_suffix_parses [OF h] by blast
qed

text \<open>
  When the caller knows the zone, or the timestamp carries its own offset, the text never
  depends on the browser's zone: two environments whose formatters agree on every explicit zone
  give the same result.
\<close>

theorem formatApiDateTime_ignores_browser_zone:
  assumes "parse_date env = parse_date env'"
    and "\<And>loc z t. date_format env loc (Some z) t = date_format env' loc (Some z) t"
    and "nonempty timeZone \<noteq> None \<or> (\<exists>s off. ts = Some s \<and> offset_suffix s = Some off)"
  shows "formatApiDateTime env ts locale timeZone = formatApiDateTime env' ts locale timeZone"
proof (cases "nonempty timeZone")
  case (Some z)
  then have "timeZone = Some z" "z \<noteq> []" by simp_all
  then show ?thesis
    using assms(1,2)
    by (simp add: formatApiDateTime_def formatDateTimeWithZone_def formatDateTime_def split: option.split)
next
  case None
  with assms(3) obtain s off where s: "ts = Some s" "offset_suffix s = Some off" by auto
  then obtain m where "parseOffsetMs off = Some (m * 60000)"
    using offset_suffix_parse by blast
  with None s assms(1,2) show ?thesis
    by (simp add: formatApiDateTime_def split: option.split)
qed

definition sample_env :: "jstring option \<Rightarrow> date_env" where
  "sample_env browser = \<lparr>parse_date = (\<lambda>s. if s = js ''2026-11-10T12:00:00Z'' then Some 1794312000000 else None),
     date_format = (\<lambda>loc z t. nullish z browser)\<rparr>"

theorem formatApiDateTime_ignores_browser_zone_witness:
  "formatApiDateTime (sample_env (Some (js ''A''))) (Some (js ''2026-11-10T12:00:00Z'')) (js ''en-GB'') None =
   formatApiDateTime (sample_env (Some (js ''B''))) (Some (js ''2026-11-10T12:00:00Z'')) (js ''en-GB'') None"
proof (rule formatApiDateTime_ignores_browser_zone)
  have "offset_suffix (js ''2026-11-10T12:00:00Z'') = Some (js ''Z'')" by code_simp
  then show "nonempty None \<noteq> None \<or>
      (\<exists>s off. Some (js ''2026-11-10T12:00:00Z'') = Some s \<and> offset_suffix s = Some off)" by blast
qed (simp_all add: sample_env_def)

text \<open>
  A masked URL reveals the scheme and the host only: two URLs the parser reads with the same
  scheme and host have the same mask, and one it does not read shows nothing at all. So a token
  in the path or the query of a subscription URL never reaches the page.
\<close>

theorem maskUrl_hides_secret:
  "(parse_url u = Some (p, h) \<and> parse_url v = Some (p, h) \<and> u \<noteq> [] \<and> v \<noteq> [] \<longrightarrow>
      maskUrl parse_url (Some u) = maskUrl parse_url (Some v) \<and>
      maskUrl parse_url (Some u) = Some (p @ js ''//'' @ h @ js ''/'' @ mask_dots)) \<and>
   (parse_url u = None \<and> u \<noteq> [] \<longrightarrow> maskUrl parse_url (Some u) = Some mask_dots) \<and>
   (maskUrl parse_url x = None \<longleftrightarrow> nonempty x = None)"
  by (auto simp: maskUrl_def nonempty_def split: option.split)

theorem maskUrl_hides_secret_witness:
  "maskUrl (\<lambda>u. Some (js ''https:'', js ''h'')) (Some (js ''https://h/?token=1'')) =
   maskUrl (\<lambda>u. Some (js ''https:'', js ''h'')) (Some (js ''https://h/?token=2''))"
  using maskUrl_hides_secret [of "\<lambda>u. Some (js ''https:'', js ''h'')" "js ''https://h/?token=1''"
      "js ''https:''" "js ''h''" "js ''https://h/?token=2''" None] by simp

section \<open>Ages\<close>

lemma num_sub_small: "\<bar>a - b\<bar> < 2 ^ 53 \<Longrightarrow> num_sub (num a) (num b) = num (a - b)"
  using rnd_int [of "a - b"] by (simp add: num_sub_def num_def)

lemma num_mul_small: "\<bar>a * b\<bar> < 2 ^ 53 \<Longrightarrow> num_mul (num a) (num b) = num (a * b)"
  using rnd_int [of "a * b"] by (simp add: num_def)

text \<open>Dividing a span of less than \<open>2^53\<close> ms by a day does not cross a whole number of days.\<close>

lemma ceil_days:
  assumes "0 < d" "d \<le> 8640000000000000"
  shows "num_ceil (num_div (num d) (num 86400000)) = num \<lceil>(of_int d :: rat) / 86400000\<rceil>"
proof -
  let ?q = "(of_int d :: rat) / 86400000"
  define n where "n = \<lceil>?q\<rceil>"
  have dpos: "(0 :: rat) < of_int d" using assms(1) by simp
  have q: "0 < ?q" using dpos by simp
  have "(of_int d :: rat) \<le> of_int 8640000000000000" using assms(2) by (simp only: of_int_le_iff)
  then have q8: "?q \<le> 100000000" by simp
  then have n: "0 < n" "n \<le> 100000000" using q by (simp_all add: n_def ceiling_le_iff)
  have nd: "pos_double (of_int n)"
    using pos_doubleI [of n 0] n by (simp add: pow2_def)
  have up: "round_abs ?q \<le> of_int n"
    using round_abs_le [OF q _ nd] by (simp add: n_def)
  have "pow2 (ilog2 ?q) < pow2 27"
    using ilog2_bounds(1) [OF q] q8 by (simp add: pow2_def [of 27])
  then have "dexp ?q \<le> - 26" by (simp add: dexp_def)
  then have "pow2 (dexp ?q) \<le> pow2 (- 26)" by simp
  then have "pow2 (dexp ?q) \<le> 1 / 67108864" by (simp only: pow2_def [of "- 26"]) simp
  then have err: "?q - round_abs ?q \<le> 1 / 134217728"
    using round_abs_error [of ?q] unfolding abs_le_iff by linarith
  have "of_int (n - 1) * 86400000 + 1 \<le> (of_int d :: rat)"
  proof -
    have "of_int (n - 1) < ?q" unfolding n_def by linarith
    then have "(of_int ((n - 1) * 86400000) :: rat) < of_int d" by (simp add: less_divide_eq)
    then have "(n - 1) * 86400000 + 1 \<le> d" by simp
    then have "(of_int ((n - 1) * 86400000 + 1) :: rat) \<le> of_int d" by (simp only: of_int_le_iff)
    then show ?thesis by simp
  qed
  then have "of_int (n - 1) + 1 / 86400000 \<le> ?q" by simp
  with err have lo: "of_int (n - 1) < round_abs ?q" by simp
  have "rnd ?q = Fin (round_abs ?q)"
  proof (rule rnd_pos [OF q _ nd])
    show "?q \<le> of_int n" by (simp add: n_def)
    have "(of_int n :: rat) \<le> of_int 100000000" using n by (simp only: of_int_le_iff)
    also have "\<dots> < pow2 1024" by (simp add: pow2_def)
    finally show "of_int n < pow2 1024" .
  qed
  moreover have "\<lceil>round_abs ?q\<rceil> = n" using lo up by (intro ceiling_unique) auto
  ultimately show ?thesis by (simp add: num_div.simps num_def num_ceil_def n_def)
qed

text \<open>
  \<open>daysUntil\<close> is the number of days rounded up, in spite of the floating-point division: for a
  reset ahead of \<open>now\<close> (both valid times after 1970) it is the least \<open>d\<close> with
  \<open>reset <= now + d days\<close>, at least 1; it is 0 once the reset has passed.
\<close>

theorem daysUntil_spec:
  assumes "s \<noteq> []" "parse_date env s = Some t" "0 \<le> now" "0 \<le> t" "t \<le> max_time" "now \<le> max_time"
  shows "if t \<le> now then daysUntil env (Some s) now = Some (num 0)
    else \<exists>d. daysUntil env (Some s) now = Some (num d) \<and> 1 \<le> d \<and>
      t \<le> now + d * 86400000 \<and> now + (d - 1) * 86400000 < t"
proof -
  have sm: "\<bar>t - now\<bar> < 2 ^ 53" using assms by (simp add: max_time_def abs_less_iff)
  have ne: "nonempty (Some s) = Some s" using assms(1) by simp
  show ?thesis
  proof (cases "t \<le> now")
    case True
    then show ?thesis by (simp add: daysUntil_def ne assms(2) num_sub_small [OF sm])
  next
    case False
    define x where "x = (of_int (t - now) :: rat)"
    define d where "d = \<lceil>x / 86400000\<rceil>"
    have "daysUntil env (Some s) now = Some (num d)"
      using False ceil_days [of "t - now"] assms
      by (simp add: daysUntil_def ne assms(2) num_sub_small [OF sm] max_time_def d_def x_def)
    moreover have "x / 86400000 \<le> of_int d" "of_int d - 1 < x / 86400000" unfolding d_def by linarith+
    then have "x \<le> of_int (d * 86400000)" "of_int ((d - 1) * 86400000) < x"
      by (simp_all add: divide_le_eq less_divide_eq)
    then have "t - now \<le> d * 86400000" "(d - 1) * 86400000 < t - now"
      unfolding x_def by (simp_all only: of_int_le_iff of_int_less_iff)
    moreover have "1 \<le> d" using \<open>t - now \<le> d * 86400000\<close> False by simp
    ultimately show ?thesis using False by auto
  qed
qed

theorem daysUntil_spec_witness:
  "\<exists>d. daysUntil (sample_env None) (Some (js ''2026-11-10T12:00:00Z'')) 1794225600000 = Some (num d) \<and> d = 1"
proof -
  let ?e = "sample_env None" and ?s = "js ''2026-11-10T12:00:00Z''"
  have "parse_date ?e ?s = Some 1794312000000" by (simp add: sample_env_def)
  from daysUntil_spec [of ?s ?e 1794312000000 1794225600000, OF _ this]
  obtain d where "daysUntil ?e (Some ?s) 1794225600000 = Some (num d)" "1 \<le> d"
    "1794225600000 + (d - 1) * 86400000 < 1794312000000"
    by (auto simp: max_time_def)
  then show ?thesis by (intro exI [of _ d]) auto
qed

text \<open>
  \<open>isStale\<close> flags a value whose last success is known exactly when it is more than the
  threshold old; an absent or unreadable time is never flagged.
\<close>

theorem isStale_spec:
  assumes "s \<noteq> []" "parse_date env s = Some t" "0 \<le> now" "0 \<le> t" "t \<le> max_time" "now \<le> max_time"
    and "0 \<le> mins" "mins \<le> 100000000"
  shows "(isStale env (Some s) mins now \<longleftrightarrow> mins * 60000 < now - t) \<and>
    \<not> isStale env None mins now \<and> \<not> isStale env (Some []) mins now \<and>
    (parse_date env u = None \<longrightarrow> \<not> isStale env (Some u) mins now)"
proof -
  have m: "num_mul (num mins) (num 60000) = num (mins * 60000)"
    using assms by (intro num_mul_small) (simp add: abs_mult)
  have "num_sub (num now) (num t) = num (now - t)"
    using assms by (intro num_sub_small) (simp add: max_time_def abs_less_iff)
  then show ?thesis
    using assms(1,2) by (simp add: isStale_def m nonempty_def str_or_def)
qed

theorem isStale_spec_witness:
  "isStale (sample_env None) (Some (js ''2026-11-10T12:00:00Z'')) default_stale_minutes 1794398400001"
  using isStale_spec [of "js ''2026-11-10T12:00:00Z''" "sample_env None" 1794312000000 1794398400001
      default_stale_minutes]
  by (simp add: sample_env_def max_time_def default_stale_minutes_def)

end
