(* ===== verification/Proxy_Path.thy ===== *)
theory Proxy_Path
  imports Js_Value
begin

text \<open>
  \<open>lib/proxy-path.ts\<close>: the paths of the runtime delay tests. A node name becomes one
  percent-encoded path segment; a name with a lone surrogate raises \<open>URIError\<close>.
\<close>

definition proxyDelayPath :: "jstring \<Rightarrow> jstring result" where
  "proxyDelayPath name =
     map_result (\<lambda>e. js ''runtime/proxies/'' @ e @ js ''/delay'') (encode_uri_component name)"

definition providerHealthcheckPath :: "jstring \<Rightarrow> jstring \<Rightarrow> jstring result" where
  "providerHealthcheckPath provider node =
     (case encode_uri_component provider of
        Inl e \<Rightarrow> Inl e
      | Inr p \<Rightarrow> map_result
          (\<lambda>n. js ''runtime/proxy-providers/'' @ p @ js ''/'' @ n @ js ''/healthcheck'')
          (encode_uri_component node))"

section \<open>Path segments\<close>

text \<open>The segments of a path text: split at every slash.\<close>

definition slash :: nat where
  "slash = 47"

definition segments :: "jstring \<Rightarrow> jstring list" where
  "segments = split_units (\<lambda>u. u = slash)"

text \<open>
  What the URL parser makes of the segments: it drops a segment that is one dot and lets two dots
  remove the segment before, also when the dots are percent-encoded. (The last segment would leave an
  empty one behind.) The first argument is the path so far, backwards.
\<close>

definition single_dot :: "jstring \<Rightarrow> bool" where
  "single_dot s \<longleftrightarrow> s \<in> set (map js [''.'', ''%2e'', ''%2E''])"

definition double_dot :: "jstring \<Rightarrow> bool" where
  "double_dot s \<longleftrightarrow> s \<in> set (map js [''..'', ''.%2e'', ''.%2E'', ''%2e.'', ''%2E.'', ''%2e%2e'', ''%2e%2E'', ''%2E%2e'', ''%2E%2E''])"

fun resolve_dots :: "jstring list \<Rightarrow> jstring list \<Rightarrow> jstring list" where
  "resolve_dots path [] = rev path"
| "resolve_dots path (s # ss) =
     (if single_dot s then resolve_dots (if ss = [] then [] # path else path) ss
      else if double_dot s then resolve_dots (if ss = [] then [] # tl path else tl path) ss
      else resolve_dots (s # path) ss)"

lemma escape_unit_not_slash: "is_escape_unit u \<Longrightarrow> u \<noteq> slash"
  by (auto simp: is_escape_unit_def is_unreserved_def slash_def)

lemma encoded_no_slash:
  "encode_uri_component s = Inr e \<Longrightarrow> wf_js s \<Longrightarrow> slash \<notin> set e"
  using encode_units escape_unit_not_slash by blast

lemma js_slash: "js (s @ CHR ''/'' # t) = js s @ slash # js t"
  by (simp add: js_def slash_def)

lemma segments_append:
  "slash \<notin> set s \<Longrightarrow> segments (s @ slash # t) = s # segments t"
  unfolding segments_def by (rule split_units_append_sep) auto

lemma segments_single: "slash \<notin> set s \<Longrightarrow> segments s = [s]"
  unfolding segments_def by (rule split_units_none) auto

lemma delay_path_segments:
  assumes "slash \<notin> set e"
  shows "segments (js ''runtime/proxies/'' @ e @ js ''/delay'') =
    [js ''runtime'', js ''proxies'', e, js ''delay'']"
proof -
  have "js ''runtime/proxies/'' @ e @ js ''/delay'' =
      js ''runtime'' @ slash # js ''proxies'' @ slash # e @ slash # js ''delay''"
    by (simp add: js_def slash_def)
  moreover have "slash \<notin> set (js ''runtime'')" "slash \<notin> set (js ''proxies'')" "slash \<notin> set (js ''delay'')"
    by (simp_all add: js_def slash_def)
  ultimately show ?thesis using assms by (simp add: segments_append segments_single)
qed

lemma healthcheck_path_segments:
  assumes "slash \<notin> set p" "slash \<notin> set n"
  shows "segments (js ''runtime/proxy-providers/'' @ p @ js ''/'' @ n @ js ''/healthcheck'') =
    [js ''runtime'', js ''proxy-providers'', p, n, js ''healthcheck'']"
proof -
  have "js ''runtime/proxy-providers/'' @ p @ js ''/'' @ n @ js ''/healthcheck'' =
      js ''runtime'' @ slash # js ''proxy-providers'' @ slash # p @ slash # n @ slash # js ''healthcheck''"
    by (simp add: js_def slash_def)
  moreover have "slash \<notin> set (js ''runtime'')" "slash \<notin> set (js ''proxy-providers'')"
    "slash \<notin> set (js ''healthcheck'')"
    by (simp_all add: js_def slash_def)
  ultimately show ?thesis using assms by (simp add: segments_append segments_single)
qed

text \<open>A name whose encoding the URL parser takes for dots consists of dots itself.\<close>

lemma decode_step:
  "decode_uri_component [] = Inr []"
  "u \<noteq> 37 \<Longrightarrow> decode_uri_component (u # t) = map_result (Cons u) (decode_uri_component t)"
  "hex_val l = Some 14 \<Longrightarrow> decode_uri_component (37 # 50 # l # t) = map_result (Cons 46) (decode_uri_component t)"
proof -
  assume l: "hex_val l = Some 14"
  have "hex_val 50 = Some 2" by (simp add: hex_val_def)
  then have "take_point (37 # 50 # l # t) = Some (46, t)" using l by (simp add: take_point_def)
  then show "decode_uri_component (37 # 50 # l # t) = map_result (Cons 46) (decode_uri_component t)"
    by (simp add: decode_uri_component.simps [of "37 # 50 # l # t"] utf16_def append_def)
qed (simp_all add: decode_uri_component.simps [of "[]"] decode_uri_component.simps [of "u # t"])

lemma decode_dots:
  "single_dot e \<Longrightarrow> decode_uri_component e = Inr (js ''.'')"
  "double_dot e \<Longrightarrow> decode_uri_component e = Inr (js ''..'')"
  by (auto simp: single_dot_def double_dot_def js_def decode_step hex_val_def)

lemma route_segments [simp]:
  "\<not> single_dot (js ''runtime'')" "\<not> single_dot (js ''proxies'')" "\<not> single_dot (js ''delay'')"
  "\<not> double_dot (js ''runtime'')" "\<not> double_dot (js ''proxies'')" "\<not> double_dot (js ''delay'')"
  by (simp_all add: single_dot_def double_dot_def)

lemma resolve_delay_path:
  "resolve_dots [js ''api''] [js ''runtime'', js ''proxies'', e, js ''delay''] =
     (if single_dot e then [js ''api'', js ''runtime'', js ''proxies'', js ''delay'']
      else if double_dot e then [js ''api'', js ''runtime'', js ''delay'']
      else [js ''api'', js ''runtime'', js ''proxies'', e, js ''delay''])"
  by simp

text \<open>
  C23: whatever a node is called (spaces, slashes, \<open>#\<close>, non-ASCII), its delay-test path has exactly
  the four segments of the route, and decoding the third one gives back the real name; the only names
  without a path are those with a lone surrogate. The URL parser leaves the path as it is for every
  name but \<open>.\<close> and \<open>..\<close>.
\<close>

theorem proxyDelayPath_roundtrip:
  assumes "wf_js name"
  shows "(\<exists>p e. proxyDelayPath name = Inr p \<and>
            segments p = [js ''runtime'', js ''proxies'', e, js ''delay''] \<and>
            decode_uri_component e = Inr name \<and>
            (name \<notin> {js ''.'', js ''..''} \<longrightarrow> resolve_dots [js ''api''] (segments p) = js ''api'' # segments p)) \<or>
         (proxyDelayPath name = Inl URIError \<and> code_points name = None)"
proof (cases "encode_uri_component name")
  case (Inl e)
  then show ?thesis by (simp add: proxyDelayPath_def encode_error_iff)
next
  case (Inr e)
  have d: "decode_uri_component e = Inr name" by (rule decode_encode [OF Inr assms])
  then have "name \<notin> {js ''.'', js ''..''} \<longrightarrow> \<not> single_dot e \<and> \<not> double_dot e" using decode_dots [of e] by auto
  then show ?thesis
    using delay_path_segments [OF encoded_no_slash [OF Inr assms]] d Inr
    by (auto simp: proxyDelayPath_def resolve_delay_path)
qed

text \<open>
  A node named with one or two dots is not tested: dots are not percent-encoded, so the URL parser
  removes the segment and the request goes to another address.
\<close>

lemma dot_names_lost:
  "\<exists>p. proxyDelayPath (js ''.'') = Inr p \<and>
     resolve_dots [js ''api''] (segments p) = [js ''api'', js ''runtime'', js ''proxies'', js ''delay'']"
  "\<exists>p. proxyDelayPath (js ''..'') = Inr p \<and>
     resolve_dots [js ''api''] (segments p) = [js ''api'', js ''runtime'', js ''delay'']"
proof -
  have e: "encode_uri_component (js ''.'') = Inr (js ''.'')" "encode_uri_component (js ''..'') = Inr (js ''..'')"
    by (simp_all add: uri_eval)
  have "slash \<notin> set (js ''.'')" "slash \<notin> set (js ''..'')" by (simp_all add: js_def slash_def)
  then show "\<exists>p. proxyDelayPath (js ''.'') = Inr p \<and>
     resolve_dots [js ''api''] (segments p) = [js ''api'', js ''runtime'', js ''proxies'', js ''delay'']"
    "\<exists>p. proxyDelayPath (js ''..'') = Inr p \<and>
     resolve_dots [js ''api''] (segments p) = [js ''api'', js ''runtime'', js ''delay'']"
    by (simp_all add: proxyDelayPath_def e delay_path_segments resolve_delay_path, simp_all add: single_dot_def double_dot_def)
qed

theorem proxyDelayPath_roundtrip_witness:
  "proxyDelayPath (js ''a/b #1'') = Inr (js ''runtime/proxies/a%2Fb%20%231/delay'') \<and>
   (\<exists>p e. proxyDelayPath (js ''a/b #1'') = Inr p \<and>
      segments p = [js ''runtime'', js ''proxies'', e, js ''delay''] \<and>
      decode_uri_component e = Inr (js ''a/b #1''))"
proof -
  have "proxyDelayPath (js ''a/b #1'') = Inr (js ''runtime/proxies/a%2Fb%20%231/delay'')"
    by (simp add: proxyDelayPath_def uri_eval)
  then show ?thesis using proxyDelayPath_roundtrip [OF wf_js_js [of "''a/b #1''"]] by auto
qed

text \<open>
  The provider and the node keep separate segments, so the healthcheck of a node addresses
  exactly that node of exactly that provider: two pairs of names share a path only if they are
  the same pair, and both names are recovered from it.
\<close>

theorem providerHealthcheckPath_unambiguous:
  assumes "wf_js p" "wf_js n" "wf_js p'" "wf_js n'"
    and "providerHealthcheckPath p n = Inr x" "providerHealthcheckPath p' n' = Inr x"
  shows "p = p' \<and> n = n' \<and>
    (\<exists>a b. segments x = [js ''runtime'', js ''proxy-providers'', a, b, js ''healthcheck''] \<and>
      decode_uri_component a = Inr p \<and> decode_uri_component b = Inr n)"
proof -
  have path: "\<exists>a b. encode_uri_component q = Inr a \<and> encode_uri_component m = Inr b \<and>
      segments x = [js ''runtime'', js ''proxy-providers'', a, b, js ''healthcheck'']"
    if "providerHealthcheckPath q m = Inr x" "wf_js q" "wf_js m" for q m
    using that by (auto simp: providerHealthcheckPath_def encoded_no_slash healthcheck_path_segments
        split: sum.splits)
  obtain a b where 1: "encode_uri_component p = Inr a" "encode_uri_component n = Inr b"
    "segments x = [js ''runtime'', js ''proxy-providers'', a, b, js ''healthcheck'']"
    using path [OF assms(5,1,2)] by blast
  moreover obtain c d where 2: "encode_uri_component p' = Inr c" "encode_uri_component n' = Inr d"
    "segments x = [js ''runtime'', js ''proxy-providers'', c, d, js ''healthcheck'']"
    using path [OF assms(6,3,4)] by blast
  moreover have "a = c" "b = d" using 1(3) 2(3) by simp_all
  ultimately show ?thesis
    using decode_encode encode_inj assms(1-4) by blast
qed

theorem providerHealthcheckPath_unambiguous_witness:
  "\<exists>a b. segments (js ''runtime/proxy-providers/A%2FB/n/healthcheck'') =
      [js ''runtime'', js ''proxy-providers'', a, b, js ''healthcheck''] \<and>
    decode_uri_component a = Inr (js ''A/B'') \<and> decode_uri_component b = Inr (js ''n'')"
proof -
  have h: "providerHealthcheckPath (js ''A/B'') (js ''n'') =
      Inr (js ''runtime/proxy-providers/A%2FB/n/healthcheck'')"
    by (simp add: providerHealthcheckPath_def uri_eval)
  show ?thesis
    using providerHealthcheckPath_unambiguous [OF wf_js_js wf_js_js wf_js_js wf_js_js h h] by blast
qed

end
