(* ===== verification/Node_Score.thy ===== *)
theory Node_Score
  imports Js_Value
begin

text \<open>
  \<open>lib/node-score.ts\<close>: reading the two third-party IP payloads. The payload is \<open>unknown\<close>, a
  \<open>jsval\<close>; a field that is absent or of the wrong type is \<open>None\<close>. The lemmas show that nothing is
  invented (every value shown comes from the payload it is shown for), that the two sources are
  never merged, and how the IP match and the score band are decided.
\<close>

datatype score_band = High | Medium | Low | VeryLow

datatype ip_match = Exact | Cidr | Mismatch | UnknownMatch

definition scoreBand :: "jsnum option \<Rightarrow> score_band option" where
  "scoreBand score = (case score of
     Some (Fin q) \<Rightarrow>
       Some (if 80 \<le> q then High else if 50 \<le> q then Medium else if 25 \<le> q then Low else VeryLow)
   | _ \<Rightarrow> None)"

definition normalizeIpMatch :: "jsval \<Rightarrow> ip_match" where
  "normalizeIpMatch v =
     (if v = JStr (js ''exact'') then Exact else if v = JStr (js ''cidr'') then Cidr
      else if v = JStr (js ''mismatch'') then Mismatch else UnknownMatch)"

record ip_intel =
  ii_ip :: "jstring option"
  ii_cidr :: "jstring option"
  ii_country :: "jstring option"
  ii_countryCode :: "jstring option"
  ii_region :: "jstring option"
  ii_city :: "jstring option"
  ii_asn :: "jsnum option"
  ii_asnOrg :: "jstring option"
  ii_companyType :: "jstring option"
  ii_companyName :: "jstring option"
  ii_datacenterName :: "jstring option"
  ii_isResidential :: "bool option"
  ii_isDatacenter :: "bool option"
  ii_isVpn :: "bool option"
  ii_isProxy :: "bool option"
  ii_isTor :: "bool option"
  ii_isMobile :: "bool option"
  ii_isCrawler :: "bool option"
  ii_isAbuser :: "bool option"
  ii_abuserScore :: "jstring option"
  ii_trustScore :: "jsnum option"
  ii_sources :: "jstring list"
  ii_aiVerdictLabel :: "jstring option"
  ii_aiVerdictReason :: "jstring option"
  ii_raw :: "(jstring \<times> jsval) list option"

datatype score_source = Claude | Lookup

record source_intel =
  si_source :: score_source
  si_queryIp :: "jstring option"
  si_responseIp :: "jstring option"
  si_ipMatch :: ip_match
  si_cidr :: "jstring option"
  si_trustScore :: "jsnum option"
  si_intel :: ip_intel

definition EMPTY_INTEL :: ip_intel where
  "EMPTY_INTEL = \<lparr>
     ii_ip = None, ii_cidr = None, ii_country = None, ii_countryCode = None, ii_region = None,
     ii_city = None, ii_asn = None, ii_asnOrg = None, ii_companyType = None, ii_companyName = None,
     ii_datacenterName = None, ii_isResidential = None, ii_isDatacenter = None, ii_isVpn = None,
     ii_isProxy = None, ii_isTor = None, ii_isMobile = None, ii_isCrawler = None, ii_isAbuser = None,
     ii_abuserScore = None, ii_trustScore = None, ii_sources = [], ii_aiVerdictLabel = None,
     ii_aiVerdictReason = None, ii_raw = None\<rparr>"

definition asRecord :: "jsval \<Rightarrow> (jstring \<times> jsval) list option" where
  "asRecord v = (case v of JObj kvs \<Rightarrow> Some kvs | _ \<Rightarrow> None)"

definition str_of :: "jsval \<Rightarrow> jstring option" where
  "str_of v = (case v of JStr s \<Rightarrow> if trim s \<noteq> [] then Some s else None | _ \<Rightarrow> None)"

definition num_of :: "jsval \<Rightarrow> jsnum option" where
  "num_of v = (case v of
     JNum x \<Rightarrow> if is_finite x then Some x else None
   | JStr s \<Rightarrow> if trim s \<noteq> [] \<and> is_finite (to_number s) then Some (to_number s) else None
   | _ \<Rightarrow> None)"

definition bool_of :: "jsval \<Rightarrow> bool option" where
  "bool_of v = (case v of JBool b \<Rightarrow> Some b | _ \<Rightarrow> None)"

text \<open>\<open>str(c.a) ?? str(c.b) ?? ...\<close>, and the same for booleans and numbers.\<close>

definition str_prop :: "(jstring \<times> jsval) list \<Rightarrow> string list \<Rightarrow> jstring option" where
  "str_prop c ks = foldr (\<lambda>k r. nullish (str_of (prop_of c k)) r) ks None"

definition bool_prop :: "(jstring \<times> jsval) list \<Rightarrow> string list \<Rightarrow> bool option" where
  "bool_prop c ks = foldr (\<lambda>k r. nullish (bool_of (prop_of c k)) r) ks None"

definition num_prop :: "(jstring \<times> jsval) list \<Rightarrow> string list \<Rightarrow> jsnum option" where
  "num_prop c ks = foldr (\<lambda>k r. nullish (num_of (prop_of c k)) r) ks None"

text \<open>The loop over \<open>rawSources\<close> and the set it fills.\<close>

definition add_source :: "jsval \<Rightarrow> jstring list \<Rightarrow> jstring list" where
  "add_source s acc = (case s of
     JStr x \<Rightarrow> set_add x acc
   | _ \<Rightarrow> (case asRecord s of
       None \<Rightarrow> acc
     | Some rec \<Rightarrow> (case str_prop rec [''src'', ''name'', ''source''] of
         Some name \<Rightarrow> set_add name acc | None \<Rightarrow> acc)))"

definition collect_sources :: "(jstring \<times> jsval) list \<Rightarrow> jstring list" where
  "collect_sources c =
     (let acc = (case str_of (prop_of c ''src'') of Some src \<Rightarrow> set_add src [] | None \<Rightarrow> []);
          rawSources = coalesce (prop_of c ''sources'') (prop_of c ''geo_sources'')
      in case rawSources of JArr xs \<Rightarrow> fold add_source xs acc | _ \<Rightarrow> acc)"

definition normalizeIpInfo :: "jsval \<Rightarrow> ip_intel" where
  "normalizeIpInfo raw = (case asRecord raw of
     None \<Rightarrow> EMPTY_INTEL
   | Some c \<Rightarrow>
       let verdict = asRecord (prop_of c ''ai_verdict'')
       in \<lparr>ii_ip = str_prop c [''ip''],
           ii_cidr = str_prop c [''cidr''],
           ii_country = str_prop c [''country''],
           ii_countryCode = str_prop c [''countryCode'', ''country_code''],
           ii_region = str_prop c [''region''],
           ii_city = str_prop c [''city''],
           ii_asn = num_prop c [''asn''],
           ii_asnOrg = str_prop c [''asOrganization'', ''as_organization'', ''asn_org'', ''asnOrg''],
           ii_companyType = str_prop c [''company_type'', ''companyType''],
           ii_companyName = str_prop c [''company_name'', ''companyName'', ''isp''],
           ii_datacenterName = str_prop c [''datacenter_name'', ''datacenterName''],
           ii_isResidential = bool_prop c [''isResidential'', ''is_residential''],
           ii_isDatacenter = bool_prop c [''is_datacenter'', ''isDatacenter''],
           ii_isVpn = bool_prop c [''is_vpn'', ''isVpn''],
           ii_isProxy = bool_prop c [''is_proxy'', ''isProxy''],
           ii_isTor = bool_prop c [''is_tor'', ''isTor''],
           ii_isMobile = bool_prop c [''is_mobile'', ''isMobile''],
           ii_isCrawler = bool_prop c [''is_crawler'', ''isCrawler''],
           ii_isAbuser = bool_prop c [''is_abuser'', ''isAbuser''],
           ii_abuserScore = str_prop c [''abuser_score'', ''abuserScore''],
           ii_trustScore = num_prop c [''trust_score'', ''trustScore''],
           ii_sources = collect_sources c,
           ii_aiVerdictLabel = (case verdict of Some v \<Rightarrow> str_prop v [''label''] | None \<Rightarrow> None),
           ii_aiVerdictReason = (case verdict of Some v \<Rightarrow> str_prop v [''reasoning''] | None \<Rightarrow> None),
           ii_raw = Some c\<rparr>)"

definition decide_match :: "jsval \<Rightarrow> jstring option \<Rightarrow> jstring option \<Rightarrow> ip_match" where
  "decide_match explicit query response =
     (let match = normalizeIpMatch explicit
      in if match = UnknownMatch then
           (case (query, response) of
              (Some q, Some r) \<Rightarrow> if q = r then Exact else Mismatch
            | _ \<Rightarrow> match)
         else match)"

definition buildSource :: "score_source \<Rightarrow> (jstring \<times> jsval) list \<Rightarrow> jsval \<Rightarrow> source_intel" where
  "buildSource source obj parentMatch =
     (let intel = normalizeIpInfo (JObj obj);
          explicit = coalesce (prop_of obj ''ip_match'') parentMatch;
          query = str_of (prop_of obj ''query_ip'')
      in \<lparr>si_source = source, si_queryIp = query, si_responseIp = ii_ip intel,
          si_ipMatch = decide_match explicit query (ii_ip intel), si_cidr = ii_cidr intel,
          si_trustScore = ii_trustScore intel, si_intel = intel\<rparr>)"

definition claude_raw :: "(jstring \<times> jsval) list \<Rightarrow> (jstring \<times> jsval) list option" where
  "claude_raw payload = nullish (asRecord (prop_of payload ''claude''))
     (nullish (asRecord (prop_of payload ''claude_risk'')) (asRecord (prop_of payload ''iprisk'')))"

definition lookup_raw :: "(jstring \<times> jsval) list \<Rightarrow> (jstring \<times> jsval) list option" where
  "lookup_raw payload = nullish (asRecord (prop_of payload ''lookup''))
     (nullish (asRecord (prop_of payload ''ip_lookup'')) (asRecord (prop_of payload ''ipLookup'')))"

definition looksLikeClaude :: "(jstring \<times> jsval) list \<Rightarrow> bool" where
  "looksLikeClaude payload \<longleftrightarrow> prop_of payload ''ai_verdict'' = Undef \<and>
     (prop_of payload ''timezone'' \<noteq> Undef \<or> prop_of payload ''rpki_status'' \<noteq> Undef \<or>
      prop_of payload ''as_organization'' \<noteq> Undef)"

definition looksLikeLookup :: "(jstring \<times> jsval) list \<Rightarrow> bool" where
  "looksLikeLookup payload \<longleftrightarrow> prop_of payload ''ai_verdict'' \<noteq> Undef \<or>
     prop_of payload ''is_bogon'' \<noteq> Undef \<or> prop_of payload ''intelligence'' \<noteq> Undef"

definition parseScoreSources :: "jsval \<Rightarrow> jsval \<Rightarrow> source_intel list" where
  "parseScoreSources raw parentMatch = (case asRecord raw of
     None \<Rightarrow> []
   | Some payload \<Rightarrow>
       let out = (case claude_raw payload of Some c \<Rightarrow> [buildSource Claude c parentMatch] | None \<Rightarrow> []) @
                 (case lookup_raw payload of Some l \<Rightarrow> [buildSource Lookup l parentMatch] | None \<Rightarrow> [])
       in if out = [] then
            (if looksLikeClaude payload then [buildSource Claude payload parentMatch]
             else if looksLikeLookup payload then [buildSource Lookup payload parentMatch]
             else [])
          else out)"

section \<open>Where the shown values come from\<close>

definition prop_values :: "(jstring \<times> jsval) list \<Rightarrow> jsval set" where
  "prop_values c = snd ` set c"

lemma prop_of_value: "prop_of c k \<noteq> Undef \<Longrightarrow> prop_of c k \<in> prop_values c"
  by (force simp: prop_of_def prop_values_def dest: map_of_SomeD split: option.splits)

lemma str_of_Some [simp]: "str_of v = Some s \<longleftrightarrow> v = JStr s \<and> trim s \<noteq> []"
  by (auto simp: str_of_def split: jsval.splits)

lemma bool_of_Some [simp]: "bool_of v = Some b \<longleftrightarrow> v = JBool b"
  by (auto simp: bool_of_def split: jsval.splits)

lemma num_of_finite: "num_of v = Some x \<Longrightarrow> is_finite x"
  by (auto simp: num_of_def split: jsval.splits if_splits)

lemma str_prop_Some: "str_prop c ks = Some s \<Longrightarrow> JStr s \<in> prop_values c \<and> trim s \<noteq> []"
proof (induction ks)
  case Nil
  then show ?case by (simp add: str_prop_def)
next
  case (Cons k ks)
  show ?case
  proof (cases "str_of (prop_of c k)")
    case None
    with Cons show ?thesis by (simp add: str_prop_def)
  next
    case (Some x)
    with Cons.prems have "prop_of c k = JStr s" "trim s \<noteq> []" by (auto simp: str_prop_def)
    then show ?thesis using prop_of_value [of c k] by simp
  qed
qed

lemma bool_prop_Some: "bool_prop c ks = Some b \<Longrightarrow> JBool b \<in> prop_values c"
proof (induction ks)
  case Nil
  then show ?case by (simp add: bool_prop_def)
next
  case (Cons k ks)
  show ?case
  proof (cases "bool_of (prop_of c k)")
    case None
    with Cons show ?thesis by (simp add: bool_prop_def)
  next
    case (Some x)
    with Cons.prems have "prop_of c k = JBool b" by (auto simp: bool_prop_def)
    then show ?thesis using prop_of_value [of c k] by simp
  qed
qed

lemma num_prop_finite: "num_prop c ks = Some x \<Longrightarrow> is_finite x"
proof (induction ks)
  case Nil
  then show ?case by (simp add: num_prop_def)
next
  case (Cons k ks)
  then show ?case
    by (cases "num_of (prop_of c k)") (auto simp: num_prop_def num_of_finite)
qed

lemma distinct_add_source: "distinct acc \<Longrightarrow> distinct (add_source s acc)"
  by (auto simp: add_source_def split: jsval.splits option.splits)

lemma distinct_fold_add_source: "distinct acc \<Longrightarrow> distinct (fold add_source xs acc)"
  by (induction xs arbitrary: acc) (auto simp: distinct_add_source)

lemma distinct_collect_sources: "distinct (collect_sources c)"
  by (auto simp: collect_sources_def Let_def set_add_def
      intro!: distinct_fold_add_source split: option.splits jsval.splits)

text \<open>The string and the boolean fields of a card.\<close>

definition intel_strings :: "ip_intel \<Rightarrow> jstring option list" where
  "intel_strings i = [ii_ip i, ii_cidr i, ii_country i, ii_countryCode i, ii_region i, ii_city i,
     ii_asnOrg i, ii_companyType i, ii_companyName i, ii_datacenterName i, ii_abuserScore i]"

definition intel_flags :: "ip_intel \<Rightarrow> bool option list" where
  "intel_flags i = [ii_isResidential i, ii_isDatacenter i, ii_isVpn i, ii_isProxy i, ii_isTor i,
     ii_isMobile i, ii_isCrawler i, ii_isAbuser i]"

definition intel_numbers :: "ip_intel \<Rightarrow> jsnum option list" where
  "intel_numbers i = [ii_asn i, ii_trustScore i]"

text \<open>
  A card invents nothing. Every string it shows is a non-blank string property of the payload
  it was built from, every flag a boolean property of it, every number finite; a field without
  such a property stays unknown (never an empty string, \<open>false\<close> or 0), and the list of sources
  has no repetition.
\<close>

theorem normalizeIpInfo_invents_nothing:
  "(\<forall>x \<in> set (intel_strings (normalizeIpInfo (JObj c))). \<forall>s. x = Some s \<longrightarrow>
      JStr s \<in> prop_values c \<and> trim s \<noteq> []) \<and>
   (\<forall>x \<in> set (intel_flags (normalizeIpInfo (JObj c))). \<forall>b. x = Some b \<longrightarrow> JBool b \<in> prop_values c) \<and>
   (\<forall>x \<in> set (intel_numbers (normalizeIpInfo (JObj c))). \<forall>n. x = Some n \<longrightarrow> is_finite n) \<and>
   distinct (ii_sources (normalizeIpInfo (JObj c))) \<and>
   ii_raw (normalizeIpInfo (JObj c)) = Some c"
  by (simp add: normalizeIpInfo_def asRecord_def Let_def intel_strings_def intel_flags_def
      intel_numbers_def str_prop_Some bool_prop_Some num_prop_finite distinct_collect_sources)

definition sample_lookup :: "(jstring \<times> jsval) list" where
  "sample_lookup = [(js ''ip'', JStr (js ''1.2.3.4'')), (js ''is_vpn'', JBool False),
     (js ''isp'', JStr (js '' '')), (js ''asn'', JStr (js ''13335'')), (js ''is_bogon'', JBool False)]"

theorem normalizeIpInfo_invents_nothing_witness:
  "ii_ip (normalizeIpInfo (JObj sample_lookup)) = Some (js ''1.2.3.4'') \<and>
   JStr (js ''1.2.3.4'') \<in> prop_values sample_lookup \<and>
   ii_companyName (normalizeIpInfo (JObj sample_lookup)) = None"
proof -
  have ip: "ii_ip (normalizeIpInfo (JObj sample_lookup)) = Some (js ''1.2.3.4'')"
    by (simp add: normalizeIpInfo_def asRecord_def sample_lookup_def str_prop_def str_of_def trim_def
        trim_start_def trim_end_def js_def is_ws_def)
  moreover have "ii_companyName (normalizeIpInfo (JObj sample_lookup)) = None"
    by (simp add: normalizeIpInfo_def asRecord_def sample_lookup_def str_prop_def str_of_def trim_def
        trim_start_def trim_end_def js_def is_ws_def)
  moreover have "ii_ip (normalizeIpInfo (JObj sample_lookup)) \<in>
      set (intel_strings (normalizeIpInfo (JObj sample_lookup)))"
    by (simp add: intel_strings_def)
  ultimately show ?thesis
    using normalizeIpInfo_invents_nothing [of sample_lookup] by blast
qed

section \<open>The two sources stay apart\<close>

lemma buildSource_simps [simp]:
  "si_source (buildSource s obj pm) = s"
  "si_intel (buildSource s obj pm) = normalizeIpInfo (JObj obj)"
  "si_trustScore (buildSource s obj pm) = ii_trustScore (normalizeIpInfo (JObj obj))"
  "si_cidr (buildSource s obj pm) = ii_cidr (normalizeIpInfo (JObj obj))"
  by (simp_all add: buildSource_def Let_def)

definition source_of :: "score_source \<Rightarrow> source_intel list \<Rightarrow> source_intel option" where
  "source_of s xs = find (\<lambda>x. si_source x = s) xs"

text \<open>
  \<open>parseScoreSources\<close> gives at most one card per source, the Claude card first. When the
  payload carries the two responses separately, each card is built from its own response alone:
  replacing the other response changes nothing in it.
\<close>

theorem parseScoreSources_separate:
  "map si_source (parseScoreSources raw pm) \<in> {[], [Claude], [Lookup], [Claude, Lookup]} \<and>
   (asRecord raw = Some r \<and> claude_raw r = Some c \<longrightarrow>
      source_of Claude (parseScoreSources raw pm) = Some (buildSource Claude c pm)) \<and>
   (asRecord raw = Some r \<and> lookup_raw r = Some l \<longrightarrow>
      source_of Lookup (parseScoreSources raw pm) = Some (buildSource Lookup l pm)) \<and>
   (asRecord raw = Some r \<and> claude_raw r = Some c \<and> lookup_raw r = None \<longrightarrow>
      source_of Lookup (parseScoreSources raw pm) = None)"
  by (auto simp: parseScoreSources_def Let_def source_of_def split: option.splits)

theorem parseScoreSources_separate_witness:
  "source_of Lookup (parseScoreSources (JObj [(js ''lookup'', JObj sample_lookup)]) Undef) =
     Some (buildSource Lookup sample_lookup Undef)"
  using parseScoreSources_separate [of "JObj [(js ''lookup'', JObj sample_lookup)]" Undef
      "[(js ''lookup'', JObj sample_lookup)]" "[]" sample_lookup]
  by (simp add: asRecord_def lookup_raw_def)

lemma decide_match_iff:
  "(decide_match e q r = Exact \<longleftrightarrow> e = JStr (js ''exact'') \<or>
      (normalizeIpMatch e = UnknownMatch \<and> q \<noteq> None \<and> q = r)) \<and>
   (decide_match e q r = Cidr \<longleftrightarrow> e = JStr (js ''cidr'')) \<and>
   (decide_match e q r = Mismatch \<longleftrightarrow> e = JStr (js ''mismatch'') \<or>
      (normalizeIpMatch e = UnknownMatch \<and> q \<noteq> None \<and> r \<noteq> None \<and> q \<noteq> r))"
  by (auto simp: decide_match_def normalizeIpMatch_def Let_def split: option.splits)

lemma buildSource_match_eq:
  "si_ipMatch (buildSource s obj pm) =
     decide_match (coalesce (prop_of obj ''ip_match'') pm) (str_of (prop_of obj ''query_ip''))
       (str_of (prop_of obj ''ip''))"
  by (simp add: buildSource_def normalizeIpInfo_def asRecord_def str_prop_def Let_def)

text \<open>
  An IP match is never claimed without evidence. A card says \<open>exact\<close> only when the payload (or
  the caller) says so, or gives no usable verdict and the queried and the answering address are
  the same string; \<open>cidr\<close> only when told; with no verdict and an address missing it stays unknown.
\<close>

theorem buildSource_match:
  "let e = coalesce (prop_of obj ''ip_match'') pm; q = str_of (prop_of obj ''query_ip'');
       r = str_of (prop_of obj ''ip''); m = si_ipMatch (buildSource s obj pm)
   in (m = Exact \<longleftrightarrow> e = JStr (js ''exact'') \<or> (normalizeIpMatch e = UnknownMatch \<and> q \<noteq> None \<and> q = r)) \<and>
      (m = Cidr \<longleftrightarrow> e = JStr (js ''cidr'')) \<and>
      (m = Mismatch \<longleftrightarrow> e = JStr (js ''mismatch'') \<or>
         (normalizeIpMatch e = UnknownMatch \<and> q \<noteq> None \<and> r \<noteq> None \<and> q \<noteq> r))"
  unfolding Let_def buildSource_match_eq by (rule decide_match_iff)

text \<open>
  The markers of a flat payload are not exclusive. A single response with both a lookup marker
  (\<open>is_bogon\<close> or \<open>intelligence\<close>) and a Claude marker (\<open>timezone\<close>, \<open>rpki_status\<close>, or
  \<open>as_organization\<close>) and no \<open>ai_verdict\<close> is shown as the Claude source.
\<close>

theorem ambiguous_payload_is_claude:
  assumes "claude_raw p = None" "lookup_raw p = None" "looksLikeClaude p"
  shows "parseScoreSources (JObj p) pm = [buildSource Claude p pm]"
  using assms by (simp add: parseScoreSources_def asRecord_def)

theorem ambiguous_payload_is_claude_witness:
  "looksLikeLookup ((js ''timezone'', JStr (js ''UTC'')) # sample_lookup) \<and>
   parseScoreSources (JObj ((js ''timezone'', JStr (js ''UTC'')) # sample_lookup)) Undef =
     [buildSource Claude ((js ''timezone'', JStr (js ''UTC'')) # sample_lookup) Undef]"
  using ambiguous_payload_is_claude [of "(js ''timezone'', JStr (js ''UTC'')) # sample_lookup" Undef]
  by (simp add: sample_lookup_def looksLikeLookup_def looksLikeClaude_def claude_raw_def lookup_raw_def
      asRecord_def)

section \<open>Score bands\<close>

fun band_rank :: "score_band \<Rightarrow> nat" where
  "band_rank VeryLow = 0"
| "band_rank Low = 1"
| "band_rank Medium = 2"
| "band_rank High = 3"

lemma scoreBand_eq_None [simp]: "scoreBand x = None \<longleftrightarrow> (\<forall>q. x \<noteq> Some (Fin q))"
  by (auto simp: scoreBand_def split: option.splits jsnum.splits)

text \<open>
  A band exists exactly for a known finite score, a higher score never falls into a lower band,
  and the bands start at 25, 50 and 80.
\<close>

theorem scoreBand_monotone:
  assumes "a \<le> b"
  shows "\<exists>x y. scoreBand (Some (Fin a)) = Some x \<and> scoreBand (Some (Fin b)) = Some y \<and>
    band_rank x \<le> band_rank y \<and>
    (band_rank x = 3 \<longleftrightarrow> 80 \<le> a) \<and> (2 \<le> band_rank x \<longleftrightarrow> 50 \<le> a) \<and> (1 \<le> band_rank x \<longleftrightarrow> 25 \<le> a)"
  using assms by (auto simp: scoreBand_def)

theorem scoreBand_monotone_witness:
  "\<exists>x y. scoreBand (Some (Fin 49)) = Some x \<and> scoreBand (Some (Fin 80)) = Some y \<and>
    band_rank x \<le> band_rank y"
  using scoreBand_monotone [of 49 80] by auto

end
