(* ===== verification/Wall_Time.thy ===== *)
theory Wall_Time
  imports Subscription_Format
begin

text \<open>
  The time conversions of \<open>components/subscriptions/subscription-form.tsx\<close>: wall-clock text in an
  IANA zone to an instant and back. \<open>Date.UTC\<close> and \<open>toISOString\<close> are written out; the zone
  database of \<open>Intl\<close> is the parameter \<open>zone_env\<close>. The lemmas give the condition under which the
  two-step conversion hits the entered wall time, and the texts it accepts.
\<close>

section \<open>The calendar\<close>

text \<open>Days since 1970-01-01 of a civil date (proleptic Gregorian); a day past the end of its month counts on.\<close>

definition days_from_civil :: "int \<Rightarrow> int \<Rightarrow> int \<Rightarrow> int" where
  "days_from_civil y m d =
     (let y' = (if m \<le> 2 then y - 1 else y); era = y' div 400; yoe = y' mod 400;
          mp = (if m \<le> 2 then m + 9 else m - 3);
          doy = (153 * mp + 2) div 5;
          doe = yoe * 365 + yoe div 4 - yoe div 100 + doy
      in era * 146097 + doe - 719468 + (d - 1))"

text \<open>
  The civil date of a day: centuries, four-year groups and years of the 400-year era that starts on
  the first of March of the year 0, then the month of that year.
\<close>

definition civil_from_days :: "int \<Rightarrow> int \<times> int \<times> int" where
  "civil_from_days n =
     (let z = n + 719468; era = z div 146097; doe = z mod 146097;
          c = min 3 (doe div 36524); r = doe - c * 36524;
          q = r div 1461; r' = r - q * 1461; a = min 3 (r' div 365);
          doy = r' - a * 365; yoe = 100 * c + 4 * q + a; mp = (5 * doy + 2) div 153;
          d = doy - (153 * mp + 2) div 5 + 1; m = (if mp < 10 then mp + 3 else mp - 9)
      in (yoe + era * 400 + (if m \<le> 2 then 1 else 0), m, d))"

text \<open>\<open>Date.UTC\<close>: a year from 0 to 99 means 1900 to 1999; out of range is NaN.\<close>

definition Date_UTC :: "int \<Rightarrow> int \<Rightarrow> int \<Rightarrow> int \<Rightarrow> int \<Rightarrow> int \<Rightarrow> jsnum" where
  "Date_UTC y m0 d h mi s =
     (let yr = (if 0 \<le> y \<and> y \<le> 99 then 1900 + y else y);
          days = days_from_civil (yr + m0 div 12) (m0 mod 12 + 1) 1 + (d - 1)
      in case time_clip (days * 86400000 + h * 3600000 + mi * 60000 + s * 1000) of
           Some t \<Rightarrow> num t | None \<Rightarrow> NaN)"

text \<open>\<open>new Date(n)\<close>: the time value, \<open>None\<close> when it is not valid.\<close>

definition new_date :: "jsnum \<Rightarrow> int option" where
  "new_date n = (case n of
     Fin q \<Rightarrow> time_clip (if 0 \<le> q then \<lfloor>q\<rfloor> else \<lceil>q\<rceil>) | _ \<Rightarrow> None)"

definition padded :: "nat \<Rightarrow> int \<Rightarrow> jstring" where
  "padded w n = (let s = dec_digits (nat n) in replicate (w - length s) 48 @ s)"

definition iso_year :: "int \<Rightarrow> jstring" where
  "iso_year y = (if 0 \<le> y \<and> y \<le> 9999 then padded 4 y
     else if y < 0 then 45 # padded 6 (- y) else 43 # padded 6 y)"

definition toISOString :: "int \<Rightarrow> jstring" where
  "toISOString t =
     (let (y, m, d) = civil_from_days (t div 86400000); ms = t mod 86400000
      in iso_year y @ js ''-'' @ padded 2 m @ js ''-'' @ padded 2 d @ js ''T'' @
         padded 2 (ms div 3600000) @ js '':'' @ padded 2 (ms div 60000 mod 60) @ js '':'' @
         padded 2 (ms div 1000 mod 60) @ js ''.'' @ padded 3 (ms mod 1000) @ js ''Z'')"

section \<open>Zones\<close>

text \<open>
  \<open>ze_known\<close> are the zones the \<open>Intl.DateTimeFormat\<close> constructor accepts, \<open>ze_parts zone t\<close> the
  calendar fields of \<open>formatToParts\<close> at instant \<open>t\<close> (\<open>None\<close> is the browser's zone), and
  \<open>ze_browser\<close> the zone the browser reports, \<open>None\<close> when asking for it throws.
\<close>

record wall_parts =
  wp_year :: int
  wp_month :: int
  wp_day :: int
  wp_hour :: int
  wp_minute :: int
  wp_second :: int

record zone_env =
  ze_browser :: "jstring option"
  ze_known :: "jstring \<Rightarrow> bool"
  ze_parts :: "jstring option \<Rightarrow> int \<Rightarrow> wall_parts"

definition browserTimezone :: "zone_env \<Rightarrow> jstring" where
  "browserTimezone z = (case nonempty (ze_browser z) of Some tz \<Rightarrow> tz | None \<Rightarrow> js ''UTC'')"

definition validTimezone :: "zone_env \<Rightarrow> jstring \<Rightarrow> bool" where
  "validTimezone z tz \<longleftrightarrow> tz = [] \<or> ze_known z tz"

definition zone_accepted :: "zone_env \<Rightarrow> jstring option \<Rightarrow> bool" where
  "zone_accepted z tz \<longleftrightarrow> (case tz of None \<Rightarrow> True | Some s \<Rightarrow> ze_known z s)"

text \<open>What the clock of a zone shows at an instant, read as a time of UTC.\<close>

definition clock_utc :: "zone_env \<Rightarrow> jstring option \<Rightarrow> int \<Rightarrow> jsnum" where
  "clock_utc z tz t = (let p = ze_parts z tz t
     in Date_UTC (wp_year p) (wp_month p - 1) (wp_day p) (wp_hour p mod 24) (wp_minute p) (wp_second p))"

text \<open>\<open>zoneOffsetMinutes\<close> on a valid date; an unknown zone or an invalid date raises \<open>RangeError\<close>.\<close>

definition zoneOffsetMinutes :: "zone_env \<Rightarrow> int option \<Rightarrow> jstring \<Rightarrow> jsnum result" where
  "zoneOffsetMinutes z date timeZone =
     (let tz = nonempty (Some timeZone)
      in case date of
           None \<Rightarrow> Inl RangeError
         | Some t \<Rightarrow>
             if \<not> zone_accepted z tz then Inl RangeError
             else Inr (num_round (num_div (num_sub (clock_utc z tz t) (num t)) (num 60000))))"

definition toDateTimeInput :: "date_env \<Rightarrow> zone_env \<Rightarrow> jstring option \<Rightarrow> jstring \<Rightarrow> jstring" where
  "toDateTimeInput env z iso_text timeZone =
     (case nonempty iso_text of
        None \<Rightarrow> []
      | Some s \<Rightarrow> (case parse_date env s of
          None \<Rightarrow> []
        | Some t \<Rightarrow>
            (let tz = nonempty (Some timeZone)
             in if \<not> zone_accepted z tz then []
                else let p = ze_parts z tz t
                     in int_str (wp_year p) @ js ''-'' @ padded 2 (wp_month p) @ js ''-'' @ padded 2 (wp_day p) @
                        js ''T'' @ padded 2 (wp_hour p) @ js '':'' @ padded 2 (wp_minute p) @ js '':'' @
                        padded 2 (wp_second p))))"

section \<open>From wall time to an instant\<close>

text \<open>\<open>/^(\d{4})-(\d{2})-(\d{2})T(\d{2}):(\d{2})(?::(\d{2}))?$/\<close>, its groups as numbers.\<close>

record wall_fields =
  wf_year :: nat
  wf_month :: nat
  wf_day :: nat
  wf_hour :: nat
  wf_minute :: nat
  wf_second :: nat

definition take_number :: "nat \<Rightarrow> jstring \<Rightarrow> (nat \<times> jstring) option" where
  "take_number w s =
     (if w \<le> length s \<and> (\<forall>u \<in> set (take w s). is_digit u) then Some (digits_val 0 (take w s), drop w s) else None)"

definition take_char :: "char \<Rightarrow> jstring \<Rightarrow> jstring option" where
  "take_char c s = (case s of u # rest \<Rightarrow> if js [c] = [u] then Some rest else None | [] \<Rightarrow> None)"

definition match_wall :: "jstring \<Rightarrow> wall_fields option" where
  "match_wall s =
     Option.bind (take_number 4 s) (\<lambda>(y, s).
     Option.bind (take_char CHR ''-'' s) (\<lambda>s. Option.bind (take_number 2 s) (\<lambda>(mo, s).
     Option.bind (take_char CHR ''-'' s) (\<lambda>s. Option.bind (take_number 2 s) (\<lambda>(d, s).
     Option.bind (take_char CHR ''T'' s) (\<lambda>s. Option.bind (take_number 2 s) (\<lambda>(h, s).
     Option.bind (take_char CHR '':'' s) (\<lambda>s. Option.bind (take_number 2 s) (\<lambda>(mi, s).
       if s = [] then Some \<lparr>wf_year = y, wf_month = mo, wf_day = d, wf_hour = h, wf_minute = mi, wf_second = 0\<rparr>
       else Option.bind (take_char CHR '':'' s) (\<lambda>s. Option.bind (take_number 2 s) (\<lambda>(sec, s).
         if s = [] then Some \<lparr>wf_year = y, wf_month = mo, wf_day = d, wf_hour = h, wf_minute = mi, wf_second = sec\<rparr>
         else None)))))))))))"

definition valid_fields :: "wall_fields \<Rightarrow> bool" where
  "valid_fields f \<longleftrightarrow>
     \<not> (wf_year f = 0 \<or> wf_month f < 1 \<or> 12 < wf_month f \<or> wf_day f < 1 \<or> 31 < wf_day f \<or>
        23 < wf_hour f \<or> 59 < wf_minute f \<or> 59 < wf_second f)"

definition wall_utc :: "wall_fields \<Rightarrow> jsnum" where
  "wall_utc f = Date_UTC (int (wf_year f)) (int (wf_month f) - 1) (int (wf_day f)) (int (wf_hour f))
     (int (wf_minute f)) (int (wf_second f))"

definition guess_instant :: "zone_env \<Rightarrow> jstring \<Rightarrow> jsnum \<Rightarrow> jsnum \<Rightarrow> jsnum result" where
  "guess_instant z timeZone wallUTC guess =
     map_result (\<lambda>minutes. num_sub wallUTC (num_mul minutes (num 60000)))
       (zoneOffsetMinutes z (new_date guess) timeZone)"

definition wall_instant :: "zone_env \<Rightarrow> jstring \<Rightarrow> jsnum \<Rightarrow> int result" where
  "wall_instant z timeZone wallUTC =
     (case guess_instant z timeZone wallUTC wallUTC of
        Inl e \<Rightarrow> Inl e
      | Inr first \<Rightarrow> (case guess_instant z timeZone wallUTC first of
          Inl e \<Rightarrow> Inl e
        | Inr instant \<Rightarrow> (case new_date instant of Some t \<Rightarrow> Inr t | None \<Rightarrow> Inl RangeError)))"

definition wallTimeToISO :: "zone_env \<Rightarrow> jstring \<Rightarrow> jstring \<Rightarrow> jstring option" where
  "wallTimeToISO z v timeZone =
     (case match_wall v of
        None \<Rightarrow> None
      | Some f \<Rightarrow>
          if \<not> valid_fields f then None
          else if timeZone \<noteq> [] \<and> \<not> ze_known z timeZone then None
          else (case wall_instant z timeZone (wall_utc f) of Inl _ \<Rightarrow> None | Inr t \<Rightarrow> Some (toISOString t)))"

section \<open>Lemmas\<close>

lemma days_civil:
  "(case civil_from_days n of (y, m, d) \<Rightarrow> days_from_civil y m 1 + (d - 1)) = n \<and>
   (case civil_from_days n of (y, m, d) \<Rightarrow> 1 \<le> m \<and> m \<le> 12 \<and> (- 573371 \<le> n \<longrightarrow> 400 \<le> y))"
proof -
  define doe where "doe = (n + 719468) mod 146097"
  define era where "era = (n + 719468) div 146097"
  define c where "c = min 3 (doe div 36524)"
  define r where "r = doe - c * 36524"
  define q where "q = r div 1461"
  define r' where "r' = r - q * 1461"
  define a where "a = min 3 (r' div 365)"
  define doy where "doy = r' - a * 365"
  define yoe where "yoe = 100 * c + 4 * q + a"
  define mp where "mp = (5 * doy + 2) div 153"
  have doe: "0 \<le> doe" "doe \<le> 146096" by (simp_all add: doe_def)
  then have c: "0 \<le> c" "c \<le> 3" "0 \<le> r" "r \<le> 36524" unfolding c_def r_def by (auto simp: min_def)
  then have q: "0 \<le> q" "q \<le> 24" unfolding q_def by linarith+
  have r': "0 \<le> r'" "r' \<le> 1460" unfolding r'_def q_def by linarith+
  then have a: "0 \<le> a" "a \<le> 3" "0 \<le> doy" "doy \<le> 365" unfolding a_def doy_def by (auto simp: min_def)
  then have mp: "0 \<le> mp" "mp \<le> 11" unfolding mp_def by linarith+
  have yoe: "0 \<le> yoe" "yoe \<le> 399" "yoe div 4 = 25 * c + q" "yoe div 100 = c"
    using c q a unfolding yoe_def by linarith+
  define y' where "y' = yoe + era * 400"
  have y': "y' div 400 = era" "y' mod 400 = yoe" using yoe unfolding y'_def by auto
  define m where "m = (if mp < 10 then mp + 3 else mp - 9)"
  have m: "1 \<le> m" "m \<le> 12" "(if m \<le> 2 then m + 9 else m - 3) = mp" using mp by (auto simp: m_def)
  have civ: "civil_from_days n = (y' + (if m \<le> 2 then 1 else 0), m, doy - (153 * mp + 2) div 5 + 1)"
    unfolding civil_from_days_def Let_def doe_def [symmetric] era_def [symmetric] c_def [symmetric]
      r_def [symmetric] q_def [symmetric] r'_def [symmetric] a_def [symmetric] doy_def [symmetric]
      yoe_def [symmetric] mp_def [symmetric] m_def [symmetric] y'_def [symmetric] by simp
  have year: "(if m \<le> 2 then y' + (if m \<le> 2 then 1 else 0) - 1 else y' + (if m \<le> 2 then 1 else 0)) = y'" by simp
  have "days_from_civil (y' + (if m \<le> 2 then 1 else 0)) m 1 =
      era * 146097 + (yoe * 365 + yoe div 4 - yoe div 100 + (153 * mp + 2) div 5) - 719468"
    unfolding days_from_civil_def Let_def year m(3) y' by simp
  moreover have "yoe * 365 + yoe div 4 - yoe div 100 + doy = doe"
    using yoe(3,4) unfolding yoe_def doy_def r'_def r_def by simp
  moreover have "era * 146097 + doe - 719468 = n" unfolding era_def doe_def by simp
  moreover have "400 \<le> y'" if "- 573371 \<le> n"
  proof -
    have "1 \<le> era" using that unfolding era_def by linarith
    then show ?thesis using yoe(1) unfolding y'_def by linarith
  qed
  ultimately show ?thesis using m(1,2) by (auto simp: civ)
qed

lemma digits_val_bound: "\<forall>u \<in> set s. is_digit u \<Longrightarrow> digits_val 0 s < 10 ^ length s"
proof (induction s rule: rev_induct)
  case (snoc u s)
  then have "digits_val 0 s < 10 ^ length s" "u - 48 \<le> 9" by (auto simp: is_digit_def)
  then show ?case by (simp add: digits_val_append)
qed simp

lemma take_number_bound: "take_number w s = Some (n, r) \<Longrightarrow> n < 10 ^ w"
  using digits_val_bound [of "take w s"] by (auto simp: take_number_def split: if_splits)

lemma match_wall_bounds:
  assumes "match_wall s = Some f"
  shows "wf_year f < 10000"
  using assms
  by (auto simp: match_wall_def bind_eq_Some_conv split: prod.splits if_splits dest!: take_number_bound)

lemma days_bound:
  assumes "0 \<le> y" "y \<le> 9999" "1 \<le> m" "m \<le> 12"
  shows "\<bar>days_from_civil y m 1\<bar> \<le> 4000000 \<and> (1000 \<le> y \<longrightarrow> - 430000 \<le> days_from_civil y m 1)"
proof -
  define y' where "y' = (if m \<le> 2 then y - 1 else y)"
  define mp where "mp = (if m \<le> 2 then m + 9 else m - 3)"
  have era: "- 1 \<le> y' div 400" "y' div 400 \<le> 24" "1000 \<le> y \<longrightarrow> 2 \<le> y' div 400"
    using assms by (auto simp: y'_def)
  have yoe: "0 \<le> y' mod 400" "y' mod 400 \<le> 399" by simp_all
  have mp: "0 \<le> mp" "mp \<le> 11" using assms by (auto simp: mp_def)
  then have "0 \<le> (153 * mp + 2) div 5" "(153 * mp + 2) div 5 \<le> 337" by linarith+
  moreover have "0 \<le> y' mod 400 div 4" "y' mod 400 div 4 \<le> 99" "0 \<le> y' mod 400 div 100"
    "y' mod 400 div 100 \<le> 3" using yoe by linarith+
  ultimately have "\<bar>e * 146097 + (r * 365 + q - c + doy) - 719468 + (1 - 1)\<bar> \<le> 4000000 \<and>
      (1000 \<le> y \<longrightarrow> - 430000 \<le> e * 146097 + (r * 365 + q - c + doy) - 719468 + (1 - 1))"
    if "e = y' div 400" "r = y' mod 400" "q = y' mod 400 div 4" "c = y' mod 400 div 100" "doy = (153 * mp + 2) div 5"
    for e r q c doy :: int using era yoe that by (intro conjI abs_leI impI) linarith+
  then show ?thesis
    unfolding days_from_civil_def Let_def y'_def [symmetric] mp_def [symmetric] by blast
qed

lemma wall_ms_bound:
  fixes D a b c e :: int
  assumes "l \<le> D" "D \<le> 4000000" "1 \<le> a" "a \<le> 31" "0 \<le> b" "b \<le> 23" "0 \<le> c" "c \<le> 59" "0 \<le> e" "e \<le> 59"
  shows "l * 86400000 \<le> (D + (a - 1)) * 86400000 + b * 3600000 + c * 60000 + e * 1000 \<and>
    (D + (a - 1)) * 86400000 + b * 3600000 + c * 60000 + e * 1000 \<le> 400000000000000 \<and>
    ((D + (a - 1)) * 86400000 + b * 3600000 + c * 60000 + e * 1000) mod 1000 = 0"
proof (intro conjI)
  have "((D + (a - 1)) * 86400000 + b * 3600000 + c * 60000 + e * 1000) =
      1000 * ((D + (a - 1)) * 86400 + b * 3600 + c * 60 + e)" by (simp add: algebra_simps)
  then show "((D + (a - 1)) * 86400000 + b * 3600000 + c * 60000 + e * 1000) mod 1000 = 0"
    by (metis mod_mult_self1_is_0)
qed (use assms in \<open>unfold distrib_right left_diff_distrib, linarith+\<close>)

lemma wall_utc_num:
  assumes "match_wall s = Some f" "valid_fields f"
  obtains W where "wall_utc f = num W" "- 400000000000000 \<le> W" "W \<le> 400000000000000" "W mod 1000 = 0"
    "1000 \<le> wf_year f \<longrightarrow> - 39000000000000 \<le> W"
proof -
  let ?yr = "if 0 \<le> int (wf_year f) \<and> int (wf_year f) \<le> 99 then 1900 + int (wf_year f) else int (wf_year f)"
  define D where "D = days_from_civil ?yr (int (wf_month f)) 1"
  have v: "1 \<le> wf_month f" "wf_month f \<le> 12" "1 \<le> wf_day f" "wf_day f \<le> 31" "wf_hour f \<le> 23"
    "wf_minute f \<le> 59" "wf_second f \<le> 59" using assms(2) by (auto simp: valid_fields_def)
  then have v': "1 \<le> int (wf_day f)" "int (wf_day f) \<le> 31" "0 \<le> int (wf_hour f)" "int (wf_hour f) \<le> 23"
    "0 \<le> int (wf_minute f)" "int (wf_minute f) \<le> 59" "0 \<le> int (wf_second f)" "int (wf_second f) \<le> 59"
    by simp_all
  have D: "\<bar>D\<bar> \<le> 4000000 \<and> (1000 \<le> ?yr \<longrightarrow> - 430000 \<le> D)"
    unfolding D_def using match_wall_bounds [OF assms(1)] v by (intro days_bound) auto
  have m: "(int (wf_month f) - 1) div 12 = 0" "(int (wf_month f) - 1) mod 12 + 1 = int (wf_month f)"
    using v by simp_all
  define W where "W = (D + (int (wf_day f) - 1)) * 86400000 + int (wf_hour f) * 3600000 + int (wf_minute f) * 60000 +
    int (wf_second f) * 1000"
  have W: "- 4000000 * 86400000 \<le> W" "W \<le> 400000000000000" "W mod 1000 = 0"
    using wall_ms_bound [of "- 4000000" D "int (wf_day f)" "int (wf_hour f)" "int (wf_minute f)" "int (wf_second f)"]
      D v' unfolding W_def by auto
  then have "- 400000000000000 \<le> W" by simp
  have "- 430000 * 86400000 \<le> W" if "1000 \<le> wf_year f"
    using wall_ms_bound [of "- 430000" D "int (wf_day f)" "int (wf_hour f)" "int (wf_minute f)" "int (wf_second f)"]
      D v' that unfolding W_def by auto
  then have "1000 \<le> wf_year f \<longrightarrow> - 39000000000000 \<le> W" by fastforce
  moreover have "wall_utc f = num W"
  proof -
    have "time_clip W = Some W" using W by (simp add: time_clip_def max_time_def)
    then show ?thesis unfolding wall_utc_def Date_UTC_def Let_def m add_0_right D_def [symmetric] W_def [symmetric]
      by simp
  qed
  ultimately show thesis using that [of W] W(2,3) \<open>- 400000000000000 \<le> W\<close> by blast
qed

text \<open>
  What \<open>Intl\<close> promises of a zone: at every whole second from the year 1000 on, the calendar fields
  are those of the instant shifted by the zone's offset, a number of seconds of at most a day. Zones
  have offsets that are no whole minutes in the time before standard time.
\<close>

definition instants :: "int set" where
  "instants = {t. - 40000000000000 \<le> t \<and> t \<le> 500000000000000 \<and> t mod 1000 = 0}"

definition zone_offset :: "zone_env \<Rightarrow> jstring \<Rightarrow> (int \<Rightarrow> int) \<Rightarrow> bool" where
  "zone_offset z timeZone off \<longleftrightarrow>
     zone_accepted z (nonempty (Some timeZone)) \<and>
     (\<forall>t \<in> instants. \<bar>off t\<bar> \<le> 86400 \<and> clock_utc z (nonempty (Some timeZone)) t = num (t + off t * 1000))"

text \<open>The minutes of an offset, rounded with ties up.\<close>

definition minutes_of :: "int \<Rightarrow> int" where
  "minutes_of s = (s + 30) div 60"

lemma minutes_of_bounds: "60 * minutes_of s - 30 \<le> s" "s \<le> 60 * minutes_of s + 29" "\<bar>s\<bar> \<le> 86400 \<Longrightarrow> \<bar>minutes_of s\<bar> \<le> 1440"
  unfolding minutes_of_def by linarith+

lemma new_date_num: "\<bar>t\<bar> \<le> max_time \<Longrightarrow> new_date (num t) = Some t"
  by (auto simp: new_date_def num_def time_clip_def)

lemma instants_max: "t \<in> instants \<Longrightarrow> \<bar>t\<bar> \<le> max_time"
  by (auto simp: instants_def max_time_def)

lemma instants_shift:
  assumes "- 39000000000000 \<le> W" "W \<le> 400000000000000" "W mod 1000 = 0" "\<bar>k\<bar> \<le> 1440"
  shows "W - k * 60000 \<in> instants"
proof -
  obtain w where "W = 1000 * w" using assms(3) by (auto elim: dvdE simp: mod_eq_0_iff_dvd)
  then have "W - k * 60000 = 1000 * (w - 60 * k)" by simp
  then have "(W - k * 60000) mod 1000 = 0" by (metis mod_mult_self1_is_0)
  moreover have "- 1440 \<le> k" "k \<le> 1440" using assms(4) by auto
  ultimately show ?thesis using assms(1,2) by (simp add: instants_def)
qed

lemma round_abs_small:
  assumes "0 < q" "lo \<le> q" "q \<le> hi" "pos_double hi" "hi < pow2 1024" "lo \<le> 0 \<or> pos_double lo"
  shows "rnd q = Fin (round_abs q)" "rnd (- q) = Fin (- round_abs q)" "lo \<le> round_abs q" "round_abs q \<le> hi"
proof -
  have le: "round_abs q \<le> hi" by (rule round_abs_le) (use assms in auto)
  have nn: "0 \<le> round_abs q"
    using divide_nonneg_pos [OF less_imp_le [OF assms(1)] pow2_pos]
    unfolding round_abs_def by (intro mult_nonneg_nonneg) (auto intro: round_even_ge)
  show "rnd q = Fin (round_abs q)" "rnd (- q) = Fin (- round_abs q)"
    using assms(1,5) le by (auto simp: rnd_def Let_def)
  show "round_abs q \<le> hi" by (rule le)
  show "lo \<le> round_abs q" using assms(2,6) nn round_abs_ge by fastforce
qed

text \<open>Dividing by 60 in floating point does not cross a half.\<close>

lemma minutes_round:
  assumes "\<bar>o'\<bar> \<le> 86400"
  shows "num_round (rnd (of_int o' / 60)) = num (minutes_of o')"
proof -
  define m where "m = minutes_of o'"
  have o': "60 * m \<le> o' + 30" "o' + 30 < 60 * m + 60" unfolding m_def using minutes_of_bounds [of o'] by linarith+
  have r: "(of_int (60 * m) :: rat) \<le> of_int (o' + 30)" "(of_int (o' + 31) :: rat) \<le> of_int (60 * m + 60)"
    using o' by (simp_all only: of_int_le_iff)
  have dbl: "pos_double (of_int n * pow2 (- 6))" "of_int n * pow2 (- 6) < pow2 1024" if "0 < n" "n < 2 ^ 40" for n
  proof -
    show "pos_double (of_int n * pow2 (- 6))" using that by (intro pos_doubleI) auto
    have "(of_int n :: rat) < of_int (2 ^ 40)" using that by (simp only: of_int_less_iff)
    then have "of_int n * pow2 (- 6) < pow2 40 * pow2 (- 6)" by (simp add: pow2_def)
    also have "\<dots> < pow2 1024" by (simp only: pow2_add [symmetric]) simp
    finally show "of_int n * pow2 (- 6) < pow2 1024" .
  qed
  have "\<exists>x. rnd (of_int o' / 60) = Fin x \<and> of_int m - 1 / 2 \<le> x \<and> x < of_int m + 1 / 2"
  proof (cases o' "0 :: int" rule: linorder_cases)
    case equal
    then show ?thesis using o' by (simp add: m_def minutes_of_def)
  next
    case greater
    have m: "0 \<le> m" "m \<le> 1441" using greater o' assms by linarith+
    have lo: "of_int (64 * m - 32) * pow2 (- 6) = (of_int m - 1 / 2 :: rat)"
      and hi: "of_int (64 * m + 31) * pow2 (- 6) = (of_int m + 31 / 64 :: rat)" by (simp_all add: pow2_def field_simps)
    have "of_int m - 1 / 2 \<le> (0 :: rat) \<or> pos_double (of_int m - 1 / 2)"
      using m dbl(1) [of "64 * m - 32"] unfolding lo by (cases "m = 0") auto
    moreover have "pos_double (of_int m + 31 / 64)" "of_int m + 31 / 64 < pow2 1024"
      using m dbl [of "64 * m + 31"] unfolding hi by auto
    moreover have "(0 :: rat) < of_int o' / 60" using greater by simp
    moreover have "of_int m - 1 / 2 \<le> (of_int o' / 60 :: rat)" "of_int o' / 60 \<le> (of_int m + 31 / 64 :: rat)"
      using r by (simp_all add: field_simps)
    ultimately show ?thesis using round_abs_small [of "of_int o' / 60" "of_int m - 1 / 2" "of_int m + 31 / 64"]
      by (intro exI [of _ "round_abs (of_int o' / 60)"]) auto
  next
    case less
    have m: "0 \<le> - m" "- m \<le> 1441" using less o' assms by linarith+
    have lo: "of_int (64 * (- m) - 31) * pow2 (- 6) = (of_int (- m) - 31 / 64 :: rat)"
      and hi: "of_int (64 * (- m) + 32) * pow2 (- 6) = (of_int (- m) + 1 / 2 :: rat)" by (simp_all add: pow2_def field_simps)
    have "of_int (- m) - 31 / 64 \<le> (0 :: rat) \<or> pos_double (of_int (- m) - 31 / 64)"
      using m dbl(1) [of "64 * (- m) - 31"] unfolding lo by (cases "m = 0") auto
    moreover have "pos_double (of_int (- m) + 1 / 2)" "of_int (- m) + 1 / 2 < pow2 1024"
      using m dbl [of "64 * (- m) + 32"] unfolding hi by auto
    moreover have "(0 :: rat) < - (of_int o' / 60)" using less by simp
    moreover have "of_int (- m) - 31 / 64 \<le> - (of_int o' / 60 :: rat)" "- (of_int o' / 60) \<le> (of_int (- m) + 1 / 2 :: rat)"
      using r by (simp_all add: field_simps)
    ultimately show ?thesis
      using round_abs_small [of "- (of_int o' / 60)" "of_int (- m) - 31 / 64" "of_int (- m) + 1 / 2"]
      by (intro exI [of _ "- round_abs (- (of_int o' / 60))"]) auto
  qed
  then obtain x where x: "rnd (of_int o' / 60) = Fin x" "of_int m - 1 / 2 \<le> x" "x < of_int m + 1 / 2" by blast
  have "\<lfloor>x + 1 / 2\<rfloor> = m" by (rule floor_unique) (use x in auto)
  then show ?thesis using x(1) by (simp add: num_round_def m_def)
qed
lemma zoneOffsetMinutes_num:
  assumes "zone_offset z tz off" "t \<in> instants"
  shows "zoneOffsetMinutes z (Some t) tz = Inr (num (minutes_of (off t)))"
proof -
  have o: "\<bar>off t\<bar> \<le> 86400" using assms by (auto simp: zone_offset_def)
  have "num_sub (num (t + off t * 1000)) (num t) = num (off t * 1000)"
    using num_sub_small [of "t + off t * 1000" t] o by (simp add: abs_mult)
  moreover have "num_div (num (off t * 1000)) (num 60000) = rnd (of_int (off t) / 60)"
    by (simp add: num_def num_div.simps)
  ultimately show ?thesis
    using assms minutes_round [OF o] by (simp add: zoneOffsetMinutes_def zone_offset_def Let_def)
qed

lemma guess_instant_num:
  assumes "zone_offset z tz off" "t \<in> instants" "- 39000000000000 \<le> W" "W \<le> 400000000000000"
  shows "guess_instant z tz (num W) (num t) = Inr (num (W - minutes_of (off t) * 60000))"
proof -
  let ?m = "minutes_of (off t)"
  have off: "\<bar>?m\<bar> \<le> 1440" using assms minutes_of_bounds(3) by (auto simp: zone_offset_def)
  have "num_mul (num ?m) (num 60000) = num (?m * 60000)"
    using off by (intro num_mul_small) (simp add: abs_mult)
  moreover have "num_sub (num W) (num (?m * 60000)) = num (W - ?m * 60000)"
  proof (rule num_sub_small)
    have "- 1440 \<le> ?m" "?m \<le> 1440" using off by auto
    then show "\<bar>W - ?m * 60000\<bar> < 2 ^ 53" using assms(3,4) unfolding abs_less_iff by simp
  qed
  ultimately show ?thesis
    using assms by (simp add: guess_instant_def new_date_num instants_max zoneOffsetMinutes_num)
qed

text \<open>
  C6: an expiry entered as wall-clock time denotes the instant at which the clock of the chosen zone
  stands at it. For every text the field accepts (from the year 1000 on) and every zone, the
  conversion returns an ISO text, of the instant reached after two corrections by whole minutes;
  unless the clocks jump right there (the offset at that instant is not the one of the first guess),
  the zone's clock at that instant is at most half a minute off the entered time, and exactly on it
  when the offset is a whole number of minutes. The entered time counts as \<open>Date.UTC\<close> counts it: a
  day past the end of its month goes on into the next one.
\<close>

theorem wallTimeToISO_hits_wall_time:
  assumes "match_wall v = Some f" "valid_fields f" "1000 \<le> wf_year f" "zone_offset z timeZone off"
  shows "\<exists>W t shown. wall_utc f = num W \<and> wallTimeToISO z v timeZone = Some (toISOString t) \<and>
    t = W - minutes_of (off (W - minutes_of (off W) * 60000)) * 60000 \<and>
    clock_utc z (nonempty (Some timeZone)) t = num shown \<and>
    (off t = off (W - minutes_of (off W) * 60000) \<longrightarrow>
       \<bar>shown - W\<bar> \<le> 30000 \<and> (off t mod 60 = 0 \<longrightarrow> clock_utc z (nonempty (Some timeZone)) t = wall_utc f))"
proof -
  obtain W where W: "wall_utc f = num W" "- 39000000000000 \<le> W" "W \<le> 400000000000000" "W mod 1000 = 0"
    using wall_utc_num [OF assms(1,2)] assms(3) by metis
  have off: "\<bar>minutes_of (off t)\<bar> \<le> 1440" if "t \<in> instants" for t
    using that assms(4) minutes_of_bounds(3) by (auto simp: zone_offset_def)
  have WI: "W \<in> instants" using instants_shift [OF W(2-4), of 0] by simp
  let ?first = "W - minutes_of (off W) * 60000"
  have FI: "?first \<in> instants" using instants_shift [OF W(2-4)] off [OF WI] by blast
  let ?t = "W - minutes_of (off ?first) * 60000"
  have TI: "?t \<in> instants" using instants_shift [OF W(2-4)] off [OF FI] by blast
  have "wall_instant z timeZone (num W) = Inr ?t"
    by (simp add: wall_instant_def guess_instant_num [OF assms(4) WI W(2,3)]
        guess_instant_num [OF assms(4) FI W(2,3)] new_date_num instants_max [OF TI])
  moreover have "\<not> (timeZone \<noteq> [] \<and> \<not> ze_known z timeZone)"
    using assms(4) by (cases "timeZone = []") (auto simp: zone_offset_def zone_accepted_def)
  ultimately have iso: "wallTimeToISO z v timeZone = Some (toISOString ?t)"
    using assms(1,2) W(1) by (auto simp: wallTimeToISO_def)
  have clock: "clock_utc z (nonempty (Some timeZone)) ?t = num (?t + off ?t * 1000)"
    using assms(4) TI by (simp add: zone_offset_def)
  have near: "\<bar>?t + s * 1000 - W\<bar> \<le> 30000 \<and> (s mod 60 = 0 \<longrightarrow> ?t + s * 1000 = W)" if "s = off ?first" for s
    using minutes_of_bounds(1,2) [of s] that unfolding minutes_of_def by (auto simp: abs_le_iff)
  show ?thesis using W(1) iso clock near
    by (intro exI [of _ W] exI [of _ ?t] exI [of _ "?t + off ?t * 1000"]) auto
qed

lemma clock_fields:
  fixes ms :: int
  assumes "0 \<le> ms" "ms < 86400000" "ms mod 1000 = 0"
  shows "ms div 3600000 mod 24 = ms div 3600000"
    "ms div 3600000 * 3600000 + ms div 60000 mod 60 * 60000 + ms div 1000 mod 60 * 1000 = ms"
proof -
  show "ms div 3600000 mod 24 = ms div 3600000" using assms by (intro mod_pos_pos_trivial) auto
  have d: "ms div 60000 div 60 = ms div 3600000" "ms div 1000 div 60 = ms div 60000"
    using zdiv_zmult2_eq [of 60 ms 60000] zdiv_zmult2_eq [of 60 ms 1000] by simp_all
  have "ms = ms div 1000 * 1000" using assms(3) div_mult_mod_eq [of ms 1000] by simp
  moreover have "ms div 1000 = ms div 60000 * 60 + ms div 1000 mod 60"
    using div_mult_mod_eq [of "ms div 1000" 60] by (simp only: d)
  moreover have "ms div 60000 = ms div 3600000 * 60 + ms div 60000 mod 60"
    using div_mult_mod_eq [of "ms div 60000" 60] by (simp only: d)
  ultimately show "ms div 3600000 * 3600000 + ms div 60000 mod 60 * 60000 + ms div 1000 mod 60 * 1000 = ms"
    by linarith
qed

lemma Date_UTC_civil:
  assumes "- 45000000000000 \<le> t" "t \<le> 600000000000000" "t mod 1000 = 0"
    and "civil_from_days (t div 86400000) = (y, m, d)" and ms: "ms = t mod 86400000"
  shows "Date_UTC y (m - 1) d (ms div 3600000 mod 24) (ms div 60000 mod 60) (ms div 1000 mod 60) = num t"
proof -
  have "- 573371 \<le> t div 86400000" using assms(1) by linarith
  then have c: "days_from_civil y m 1 + (d - 1) = t div 86400000" "1 \<le> m" "m \<le> 12" "400 \<le> y"
    using days_civil [of "t div 86400000"] assms(4) by auto
  have b: "0 \<le> ms" "ms < 86400000" "ms mod 1000 = 0" using assms(3) by (simp_all add: ms mod_mod_cancel)
  then have f: "ms div 3600000 mod 24 = ms div 3600000"
    "ms div 3600000 * 3600000 + ms div 60000 mod 60 * 60000 + ms div 1000 mod 60 * 1000 = ms"
    using clock_fields [of ms] b by blast+
  have m: "(m - 1) div 12 = 0" "(m - 1) mod 12 + 1 = m" using c by simp_all
  have "t div 86400000 * 86400000 + ms = t" unfolding ms by simp
  then have "t div 86400000 * 86400000 + ms div 3600000 * 3600000 + ms div 60000 mod 60 * 60000 +
      ms div 1000 mod 60 * 1000 = t" using f(2) by linarith
  moreover have "time_clip t = Some t" using assms(1,2) by (simp add: time_clip_def max_time_def)
  moreover have "(if 0 \<le> y \<and> y \<le> 99 then 1900 + y else y) = y" using c(4) by simp
  ultimately show ?thesis unfolding Date_UTC_def Let_def by (simp only: m f(1) add_0_right c(1)) simp
qed

text \<open>
  A zone given by its offset: its clock at an instant shows the civil date and time of the instant
  moved by the offset. Every bounded offset, in whole seconds and varying with the instant, gives an
  environment with the promise. The sample is the zone of Shanghai, which counted local mean time,
  8:05:43 ahead of UTC, until 1901 and eight hours since (its years of daylight saving are left out).
\<close>

definition zone_of :: "string \<Rightarrow> (int \<Rightarrow> int) \<Rightarrow> zone_env" where
  "zone_of name off = \<lparr>ze_browser = Some (js name), ze_known = (\<lambda>s. s = js name),
     ze_parts = (\<lambda>_ t. let u = t + off t * 1000; (y, m, d) = civil_from_days (u div 86400000); ms = u mod 86400000
       in \<lparr>wp_year = y, wp_month = m, wp_day = d, wp_hour = ms div 3600000, wp_minute = ms div 60000 mod 60,
           wp_second = ms div 1000 mod 60\<rparr>)\<rparr>"

definition shanghai_off :: "int \<Rightarrow> int" where
  "shanghai_off t = (if t < - 2177481943000 then 29143 else 28800)"

definition shanghai :: zone_env where
  "shanghai = zone_of ''Asia/Shanghai'' shanghai_off"

lemma zone_of_offset:
  assumes "\<And>t. \<bar>off t\<bar> \<le> 86400" "name \<noteq> []"
  shows "zone_offset (zone_of name off) (js name) off"
proof -
  have n: "js name \<noteq> []" using assms(2) by (simp add: js_def)
  have "clock_utc (zone_of name off) (Some (js name)) t = num (t + off t * 1000)" if t: "t \<in> instants" for t
  proof -
    let ?u = "t + off t * 1000"
    obtain y m d where c: "civil_from_days (?u div 86400000) = (y, m, d)" by (metis prod_cases3)
    have "?u mod 1000 = 0" using t by (simp add: instants_def)
    moreover have "- 86400 \<le> off t" "off t \<le> 86400" using assms(1) [of t] by auto
    ultimately have "Date_UTC y (m - 1) d (?u mod 86400000 div 3600000 mod 24)
        (?u mod 86400000 div 60000 mod 60) (?u mod 86400000 div 1000 mod 60) = num ?u"
      using t c by (intro Date_UTC_civil) (auto simp: instants_def)
    then show ?thesis by (simp add: clock_utc_def zone_of_def c Let_def)
  qed
  then show ?thesis using assms(1) n by (simp add: zone_offset_def zone_accepted_def) (simp add: zone_of_def)
qed

lemma shanghai_offset: "zone_offset shanghai (js ''Asia/Shanghai'') shanghai_off"
  unfolding shanghai_def by (rule zone_of_offset) (simp_all add: shanghai_off_def)

theorem wallTimeToISO_hits_wall_time_witness:
  "wallTimeToISO shanghai (js ''2026-11-10T20:00'') (js ''Asia/Shanghai'') = Some (js ''2026-11-10T12:00:00.000Z'')"
proof -
  let ?v = "js ''2026-11-10T20:00''"
  let ?f = "\<lparr>wf_year = 2026, wf_month = 11, wf_day = 10, wf_hour = 20, wf_minute = 0, wf_second = 0\<rparr>"
  have m: "match_wall ?v = Some ?f"
    by (simp add: match_wall_def take_number_def take_char_def js_def is_digit_def)
  have W: "wall_utc ?f = num 1794340800000"
    by code_simp
  obtain t where t: "wallTimeToISO shanghai ?v (js ''Asia/Shanghai'') = Some (toISOString t)"
    "t = 1794312000000"
    using wallTimeToISO_hits_wall_time [OF m _ _ shanghai_offset] W
    by (auto simp: valid_fields_def num_def shanghai_off_def minutes_of_def)
  have "civil_from_days 20767 = (2026, 11, 10)" by code_simp
  moreover have "padded 4 2026 = js ''2026''" "padded 2 11 = js ''11''" "padded 2 10 = js ''10''"
    "padded 2 12 = js ''12''" "padded 2 0 = js ''00''" "padded 3 0 = js ''000''" by code_simp+
  ultimately have "toISOString 1794312000000 = js ''2026-11-10T12:00:00.000Z''"
    by (simp add: toISOString_def iso_year_def js_def)
  then show ?thesis using t by simp
qed

lemma february_first: "days_from_civil y 2 1 =
        (y - 1) div 400 * 146097 + ((y - 1) mod 400 * 365 + (y - 1) mod 400 div 4 - (y - 1) mod 400 div 100 + 337) - 719468"
proof -
  have a: "(if (2::int) \<le> 2 then y - 1 else y) = y - 1" "(if (2::int) \<le> 2 then 2 + 9 else 2 - 3) = (11::int)"
    "(153 * 11 + 2) div 5 = (337::int)" by simp_all
  show ?thesis unfolding days_from_civil_def Let_def a by linarith
qed

lemma march_first: "days_from_civil y 3 1 =
        y div 400 * 146097 + (y mod 400 * 365 + y mod 400 div 4 - y mod 400 div 100) - 719468"
proof -
  have a: "(if (3::int) \<le> 2 then y - 1 else y) = y" "(if (3::int) \<le> 2 then 3 + 9 else 3 - 3) = (0::int)"
    "(153 * 0 + 2) div 5 = (0::int)" by simp_all
  show ?thesis unfolding days_from_civil_def Let_def a by linarith
qed

lemma no_carry:
  fixes x b :: int
  assumes "0 < b" "(x + 1) mod b \<noteq> 0"
  shows "(x + 1) div b = x div b" "(x + 1) mod b = x mod b + 1"
proof -
  define q s where "q = (x + 1) div b" and "s = (x + 1) mod b"
  have s: "1 \<le> s" "s < b" 
  proof -
    have "0 \<le> s" "s \<noteq> 0" using assms by (simp_all add: s_def)
    then show "1 \<le> s" by simp
    show "s < b" using assms(1) by (simp add: s_def)
  qed
  have x: "x = b * q + (s - 1)" using mult_div_mod_eq [of b "x + 1"] unfolding q_def s_def by linarith
  show "(x + 1) div b = x div b" using int_div_pos_eq [OF x] s by (simp add: q_def [symmetric])
  show "(x + 1) mod b = x mod b + 1" using int_mod_pos_eq [OF x] s by (simp add: s_def [symmetric])
qed

text \<open>
  Two kinds of entry are accepted but denote another date. A year from 1 to 99 is taken as 1900 to
  1999, and a day past the end of its month counts on into the next one, so a text for 31 February
  gives the same instant as one for 3 March.
\<close>

theorem wallTimeToISO_shifts:
  assumes "match_wall v = Some f" "match_wall v' = Some f'"
    and "valid_fields f" "valid_fields f'"
    and "wf_year f < 100 \<and> f' = f\<lparr>wf_year := 1900 + wf_year f\<rparr> \<or>
         wf_month f = 2 \<and> wf_day f = 31 \<and> wf_year f mod 4 \<noteq> 0 \<and> 100 \<le> wf_year f \<and>
         f' = f\<lparr>wf_month := 3, wf_day := 3\<rparr>"
  shows "wallTimeToISO z v timeZone = wallTimeToISO z v' timeZone"
proof -
  have feb: "days_from_civil y 2 1 + 30 = days_from_civil y 3 1 + 2" if "y mod 4 \<noteq> 0" for y :: int
  proof -
    define z where "z = y - 1"
    have "z mod 400 + 1 = y + 4 * (- 100 * (z div 400))"
      using mult_div_mod_eq [of 400 z] z_def by linarith
    then have "(z mod 400 + 1) mod 4 = y mod 4" by (simp only: mod_mult_self2)
    then have n4: "(z mod 400 + 1) mod 4 \<noteq> 0" "(z + 1) mod 4 \<noteq> 0" using that by (simp_all add: z_def)
    have dvd: "x mod b \<noteq> 0" if "x mod 4 \<noteq> 0" "4 dvd b" for x b :: int
      using that by (meson dvd_imp_mod_0 dvd_trans mod_0_imp_dvd)
    have n: "(z + 1) mod 400 \<noteq> 0" "(z mod 400 + 1) mod 100 \<noteq> 0"
      by (rule dvd; use n4 in simp)+
    have p: "0 < (400 :: int)" "0 < (100 :: int)" "0 < (4 :: int)" by simp_all
    have e: "(z + 1) div 400 = z div 400" "(z + 1) mod 400 = z mod 400 + 1"
      "(z mod 400 + 1) div 4 = z mod 400 div 4" "(z mod 400 + 1) div 100 = z mod 400 div 100"
      by (rule no_carry [OF p(1) n(1)] no_carry(1) [OF p(3) n4(1)] no_carry(1) [OF p(2) n(2)])+
    have y: "y = z + 1" "z + 1 - 1 = z" by (simp_all add: z_def)
    show ?thesis unfolding february_first march_first y e distrib_right by linarith
  qed
  have "wall_utc f = wall_utc f'"
    using assms(5)
  proof (elim disjE conjE)
    assume "wf_year f < 100" "f' = f\<lparr>wf_year := 1900 + wf_year f\<rparr>"
    then show ?thesis by (simp add: wall_utc_def Date_UTC_def)
  next
    assume f: "wf_month f = 2" "wf_day f = 31" "wf_year f mod 4 \<noteq> 0" "100 \<le> wf_year f"
      "f' = f\<lparr>wf_month := 3, wf_day := 3\<rparr>"
    have "int (wf_year f) mod 4 \<noteq> 0" using f(3) by presburger
    then have "days_from_civil (int (wf_year f)) 3 1 = days_from_civil (int (wf_year f)) 2 1 + 28"
      using feb [of "int (wf_year f)"] by linarith
    then show ?thesis using f
      by (simp add: wall_utc_def Date_UTC_def Let_def ac_simps)
  qed
  then show ?thesis using assms(1-4) by (simp add: wallTimeToISO_def)
qed

theorem wallTimeToISO_shifts_witness:
  "wallTimeToISO shanghai (js ''2026-02-31T00:00'') (js ''UTC'') = wallTimeToISO shanghai (js ''2026-03-03T00:00'') (js ''UTC'')"
proof -
  let ?f = "\<lparr>wf_year = 2026, wf_month = 2, wf_day = 31, wf_hour = 0, wf_minute = 0, wf_second = 0\<rparr>"
  have "match_wall (js ''2026-02-31T00:00'') = Some ?f"
    "match_wall (js ''2026-03-03T00:00'') = Some (?f\<lparr>wf_month := 3, wf_day := 3\<rparr>)"
    by (simp_all add: match_wall_def take_number_def take_char_def js_def is_digit_def)
  then show ?thesis by (rule wallTimeToISO_shifts) (simp_all add: valid_fields_def)
qed

end
