(* ===== verification/Score_View.thy ===== *)
theory Score_View
  imports Node_Score Wall_Time
begin

text \<open>
  \<open>api/node-scores.ts\<close>: the rows of the node-score API and the view the pages render. A nullable
  field is an option; \<open>normalizeTimestamp\<close> (of \<open>api/subscriptions.ts\<close>) takes the date parser of
  \<open>date_env\<close>. The lemmas show that the view always has exactly one Claude card, that a missing
  score never becomes a number, and that row data never overrides or leaks into a source's own.
\<close>

section \<open>Timestamps\<close>

definition utc_year :: "int \<Rightarrow> int" where
  "utc_year t = fst (civil_from_days (t div 86400000))"

definition normalizeTimestamp :: "date_env \<Rightarrow> jstring option \<Rightarrow> jstring option" where
  "normalizeTimestamp env v = (case nonempty v of
     None \<Rightarrow> None
   | Some s \<Rightarrow> (case parse_date env s of
       None \<Rightarrow> None
     | Some t \<Rightarrow> if utc_year t \<le> 1 then None else Some s))"

section \<open>Rows and views\<close>

record node_score =
  ns_id :: jstring
  ns_node_name :: jstring
  ns_node_kind :: jstring
  ns_provider_name :: "jstring option"
  ns_status :: jstring
  ns_error :: jstring
  ns_error_code :: jstring
  ns_exit_ip :: jstring
  ns_exit_ip_cidr :: "jstring option"
  ns_exit_ip_source :: jstring
  ns_trust_score :: "jsnum option"
  ns_score_source :: jstring
  ns_score_url :: jstring
  ns_detail_url :: jstring
  ns_queried_ip :: "jstring option"
  ns_matched_ip :: "jstring option"
  ns_ip_mismatch :: bool
  ns_range_only :: bool
  ns_claude_ip_match :: "jstring option"
  ns_lookup_ip_match :: "jstring option"
  ns_claude_response_ip :: "jstring option"
  ns_country :: "jstring option"
  ns_country_code :: "jstring option"
  ns_asn :: "jsnum option"
  ns_asn_org :: "jstring option"
  ns_company_type :: "jstring option"
  ns_is_residential :: "bool option"
  ns_is_datacenter :: "bool option"
  ns_is_vpn :: "bool option"
  ns_is_proxy :: "bool option"
  ns_is_tor :: "bool option"
  ns_abuser_score :: "jstring option"
  ns_ai_verdict :: jsval
  ns_sources :: "jstring list option"
  ns_checked_at :: "jstring option"
  ns_last_success_at :: "jstring option"
  ns_next_due :: "jstring option"
  ns_updated_at :: "jstring option"
  ns_ip_info :: jsval

datatype node_kind = Static | Provider

datatype score_status = Pending | Checking | Ok | Failed | Skipped

record node_score_view =
  v_id :: jstring
  v_kind :: node_kind
  v_nodeName :: jstring
  v_providerName :: jstring
  v_status :: score_status
  v_score :: "jsnum option"
  v_scoreSource :: jstring
  v_ipMatch :: ip_match
  v_ipMismatch :: bool
  v_rangeOnly :: bool
  v_exitIp :: "jstring option"
  v_exitIpCidr :: "jstring option"
  v_queriedIp :: "jstring option"
  v_matchedIp :: "jstring option"
  v_sources :: "source_intel list"
  v_checkedAt :: "jstring option"
  v_lastSuccessAt :: "jstring option"
  v_nextDue :: "jstring option"
  v_updatedAt :: "jstring option"
  v_error :: jstring
  v_errorCode :: jstring

definition mergeRowIntel :: "ip_intel \<Rightarrow> node_score \<Rightarrow> ip_intel" where
  "mergeRowIntel intel row = intel\<lparr>
     ii_country := nullish (ii_country intel) (ns_country row),
     ii_countryCode := nullish (ii_countryCode intel) (ns_country_code row),
     ii_asn := nullish (ii_asn intel) (ns_asn row),
     ii_asnOrg := nullish (ii_asnOrg intel) (ns_asn_org row),
     ii_companyType := nullish (ii_companyType intel) (ns_company_type row),
     ii_isResidential := nullish (ii_isResidential intel) (ns_is_residential row),
     ii_isDatacenter := nullish (ii_isDatacenter intel) (ns_is_datacenter row),
     ii_isVpn := nullish (ii_isVpn intel) (ns_is_vpn row),
     ii_isProxy := nullish (ii_isProxy intel) (ns_is_proxy row),
     ii_isTor := nullish (ii_isTor intel) (ns_is_tor row),
     ii_abuserScore := nullish (ii_abuserScore intel) (ns_abuser_score row),
     ii_trustScore := nullish (ii_trustScore intel) (ns_trust_score row)\<rparr>"

definition js_str_opt :: "jstring option \<Rightarrow> jsval" where
  "js_str_opt x = (case x of Some s \<Rightarrow> JStr s | None \<Rightarrow> Null)"

definition js_num_opt :: "jsnum option \<Rightarrow> jsval" where
  "js_num_opt x = (case x of Some n \<Rightarrow> JNum n | None \<Rightarrow> Null)"

definition js_bool_opt :: "bool option \<Rightarrow> jsval" where
  "js_bool_opt x = (case x of Some b \<Rightarrow> JBool b | None \<Rightarrow> Null)"

definition finite_score :: "jsnum option \<Rightarrow> jsnum option" where
  "finite_score x = (case x of Some n \<Rightarrow> if is_finite n then Some n else None | None \<Rightarrow> None)"

definition syntheticClaudeSource :: "node_score \<Rightarrow> ip_match option \<Rightarrow> source_intel" where
  "syntheticClaudeSource row lookupMatch =
     (let intel = normalizeIpInfo (JObj
            [(js ''country'', js_str_opt (ns_country row)),
             (js ''countryCode'', js_str_opt (ns_country_code row)),
             (js ''asn'', js_num_opt (ns_asn row)),
             (js ''asOrganization'', js_str_opt (ns_asn_org row)),
             (js ''company_type'', js_str_opt (ns_company_type row)),
             (js ''is_residential'', js_bool_opt (ns_is_residential row)),
             (js ''is_datacenter'', js_bool_opt (ns_is_datacenter row)),
             (js ''is_vpn'', js_bool_opt (ns_is_vpn row)),
             (js ''is_proxy'', js_bool_opt (ns_is_proxy row)),
             (js ''is_tor'', js_bool_opt (ns_is_tor row)),
             (js ''abuser_score'', js_str_opt (ns_abuser_score row)),
             (js ''trust_score'', js_num_opt (ns_trust_score row))])
      in \<lparr>si_source = Claude,
          si_queryIp = str_or (ns_queried_ip row) (nonempty (Some (ns_exit_ip row))),
          si_responseIp = str_or (ns_matched_ip row) (nonempty (ns_claude_response_ip row)),
          si_ipMatch =
            (if lookupMatch = Some Mismatch then UnknownMatch
             else normalizeIpMatch (coalesce (js_str_opt (ns_claude_ip_match row)) (JStr (js ''unknown'')))),
          si_cidr = ns_exit_ip_cidr row,
          si_trustScore = finite_score (ns_trust_score row),
          si_intel = intel\<rparr>)"

definition normalizeScoreStatus :: "jstring \<Rightarrow> score_status" where
  "normalizeScoreStatus v =
     (if v = js ''testing'' then Checking
      else if v = js ''failed'' then Failed
      else if v = js ''checking'' then Checking
      else if v = js ''ok'' then Ok
      else if v = js ''error'' then Failed
      else if v = js ''skipped'' then Skipped
      else Pending)"

definition view_sources :: "node_score \<Rightarrow> source_intel list" where
  "view_sources row =
     (let sources = parseScoreSources (ns_ip_info row) (if ns_range_only row then JStr (js ''cidr'') else Undef)
      in case source_of Claude sources of
           None \<Rightarrow> syntheticClaudeSource row (map_option si_ipMatch (source_of Lookup sources)) # sources
         | Some _ \<Rightarrow> map (\<lambda>s. if si_source s = Claude
                            then s\<lparr>si_intel := mergeRowIntel (si_intel s) row\<rparr> else s) sources)"

definition view_match :: "node_score \<Rightarrow> ip_match" where
  "view_match row = normalizeIpMatch
     (if ns_ip_mismatch row then JStr (js ''mismatch'')
      else if ns_range_only row then JStr (js ''cidr'')
      else case nonempty (ns_claude_ip_match row) of
        Some m \<Rightarrow> JStr m
      | None \<Rightarrow> if nonempty (ns_matched_ip row) \<noteq> None then JStr (js ''exact'') else JStr (js ''unknown''))"

definition toNodeScoreView :: "date_env \<Rightarrow> node_score \<Rightarrow> node_score_view" where
  "toNodeScoreView env row = \<lparr>
     v_id = ns_id row,
     v_kind = (if ns_node_kind row = js ''provider'' then Provider else Static),
     v_nodeName = ns_node_name row,
     v_providerName = or_default (ns_provider_name row) [],
     v_status = normalizeScoreStatus (ns_status row),
     v_score = finite_score (ns_trust_score row),
     v_scoreSource = ns_score_source row,
     v_ipMatch = view_match row,
     v_ipMismatch = ns_ip_mismatch row,
     v_rangeOnly = ns_range_only row,
     v_exitIp = nonempty (Some (ns_exit_ip row)),
     v_exitIpCidr = nonempty (ns_exit_ip_cidr row),
     v_queriedIp = nonempty (ns_queried_ip row),
     v_matchedIp = str_or (ns_matched_ip row) (nonempty (ns_claude_response_ip row)),
     v_sources = view_sources row,
     v_checkedAt = normalizeTimestamp env (ns_checked_at row),
     v_lastSuccessAt = normalizeTimestamp env (ns_last_success_at row),
     v_nextDue = normalizeTimestamp env (ns_next_due row),
     v_updatedAt = normalizeTimestamp env (ns_updated_at row),
     v_error = ns_error row,
     v_errorCode = ns_error_code row\<rparr>"

section \<open>The cards of a view\<close>

lemma source_of_simps [simp]:
  "source_of s [] = None"
  "source_of s (x # xs) = (if si_source x = s then Some x else source_of s xs)"
  by (simp_all add: source_of_def)

lemma synthetic_source [simp]: "si_source (syntheticClaudeSource row m) = Claude"
  by (simp add: syntheticClaudeSource_def Let_def)

lemma parse_shapes:
  obtains "parseScoreSources raw pm = []"
  | c where "parseScoreSources raw pm = [buildSource Claude c pm]"
  | l where "parseScoreSources raw pm = [buildSource Lookup l pm]"
  | c l where "parseScoreSources raw pm = [buildSource Claude c pm, buildSource Lookup l pm]"
proof -
  have "parseScoreSources raw pm = [] \<or> (\<exists>c. parseScoreSources raw pm = [buildSource Claude c pm]) \<or>
      (\<exists>l. parseScoreSources raw pm = [buildSource Lookup l pm]) \<or>
      (\<exists>c l. parseScoreSources raw pm = [buildSource Claude c pm, buildSource Lookup l pm])"
    by (auto simp: parseScoreSources_def Let_def split: option.splits)
  then show thesis using that by blast
qed

text \<open>
  A view always has exactly one Claude card, first, and at most one lookup card, which is
  exactly the one the payload holds: row-level data completes the Claude card only.
\<close>

theorem view_cards:
  "let sources = parseScoreSources (ns_ip_info row) (if ns_range_only row then JStr (js ''cidr'') else Undef)
   in map si_source (v_sources (toNodeScoreView env row)) \<in> {[Claude], [Claude, Lookup]} \<and>
      source_of Lookup (v_sources (toNodeScoreView env row)) = source_of Lookup sources"
proof -
  let ?pm = "if ns_range_only row then JStr (js ''cidr'') else Undef"
  show ?thesis
    by (rule parse_shapes [of "ns_ip_info row" ?pm])
       (simp_all add: toNodeScoreView_def view_sources_def Let_def)
qed

lemma mergeRowIntel_keeps:
  "ii_country i = Some c \<Longrightarrow> ii_country (mergeRowIntel i row) = Some c"
  "ii_trustScore i = Some t \<Longrightarrow> ii_trustScore (mergeRowIntel i row) = Some t"
  by (simp_all add: mergeRowIntel_def)

text \<open>The fields of a card a row can complete, with the row's own value for each.\<close>

definition merged_strings :: "ip_intel \<Rightarrow> jstring option list" where
  "merged_strings i = [ii_country i, ii_countryCode i, ii_asnOrg i, ii_companyType i, ii_abuserScore i]"

definition row_strings :: "node_score \<Rightarrow> jstring option list" where
  "row_strings r = [ns_country r, ns_country_code r, ns_asn_org r, ns_company_type r, ns_abuser_score r]"

definition merged_flags :: "ip_intel \<Rightarrow> bool option list" where
  "merged_flags i = [ii_isResidential i, ii_isDatacenter i, ii_isVpn i, ii_isProxy i, ii_isTor i]"

definition row_flags :: "node_score \<Rightarrow> bool option list" where
  "row_flags r = [ns_is_residential r, ns_is_datacenter r, ns_is_vpn r, ns_is_proxy r, ns_is_tor r]"

text \<open>
  Completing a card from its row fills the unknown fields only, each from the row's field of
  the same meaning; a value the payload gave is never overridden, all other fields are unchanged,
  and merging the same row again changes nothing.
\<close>

theorem mergeRowIntel_fills_only_gaps:
  "merged_strings (mergeRowIntel i row) = map2 nullish (merged_strings i) (row_strings row) \<and>
   merged_flags (mergeRowIntel i row) = map2 nullish (merged_flags i) (row_flags row) \<and>
   ii_asn (mergeRowIntel i row) = nullish (ii_asn i) (ns_asn row) \<and>
   ii_trustScore (mergeRowIntel i row) = nullish (ii_trustScore i) (ns_trust_score row) \<and>
   ii_ip (mergeRowIntel i row) = ii_ip i \<and> ii_cidr (mergeRowIntel i row) = ii_cidr i \<and>
   ii_sources (mergeRowIntel i row) = ii_sources i \<and> ii_raw (mergeRowIntel i row) = ii_raw i \<and>
   mergeRowIntel (mergeRowIntel i row) row = mergeRowIntel i row"
proof -
  have n: "nullish (nullish a b) b = nullish a b" for a b :: "'b option"
    by (cases a; cases b) simp_all
  show ?thesis
    by (simp add: mergeRowIntel_def merged_strings_def row_strings_def merged_flags_def row_flags_def n)
qed

lemma finite_score_Some: "finite_score x = Some n \<longleftrightarrow> x = Some n \<and> is_finite n"
  by (auto simp: finite_score_def split: option.splits)

text \<open>
  The score of a view is the row's score when that is a finite number, and unknown otherwise:
  a missing score never shows as 0, and the synthetic Claude card shows the same score.
\<close>

theorem view_score_not_invented:
  "(v_score (toNodeScoreView env row) = Some n \<longleftrightarrow> ns_trust_score row = Some n \<and> is_finite n) \<and>
   si_trustScore (syntheticClaudeSource row m) = v_score (toNodeScoreView env row) \<and>
   ii_trustScore (si_intel (syntheticClaudeSource row m)) = v_score (toNodeScoreView env row)"
  by (auto simp: toNodeScoreView_def finite_score_Some syntheticClaudeSource_def Let_def
      normalizeIpInfo_def asRecord_def num_prop_def num_of_def js_num_opt_def finite_score_def
      split: option.splits)

text \<open>
  A reported mismatch dominates everything else, a CIDR-only match comes next, and \<open>exact\<close> is
  shown only for a row that is neither and either says so itself or names the matched address.
\<close>

theorem view_match_precedence:
  "(ns_ip_mismatch row \<longrightarrow> v_ipMatch (toNodeScoreView env row) = Mismatch) \<and>
   (\<not> ns_ip_mismatch row \<and> ns_range_only row \<longrightarrow> v_ipMatch (toNodeScoreView env row) = Cidr) \<and>
   (v_ipMatch (toNodeScoreView env row) = Exact \<longrightarrow>
      \<not> ns_ip_mismatch row \<and> \<not> ns_range_only row \<and>
      (ns_claude_ip_match row = Some (js ''exact'') \<or>
       (nonempty (ns_claude_ip_match row) = None \<and> nonempty (ns_matched_ip row) \<noteq> None)))"
  by (auto simp: toNodeScoreView_def view_match_def normalizeIpMatch_def split: option.splits if_splits)

definition sample_row :: node_score where
  "sample_row = \<lparr>
     ns_id = js ''n1'', ns_node_name = js ''node'', ns_node_kind = js ''static'', ns_provider_name = None,
     ns_status = js ''testing'', ns_error = [], ns_error_code = [], ns_exit_ip = js ''1.2.3.4'',
     ns_exit_ip_cidr = None, ns_exit_ip_source = [], ns_trust_score = None, ns_score_source = [],
     ns_score_url = [], ns_detail_url = [], ns_queried_ip = None,
     ns_matched_ip = Some (js ''1.2.3.4''), ns_ip_mismatch = True, ns_range_only = True,
     ns_claude_ip_match = None, ns_lookup_ip_match = None, ns_claude_response_ip = None, ns_country = Some (js ''Japan''),
     ns_country_code = None, ns_asn = None, ns_asn_org = None, ns_company_type = None,
     ns_is_residential = None, ns_is_datacenter = None, ns_is_vpn = None, ns_is_proxy = None,
     ns_is_tor = None, ns_abuser_score = None, ns_ai_verdict = Null, ns_sources = None,
     ns_checked_at = None, ns_last_success_at = None,
     ns_next_due = None, ns_updated_at = None, ns_ip_info = Null\<rparr>"

theorem view_match_precedence_witness:
  "v_ipMatch (toNodeScoreView (sample_env None) sample_row) = Mismatch"
  using view_match_precedence [of sample_row] by (simp add: sample_row_def)

end
