(* ===== verification/Node_Inventory.thy ===== *)
theory Node_Inventory
  imports Js_Value "HOL-Library.List_Lexorder"
begin

text \<open>
  \<open>lib/node-inventory.ts\<close> and the row types of \<open>api/proxies.ts\<close> and \<open>api/runtime.ts\<close>: one table
  for the static proxies and the nodes of the native proxy-providers. \<open>lower\<close> is
  \<open>toLowerCase\<close>. A protocol is \<open>keyed\<close> because \<open>PROTOCOL_ALIASES[key]\<close> also finds inherited
  properties. The lemmas show that keys never collide, that the merge keeps every node in order
  and provider rows read-only, and what each filter and option list contains.
\<close>

section \<open>Rows\<close>

record proxy =
  px_id :: jstring
  px_name :: jstring
  px_type :: jstring
  px_country :: "jstring option"
  px_config :: "(jstring \<times> jsval) list option"
  px_sort_order :: jsnum
  px_created_at :: jstring
  px_updated_at :: jstring

datatype provider_status = StOk | StUnknown

record provider_node =
  rn_id :: jstring
  rn_name :: jstring
  rn_type :: jstring
  rn_provider :: jstring
  rn_alive :: "bool option"
  rn_udp :: "bool option"
  rn_delay :: "jsnum option"

record proxy_provider =
  rp_name :: jstring
  rp_type :: jstring
  rp_vehicle_type :: jstring
  rp_status :: provider_status
  rp_updated_at :: "jstring option"
  rp_node_count :: "jsnum option"
  rp_nodes :: "provider_node list option"

datatype row_kind = StaticRow | ProviderRow

record node_row =
  nr_key :: jstring
  nr_kind :: row_kind
  nr_id :: jstring
  nr_name :: jstring
  nr_protocol :: keyed
  nr_providerName :: jstring
  nr_providerStatus :: "provider_status option"
  nr_country :: jstring
  nr_server :: jstring
  nr_alive :: "bool option"
  nr_udp :: "bool option"
  nr_delay :: "jsnum option"
  nr_readOnly :: bool
  nr_proxy :: "proxy option"
  nr_providerNode :: "provider_node option"

section \<open>Sources and protocols\<close>

definition ALL_SOURCES :: jstring where
  "ALL_SOURCES = js ''__all__''"

definition STATIC_SOURCE :: jstring where
  "STATIC_SOURCE = js ''__static__''"

definition provider_prefix :: jstring where
  "provider_prefix = js ''provider:''"

definition providerSource :: "jstring \<Rightarrow> jstring" where
  "providerSource name = provider_prefix @ name"

definition PROTOCOL_ALIASES :: "(string \<times> string) list" where
  "PROTOCOL_ALIASES =
     [(''shadowsocks'', ''ss''), (''shadowsocksr'', ''ssr''), (''ssr'', ''ssr''), (''vmess'', ''vmess''),
      (''vless'', ''vless''), (''trojan'', ''trojan''), (''hysteria'', ''hysteria''),
      (''hysteria2'', ''hysteria2''), (''tuic'', ''tuic''), (''anytls'', ''anytls''), (''http'', ''http''),
      (''socks5'', ''socks5''), (''snell'', ''snell''), (''wireguard'', ''wireguard''), (''ssh'', ''ssh''),
      (''mieru'', ''mieru'')]"

definition BASE_PROTOCOLS :: "jstring list" where
  "BASE_PROTOCOLS = map js
     [''ss'', ''ssr'', ''vmess'', ''vless'', ''trojan'', ''hysteria'', ''hysteria2'', ''tuic'', ''anytls'',
      ''http'', ''socks5'', ''snell'', ''wireguard'']"

text \<open>\<open>replace(/[\s_-]+/g, '')\<close> removes every unit of the class.\<close>

definition is_separator :: "nat \<Rightarrow> bool" where
  "is_separator u \<longleftrightarrow> is_ws u \<or> u = 95 \<or> u = 45"

definition protocol_key :: "(jstring \<Rightarrow> jstring) \<Rightarrow> jstring \<Rightarrow> jstring" where
  "protocol_key lower raw = filter (\<lambda>u. \<not> is_separator u) (lower (trim raw))"

definition normalizeProtocol :: "(jstring \<Rightarrow> jstring) \<Rightarrow> jstring \<Rightarrow> keyed" where
  "normalizeProtocol lower raw =
     (let key = protocol_key lower raw
      in case table_get PROTOCOL_ALIASES key of Some k \<Rightarrow> k | None \<Rightarrow> Own key)"

definition dash :: jstring where
  "dash = [8212]"

definition is_blank_value :: "jsval \<Rightarrow> bool" where
  "is_blank_value v \<longleftrightarrow> v = Undef \<or> v = Null \<or> v = JStr []"

definition serverLabel :: "(jstring \<times> jsval) list \<Rightarrow> jstring" where
  "serverLabel config =
     (let server = prop_of config ''server''; port = prop_of config ''port''
      in if is_blank_value server then dash
         else if is_blank_value port then to_str server
         else to_str server @ [58] @ to_str port)"

section \<open>Merging\<close>

text \<open>\<open>push\<close>: the first of \<open>key\<close>, \<open>key#2\<close>, \<open>key#3\<close>, ... that is not used yet.\<close>

definition suffixed :: "jstring \<Rightarrow> nat \<Rightarrow> jstring" where
  "suffixed base n = base @ [35] @ dec_digits n"

lemma suffixed_inj [simp]: "suffixed base m = suffixed base n \<longleftrightarrow> m = n"
  by (simp add: suffixed_def)

function free_key :: "jstring list \<Rightarrow> jstring \<Rightarrow> nat \<Rightarrow> jstring" where
  "free_key used base n =
     (if suffixed base n \<in> set used then free_key used base (Suc n) else suffixed base n)"
  by pat_completeness auto
termination
proof (relation "measure (\<lambda>(used, base, n). card {m. n \<le> m \<and> suffixed base m \<in> set used})", goal_cases)
  case 1
  then show ?case by simp
next
  case (2 used base n)
  have "finite (suffixed base -` set used)"
    by (rule finite_vimageI) (auto intro: injI)
  then have fin: "finite {m. n \<le> m \<and> suffixed base m \<in> set used}"
    by (rule rev_finite_subset) auto
  have "n \<in> {m. n \<le> m \<and> suffixed base m \<in> set used}"
    "n \<notin> {m. Suc n \<le> m \<and> suffixed base m \<in> set used}" using 2 by simp_all
  moreover have "{m. Suc n \<le> m \<and> suffixed base m \<in> set used} \<subseteq> {m. n \<le> m \<and> suffixed base m \<in> set used}"
    by auto
  ultimately have "{m. Suc n \<le> m \<and> suffixed base m \<in> set used} \<subset> {m. n \<le> m \<and> suffixed base m \<in> set used}"
    by blast
  then show ?case using psubset_card_mono [OF fin] by simp
qed

declare free_key.simps [simp del]

definition unique_key :: "jstring list \<Rightarrow> jstring \<Rightarrow> jstring" where
  "unique_key used base = (if base \<in> set used then free_key used base 2 else base)"

fun push_rows :: "jstring list \<Rightarrow> node_row list \<Rightarrow> node_row list" where
  "push_rows used [] = []"
| "push_rows used (row # rest) =
     (let key = unique_key used (nr_key row)
      in row\<lparr>nr_key := key\<rparr> # push_rows (key # used) rest)"

definition static_row :: "(jstring \<Rightarrow> jstring) \<Rightarrow> proxy \<Rightarrow> node_row" where
  "static_row lower p =
     (let config = or_default (px_config p) []
      in \<lparr>nr_key = js ''static:'' @ px_id p, nr_kind = StaticRow, nr_id = px_id p, nr_name = px_name p,
          nr_protocol = normalizeProtocol lower (px_type p), nr_providerName = [],
          nr_providerStatus = None, nr_country = or_default (px_country p) [],
          nr_server = serverLabel config, nr_alive = None,
          nr_udp = (case prop_of config ''udp'' of JBool b \<Rightarrow> Some b | _ \<Rightarrow> None),
          nr_delay = None, nr_readOnly = False, nr_proxy = Some p, nr_providerNode = None\<rparr>)"

definition provider_row :: "(jstring \<Rightarrow> jstring) \<Rightarrow> proxy_provider \<Rightarrow> provider_node \<Rightarrow> node_row" where
  "provider_row lower pr n =
     \<lparr>nr_key = provider_prefix @ rn_id n, nr_kind = ProviderRow, nr_id = rn_id n, nr_name = rn_name n,
      nr_protocol = normalizeProtocol lower (rn_type n), nr_providerName = rp_name pr,
      nr_providerStatus = Some (rp_status pr), nr_country = [], nr_server = dash,
      nr_alive = rn_alive n, nr_udp = rn_udp n, nr_delay = rn_delay n, nr_readOnly = True,
      nr_proxy = None, nr_providerNode = Some n\<rparr>"

definition raw_rows :: "(jstring \<Rightarrow> jstring) \<Rightarrow> proxy list \<Rightarrow> proxy_provider list \<Rightarrow> node_row list" where
  "raw_rows lower proxies providers =
     map (static_row lower) proxies @
     concat (map (\<lambda>pr. map (provider_row lower pr) (or_default (rp_nodes pr) [])) providers)"

definition buildNodeRows :: "(jstring \<Rightarrow> jstring) \<Rightarrow> proxy list \<Rightarrow> proxy_provider list \<Rightarrow> node_row list" where
  "buildNodeRows lower proxies providers = push_rows [] (raw_rows lower proxies providers)"

section \<open>Filters and options\<close>

record node_filters =
  nf_search :: "jstring option"
  nf_protocol :: "jstring option"
  nf_source :: "jstring option"
  nf_country :: "jstring option"

definition source_ok :: "jstring \<Rightarrow> node_row \<Rightarrow> bool" where
  "source_ok source row =
     (if source = STATIC_SOURCE then nr_kind row = StaticRow
      else if starts_with source provider_prefix then
        nr_providerName row = drop (length provider_prefix) source
      else True)"

definition row_matches :: "(jstring \<Rightarrow> jstring) \<Rightarrow> node_filters \<Rightarrow> node_row \<Rightarrow> bool" where
  "row_matches lower f row =
     (let needle = lower (trim (or_default (nf_search f) []));
          source = or_default (nf_source f) ALL_SOURCES;
          haystack = lower (nr_name row @ [10] @ nr_providerName row)
      in (needle \<noteq> [] \<longrightarrow> str_includes haystack needle) \<and>
         (case nonempty (nf_protocol f) of Some p \<Rightarrow> nr_protocol row = Own p | None \<Rightarrow> True) \<and>
         source_ok source row \<and>
         (case nonempty (nf_country f) of
            Some c \<Rightarrow> nr_kind row = StaticRow \<and> nr_country row = c | None \<Rightarrow> True))"

definition filterNodeRows :: "(jstring \<Rightarrow> jstring) \<Rightarrow> node_row list \<Rightarrow> node_filters \<Rightarrow> node_row list" where
  "filterNodeRows lower rows filters = filter (row_matches lower filters) rows"

definition PROTOCOL_LABELS :: "(string \<times> string) list" where
  "PROTOCOL_LABELS =
     [(''ss'', ''SS''), (''ssr'', ''SSR''), (''vmess'', ''VMess''), (''vless'', ''VLESS''),
      (''trojan'', ''Trojan''), (''hysteria'', ''Hysteria''), (''hysteria2'', ''Hysteria2''),
      (''tuic'', ''TUIC''), (''anytls'', ''AnyTLS''), (''http'', ''HTTP''), (''socks5'', ''SOCKS5''),
      (''snell'', ''Snell''), (''wireguard'', ''WireGuard''), (''ssh'', ''SSH''), (''mieru'', ''Mieru'')]"

definition protocolLabel :: "jstring \<Rightarrow> keyed" where
  "protocolLabel protocol =
     (case table_get PROTOCOL_LABELS protocol of Some k \<Rightarrow> k | None \<Rightarrow> Own protocol)"

definition protocolOptions :: "node_row list \<Rightarrow> keyed list" where
  "protocolOptions rows =
     fold set_add (filter (\<lambda>p. p \<noteq> Own []) (map nr_protocol rows)) (map Own BASE_PROTOCOLS)"

definition countryOptions :: "node_row list \<Rightarrow> jstring list" where
  "countryOptions rows =
     sort (set_of_list (filter (\<lambda>c. c \<noteq> [])
       (map nr_country (filter (\<lambda>r. nr_kind r = StaticRow) rows))))"

record provider_summary =
  ps_name :: jstring
  ps_status :: provider_status
  ps_nodeCount :: "jsnum option"
  ps_updatedAt :: jstring

definition providerSummaries :: "proxy_provider list \<Rightarrow> provider_summary list" where
  "providerSummaries providers = map (\<lambda>p.
     \<lparr>ps_name = rp_name p, ps_status = rp_status p,
      ps_nodeCount = (if rp_status p = StOk then rp_node_count p else None),
      ps_updatedAt = or_default (rp_updated_at p) []\<rparr>) providers"

section \<open>The merged table\<close>

lemma free_key_fresh: "free_key used base n \<notin> set used"
proof (induction used base n rule: free_key.induct)
  case (1 used base n)
  then show ?case
    by (cases "suffixed base n \<in> set used") (simp_all add: free_key.simps [of used base n])
qed

lemma unique_key_fresh: "unique_key used base \<notin> set used"
  by (simp add: unique_key_def free_key_fresh)

lemma push_rows_keys:
  "distinct (map nr_key (push_rows used rows)) \<and> set (map nr_key (push_rows used rows)) \<inter> set used = {}"
proof (induction rows arbitrary: used)
  case Nil
  then show ?case by simp
next
  case (Cons row rows)
  let ?k = "unique_key used (nr_key row)"
  show ?case using Cons.IH [of "?k # used"] unique_key_fresh [of used "nr_key row"]
    by (auto simp: Let_def)
qed

lemma push_rows_content:
  "map (\<lambda>r. r\<lparr>nr_key := []\<rparr>) (push_rows used rows) = map (\<lambda>r. r\<lparr>nr_key := []\<rparr>) rows"
  by (induction rows arbitrary: used) (auto simp: Let_def)

lemma push_rows_unchanged:
  "distinct (map nr_key rows) \<Longrightarrow> set (map nr_key rows) \<inter> set used = {} \<Longrightarrow> push_rows used rows = rows"
  by (induction rows arbitrary: used) (auto simp: Let_def unique_key_def)

text \<open>
  C2: the keys of the merged table never collide, however many nodes share a name, an id or a
  provider; the merge drops, adds and reorders nothing (static rows first, then the providers'
  nodes in their order) and changes nothing but keys; and keys that are already distinct are kept.
\<close>

theorem buildNodeRows_keys_unique:
  "distinct (map nr_key (buildNodeRows lower proxies providers)) \<and>
   map (\<lambda>r. r\<lparr>nr_key := []\<rparr>) (buildNodeRows lower proxies providers) =
     map (\<lambda>r. r\<lparr>nr_key := []\<rparr>) (raw_rows lower proxies providers) \<and>
   (distinct (map nr_key (raw_rows lower proxies providers)) \<longrightarrow>
      buildNodeRows lower proxies providers = raw_rows lower proxies providers)"
  using push_rows_keys [of "[]"] push_rows_unchanged [of _ "[]"]
  by (simp add: buildNodeRows_def push_rows_content)

definition sample_node :: "string \<Rightarrow> provider_node" where
  "sample_node name = \<lparr>rn_id = js ''p/n'', rn_name = js name, rn_type = js ''AnyTLS'', rn_provider = js ''p'',
     rn_alive = None, rn_udp = Some True, rn_delay = None\<rparr>"

definition sample_provider :: proxy_provider where
  "sample_provider = \<lparr>rp_name = js ''p'', rp_type = js ''Proxy'', rp_vehicle_type = js ''HTTP'',
     rp_status = StOk, rp_updated_at = None, rp_node_count = Some (num 2),
     rp_nodes = Some [sample_node ''a'', sample_node ''b'']\<rparr>"

lemma sample_keys:
  "map nr_key (buildNodeRows lower_ascii [] [sample_provider]) = [js ''provider:p/n'', js ''provider:p/n#2'']"
  by (simp add: buildNodeRows_def raw_rows_def provider_row_def sample_provider_def sample_node_def
      unique_key_def free_key.simps suffixed_def dec_digits_eval provider_prefix_def js_def)

theorem buildNodeRows_keys_unique_witness:
  "distinct [js ''provider:p/n'', js ''provider:p/n#2''] \<and>
   buildNodeRows lower_ascii [] [] = []"
  using buildNodeRows_keys_unique [of lower_ascii "[]" "[sample_provider]"]
    buildNodeRows_keys_unique [of lower_ascii "[]" "[]"]
  unfolding sample_keys by (simp add: raw_rows_def)

lemma push_rows_member:
  assumes "r \<in> set (push_rows used rows)"
  obtains r' k where "r' \<in> set rows" "r = r'\<lparr>nr_key := k\<rparr>"
  using assms by (induction rows arbitrary: used thesis) (auto simp: Let_def)

lemma buildNodeRows_member:
  assumes "r \<in> set (buildNodeRows lower proxies providers)"
  shows "(nr_kind r = StaticRow \<longrightarrow> \<not> nr_readOnly r \<and>
            (\<exists>p \<in> set proxies. nr_proxy r = Some p \<and> nr_id r = px_id p \<and> nr_name r = px_name p) \<and>
            nr_providerName r = []) \<and>
         (nr_kind r = ProviderRow \<longrightarrow> nr_readOnly r \<and> nr_proxy r = None \<and> nr_country r = [] \<and>
            (\<exists>pr \<in> set providers. nr_providerName r = rp_name pr \<and>
               (\<exists>n \<in> set (or_default (rp_nodes pr) []). nr_name r = rn_name n \<and> nr_providerNode r = Some n)))"
proof -
  obtain r' k where r': "r' \<in> set (raw_rows lower proxies providers)" "r = r'\<lparr>nr_key := k\<rparr>"
    using assms unfolding buildNodeRows_def by (rule push_rows_member)
  then consider p where "p \<in> set proxies" "r' = static_row lower p"
    | pr n where "pr \<in> set providers" "n \<in> set (or_default (rp_nodes pr) [])" "r' = provider_row lower pr n"
    by (auto simp: raw_rows_def)
  then show ?thesis
    by cases (auto simp: r'(2) static_row_def provider_row_def Let_def)
qed

text \<open>
  A row is read-only exactly when it is a subscription node. A static row carries the proxy it
  came from (so it can be edited, copied and deleted); a provider row carries no proxy at all, and
  its name, provider and node are those the backend reported, so a delay test addresses that node.
\<close>

theorem buildNodeRows_read_only:
  assumes "r \<in> set (buildNodeRows lower proxies providers)"
  shows "(nr_kind r = StaticRow \<longrightarrow> \<not> nr_readOnly r \<and>
            (\<exists>p \<in> set proxies. nr_proxy r = Some p \<and> nr_id r = px_id p \<and> nr_name r = px_name p) \<and>
            nr_providerName r = []) \<and>
         (nr_kind r = ProviderRow \<longrightarrow> nr_readOnly r \<and> nr_proxy r = None \<and> nr_country r = [] \<and>
            (\<exists>pr \<in> set providers. nr_providerName r = rp_name pr \<and>
               (\<exists>n \<in> set (or_default (rp_nodes pr) []). nr_name r = rn_name n \<and> nr_providerNode r = Some n)))"
  using assms by (rule buildNodeRows_member)

theorem buildNodeRows_read_only_witness:
  "\<exists>r \<in> set (buildNodeRows lower_ascii [] [sample_provider]).
     nr_readOnly r \<and> nr_proxy r = None \<and> nr_providerName r = js ''p''"
proof -
  let ?rows = "buildNodeRows lower_ascii [] [sample_provider]"
  have "?rows \<noteq> []" using sample_keys by auto
  then have r: "hd ?rows \<in> set ?rows" by simp
  moreover have "nr_kind (hd ?rows) = ProviderRow"
    by (simp add: buildNodeRows_def raw_rows_def sample_provider_def provider_row_def Let_def)
  ultimately show ?thesis
    using buildNodeRows_read_only [OF r] by (auto simp: sample_provider_def)
qed

section \<open>Filters\<close>

lemma js_prefix_no_match: "\<not> starts_with ALL_SOURCES provider_prefix" "providerSource n \<noteq> STATIC_SOURCE"
  by (simp_all add: starts_with_def ALL_SOURCES_def STATIC_SOURCE_def provider_prefix_def
      providerSource_def js_def)

lemma source_ok_provider: "source_ok (providerSource name) row \<longleftrightarrow> nr_providerName row = name"
  using js_prefix_no_match(2) [of name] by (simp add: source_ok_def) (simp add: providerSource_def)

lemma source_ok_all: "source_ok ALL_SOURCES row"
  using js_prefix_no_match(1) by (auto simp: source_ok_def ALL_SOURCES_def STATIC_SOURCE_def)

definition only_source :: "jstring \<Rightarrow> node_filters" where
  "only_source s = \<lparr>nf_search = None, nf_protocol = None, nf_source = Some s, nf_country = None\<rparr>"

text \<open>
  The filters mean what the page says. Without a filter every row is shown; the source of a
  provider (with a name) shows exactly that provider's nodes and never a static row; the static
  source shows exactly the static rows; a country filter shows static rows of that country only.
\<close>

theorem filterNodeRows_sources:
  assumes "lower_laws lower" "name \<noteq> []" "nf_country f = Some c" "c \<noteq> []"
    and rows: "rows = buildNodeRows lower proxies providers"
  shows "filterNodeRows lower rows (only_source ALL_SOURCES) = rows \<and>
    filterNodeRows lower rows (only_source (providerSource name)) =
      filter (\<lambda>r. nr_kind r = ProviderRow \<and> nr_providerName r = name) rows \<and>
    filterNodeRows lower rows (only_source STATIC_SOURCE) = filter (\<lambda>r. nr_kind r = StaticRow) rows \<and>
    (\<forall>r \<in> set (filterNodeRows lower rows f). nr_kind r = StaticRow \<and> nr_country r = c)"
proof -
  have m: "row_matches lower (only_source s) r \<longleftrightarrow> source_ok s r" for s r
    using lower_laws_Nil [OF assms(1)] by (simp add: row_matches_def only_source_def Let_def)
  have "nr_kind r = ProviderRow" if "r \<in> set rows" "nr_providerName r = name" for r
    using buildNodeRows_member [OF that(1) [unfolded rows]] that(2) assms(2)
    by (cases "nr_kind r") auto
  then have "filterNodeRows lower rows (only_source (providerSource name)) =
      filter (\<lambda>r. nr_kind r = ProviderRow \<and> nr_providerName r = name) rows"
    unfolding filterNodeRows_def by (intro filter_cong) (auto simp: m source_ok_provider)
  moreover have "filterNodeRows lower rows (only_source ALL_SOURCES) = rows"
    by (simp add: filterNodeRows_def m source_ok_all)
  moreover have "filterNodeRows lower rows (only_source STATIC_SOURCE) = filter (\<lambda>r. nr_kind r = StaticRow) rows"
    unfolding filterNodeRows_def m by (intro filter_cong) (simp_all add: source_ok_def)
  moreover have "\<forall>r \<in> set (filterNodeRows lower rows f). nr_kind r = StaticRow \<and> nr_country r = c"
    using assms(3,4) by (auto simp: filterNodeRows_def row_matches_def Let_def)
  ultimately show ?thesis by blast
qed

theorem filterNodeRows_sources_witness:
  "filterNodeRows lower_ascii (buildNodeRows lower_ascii [] [sample_provider])
     (only_source (providerSource (js ''p''))) = buildNodeRows lower_ascii [] [sample_provider]"
  using filterNodeRows_sources [of lower_ascii "js ''p''"
      "\<lparr>nf_search = None, nf_protocol = None, nf_source = None, nf_country = Some (js ''JP'')\<rparr>" "js ''JP''"
      "buildNodeRows lower_ascii [] [sample_provider]" "[]" "[sample_provider]"]
    lower_laws_ascii
  by (simp add: js_def buildNodeRows_def raw_rows_def sample_provider_def provider_row_def Let_def)

section \<open>Protocols\<close>

lemma protocol_key_no_separator: "u \<in> set (protocol_key lower raw) \<Longrightarrow> \<not> is_separator u"
  by (simp add: protocol_key_def)

lemma trim_protocol_key: "trim (protocol_key lower raw) = protocol_key lower raw"
  by (rule trim_no_ws) (auto dest: protocol_key_no_separator simp: is_separator_def)

lemma protocol_key_fixed:
  assumes "lower k = k" "\<forall>u \<in> set k. \<not> is_separator u"
  shows "protocol_key lower k = k"
proof -
  have "trim k = k" by (rule trim_no_ws) (use assms(2) in \<open>auto simp: is_separator_def\<close>)
  then show ?thesis using assms by (simp add: protocol_key_def filter_id_conv)
qed

lemma protocol_key_idem:
  assumes "lower_laws lower" "no_surrogates (lower (trim raw))"
  shows "protocol_key lower (protocol_key lower raw) = protocol_key lower raw"
proof (rule protocol_key_fixed)
  show "lower (protocol_key lower raw) = protocol_key lower raw"
    using assms by (simp add: protocol_key_def lower_laws_def)
qed (auto dest: protocol_key_no_separator)

lemma protocol_key_lower_units:
  "lower_laws lower \<Longrightarrow> u \<in> set (protocol_key lower raw) \<Longrightarrow> \<not> (65 \<le> u \<and> u \<le> 90) \<and> u \<noteq> 95"
  by (auto simp: protocol_key_def lower_laws_def is_separator_def)

lemma protocol_key_prototype:
  assumes "lower_laws lower" "protocol_key lower raw \<in> set prototype_keys"
  shows "protocol_key lower raw = js ''constructor''"
proof -
  have no: "\<forall>u \<in> set (protocol_key lower raw). \<not> (65 \<le> u \<and> u \<le> 90) \<and> u \<noteq> 95"
    using protocol_key_lower_units [OF assms(1)] by blast
  from assms(2) show ?thesis unfolding prototype_keys_def
    by (simp only: list.map set_simps insert_iff empty_iff, elim disjE)
      (use no in \<open>simp_all add: js_def\<close>)
qed

text \<open>The canonical names: what the alias table maps to, each its own canonical name.\<close>

lemma alias_values_table:
  "\<forall>p \<in> set PROTOCOL_ALIASES.
     (\<forall>u \<in> set (js (snd p)). is_lower_alnum u) \<and>
     (case table_get PROTOCOL_ALIASES (js (snd p)) of Some k \<Rightarrow> k | None \<Rightarrow> Own (js (snd p))) = Own (js (snd p))"
  by code_simp

lemma alias_values:
  assumes "(a, v) \<in> set PROTOCOL_ALIASES"
  shows "\<forall>u \<in> set (js v). is_lower_alnum u"
    and "(case table_get PROTOCOL_ALIASES (js v) of Some k \<Rightarrow> k | None \<Rightarrow> Own (js v)) = Own (js v)"
  using bspec [OF alias_values_table assms] unfolding snd_conv by blast+

lemma is_lower_alnum_no_separator: "is_lower_alnum u \<Longrightarrow> \<not> is_separator u"
  by (auto simp: is_lower_alnum_def is_separator_def is_ws_def)

text \<open>
  Protocol names are canonical. Normalising is idempotent, so a filter value taken from a row
  selects that row again; the aliases of one protocol agree, whatever their case and separators;
  and the one reported type whose lookup leaves the alias table is one that normalises to
  \<open>constructor\<close>: it finds the inherited \<open>Object.prototype.constructor\<close> instead of a name.
\<close>

theorem normalizeProtocol_canonical:
  assumes "lower_laws lower" "no_surrogates (lower (trim raw))"
  shows "(case normalizeProtocol lower raw of
            Own k \<Rightarrow> normalizeProtocol lower k = Own k
          | Inherited k \<Rightarrow> k = js ''constructor'' \<and> protocol_key lower raw = k)"
proof (cases "map_of (map (\<lambda>(a, b). (js a, js b)) PROTOCOL_ALIASES) (protocol_key lower raw)")
  case None
  show ?thesis
  proof (cases "protocol_key lower raw \<in> set prototype_keys")
    case True
    then show ?thesis using None protocol_key_prototype [OF assms(1) True]
      by (simp add: normalizeProtocol_def table_get_def)
  next
    case False
    then show ?thesis using None protocol_key_idem [OF assms]
      by (simp add: normalizeProtocol_def table_get_def)
  qed
next
  case (Some w)
  then obtain a v where v: "(a, v) \<in> set PROTOCOL_ALIASES" "w = js v"
    by (auto dest!: map_of_SomeD)
  have "lower (js v) = js v" using alias_values(1) [OF v(1)] assms(1) unfolding lower_laws_def by blast
  then have "protocol_key lower (js v) = js v"
    using alias_values(1) [OF v(1)] by (intro protocol_key_fixed) (auto dest: is_lower_alnum_no_separator)
  moreover have "normalizeProtocol lower raw = Own (js v)"
    using Some v(2) by (simp add: normalizeProtocol_def table_get_def)
  ultimately show ?thesis using alias_values(2) [OF v(1)]
    by (simp add: normalizeProtocol_def)
qed

theorem normalizeProtocol_canonical_witness:
  "normalizeProtocol lower_ascii (js ''Shadow-Socks'') = Own (js ''ss'') \<and>
   normalizeProtocol lower_ascii (js ''ss'') = Own (js ''ss'') \<and>
   normalizeProtocol lower_ascii (js ''Constructor'') = Inherited (js ''constructor'')"
proof -
  let ?s = "js ''Shadow-Socks''"
  have t: "trim ?s = ?s" by (rule trim_no_ws) (auto simp: js_def is_ws_def)
  have "protocol_key lower_ascii ?s = js ''shadowsocks''"
    unfolding protocol_key_def t by (simp add: lower_ascii_def js_def is_separator_def is_ws_def)
  then have "normalizeProtocol lower_ascii ?s = Own (js ''ss'')"
    by (simp add: normalizeProtocol_def table_get_js PROTOCOL_ALIASES_def)
  moreover have "no_surrogates (lower_ascii (trim ?s))"
    unfolding t by (simp add: lower_ascii_def js_def no_surrogates_def)
  moreover have "protocol_key lower_ascii (js ''Constructor'') = js ''constructor''"
    unfolding protocol_key_def by (subst trim_no_ws)
      (auto simp: lower_ascii_def js_def is_separator_def is_ws_def)
  then have "normalizeProtocol lower_ascii (js ''Constructor'') = Inherited (js ''constructor'')"
    by (simp add: normalizeProtocol_def table_get_js PROTOCOL_ALIASES_def prototype_keys_def)
  ultimately show ?thesis
    using normalizeProtocol_canonical [OF lower_laws_ascii, of ?s] by simp
qed

section \<open>Options and summaries\<close>

text \<open>
  The filter menus are exact. The protocol menu starts with the fixed base list in its order,
  never repeats an entry and contains a protocol beyond the base exactly when a row has it, so
  every row with a protocol can be selected; the country menu is the sorted set of the countries
  of static rows.
\<close>

theorem filter_menus:
  "(\<exists>extra. protocolOptions rows = map Own BASE_PROTOCOLS @ extra) \<and>
   distinct (protocolOptions rows) \<and>
   set (protocolOptions rows) = Own ` set BASE_PROTOCOLS \<union> (nr_protocol ` set rows - {Own []}) \<and>
   sorted (countryOptions rows) \<and> distinct (countryOptions rows) \<and>
   set (countryOptions rows) = {nr_country r | r. r \<in> set rows \<and> nr_kind r = StaticRow} - {[]}"
proof -
  have "distinct (map Own BASE_PROTOCOLS)" by code_simp
  then have "distinct (protocolOptions rows)"
    by (simp add: protocolOptions_def distinct_fold_set_add)
  moreover have "\<exists>extra. protocolOptions rows = map Own BASE_PROTOCOLS @ extra"
    unfolding protocolOptions_def by (rule fold_set_add_prefix)
  moreover have "set (protocolOptions rows) = Own ` set BASE_PROTOCOLS \<union> (nr_protocol ` set rows - {Own []})"
    by (auto simp: protocolOptions_def)
  moreover have "set (countryOptions rows) = {nr_country r | r. r \<in> set rows \<and> nr_kind r = StaticRow} - {[]}"
    by (auto simp: countryOptions_def)
  ultimately show ?thesis by (simp add: countryOptions_def)
qed

lemma provider_summary_unknown:
  "s \<in> set (providerSummaries ps) \<Longrightarrow> ps_status s = StUnknown \<Longrightarrow> ps_nodeCount s = None"
  by (auto simp: providerSummaries_def)

end
