(* ===== verification/Client.thy ===== *)
theory Client
  imports Js_Value
begin

text \<open>
  \<open>api/client.ts\<close>, \<open>stores/auth.ts\<close> and \<open>stores/draft.ts\<close>: the session store and its copy in
  \<open>localStorage\<close>, the token the HTTP client reads from that copy, the hook that drops it on a 401,
  and one API call as a state transformer over the browser's state. The HTTP library, the network
  and the backend are one parameter, \<open>server\<close>. The lemmas show which token a request can carry.
\<close>

section \<open>Actions\<close>

text \<open>
  An asynchronous function of the program maps the state to its completion, a value or a thrown
  error, and the new state.
\<close>

record response =
  rs_status :: int
  rs_body :: "jsval option"

datatype thrown = HTTPError response | Unreachable | Js js_error | Error_Thrown jstring

type_synonym ('w, 'a) io = "'w \<Rightarrow> (thrown + 'a) \<times> 'w"

definition io_return :: "'a \<Rightarrow> ('w, 'a) io" where
  "io_return x = (\<lambda>w. (Inr x, w))"

definition io_throw :: "thrown \<Rightarrow> ('w, 'a) io" where
  "io_throw e = (\<lambda>w. (Inl e, w))"

definition io_bind :: "('w, 'a) io \<Rightarrow> ('a \<Rightarrow> ('w, 'b) io) \<Rightarrow> ('w, 'b) io" where
  "io_bind m k = (\<lambda>w. case m w of (Inl e, w') \<Rightarrow> (Inl e, w') | (Inr x, w') \<Rightarrow> k x w')"

definition io_then :: "('w, 'a) io \<Rightarrow> ('w, 'b) io \<Rightarrow> ('w, 'b) io" where
  "io_then m n = io_bind m (\<lambda>_. n)"

definition io_catch :: "('w, 'a) io \<Rightarrow> (thrown \<Rightarrow> ('w, 'a) io) \<Rightarrow> ('w, 'a) io" where
  "io_catch m h = (\<lambda>w. case m w of (Inl e, w') \<Rightarrow> h e w' | (Inr x, w') \<Rightarrow> (Inr x, w'))"

definition io_finally :: "('w, 'a) io \<Rightarrow> ('w, unit) io \<Rightarrow> ('w, 'a) io" where
  "io_finally m f = (\<lambda>w. case m w of (r, w') \<Rightarrow>
     (case f w' of (Inl e, w'') \<Rightarrow> (Inl e, w'') | (Inr _, w'') \<Rightarrow> (r, w'')))"

definition io_update :: "('w \<Rightarrow> 'w) \<Rightarrow> ('w, unit) io" where
  "io_update f = (\<lambda>w. (Inr (), f w))"

definition io_lift :: "'a result \<Rightarrow> ('w, 'a) io" where
  "io_lift r = (\<lambda>w. (case r of Inl e \<Rightarrow> Inl (Js e) | Inr x \<Rightarrow> Inr x, w))"

definition io_read :: "('w \<Rightarrow> ('w, 'a) io) \<Rightarrow> ('w, 'a) io" where
  "io_read m = (\<lambda>w. m w w)"

text \<open>Running an action for its completion, as \<open>Promise.all\<close> does with each of its members.\<close>

definition io_try :: "('w, 'a) io \<Rightarrow> ('w, thrown + 'a) io" where
  "io_try m = (\<lambda>w. case m w of (r, w') \<Rightarrow> (Inr r, w'))"

text \<open>
  What holds after an action: \<open>wp m Q E w\<close> says that from \<open>w\<close> the action returns with \<open>Q\<close> or
  throws with \<open>E\<close>. Every action returns or throws, so these are equations.
\<close>

definition wp :: "('w, 'a) io \<Rightarrow> ('a \<Rightarrow> 'w \<Rightarrow> bool) \<Rightarrow> (thrown \<Rightarrow> 'w \<Rightarrow> bool) \<Rightarrow> 'w \<Rightarrow> bool" where
  "wp m Q E w = (case m w of (Inr x, w') \<Rightarrow> Q x w' | (Inl e, w') \<Rightarrow> E e w')"

lemma wp_return [simp]: "wp (io_return x) Q E w = Q x w"
  by (simp add: wp_def io_return_def)

lemma wp_throw [simp]: "wp (io_throw e) Q E w = E e w"
  by (simp add: wp_def io_throw_def)

lemma wp_update [simp]: "wp (io_update f) Q E w = Q () (f w)"
  by (simp add: wp_def io_update_def)

lemma wp_lift [simp]: "wp (io_lift r) Q E w = (case r of Inr x \<Rightarrow> Q x w | Inl err \<Rightarrow> E (Js err) w)"
  by (simp add: wp_def io_lift_def split: sum.splits)

lemma wp_bind [simp]: "wp (io_bind m k) Q E w = wp m (\<lambda>x. wp (k x) Q E) E w"
  by (simp add: wp_def io_bind_def split: sum.splits prod.splits)

lemma wp_then [simp]: "wp (io_then m n) Q E w = wp m (\<lambda>_. wp n Q E) E w"
  by (simp add: io_then_def)

lemma wp_catch [simp]: "wp (io_catch m h) Q E w = wp m Q (\<lambda>e. wp (h e) Q E) w"
  by (simp add: wp_def io_catch_def split: sum.splits prod.splits)

lemma wp_finally [simp]: "wp (io_finally m f) Q E w = wp m (\<lambda>x. wp f (\<lambda>_. Q x) E) (\<lambda>e. wp f (\<lambda>_. E e) E) w"
proof (cases "m w")
  case (Pair r w')
  then show ?thesis by (cases r) (simp_all add: wp_def io_finally_def split: sum.splits prod.splits)
qed

lemma wp_read [simp]: "wp (io_read m) Q E w = wp (m w) Q E w"
  by (simp add: wp_def io_read_def)

lemma wp_try [simp]: "wp (io_try m) Q E w = wp m (\<lambda>x. Q (Inr x)) (\<lambda>e. Q (Inl e)) w"
proof (cases "m w")
  case (Pair r w')
  then show ?thesis by (cases r) (simp_all add: wp_def io_try_def)
qed

lemma wp_if: "wp (if b then m else n) Q E w = (if b then wp m Q E w else wp n Q E w)"
  by simp

lemma wp_mono: "wp m Q E w \<Longrightarrow> (\<And>x w'. Q x w' \<Longrightarrow> Q' x w') \<Longrightarrow> (\<And>e w'. E e w' \<Longrightarrow> E' e w') \<Longrightarrow> wp m Q' E' w"
  by (auto simp: wp_def split: prod.splits sum.splits)

text \<open>A handler whose failures are excluded returns, in a state that satisfies its postcondition.\<close>

lemma wp_total: "wp m (\<lambda>_. Q) (\<lambda>_ _. False) w \<Longrightarrow> \<exists>w'. m w = (Inr (), w') \<and> Q w'"
  by (auto simp: wp_def split: prod.splits sum.splits)

lemma wp_run: "wp m Q E w \<longleftrightarrow> (case m w of (r, w') \<Rightarrow> (case r of Inr x \<Rightarrow> Q x w' | Inl e \<Rightarrow> E e w'))"
  by (simp add: wp_def split: prod.splits sum.splits)

section \<open>The stores\<close>

record auth_state =
  au_accessToken :: jsval
  au_refreshToken :: jsval
  au_user :: jsval

definition initial_auth :: auth_state where
  "initial_auth = \<lparr>au_accessToken = Null, au_refreshToken = Null, au_user = Null\<rparr>"

definition setTokens :: "jsval \<Rightarrow> jsval \<Rightarrow> auth_state \<Rightarrow> auth_state" where
  "setTokens access refresh s = s\<lparr>au_accessToken := access, au_refreshToken := refresh\<rparr>"

definition setUser :: "jsval \<Rightarrow> auth_state \<Rightarrow> auth_state" where
  "setUser user s = s\<lparr>au_user := user\<rparr>"

definition logout :: "auth_state \<Rightarrow> auth_state" where
  "logout s = s\<lparr>au_accessToken := Null, au_refreshToken := Null, au_user := Null\<rparr>"

definition isAuthenticated :: "auth_state \<Rightarrow> bool" where
  "isAuthenticated s = truthy (au_accessToken s)"

record draft_state =
  dr_hasChanges :: jsval
  dr_runningVersion :: jsval

definition initial_draft :: draft_state where
  "initial_draft = \<lparr>dr_hasChanges = JBool False, dr_runningVersion = JNum (Fin 0)\<rparr>"

definition setStatus :: "jsval \<Rightarrow> jsval \<Rightarrow> draft_state \<Rightarrow> draft_state" where
  "setStatus changes version s = s\<lparr>dr_hasChanges := changes, dr_runningVersion := version\<rparr>"

text \<open>
  \<open>localStorage\<close>: a text is represented by what \<open>JSON.parse\<close> makes of it, \<open>Text\<close> when it does not
  parse. The \<open>persist\<close> middleware writes the whole store, functions left out, under its name after
  every update, and merges what it finds there over the initial state when the page loads.
\<close>

datatype stored = Json jsval | Text jstring

type_synonym storage = "string \<rightharpoonup> stored"

definition auth_record :: "auth_state \<Rightarrow> jsval" where
  "auth_record s = JObj
     [(js ''state'', JObj [(js ''accessToken'', au_accessToken s), (js ''refreshToken'', au_refreshToken s),
        (js ''user'', au_user s)]),
      (js ''version'', JNum (Fin 0))]"

definition persist :: "auth_state \<Rightarrow> storage \<Rightarrow> storage" where
  "persist s st = (case json_image (auth_record s) of
     Some v \<Rightarrow> st(''auth-storage'' \<mapsto> Json v) | None \<Rightarrow> st)"

definition merged :: "jsval \<Rightarrow> string \<Rightarrow> jsval \<Rightarrow> jsval" where
  "merged v k d = (case v of
     JObj kvs \<Rightarrow> (case map_of kvs (js k) of Some x \<Rightarrow> x | None \<Rightarrow> d) | _ \<Rightarrow> d)"

definition rehydrate :: "storage \<Rightarrow> auth_state" where
  "rehydrate st = (case st ''auth-storage'' of
     Some (Json v) \<Rightarrow>
       (let s = opt_member v ''state''
        in \<lparr>au_accessToken = merged s ''accessToken'' (au_accessToken initial_auth),
            au_refreshToken = merged s ''refreshToken'' (au_refreshToken initial_auth),
            au_user = merged s ''user'' (au_user initial_auth)\<rparr>)
   | _ \<Rightarrow> initial_auth)"

definition getToken :: "storage \<Rightarrow> jsval" where
  "getToken st = (case st ''auth-storage'' of
     Some (Json v) \<Rightarrow>
       (let t = opt_member (opt_member v ''state'') ''accessToken'' in if truthy t then t else Null)
   | _ \<Rightarrow> Null)"

section \<open>The browser\<close>

text \<open>
  \<open>w_sent\<close> logs each request with the \<open>Authorization\<close> header it was given; \<open>w_page\<close> is the state
  of the page on screen and \<open>w_backend\<close> everything behind the network. A toast names the
  translation key and its parameters, carries a text as it is, or a message followed by a text.
\<close>

datatype http_method = GET | POST | PUT | DELETE

record request =
  rq_method :: http_method
  rq_path :: jstring
  rq_query :: "(string \<times> jsval) list"
  rq_json :: jsval
  rq_timeout :: "nat option"

datatype message = Key string "(string \<times> jstring) list" | Raw jstring | Joined message jstring

datatype toast = Success message | Failure message

record ('b, 'p) world =
  w_storage :: storage
  w_pathname :: jstring
  w_auth :: auth_state
  w_draft :: draft_state
  w_toasts :: "toast list"
  w_sent :: "(request \<times> jstring option) list"
  w_backend :: 'b
  w_page :: 'p

type_synonym 'b server = "request \<Rightarrow> jstring option \<Rightarrow> 'b \<Rightarrow> response option \<times> 'b"

definition authHeader :: "storage \<Rightarrow> jstring option" where
  "authHeader st = (let t = getToken st in if truthy t then Some (js ''Bearer '' @ to_str t) else None)"

definition afterResponse :: "response \<Rightarrow> ('b, 'p) world \<Rightarrow> ('b, 'p) world" where
  "afterResponse r w =
     (if rs_status r = 401 then
        (let w' = w\<lparr>w_storage := (w_storage w)(''auth-storage'' := None)\<rparr>
         in if w_pathname w' \<noteq> js ''/login'' then w'\<lparr>w_pathname := js ''/login''\<rparr> else w')
      else w)"

text \<open>
  One call of the client. The HTTP library is not code of the program: by its own defaults it sends a
  GET, PUT or DELETE request again after a network failure or a status such as 503. Here a call is one
  entry of the log and one answer, the one of the last attempt; \<open>server\<close> stands for the library, its
  retries and the backend together.
\<close>

definition api :: "'b server \<Rightarrow> request \<Rightarrow> (('b, 'p) world, jsval) io" where
  "api server rq = (\<lambda>w.
     let header = authHeader (w_storage w);
         (answer, b) = server rq header (w_backend w);
         w' = w\<lparr>w_sent := w_sent w @ [(rq, header)], w_backend := b\<rparr>
     in case answer of
          None \<Rightarrow> (Inl Unreachable, w')
        | Some r \<Rightarrow>
            (if 200 \<le> rs_status r \<and> rs_status r \<le> 299 then
               (case rs_body r of None \<Rightarrow> Inl (Js SyntaxError) | Some v \<Rightarrow> Inr v)
             else Inl (HTTPError r), afterResponse r w'))"

definition update_auth :: "(auth_state \<Rightarrow> auth_state) \<Rightarrow> (('b, 'p) world, unit) io" where
  "update_auth f = io_update (\<lambda>w.
     let s = f (w_auth w) in w\<lparr>w_auth := s, w_storage := persist s (w_storage w)\<rparr>)"

definition update_draft :: "(draft_state \<Rightarrow> draft_state) \<Rightarrow> (('b, 'p) world, unit) io" where
  "update_draft f = io_update (\<lambda>w. w\<lparr>w_draft := f (w_draft w)\<rparr>)"

definition page :: "('p \<Rightarrow> 'p) \<Rightarrow> (('b, 'p) world, unit) io" where
  "page f = io_update (\<lambda>w. w\<lparr>w_page := f (w_page w)\<rparr>)"

definition toast :: "toast \<Rightarrow> (('b, 'p) world, unit) io" where
  "toast m = io_update (\<lambda>w. w\<lparr>w_toasts := w_toasts w @ [m]\<rparr>)"

definition navigate :: "jstring \<Rightarrow> (('b, 'p) world, unit) io" where
  "navigate p = io_update (\<lambda>w. w\<lparr>w_pathname := p\<rparr>)"

text \<open>The answer to a call and the state it leaves.\<close>

definition answered :: "'b server \<Rightarrow> request \<Rightarrow> ('b, 'p) world \<Rightarrow> thrown + jsval" where
  "answered server rq w = fst (api server rq w)"

definition called :: "'b server \<Rightarrow> request \<Rightarrow> ('b, 'p) world \<Rightarrow> ('b, 'p) world" where
  "called server rq w = snd (api server rq w)"

lemma wp_api [simp]:
  "wp (api server rq) Q E w =
     (case answered server rq w of Inr v \<Rightarrow> Q v (called server rq w) | Inl e \<Rightarrow> E e (called server rq w))"
  by (simp add: wp_def answered_def called_def split: prod.splits sum.splits)

lemma wp_updates [simp]:
  "wp (update_auth f) Q E w =
     Q () (w\<lparr>w_auth := f (w_auth w), w_storage := persist (f (w_auth w)) (w_storage w)\<rparr>)"
  "wp (update_draft g) Q E w = Q () (w\<lparr>w_draft := g (w_draft w)\<rparr>)"
  "wp (page h) Q E w = Q () (w\<lparr>w_page := h (w_page w)\<rparr>)"
  "wp (toast m) Q E w = Q () (w\<lparr>w_toasts := w_toasts w @ [m]\<rparr>)"
  "wp (navigate l) Q E w = Q () (w\<lparr>w_pathname := l\<rparr>)"
  by (simp_all add: update_auth_def update_draft_def page_def toast_def navigate_def Let_def)

lemma afterResponse_fields [simp]:
  "w_auth (afterResponse r w) = w_auth w" "w_sent (afterResponse r w) = w_sent w"
  "w_page (afterResponse r w) = w_page w" "w_toasts (afterResponse r w) = w_toasts w"
  "w_backend (afterResponse r w) = w_backend w" "w_draft (afterResponse r w) = w_draft w"
  by (simp_all add: afterResponse_def Let_def)

lemma called_fields [simp]:
  "w_auth (called server rq w) = w_auth w" "w_draft (called server rq w) = w_draft w"
  "w_page (called server rq w) = w_page w" "w_toasts (called server rq w) = w_toasts w"
  "w_sent (called server rq w) = w_sent w @ [(rq, authHeader (w_storage w))]"
  by (simp_all add: called_def api_def Let_def split: prod.splits option.splits)

text \<open>The page takes no part in a call.\<close>

lemma api_page: "api server rq (w\<lparr>w_page := p\<rparr>) = (case api server rq w of (r, v) \<Rightarrow> (r, v\<lparr>w_page := p\<rparr>))"
  by (auto simp: api_def afterResponse_def Let_def split: prod.splits option.splits)

lemma answered_page [simp]: "answered server rq (w\<lparr>w_page := p\<rparr>) = answered server rq w"
  by (simp add: answered_def api_page split: prod.splits)

lemma called_page [simp]: "called server rq (w\<lparr>w_page := p\<rparr>) = (called server rq w)\<lparr>w_page := p\<rparr>"
  by (simp add: called_def api_page split: prod.splits)

lemma called_pathname: "w_pathname (called server rq w) \<in> {w_pathname w, js ''/login''}"
  by (auto simp: called_def api_def afterResponse_def Let_def split: prod.splits option.splits)

text \<open>Loading the document anew: the stores start from storage, the page from its first state.\<close>

definition reload :: "'p \<Rightarrow> ('b, 'p) world \<Rightarrow> ('b, 'p) world" where
  "reload p w = w\<lparr>w_auth := rehydrate (w_storage w), w_draft := initial_draft, w_toasts := [], w_page := p\<rparr>"

text \<open>A page that has just been opened, and a network that does not answer: the inputs of concrete examples.\<close>

definition fresh :: "'p \<Rightarrow> (unit, 'p) world" where
  "fresh p = \<lparr>w_storage = Map.empty, w_pathname = [], w_auth = initial_auth, w_draft = initial_draft,
     w_toasts = [], w_sent = [], w_backend = (), w_page = p\<rparr>"

definition silent :: "unit server" where
  "silent rq header b = (None, b)"

lemma answered_silent [simp]: "answered silent rq w = Inl Unreachable"
  by (simp add: answered_def api_def silent_def Let_def)

lemma fresh_fields [simp]: "w_page (fresh p) = p" "w_toasts (fresh p) = []" "w_sent (fresh p) = []"
  by (simp_all add: fresh_def)

section \<open>Tokens\<close>

text \<open>
  The contract between the store that persists a session and the client that reads it back: what
  is loaded after a save is the token of the saved state, and nothing after an erase.
\<close>

datatype 's storage_op = Save 's | Erase

locale token_store =
  fixes save :: "'s \<Rightarrow> 'm \<Rightarrow> 'm"
    and erase :: "'m \<Rightarrow> 'm"
    and load :: "'m \<Rightarrow> 't"
    and token :: "'s \<Rightarrow> 't"
    and no_token :: 't
    and ok :: "'s \<Rightarrow> bool"
  assumes load_save: "ok s \<Longrightarrow> load (save s m) = token s"
    and load_erase: "load (erase m) = no_token"
begin

fun run :: "'s storage_op list \<Rightarrow> 'm \<Rightarrow> 'm" where
  "run [] m = m"
| "run (Save s # ops) m = run ops (save s m)"
| "run (Erase # ops) m = run ops (erase m)"

lemma run_append: "run (xs @ ys) m = run ys (run xs m)"
  by (induction xs m rule: run.induct) simp_all

lemma load_last:
  "ok s \<Longrightarrow> load (run (ops @ [Save s]) m) = token s"
  "load (run (ops @ [Erase]) m) = no_token"
  by (simp_all add: run_append load_save load_erase)

lemma load_run:
  assumes "\<forall>s. Save s \<in> set ops \<longrightarrow> ok s"
  shows "load (run ops m) \<in> insert (load m) (insert no_token {token s | s. Save s \<in> set ops})"
  using assms
proof (induction ops rule: rev_induct)
  case (snoc op ops)
  then show ?case by (cases op) (auto simp: load_last)
qed simp

end

text \<open>States whose three fields survive JSON: values of a parsed response, null or undefined.\<close>

definition storable :: "auth_state \<Rightarrow> bool" where
  "storable s \<longleftrightarrow> (\<forall>v \<in> {au_accessToken s, au_refreshToken s, au_user s}. is_json v \<or> v = Undef)"

definition session_token :: "auth_state \<Rightarrow> jsval" where
  "session_token s = (if isAuthenticated s then au_accessToken s else Null)"

definition erase_session :: "storage \<Rightarrow> storage" where
  "erase_session st = st(''auth-storage'' := None)"

lemma json_image_storable: "is_json v \<or> v = Undef \<Longrightarrow> json_image v = (if v = Undef then None else Some v)"
  by (auto simp: json_image_is_json)

lemma persisted_state:
  assumes "storable s"
  shows "\<exists>kvs. persist s st ''auth-storage'' = Some (Json (JObj [(js ''state'', JObj kvs), (js ''version'', JNum (Fin 0))])) \<and>
    map_of kvs (js ''accessToken'') = (if au_accessToken s = Undef then None else Some (au_accessToken s)) \<and>
    map_of kvs (js ''refreshToken'') = (if au_refreshToken s = Undef then None else Some (au_refreshToken s)) \<and>
    map_of kvs (js ''user'') = (if au_user s = Undef then None else Some (au_user s))"
  using assms by (auto simp: persist_def auth_record_def storable_def json_image_storable)

lemma getToken_persist: "storable s \<Longrightarrow> getToken (persist s st) = session_token s"
  using persisted_state [of s st]
  by (auto simp: getToken_def session_token_def isAuthenticated_def prop_of_def Let_def)

lemma getToken_erase: "getToken (erase_session st) = Null"
  by (simp add: getToken_def erase_session_def)

interpretation session: token_store persist erase_session getToken session_token Null storable
  by unfold_locales (rule getToken_persist getToken_erase, assumption?)+

end
