(* ===== verification/Api.thy ===== *)
theory Api
  imports Client Proxy_Path
begin

text \<open>
  The endpoint tables of \<open>api/*.ts\<close>: each operation is the request it hands to the HTTP client
  (method, path, query, JSON body, timeout); an operation that percent-encodes a name raises
  \<open>URIError\<close> on a lone surrogate. \<open>Undef\<close> is "no body". The lemmas show that names and ids
  that are encoded stay inside their path segment, and what the bodies contain.
\<close>

text \<open>\<open>a || d\<close> on an optional number and an optional text.\<close>

definition num_or :: "jsnum option \<Rightarrow> jsnum \<Rightarrow> jsnum" where
  "num_or a d = (case a of Some n \<Rightarrow> if n = Fin 0 \<or> n = NaN then d else n | None \<Rightarrow> d)"

definition str_or_text :: "jstring option \<Rightarrow> jstring \<Rightarrow> jstring" where
  "str_or_text a d = (case nonempty a of Some s \<Rightarrow> s | None \<Rightarrow> d)"

section \<open>Session\<close>

definition authApi_login :: "jstring \<Rightarrow> jstring \<Rightarrow> request" where
  "authApi_login username password =
     \<lparr>rq_method = POST, rq_path = js ''auth/login'', rq_query = [], rq_json = JObj [(js ''username'', JStr username), (js ''password'', JStr password)], rq_timeout = None\<rparr>"

definition authApi_refresh :: "jstring \<Rightarrow> request" where
  "authApi_refresh refreshToken =
     \<lparr>rq_method = POST, rq_path = js ''auth/refresh'', rq_query = [], rq_json = JObj [(js ''refresh_token'', JStr refreshToken)], rq_timeout = None\<rparr>"

definition authApi_me :: request where
  "authApi_me =
     \<lparr>rq_method = GET, rq_path = js ''auth/me'', rq_query = [], rq_json = Undef, rq_timeout = None\<rparr>"

definition authApi_changePassword :: "jstring \<Rightarrow> jstring \<Rightarrow> request" where
  "authApi_changePassword currentPassword newPassword =
     \<lparr>rq_method = PUT, rq_path = js ''auth/change-password'', rq_query = [], rq_json = JObj [(js ''current_password'', JStr currentPassword), (js ''new_password'', JStr newPassword)], rq_timeout = None\<rparr>"

section \<open>Proxies and proxy groups\<close>

definition proxiesApi_list :: "(string \<times> jsval) list \<Rightarrow> request" where
  "proxiesApi_list params =
     \<lparr>rq_method = GET, rq_path = js ''proxies'', rq_query = params, rq_json = Undef, rq_timeout = None\<rparr>"

definition proxiesApi_get :: "jstring \<Rightarrow> request" where
  "proxiesApi_get i =
     \<lparr>rq_method = GET, rq_path = js ''proxies/'' @ i, rq_query = [], rq_json = Undef, rq_timeout = None\<rparr>"

definition proxiesApi_create :: "jsval \<Rightarrow> request" where
  "proxiesApi_create data =
     \<lparr>rq_method = POST, rq_path = js ''proxies'', rq_query = [], rq_json = data, rq_timeout = None\<rparr>"

definition proxiesApi_update :: "jstring \<Rightarrow> jsval \<Rightarrow> request" where
  "proxiesApi_update i data =
     \<lparr>rq_method = PUT, rq_path = js ''proxies/'' @ i, rq_query = [], rq_json = data, rq_timeout = None\<rparr>"

definition proxiesApi_delete :: "jstring \<Rightarrow> request" where
  "proxiesApi_delete i =
     \<lparr>rq_method = DELETE, rq_path = js ''proxies/'' @ i, rq_query = [], rq_json = Undef, rq_timeout = None\<rparr>"

definition proxiesApi_copy :: "jstring \<Rightarrow> request" where
  "proxiesApi_copy i =
     \<lparr>rq_method = POST, rq_path = js ''proxies/'' @ i @ js ''/copy'', rq_query = [], rq_json = Undef, rq_timeout = None\<rparr>"

definition proxiesApi_reorder :: "jstring list \<Rightarrow> request" where
  "proxiesApi_reorder ids =
     \<lparr>rq_method = POST, rq_path = js ''proxies/reorder'', rq_query = [], rq_json = JObj [(js ''ids'', JArr (map JStr ids))], rq_timeout = None\<rparr>"

definition proxiesApi_refs :: "jstring \<Rightarrow> request" where
  "proxiesApi_refs i =
     \<lparr>rq_method = GET, rq_path = js ''proxies/'' @ i @ js ''/refs'', rq_query = [], rq_json = Undef, rq_timeout = None\<rparr>"

definition proxiesApi_detectCountries :: "(jstring \<times> jsval) list option \<Rightarrow> request" where
  "proxiesApi_detectCountries countries =
     \<lparr>rq_method = POST, rq_path = js ''proxies/detect-countries'', rq_query = [], rq_json = (case countries of Some c \<Rightarrow> JObj [(js ''countries'', JObj c)] | None \<Rightarrow> JObj []), rq_timeout = Some 120000\<rparr>"

definition proxyGroupsApi_list :: "(string \<times> jsval) list \<Rightarrow> request" where
  "proxyGroupsApi_list params =
     \<lparr>rq_method = GET, rq_path = js ''proxy-groups'', rq_query = params, rq_json = Undef, rq_timeout = None\<rparr>"

definition proxyGroupsApi_get :: "jstring \<Rightarrow> request" where
  "proxyGroupsApi_get i =
     \<lparr>rq_method = GET, rq_path = js ''proxy-groups/'' @ i, rq_query = [], rq_json = Undef, rq_timeout = None\<rparr>"

definition proxyGroupsApi_create :: "jsval \<Rightarrow> request" where
  "proxyGroupsApi_create data =
     \<lparr>rq_method = POST, rq_path = js ''proxy-groups'', rq_query = [], rq_json = data, rq_timeout = None\<rparr>"

definition proxyGroupsApi_update :: "jstring \<Rightarrow> jsval \<Rightarrow> request" where
  "proxyGroupsApi_update i data =
     \<lparr>rq_method = PUT, rq_path = js ''proxy-groups/'' @ i, rq_query = [], rq_json = data, rq_timeout = None\<rparr>"

definition proxyGroupsApi_delete :: "jstring \<Rightarrow> request" where
  "proxyGroupsApi_delete i =
     \<lparr>rq_method = DELETE, rq_path = js ''proxy-groups/'' @ i, rq_query = [], rq_json = Undef, rq_timeout = None\<rparr>"

definition proxyGroupsApi_reorder :: "jstring list \<Rightarrow> request" where
  "proxyGroupsApi_reorder ids =
     \<lparr>rq_method = POST, rq_path = js ''proxy-groups/reorder'', rq_query = [], rq_json = JObj [(js ''ids'', JArr (map JStr ids))], rq_timeout = None\<rparr>"

definition proxyGroupsApi_refs :: "jstring \<Rightarrow> request" where
  "proxyGroupsApi_refs i =
     \<lparr>rq_method = GET, rq_path = js ''proxy-groups/'' @ i @ js ''/refs'', rq_query = [], rq_json = Undef, rq_timeout = None\<rparr>"

section \<open>Rules and rule providers\<close>

definition rulesApi_list :: "(string \<times> jsval) list \<Rightarrow> request" where
  "rulesApi_list params =
     \<lparr>rq_method = GET, rq_path = js ''rules'', rq_query = params, rq_json = Undef, rq_timeout = None\<rparr>"

definition rulesApi_create :: "jsval \<Rightarrow> request" where
  "rulesApi_create data =
     \<lparr>rq_method = POST, rq_path = js ''rules'', rq_query = [], rq_json = data, rq_timeout = None\<rparr>"

definition rulesApi_update :: "jstring \<Rightarrow> jsval \<Rightarrow> request" where
  "rulesApi_update i data =
     \<lparr>rq_method = PUT, rq_path = js ''rules/'' @ i, rq_query = [], rq_json = data, rq_timeout = None\<rparr>"

definition rulesApi_delete :: "jstring \<Rightarrow> request" where
  "rulesApi_delete i =
     \<lparr>rq_method = DELETE, rq_path = js ''rules/'' @ i, rq_query = [], rq_json = Undef, rq_timeout = None\<rparr>"

definition rulesApi_reorder :: "jstring list \<Rightarrow> request" where
  "rulesApi_reorder ids =
     \<lparr>rq_method = POST, rq_path = js ''rules/reorder'', rq_query = [], rq_json = JObj [(js ''ids'', JArr (map JStr ids))], rq_timeout = None\<rparr>"

definition ruleProvidersApi_list :: request where
  "ruleProvidersApi_list =
     \<lparr>rq_method = GET, rq_path = js ''rule-providers'', rq_query = [], rq_json = Undef, rq_timeout = None\<rparr>"

definition ruleProvidersApi_create :: "jsval \<Rightarrow> request" where
  "ruleProvidersApi_create data =
     \<lparr>rq_method = POST, rq_path = js ''rule-providers'', rq_query = [], rq_json = data, rq_timeout = None\<rparr>"

definition ruleProvidersApi_update :: "jstring \<Rightarrow> jsval \<Rightarrow> request" where
  "ruleProvidersApi_update i data =
     \<lparr>rq_method = PUT, rq_path = js ''rule-providers/'' @ i, rq_query = [], rq_json = data, rq_timeout = None\<rparr>"

definition ruleProvidersApi_delete :: "jstring \<Rightarrow> request" where
  "ruleProvidersApi_delete i =
     \<lparr>rq_method = DELETE, rq_path = js ''rule-providers/'' @ i, rq_query = [], rq_json = Undef, rq_timeout = None\<rparr>"

definition ruleProvidersApi_refresh :: "jstring \<Rightarrow> request" where
  "ruleProvidersApi_refresh i =
     \<lparr>rq_method = POST, rq_path = js ''rule-providers/'' @ i @ js ''/refresh'', rq_query = [], rq_json = Undef, rq_timeout = None\<rparr>"

definition ruleProvidersApi_getContent :: "jstring \<Rightarrow> request" where
  "ruleProvidersApi_getContent i =
     \<lparr>rq_method = GET, rq_path = js ''rule-providers/'' @ i @ js ''/content'', rq_query = [], rq_json = Undef, rq_timeout = None\<rparr>"

definition ruleProvidersApi_updateContent :: "jstring \<Rightarrow> jstring \<Rightarrow> request" where
  "ruleProvidersApi_updateContent i content =
     \<lparr>rq_method = PUT, rq_path = js ''rule-providers/'' @ i @ js ''/content'', rq_query = [], rq_json = JObj [(js ''content'', JStr content)], rq_timeout = None\<rparr>"

section \<open>Publishing and settings\<close>

definition publishApi_discard :: request where
  "publishApi_discard =
     \<lparr>rq_method = POST, rq_path = js ''publish/discard'', rq_query = [], rq_json = Undef, rq_timeout = None\<rparr>"

definition publishApi_preview :: request where
  "publishApi_preview =
     \<lparr>rq_method = GET, rq_path = js ''publish/preview'', rq_query = [], rq_json = Undef, rq_timeout = None\<rparr>"

definition publishApi_validate :: request where
  "publishApi_validate =
     \<lparr>rq_method = POST, rq_path = js ''publish/validate'', rq_query = [], rq_json = Undef, rq_timeout = Some 60000\<rparr>"

definition publishApi_publish :: "jstring option \<Rightarrow> request" where
  "publishApi_publish note =
     \<lparr>rq_method = POST, rq_path = js ''publish'', rq_query = [], rq_json = JObj [(js ''note'', case note of Some s \<Rightarrow> JStr s | None \<Rightarrow> Undef)], rq_timeout = None\<rparr>"

definition publishApi_rollback :: request where
  "publishApi_rollback =
     \<lparr>rq_method = POST, rq_path = js ''publish/rollback'', rq_query = [], rq_json = Undef, rq_timeout = None\<rparr>"

definition publishApi_history :: "jsnum option \<Rightarrow> request" where
  "publishApi_history limit =
     \<lparr>rq_method = GET, rq_path = js ''publish/history'', rq_query = [(''limit'', JNum (num_or limit (num 20)))], rq_json = Undef, rq_timeout = None\<rparr>"

definition publishApi_historyDetail :: "jstring \<Rightarrow> request" where
  "publishApi_historyDetail i =
     \<lparr>rq_method = GET, rq_path = js ''publish/history/'' @ i, rq_query = [], rq_json = Undef, rq_timeout = None\<rparr>"

definition publishApi_status :: request where
  "publishApi_status =
     \<lparr>rq_method = GET, rq_path = js ''publish/status'', rq_query = [], rq_json = Undef, rq_timeout = None\<rparr>"

definition settingsApi_get :: request where
  "settingsApi_get =
     \<lparr>rq_method = GET, rq_path = js ''settings'', rq_query = [], rq_json = Undef, rq_timeout = None\<rparr>"

definition settingsApi_update :: "jsval \<Rightarrow> request" where
  "settingsApi_update data =
     \<lparr>rq_method = PUT, rq_path = js ''settings'', rq_query = [], rq_json = data, rq_timeout = None\<rparr>"

definition settingsApi_listUsers :: request where
  "settingsApi_listUsers =
     \<lparr>rq_method = GET, rq_path = js ''settings/users'', rq_query = [], rq_json = Undef, rq_timeout = None\<rparr>"

definition settingsApi_createUser :: "jsval \<Rightarrow> request" where
  "settingsApi_createUser data =
     \<lparr>rq_method = POST, rq_path = js ''settings/users'', rq_query = [], rq_json = data, rq_timeout = None\<rparr>"

definition settingsApi_updateUser :: "jstring \<Rightarrow> jsval \<Rightarrow> request" where
  "settingsApi_updateUser i data =
     \<lparr>rq_method = PUT, rq_path = js ''settings/users/'' @ i, rq_query = [], rq_json = data, rq_timeout = None\<rparr>"

definition settingsApi_deleteUser :: "jstring \<Rightarrow> request" where
  "settingsApi_deleteUser i =
     \<lparr>rq_method = DELETE, rq_path = js ''settings/users/'' @ i, rq_query = [], rq_json = Undef, rq_timeout = None\<rparr>"

definition settingsApi_getConfigYaml :: request where
  "settingsApi_getConfigYaml =
     \<lparr>rq_method = GET, rq_path = js ''settings/config-yaml'', rq_query = [], rq_json = Undef, rq_timeout = None\<rparr>"

definition settingsApi_updateConfigYaml :: "jstring \<Rightarrow> request" where
  "settingsApi_updateConfigYaml content =
     \<lparr>rq_method = PUT, rq_path = js ''settings/config-yaml'', rq_query = [], rq_json = JObj [(js ''content'', JStr content)], rq_timeout = None\<rparr>"

definition settingsApi_deleteConfigYaml :: request where
  "settingsApi_deleteConfigYaml =
     \<lparr>rq_method = DELETE, rq_path = js ''settings/config-yaml'', rq_query = [], rq_json = Undef, rq_timeout = None\<rparr>"

definition systemConfigApi_get :: request where
  "systemConfigApi_get =
     \<lparr>rq_method = GET, rq_path = js ''system-config'', rq_query = [], rq_json = Undef, rq_timeout = None\<rparr>"

definition systemConfigApi_update :: "jsval \<Rightarrow> request" where
  "systemConfigApi_update config =
     \<lparr>rq_method = PUT, rq_path = js ''system-config'', rq_query = [], rq_json = config, rq_timeout = None\<rparr>"

section \<open>Traffic and subscriptions\<close>

definition trafficApi_summary :: request where
  "trafficApi_summary =
     \<lparr>rq_method = GET, rq_path = js ''traffic/summary'', rq_query = [], rq_json = Undef, rq_timeout = None\<rparr>"

definition trafficApi_history :: "jsnum option \<Rightarrow> request" where
  "trafficApi_history days =
     \<lparr>rq_method = GET, rq_path = js ''traffic/history'', rq_query = [(''days'', JNum (or_default days (num 30)))], rq_json = Undef, rq_timeout = None\<rparr>"

definition trafficApi_providers :: request where
  "trafficApi_providers =
     \<lparr>rq_method = GET, rq_path = js ''traffic/providers'', rq_query = [], rq_json = Undef, rq_timeout = None\<rparr>"

definition trafficApi_createProvider :: "jsval \<Rightarrow> request" where
  "trafficApi_createProvider p =
     \<lparr>rq_method = POST, rq_path = js ''traffic/providers'', rq_query = [], rq_json = p, rq_timeout = None\<rparr>"

definition trafficApi_updateProvider :: "jstring \<Rightarrow> jsval \<Rightarrow> request" where
  "trafficApi_updateProvider i p =
     \<lparr>rq_method = PUT, rq_path = js ''traffic/providers/'' @ i, rq_query = [], rq_json = p, rq_timeout = None\<rparr>"

definition trafficApi_deleteProvider :: "jstring \<Rightarrow> request" where
  "trafficApi_deleteProvider i =
     \<lparr>rq_method = DELETE, rq_path = js ''traffic/providers/'' @ i, rq_query = [], rq_json = Undef, rq_timeout = None\<rparr>"

definition trafficApi_alerts :: "jsnum option \<Rightarrow> request" where
  "trafficApi_alerts limit =
     \<lparr>rq_method = GET, rq_path = js ''traffic/alerts'', rq_query = [(''limit'', JNum (or_default limit (num 50)))], rq_json = Undef, rq_timeout = None\<rparr>"

definition trafficApi_settings :: request where
  "trafficApi_settings =
     \<lparr>rq_method = GET, rq_path = js ''traffic/settings'', rq_query = [], rq_json = Undef, rq_timeout = None\<rparr>"

definition trafficApi_updateSettings :: "jsval \<Rightarrow> request" where
  "trafficApi_updateSettings s =
     \<lparr>rq_method = PUT, rq_path = js ''traffic/settings'', rq_query = [], rq_json = s, rq_timeout = None\<rparr>"

definition trafficApi_testNotify :: request where
  "trafficApi_testNotify =
     \<lparr>rq_method = POST, rq_path = js ''traffic/test-notify'', rq_query = [], rq_json = Undef, rq_timeout = None\<rparr>"

definition subscriptionsApi_list :: request where
  "subscriptionsApi_list =
     \<lparr>rq_method = GET, rq_path = js ''subscriptions'', rq_query = [], rq_json = Undef, rq_timeout = None\<rparr>"

definition subscriptionsApi_get :: "jstring \<Rightarrow> request" where
  "subscriptionsApi_get i =
     \<lparr>rq_method = GET, rq_path = js ''subscriptions/'' @ i, rq_query = [], rq_json = Undef, rq_timeout = None\<rparr>"

definition subscriptionsApi_providers :: request where
  "subscriptionsApi_providers =
     \<lparr>rq_method = GET, rq_path = js ''subscriptions/providers'', rq_query = [], rq_json = Undef, rq_timeout = None\<rparr>"

definition subscriptionsApi_create :: "jsval \<Rightarrow> request" where
  "subscriptionsApi_create input =
     \<lparr>rq_method = POST, rq_path = js ''subscriptions'', rq_query = [], rq_json = input, rq_timeout = None\<rparr>"

definition subscriptionsApi_update :: "jstring \<Rightarrow> jsval \<Rightarrow> request" where
  "subscriptionsApi_update i input =
     \<lparr>rq_method = PUT, rq_path = js ''subscriptions/'' @ i, rq_query = [], rq_json = input, rq_timeout = None\<rparr>"

definition subscriptionsApi_remove :: "jstring \<Rightarrow> request" where
  "subscriptionsApi_remove i =
     \<lparr>rq_method = DELETE, rq_path = js ''subscriptions/'' @ i, rq_query = [], rq_json = Undef, rq_timeout = None\<rparr>"

definition subscriptionsApi_refresh :: "jstring \<Rightarrow> request" where
  "subscriptionsApi_refresh i =
     \<lparr>rq_method = POST, rq_path = js ''subscriptions/'' @ i @ js ''/refresh'', rq_query = [], rq_json = Undef, rq_timeout = Some 120000\<rparr>"

section \<open>Runtime and node scores\<close>

definition runtimeApi_connections :: request where
  "runtimeApi_connections =
     \<lparr>rq_method = GET, rq_path = js ''runtime/connections'', rq_query = [], rq_json = Undef, rq_timeout = None\<rparr>"

definition runtimeApi_closeConnection :: "jstring \<Rightarrow> request" where
  "runtimeApi_closeConnection i =
     \<lparr>rq_method = DELETE, rq_path = js ''runtime/connections/'' @ i, rq_query = [], rq_json = Undef, rq_timeout = None\<rparr>"

definition runtimeApi_proxies :: request where
  "runtimeApi_proxies =
     \<lparr>rq_method = GET, rq_path = js ''runtime/proxies'', rq_query = [], rq_json = Undef, rq_timeout = None\<rparr>"

definition runtimeApi_proxyDelay :: "jstring \<Rightarrow> jstring option \<Rightarrow> jsnum option \<Rightarrow> request result" where
  "runtimeApi_proxyDelay name url timeout =
     map_result (\<lambda>p. \<lparr>rq_method = GET, rq_path = p, rq_query = [(''url'', JStr (str_or_text url (js ''http://www.gstatic.com/generate_204''))), (''timeout'', JNum (num_or timeout (num 5000)))], rq_json = Undef, rq_timeout = None\<rparr>)
     (proxyDelayPath name)"

definition runtimeApi_providerNodeHealthcheck :: "jstring \<Rightarrow> jstring \<Rightarrow> jstring option \<Rightarrow> jsnum option \<Rightarrow> request result" where
  "runtimeApi_providerNodeHealthcheck provider node url timeout =
     map_result (\<lambda>p. \<lparr>rq_method = GET, rq_path = p, rq_query = [(''url'', JStr (str_or_text url (js ''http://www.gstatic.com/generate_204''))), (''timeout'', JNum (num_or timeout (num 5000)))], rq_json = Undef, rq_timeout = None\<rparr>)
     (providerHealthcheckPath provider node)"

definition runtimeApi_switchProxy :: "jstring \<Rightarrow> jstring \<Rightarrow> request result" where
  "runtimeApi_switchProxy grp proxy =
     map_result (\<lambda>p. \<lparr>rq_method = PUT, rq_path = p, rq_query = [], rq_json = JObj [(js ''name'', JStr proxy)], rq_timeout = None\<rparr>)
     (map_result (\<lambda>g. js ''runtime/proxies/'' @ g @ js ''/selected'') (encode_uri_component grp))"

definition runtimeApi_rules :: request where
  "runtimeApi_rules =
     \<lparr>rq_method = GET, rq_path = js ''runtime/rules'', rq_query = [], rq_json = Undef, rq_timeout = None\<rparr>"

definition runtimeApi_providers :: request where
  "runtimeApi_providers =
     \<lparr>rq_method = GET, rq_path = js ''runtime/providers'', rq_query = [], rq_json = Undef, rq_timeout = None\<rparr>"

definition runtimeApi_proxyProviders :: request where
  "runtimeApi_proxyProviders =
     \<lparr>rq_method = GET, rq_path = js ''runtime/proxy-providers'', rq_query = [], rq_json = Undef, rq_timeout = None\<rparr>"

definition runtimeApi_refreshProvider :: "jstring \<Rightarrow> request result" where
  "runtimeApi_refreshProvider name =
     map_result (\<lambda>p. \<lparr>rq_method = PUT, rq_path = p, rq_query = [], rq_json = Undef, rq_timeout = None\<rparr>)
     (map_result (\<lambda>n. js ''runtime/providers/rules/'' @ n) (encode_uri_component name))"

definition runtimeApi_version :: request where
  "runtimeApi_version =
     \<lparr>rq_method = GET, rq_path = js ''runtime/version'', rq_query = [], rq_json = Undef, rq_timeout = None\<rparr>"

definition nodeScoresApi_list :: request where
  "nodeScoresApi_list =
     \<lparr>rq_method = GET, rq_path = js ''node-scores'', rq_query = [], rq_json = Undef, rq_timeout = None\<rparr>"

definition nodeScoresApi_get :: "jstring \<Rightarrow> request result" where
  "nodeScoresApi_get i =
     map_result (\<lambda>p. \<lparr>rq_method = GET, rq_path = p, rq_query = [], rq_json = Undef, rq_timeout = None\<rparr>)
     (map_result (\<lambda>n. js ''node-scores/'' @ n) (encode_uri_component i))"

definition nodeScoresApi_refresh :: "jstring \<Rightarrow> request result" where
  "nodeScoresApi_refresh i =
     map_result (\<lambda>p. \<lparr>rq_method = POST, rq_path = p, rq_query = [], rq_json = Undef, rq_timeout = Some 120000\<rparr>)
     (map_result (\<lambda>n. js ''node-scores/'' @ n @ js ''/refresh'') (encode_uri_component i))"

definition nodeScoresApi_refreshBatch :: "jstring list option \<Rightarrow> request" where
  "nodeScoresApi_refreshBatch ids =
     \<lparr>rq_method = POST, rq_path = js ''node-scores/refresh'', rq_query = [], rq_json = (case ids of Some (x # xs) \<Rightarrow> JObj [(js ''ids'', JArr (map JStr (x # xs)))] | _ \<Rightarrow> JObj [(js ''all'', JBool True)]), rq_timeout = Some 120000\<rparr>"

section \<open>What the requests contain\<close>

lemma encode_segment:
  assumes "encode_uri_component s = Inr e" "wf_js s"
  shows "slash \<notin> set e" "decode_uri_component e = Inr s"
  using assms encoded_no_slash decode_encode by blast+

lemma literal_segments:
  "slash \<notin> set (js ''runtime'')" "slash \<notin> set (js ''proxies'')" "slash \<notin> set (js ''selected'')"
  "slash \<notin> set (js ''providers'')" "slash \<notin> set (js ''rules'')" "slash \<notin> set (js ''node-scores'')"
  "slash \<notin> set (js ''refresh'')"
  by (simp_all add: js_def slash_def)

lemma path_literals:
  "js ''runtime/proxies/'' @ e @ js ''/selected'' =
     js ''runtime'' @ slash # js ''proxies'' @ slash # e @ slash # js ''selected''"
  "js ''runtime/providers/rules/'' @ e =
     js ''runtime'' @ slash # js ''providers'' @ slash # js ''rules'' @ slash # e"
  "js ''node-scores/'' @ e = js ''node-scores'' @ slash # e"
  by (simp_all add: js_def slash_def)

lemma escaped_paths:
  assumes "slash \<notin> set e"
  shows "segments (js ''runtime/proxies/'' @ e @ js ''/selected'') =
      [js ''runtime'', js ''proxies'', e, js ''selected'']"
    and "segments (js ''runtime/providers/rules/'' @ e) = [js ''runtime'', js ''providers'', js ''rules'', e]"
    and "segments (js ''node-scores/'' @ e) = [js ''node-scores'', e]"
    and "segments (js ''node-scores/'' @ e @ js ''/refresh'') = [js ''node-scores'', e, js ''refresh'']"
proof -
  have l: "js ''/refresh'' = slash # js ''refresh''" by (simp add: js_def slash_def)
  show "segments (js ''runtime/proxies/'' @ e @ js ''/selected'') =
      [js ''runtime'', js ''proxies'', e, js ''selected'']"
    using assms by (simp add: path_literals segments_append segments_single literal_segments)
  show "segments (js ''runtime/providers/rules/'' @ e) = [js ''runtime'', js ''providers'', js ''rules'', e]"
    using assms by (simp add: path_literals segments_append segments_single literal_segments)
  show "segments (js ''node-scores/'' @ e) = [js ''node-scores'', e]"
    using assms by (simp add: path_literals segments_append segments_single literal_segments)
  show "segments (js ''node-scores/'' @ e @ js ''/refresh'') = [js ''node-scores'', e, js ''refresh'']"
    using assms unfolding l by (simp add: path_literals segments_append segments_single literal_segments)
qed

text \<open>
  User-chosen names reach the backend unchanged. Selecting a proxy in a group, refreshing a
  rule provider and refreshing a node score each address one path of a fixed shape in which one
  segment decodes to the very name given, whatever characters it has; selecting also sends the
  proxy's name verbatim.
\<close>

theorem encoded_requests_keep_names:
  assumes "wf_js name"
  shows "(\<forall>rq. runtimeApi_switchProxy name proxy = Inr rq \<longrightarrow>
            rq_json rq = JObj [(js ''name'', JStr proxy)] \<and>
            (\<exists>e. segments (rq_path rq) = [js ''runtime'', js ''proxies'', e, js ''selected''] \<and>
                 decode_uri_component e = Inr name)) \<and>
         (\<forall>rq. runtimeApi_refreshProvider name = Inr rq \<longrightarrow>
            (\<exists>e. segments (rq_path rq) = [js ''runtime'', js ''providers'', js ''rules'', e] \<and>
                 decode_uri_component e = Inr name)) \<and>
         (\<forall>rq. nodeScoresApi_refresh name = Inr rq \<longrightarrow>
            (\<exists>e. segments (rq_path rq) = [js ''node-scores'', e, js ''refresh''] \<and>
                 decode_uri_component e = Inr name))"
  using encode_segment [OF _ assms]
  by (auto simp: runtimeApi_switchProxy_def runtimeApi_refreshProvider_def nodeScoresApi_refresh_def escaped_paths)

theorem encoded_requests_keep_names_witness:
  "\<exists>rq e. runtimeApi_switchProxy (js ''a/b'') (js ''p'') = Inr rq \<and>
     segments (rq_path rq) = [js ''runtime'', js ''proxies'', e, js ''selected''] \<and>
     decode_uri_component e = Inr (js ''a/b'')"
proof -
  have w: "wf_js (js ''a/b'')" by (simp add: wf_js_def js_def)
  have "encode_uri_component (js ''a/b'') = Inr (js ''a%2Fb'')"
    by (simp add: js_def uri_eval)
  then have "\<exists>rq. runtimeApi_switchProxy (js ''a/b'') (js ''p'') = Inr rq"
    by (simp add: runtimeApi_switchProxy_def)
  then show ?thesis using encoded_requests_keep_names [OF w, of "js ''p''"] by blast
qed

text \<open>
  The batch refresh never sends an empty selection: without ids, and also for the empty list,
  it asks for all nodes; otherwise it sends exactly the ids, in order.
\<close>

theorem refreshBatch_body:
  "rq_json (nodeScoresApi_refreshBatch ids) =
     (if ids = None \<or> ids = Some [] then JObj [(js ''all'', JBool True)]
      else JObj [(js ''ids'', JArr (map JStr (the ids)))])"
  by (cases ids rule: option.exhaust; simp add: nodeScoresApi_refreshBatch_def split: list.split)

end
