(* ===== verification/Session.thy ===== *)
theory Session
  imports Api
begin

text \<open>
  Signing in and out: \<open>pages/login.tsx\<close>, the account menu of \<open>components/layout/header.tsx\<close> and
  the route table of \<open>routes.tsx\<close>, over the stores and the client. The lemmas describe every path
  of the sign-in handler and show, for every interleaving of session operations, answers and page
  loads, that a request carries the current session's token or none.
\<close>

section \<open>Reading responses\<close>

text \<open>\<open>v.a.b\<close>: the first null or undefined value on the way raises.\<close>

fun members :: "jsval \<Rightarrow> string list \<Rightarrow> jsval result" where
  "members v [] = Inr v"
| "members v (k # ks) = (case member v k of Inl e \<Rightarrow> Inl e | Inr x \<Rightarrow> members x ks)"

section \<open>The login page\<close>

record login_page =
  lg_username :: jstring
  lg_password :: jstring
  lg_loading :: bool

definition set_loading :: "bool \<Rightarrow> (('b, login_page) world, unit) io" where
  "set_loading b = page (\<lambda>p. p\<lparr>lg_loading := b\<rparr>)"

definition sign_in :: "'b server \<Rightarrow> jstring \<Rightarrow> jstring \<Rightarrow> (('b, 'p) world, unit) io" where
  "sign_in server username password =
     io_bind (api server (authApi_login username password)) (\<lambda>loginRes.
     io_bind (io_lift (members loginRes [''data'', ''access_token''])) (\<lambda>access.
     io_bind (io_lift (members loginRes [''data'', ''refresh_token''])) (\<lambda>refresh.
     io_then (update_auth (setTokens access refresh))
     (io_bind (api server authApi_me) (\<lambda>meRes.
      io_bind (io_lift (members meRes [''data''])) (\<lambda>user.
      io_then (update_auth (setUser user))
      (navigate (js ''/''))))))))"

definition handleSubmit :: "'b server \<Rightarrow> (('b, login_page) world, unit) io" where
  "handleSubmit server = io_read (\<lambda>w.
     let username = lg_username (w_page w); password = lg_password (w_page w)
     in if username = [] \<or> password = [] then io_return ()
        else io_then (set_loading True)
          (io_finally
            (io_catch (sign_in server username password) (\<lambda>_. toast (Failure (Key ''login.failed'' []))))
            (set_loading False)))"

section \<open>The account menu\<close>

record header_state =
  hd_pwDialogOpen :: bool
  hd_currentPw :: jstring
  hd_newPw :: jstring
  hd_saving :: bool
  hd_dark :: bool
  hd_document_dark :: bool

definition toggleTheme :: "(('b, header_state) world, unit) io" where
  "toggleTheme = io_update (\<lambda>w.
     let dark = \<not> hd_dark (w_page w)
     in w\<lparr>w_page := (w_page w)\<lparr>hd_document_dark := dark, hd_dark := dark\<rparr>,
          w_storage := (w_storage w)(''theme'' \<mapsto> Text (if dark then js ''dark'' else js ''light''))\<rparr>)"

definition fetchStatus :: "'b server \<Rightarrow> (('b, 'p) world, unit) io" where
  "fetchStatus server =
     io_catch
       (io_bind (api server publishApi_status) (\<lambda>res.
        io_bind (io_lift (members res [''data'', ''has_changes''])) (\<lambda>changes.
        io_bind (io_lift (members res [''data'', ''running_version''])) (\<lambda>version.
        update_draft (setStatus changes version)))))
       (\<lambda>_. io_return ())"

definition handleLogout :: "(('b, 'p) world, unit) io" where
  "handleLogout = io_then (update_auth logout) (navigate (js ''/login''))"

definition handleChangePassword :: "'b server \<Rightarrow> (('b, header_state) world, unit) io" where
  "handleChangePassword server = io_read (\<lambda>w.
     let currentPw = hd_currentPw (w_page w); newPw = hd_newPw (w_page w)
     in if currentPw = [] \<or> newPw = [] then toast (Failure (Key ''header.fillBothFields'' []))
        else io_then (page (\<lambda>p. p\<lparr>hd_saving := True\<rparr>))
          (io_finally
            (io_catch
              (io_then (api server (authApi_changePassword currentPw newPw))
              (io_then (toast (Success (Key ''header.passwordChanged'' [])))
                (page (\<lambda>p. p\<lparr>hd_pwDialogOpen := False, hd_currentPw := [], hd_newPw := []\<rparr>))))
              (\<lambda>_. toast (Failure (Key ''header.passwordChangeFailed'' []))))
            (page (\<lambda>p. p\<lparr>hd_saving := False\<rparr>))))"

definition onPasswordDialog :: "bool \<Rightarrow> (('b, header_state) world, unit) io" where
  "onPasswordDialog opened = page (\<lambda>p.
     if opened then p\<lparr>hd_pwDialogOpen := True\<rparr>
     else p\<lparr>hd_pwDialogOpen := False, hd_currentPw := [], hd_newPw := []\<rparr>)"

section \<open>Routes\<close>

datatype screen =
    Login | Overview | Proxies | Proxy_Groups | Rules | Rule_Providers | System_Config | Publish
  | Runtime | Traffic | Subscriptions | Node_Scores | Settings

definition children :: "(string \<times> screen) list" where
  "children =
     [('''', Overview), (''proxies'', Proxies), (''proxy-groups'', Proxy_Groups), (''rules'', Rules),
      (''rule-providers'', Rule_Providers), (''system-config'', System_Config), (''publish'', Publish),
      (''runtime'', Runtime), (''traffic'', Traffic), (''subscriptions'', Subscriptions),
      (''node-scores'', Node_Scores), (''settings'', Settings)]"

datatype outcome = Show screen | Navigate jstring | No_Route

definition ProtectedRoute :: "auth_state \<Rightarrow> screen \<Rightarrow> outcome" where
  "ProtectedRoute s child = (if isAuthenticated s then Show child else Navigate (js ''/login''))"

definition router :: "auth_state \<Rightarrow> string \<Rightarrow> outcome" where
  "router s path =
     (if path = ''/login'' then Show Login
      else case path of
        c # rest \<Rightarrow>
          (if c = CHR ''/'' then (case map_of children rest of Some p \<Rightarrow> ProtectedRoute s p | None \<Rightarrow> No_Route)
           else No_Route)
      | [] \<Rightarrow> No_Route)"

definition navItems :: "(string \<times> string) list" where
  "navItems =
     [(''/'', ''nav.overview''), (''/proxies'', ''nav.proxies''), (''/proxy-groups'', ''nav.proxyGroups''),
      (''/rules'', ''nav.rules''), (''/rule-providers'', ''nav.ruleProviders''),
      (''/system-config'', ''nav.systemConfig''), (''/publish'', ''nav.publish''), (''/runtime'', ''nav.runtime''),
      (''/traffic'', ''nav.traffic''), (''/subscriptions'', ''nav.subscriptions''),
      (''/node-scores'', ''nav.nodeScores''), (''/settings'', ''nav.settings'')]"

section \<open>Sessions\<close>

text \<open>
  What can happen to a session: the store's operations, an API call with whatever answer, the
  removal that goes with a 401, a move within the application, a page load.
\<close>

inductive session_step :: "'b server \<Rightarrow> ('b, 'p) world \<Rightarrow> ('b, 'p) world \<Rightarrow> bool" for server where
  tokens: "is_json a \<or> a = Undef \<Longrightarrow> is_json r \<or> r = Undef \<Longrightarrow>
    session_step server w (snd (update_auth (setTokens a r) w))"
| user: "is_json u \<or> u = Undef \<Longrightarrow> session_step server w (snd (update_auth (setUser u) w))"
| signed_out: "session_step server w (snd (update_auth logout w))"
| call: "session_step server w (snd (api server rq w))"
| moved: "session_step server w (snd (navigate path w))"
| loaded: "session_step server w (reload p w)"

inductive session_reach :: "'b server \<Rightarrow> ('b, 'p) world \<Rightarrow> ('b, 'p) world \<Rightarrow> bool" for server w where
  start: "session_reach server w w"
| step: "session_reach server w v \<Longrightarrow> session_step server v u \<Longrightarrow> session_reach server w u"

inductive_cases session_stepE: "session_step server w v"

definition stored_json :: "storage \<Rightarrow> bool" where
  "stored_json st \<longleftrightarrow> (case st ''auth-storage'' of Some (Json v) \<Rightarrow> is_json v | _ \<Rightarrow> True)"

definition in_sync :: "('b, 'p) world \<Rightarrow> bool" where
  "in_sync w \<longleftrightarrow> stored_json (w_storage w) \<and> storable (w_auth w) \<and>
     getToken (w_storage w) \<in> {Null, session_token (w_auth w)}"

lemma opt_member_json: "is_json v \<Longrightarrow> is_json (opt_member v k) \<or> opt_member v k = Undef"
  using is_json_prop by (cases v) (auto simp: opt_member_def)

lemma merged_json: "is_json v \<or> v = Undef \<Longrightarrow> is_json (merged v k Null) \<or> merged v k Null = Undef"
  by (cases v) (auto simp: merged_def dest!: map_of_SomeD split: option.splits)

lemma storable_rehydrate: "stored_json st \<Longrightarrow> storable (rehydrate st)"
  using merged_json [OF opt_member_json]
  by (auto simp: stored_json_def rehydrate_def storable_def initial_auth_def Let_def
      split: option.splits stored.splits)

lemma session_token_rehydrate: "session_token (rehydrate st) = getToken st"
  by (auto simp: session_token_def isAuthenticated_def rehydrate_def getToken_def merged_def
      initial_auth_def prop_of_def opt_member_def Let_def
      split: option.splits stored.splits jsval.splits)

lemma stored_json_persist: "storable s \<Longrightarrow> stored_json (persist s st)"
  by (auto simp: stored_json_def persist_def auth_record_def storable_def json_image_storable)

lemma in_sync_update:
  "storable (f (w_auth w)) \<Longrightarrow> in_sync (snd (update_auth f w))"
  by (simp add: in_sync_def update_auth_def io_update_def Let_def stored_json_persist getToken_persist)

lemma afterResponse_storage:
  "w_storage (afterResponse r w) = (if rs_status r = 401 then erase_session (w_storage w) else w_storage w)"
  by (simp add: afterResponse_def erase_session_def Let_def)

lemma called_storage: "w_storage (called server rq w) \<in> {w_storage w, erase_session (w_storage w)}"
  by (auto simp: called_def api_def Let_def afterResponse_storage split: prod.splits option.splits)

lemma in_sync_erase: "in_sync w \<Longrightarrow> w_auth v = w_auth w \<Longrightarrow>
    w_storage v \<in> {w_storage w, erase_session (w_storage w)} \<Longrightarrow> in_sync v"
  by (auto simp: in_sync_def getToken_erase stored_json_def erase_session_def getToken_def)

lemma in_sync_step: "session_step server w v \<Longrightarrow> in_sync w \<Longrightarrow> in_sync v"
proof (induction rule: session_step.induct)
  case (call w rq)
  then show ?case using called_storage [of server rq w] in_sync_erase [of w "called server rq w"]
    by (simp add: called_def [symmetric])
next
  case (loaded w p)
  then show ?case
    by (simp add: reload_def in_sync_def session_token_rehydrate storable_rehydrate)
next
  case (moved w path)
  then show ?case by (simp add: in_sync_def navigate_def io_update_def)
next
  case (tokens a r w)
  then show ?case by (intro in_sync_update) (auto simp: in_sync_def storable_def setTokens_def)
next
  case (user u w)
  then show ?case by (intro in_sync_update) (auto simp: in_sync_def storable_def setUser_def)
next
  case (signed_out w)
  show ?case by (intro in_sync_update) (simp add: storable_def logout_def)
qed

lemma in_sync_reach: "session_reach server w v \<Longrightarrow> in_sync w \<Longrightarrow> in_sync v"
  by (induction rule: session_reach.induct) (auto intro: in_sync_step)

lemma authHeader_token:
  "authHeader st = (if getToken st = Null then None else Some (js ''Bearer '' @ to_str (getToken st)))"
  by (auto simp: authHeader_def getToken_def Let_def split: option.splits stored.splits)

definition bearer :: "auth_state \<Rightarrow> jstring option" where
  "bearer s = (if isAuthenticated s then Some (js ''Bearer '' @ to_str (au_accessToken s)) else None)"

lemma authHeader_in_sync: "in_sync w \<Longrightarrow> authHeader (w_storage w) \<in> {None, bearer (w_auth w)}"
  by (auto simp: in_sync_def authHeader_token bearer_def session_token_def split: if_splits)

text \<open>
  C1: a request never carries a stale token. From the moment the page has loaded, through any
  sequence of sign-ins, sign-outs, user updates, answers (401 or not), moves and page loads, the
  next request carries either no token or the token of the session in memory; once signed out it
  carries none.
\<close>

theorem requests_carry_current_token:
  assumes "session_reach server (reload p w0) w" "stored_json (w_storage w0)"
  shows "\<exists>h. w_sent (snd (api server rq w)) = w_sent w @ [(rq, h)] \<and>
             (h = None \<or> h = bearer (w_auth w)) \<and>
             (\<not> isAuthenticated (w_auth w) \<longrightarrow> h = None)"
proof -
  have "in_sync (reload p w0)"
    using assms(2) by (simp add: reload_def in_sync_def session_token_rehydrate storable_rehydrate)
  then have "in_sync w" using assms(1) in_sync_reach by blast
  then have "authHeader (w_storage w) \<in> {None, bearer (w_auth w)}" by (rule authHeader_in_sync)
  then show ?thesis by (auto simp: bearer_def called_def [symmetric])
qed

definition demo_server :: "unit server" where
  "demo_server rq h b =
     (Some (if rq_path rq = js ''auth/login'' then
        \<lparr>rs_status = 200, rs_body = Some (JObj [(js ''data'', JObj [(js ''access_token'', JStr (js ''T'')),
           (js ''refresh_token'', JStr (js ''R''))])])\<rparr>
      else if h = Some (js ''Bearer T'') then \<lparr>rs_status = 200, rs_body = Some (JObj [(js ''data'', Null)])\<rparr>
      else \<lparr>rs_status = 401, rs_body = None\<rparr>), b)"

definition demo_world :: "(unit, login_page) world" where
  "demo_world = \<lparr>w_storage = Map.empty, w_pathname = js ''/login'', w_auth = initial_auth, w_draft = initial_draft,
     w_toasts = [], w_sent = [], w_backend = (),
     w_page = \<lparr>lg_username = js ''u'', lg_password = js ''p'', lg_loading = False\<rparr>\<rparr>"

theorem requests_carry_current_token_witness:
  "\<exists>h. w_sent (snd (api demo_server authApi_me (reload (w_page demo_world) demo_world))) = [(authApi_me, h)] \<and> h = None"
  using requests_carry_current_token [of demo_server "w_page demo_world" demo_world
      "reload (w_page demo_world) demo_world" authApi_me]
  by (simp add: session_reach.start demo_world_def stored_json_def reload_def rehydrate_def initial_auth_def
      isAuthenticated_def)

section \<open>Signing in\<close>

lemma wp_handleSubmit:
  assumes "lg_username (w_page w) \<noteq> []" "lg_password (w_page w) \<noteq> []"
  shows "wp (handleSubmit server) Q E w =
    wp (io_then (set_loading True)
          (io_finally
            (io_catch (sign_in server (lg_username (w_page w)) (lg_password (w_page w)))
              (\<lambda>_. toast (Failure (Key ''login.failed'' []))))
            (set_loading False))) Q E w"
  using assms by (simp add: handleSubmit_def Let_def)

text \<open>What signing in leaves: a session and the overview on success, only untouched page state on failure.\<close>

definition signed_in :: "('b, 'p) world \<Rightarrow> ('b, 'p) world \<Rightarrow> bool" where
  "signed_in w v \<longleftrightarrow> w_pathname v = js ''/'' \<and> w_toasts v = w_toasts w \<and> w_page v = w_page w"

lemma wp_sign_in:
  "wp (sign_in server username password) (\<lambda>_. signed_in w)
     (\<lambda>_ v. w_toasts v = w_toasts w \<and> w_page v = w_page w) w"
  by (auto simp: sign_in_def signed_in_def split: sum.splits)

text \<open>
  C18: the sign-in form always settles. With both fields filled in, whatever the backend answers,
  the handler returns without an exception and is no longer loading; it has either opened the
  overview without a message, or shown exactly one failure message. With a field empty it does
  nothing at all.
\<close>

theorem handleSubmit_settles:
  "\<exists>w'. handleSubmit server w = (Inr (), w') \<and>
     ((lg_username (w_page w) = [] \<or> lg_password (w_page w) = []) \<longrightarrow> w' = w) \<and>
     (lg_username (w_page w) \<noteq> [] \<and> lg_password (w_page w) \<noteq> [] \<longrightarrow>
        w_page w' = (w_page w)\<lparr>lg_loading := False\<rparr> \<and>
        (w_pathname w' = js ''/'' \<and> w_toasts w' = w_toasts w \<or>
         w_toasts w' = w_toasts w @ [Failure (Key ''login.failed'' [])]))"
proof (cases "lg_username (w_page w) = [] \<or> lg_password (w_page w) = []")
  case True
  then show ?thesis by (auto simp: handleSubmit_def io_read_def io_return_def Let_def)
next
  case False
  let ?Q = "\<lambda>_ w'. w_page w' = (w_page w)\<lparr>lg_loading := False\<rparr> \<and>
        (w_pathname w' = js ''/'' \<and> w_toasts w' = w_toasts w \<or>
         w_toasts w' = w_toasts w @ [Failure (Key ''login.failed'' [])])"
  have "wp (handleSubmit server) ?Q (\<lambda>_ _. False) w"
    unfolding wp_handleSubmit [OF False [simplified, THEN conjunct1] False [simplified, THEN conjunct2]]
      set_loading_def wp_then wp_finally wp_catch wp_updates
    by (rule wp_mono [OF wp_sign_in]) (auto simp: signed_in_def)
  then show ?thesis using False
    by (auto simp: wp_def split: prod.splits sum.splits)
qed

theorem handleSubmit_settles_witness:
  "\<exists>w'. handleSubmit demo_server demo_world = (Inr (), w') \<and> \<not> lg_loading (w_page w')"
  using handleSubmit_settles [of demo_server demo_world] by (auto simp: demo_world_def js_def)

text \<open>
  A sign-in whose second step fails is half done. When the login request is answered with
  tokens and the account request then fails, the form reports a failure although the session is
  kept: the tokens are stored, the application counts as signed in, and the account shown stays
  the one of the previous session.
\<close>

theorem failed_me_leaves_session:
  assumes "lg_username (w_page w) \<noteq> []" "lg_password (w_page w) \<noteq> []"
    and login: "\<And>v :: ('b, login_page) world. answered server (authApi_login (lg_username (w_page w)) (lg_password (w_page w))) v = Inr res"
    and tokens: "members res [''data'', ''access_token''] = Inr (JStr access)" "access \<noteq> []"
      "members res [''data'', ''refresh_token''] = Inr refresh"
    and me: "\<And>v :: ('b, login_page) world. answered server authApi_me v = Inl e"
  shows "\<exists>w'. handleSubmit (server :: 'b server) w = (Inr (), w') \<and>
    w_toasts w' = w_toasts w @ [Failure (Key ''login.failed'' [])] \<and>
    isAuthenticated (w_auth w') \<and> au_accessToken (w_auth w') = JStr access \<and>
    au_user (w_auth w') = au_user (w_auth w)"
proof -
  let ?Q = "\<lambda>_ w'. w_toasts w' = w_toasts w @ [Failure (Key ''login.failed'' [])] \<and>
    isAuthenticated (w_auth w') \<and> au_accessToken (w_auth w') = JStr access \<and>
    au_user (w_auth w') = au_user (w_auth w)"
  have "wp (handleSubmit server) ?Q (\<lambda>_ _. False) w"
    unfolding wp_handleSubmit [OF assms(1,2)] set_loading_def sign_in_def
    by (simp add: login tokens me setTokens_def isAuthenticated_def del: members.simps)
  then show ?thesis by (auto simp: wp_def split: prod.splits sum.splits)
qed

definition half_server :: "unit server" where
  "half_server rq h b = (if rq_path rq = js ''auth/me'' then None else fst (demo_server rq h b), b)"

theorem failed_me_leaves_session_witness:
  "\<exists>w'. handleSubmit half_server demo_world = (Inr (), w') \<and> isAuthenticated (w_auth w') \<and>
     w_toasts w' = [Failure (Key ''login.failed'' [])]"
  using failed_me_leaves_session [of demo_world half_server
      "JObj [(js ''data'', JObj [(js ''access_token'', JStr (js ''T'')), (js ''refresh_token'', JStr (js ''R''))])]"
      "js ''T''" "JStr (js ''R'')" Unreachable]
  by (auto simp: demo_world_def half_server_def demo_server_def answered_def api_def authApi_login_def
      authApi_me_def js_def)

section \<open>Losing the session\<close>

text \<open>
  C19: a 401 ends the session everywhere it is kept outside memory. The call fails with the answer,
  the stored session is gone, so no later request carries its token; the browser is on the login
  page; and after the page load that follows every entry of the menu, and every other address at
  which someone signed in would see a screen of the application, leads to the login page, which
  itself is shown. An address no route belongs to stays without one.
\<close>

theorem unauthorized_ends_session:
  assumes "server rq (authHeader (w_storage w)) (w_backend w) = (Some r, b)" "rs_status r = 401"
  shows "answered server rq w = Inl (HTTPError r) \<and>
    authHeader (w_storage (called server rq w)) = None \<and>
    w_pathname (called server rq w) = js ''/login'' \<and>
    (let s = w_auth (reload p (called server rq w))
     in router s ''/login'' = Show Login \<and>
       (\<forall>item \<in> set navItems. router s (fst item) = Navigate (js ''/login'')) \<and>
       (\<forall>path signed_in screen. router signed_in path = Show screen \<and> path \<noteq> ''/login'' \<longrightarrow>
          router s path = Navigate (js ''/login'')))"
proof -
  have st: "w_storage (called server rq w) = erase_session (w_storage w)"
    using assms by (simp add: called_def api_def afterResponse_storage)
  then have out: "\<not> isAuthenticated (w_auth (reload p (called server rq w)))"
    by (simp add: reload_def rehydrate_def erase_session_def isAuthenticated_def initial_auth_def)
  let ?s = "w_auth (reload p (called server rq w))"
  have "\<forall>item \<in> set navItems. router ?s (fst item) = Navigate (js ''/login'')"
    using out by (simp add: navItems_def router_def children_def ProtectedRoute_def)
  moreover have "\<forall>path signed_in screen. router signed_in path = Show screen \<and> path \<noteq> ''/login'' \<longrightarrow>
      router ?s path = Navigate (js ''/login'')"
    using out by (auto simp: router_def ProtectedRoute_def split: list.splits option.splits if_splits)
  moreover have "router ?s ''/login'' = Show Login" by (simp add: router_def)
  ultimately have routes: "let s = ?s in router s ''/login'' = Show Login \<and>
      (\<forall>item \<in> set navItems. router s (fst item) = Navigate (js ''/login'')) \<and>
      (\<forall>path signed_in screen. router signed_in path = Show screen \<and> path \<noteq> ''/login'' \<longrightarrow>
         router s path = Navigate (js ''/login''))"
    unfolding Let_def by (intro conjI)
  have "answered server rq w = Inl (HTTPError r)"
    using assms by (simp add: answered_def api_def)
  moreover have "w_pathname (called server rq w) = js ''/login''"
    using assms by (simp add: called_def api_def afterResponse_def Let_def)
  moreover have "authHeader (w_storage (called server rq w)) = None"
    using st by (simp add: authHeader_token getToken_erase)
  ultimately show ?thesis using routes by (intro conjI)
qed

theorem unauthorized_ends_session_witness:
  "answered demo_server authApi_me demo_world = Inl (HTTPError \<lparr>rs_status = 401, rs_body = None\<rparr>)"
  using unauthorized_ends_session [of demo_server authApi_me demo_world "\<lparr>rs_status = 401, rs_body = None\<rparr>" "()"]
  by (simp add: demo_server_def demo_world_def authApi_me_def js_def authHeader_def getToken_def)

text \<open>
  Signing out works without the backend: afterwards nobody is signed in, the stored session
  holds no token, and every address of the menu leads to the login page, while with a session each
  of them shows its screen.
\<close>

theorem logout_locks_every_screen:
  "(let w' = snd (handleLogout w)
    in w_pathname w' = js ''/login'' \<and> w_sent w' = w_sent w \<and> authHeader (w_storage w') = None \<and>
       (\<forall>item \<in> set navItems. router (w_auth w') (fst item) = Navigate (js ''/login''))) \<and>
   (\<forall>item \<in> set navItems. isAuthenticated s \<longrightarrow> (\<exists>screen. router s (fst item) = Show screen))"
proof -
  have nav: "\<forall>item \<in> set navItems. \<exists>screen. \<forall>s. router s (fst item) = ProtectedRoute s screen"
    by (simp add: navItems_def router_def children_def) blast
  have w': "snd (handleLogout w) = w\<lparr>w_auth := logout (w_auth w),
      w_storage := persist (logout (w_auth w)) (w_storage w), w_pathname := js ''/login''\<rparr>"
    by (simp add: handleLogout_def io_then_def io_bind_def update_auth_def io_update_def navigate_def Let_def)
  have "storable (logout (w_auth w))" by (simp add: storable_def logout_def)
  then have "authHeader (persist (logout (w_auth w)) (w_storage w)) = None"
    by (simp add: authHeader_token getToken_persist session_token_def isAuthenticated_def logout_def)
  then show ?thesis using nav unfolding w'
    by (fastforce simp: ProtectedRoute_def isAuthenticated_def logout_def Let_def)
qed

theorem logout_locks_every_screen_witness:
  "router (w_auth (snd (handleLogout demo_world))) ''/proxies'' = Navigate (js ''/login'')"
  using logout_locks_every_screen [of demo_world initial_auth] by (simp add: Let_def navItems_def)

text \<open>
  Changing the password never loses what was typed unless it worked: the dialog closes and its
  fields are cleared exactly when the backend accepted the change, and in every case the handler
  returns, is no longer saving and shows exactly one message.
\<close>

theorem handleChangePassword_outcome:
  assumes "hd_currentPw (w_page w) \<noteq> []" "hd_newPw (w_page w) \<noteq> []"
  shows "\<exists>w' ok. handleChangePassword server w = (Inr (), w') \<and> \<not> hd_saving (w_page w') \<and>
    (if ok then w_toasts w' = w_toasts w @ [Success (Key ''header.passwordChanged'' [])] \<and>
         \<not> hd_pwDialogOpen (w_page w') \<and> hd_currentPw (w_page w') = [] \<and> hd_newPw (w_page w') = []
     else w_toasts w' = w_toasts w @ [Failure (Key ''header.passwordChangeFailed'' [])] \<and>
         hd_pwDialogOpen (w_page w') = hd_pwDialogOpen (w_page w) \<and>
         hd_currentPw (w_page w') = hd_currentPw (w_page w) \<and> hd_newPw (w_page w') = hd_newPw (w_page w))"
  (is "\<exists>w' ok. _ w' \<and> ?P w' ok")
proof -
  have "wp (handleChangePassword server) (\<lambda>_ w'. \<exists>ok. ?P w' ok) (\<lambda>_ _. False) w"
    using assms by (simp add: handleChangePassword_def Let_def ex_bool_eq split: sum.split)
  from wp_total [OF this] show ?thesis by blast
qed

definition header_world :: "(unit, header_state) world" where
  "header_world = \<lparr>w_storage = Map.empty, w_pathname = js ''/'', w_auth = initial_auth, w_draft = initial_draft,
     w_toasts = [], w_sent = [], w_backend = (),
     w_page = \<lparr>hd_pwDialogOpen = True, hd_currentPw = js ''a'', hd_newPw = js ''b'', hd_saving = False,
       hd_dark = False, hd_document_dark = False\<rparr>\<rparr>"

theorem handleChangePassword_outcome_witness:
  "\<exists>w'. handleChangePassword demo_server header_world = (Inr (), w') \<and> \<not> hd_saving (w_page w')"
  using handleChangePassword_outcome [of header_world demo_server]
  by (auto simp: header_world_def js_def)

end
