(* ===== verification/Subscription_Form.thy ===== *)
theory Subscription_Form
  imports Wall_Time Api
begin

text \<open>
  \<open>components/subscriptions/subscription-form.tsx\<close> and the types of \<open>api/subscriptions.ts\<close> and
  \<open>api/traffic.ts\<close> it uses: the dialog's fields, the effect that fills them when it opens, the
  change handlers, and \<open>submit\<close>: validation, the input sent to the backend, and the save. The
  lemmas show what a submitted input can and cannot contain.
\<close>

section \<open>Data\<close>

record userinfo =
  ui_upload :: jsnum
  ui_download :: jsnum
  ui_total :: jsnum
  ui_expire :: jsnum
  ui_fetched_at :: jstring

record subscription =
  sb_id :: jstring
  sb_name :: jstring
  sb_enabled :: bool
  sb_status :: jstring
  sb_last_error :: jstring
  sb_provider_name :: jstring
  sb_provider_source :: jstring
  sb_provider_exists :: bool
  sb_url_masked :: jstring
  sb_node_count :: "jsnum option"
  sb_source_type :: jstring
  sb_traffic_provider_name :: jstring
  sb_supplier_reset_day :: "jsnum option"
  sb_quota_bytes :: "jsnum option"
  sb_used_bytes :: "jsnum option"
  sb_remaining_bytes :: "jsnum option"
  sb_usage_source :: jstring
  sb_local_used_bytes :: "jsnum option"
  sb_expires_at :: "jstring option"
  sb_expires_source :: jstring
  sb_reset_day :: jsnum
  sb_reset_hour :: jsnum
  sb_reset_minute :: jsnum
  sb_timezone :: "jstring option"
  sb_cycle_start :: "jstring option"
  sb_cycle_end :: "jstring option"
  sb_next_reset :: "jstring option"
  sb_userinfo_fetched_at :: "jstring option"
  sb_last_refresh_at :: "jstring option"
  sb_last_success_at :: "jstring option"
  sb_stale :: bool
  sb_userinfo :: "userinfo option"
  sb_traffic_provider_id :: jstring
  sb_created_at :: jstring
  sb_updated_at :: jstring
  sb_draft_changed :: "bool option"

record discovered_provider =
  dp_name :: jstring
  dp_type :: jstring
  dp_node_count :: "jsnum option"
  dp_linked_subscription_id :: "jstring option"
  dp_linked :: bool

record traffic_provider =
  tp_id :: jstring
  tp_name :: jstring
  tp_quota_bytes :: jsnum
  tp_reset_day :: jsnum
  tp_reset_hour :: jsnum
  tp_reset_minute :: jsnum
  tp_reset_timezone :: jstring
  tp_node_patterns :: "jstring list"
  tp_subscription_url :: jstring
  tp_enabled :: bool
  tp_created_at :: jstring
  tp_updated_at :: jstring

datatype source_type = Native | TrafficSource

text \<open>\<open>SubscriptionInput\<close>: a field left out of the object is \<open>None\<close>.\<close>

record subscription_input =
  si_name :: jstring
  si_url :: "jstring option"
  si_provider_name :: "jstring option"
  si_source_type :: "source_type option"
  si_traffic_provider_id :: "jstring option"
  si_quota_bytes :: "jsnum option"
  si_manual_expire :: "jstring option"
  si_reset_day :: "jsnum option"
  si_reset_hour :: "jsnum option"
  si_reset_minute :: "jsnum option"
  si_timezone :: "jstring option"
  si_enabled :: bool

record form =
  fm_name :: jstring
  fm_sourceType :: source_type
  fm_providerName :: jstring
  fm_providerTouched :: bool
  fm_url :: jstring
  fm_enabled :: bool
  fm_quotaGB :: jstring
  fm_quotaDirty :: bool
  fm_manualExpiry :: jstring
  fm_expiryDirty :: bool
  fm_expiryTimezone :: jstring
  fm_resetConfigured :: bool
  fm_resetDirty :: bool
  fm_resetDay :: jstring
  fm_resetHour :: jstring
  fm_resetMinute :: jstring
  fm_timezone :: jstring
  fm_trafficProviderID :: jstring
  fm_formError :: "string option"
  fm_saving :: bool

section \<open>Opening\<close>

definition GB :: jsnum where
  "GB = num (1024 ^ 3)"

definition COMMON_TIMEZONES :: "jstring list" where
  "COMMON_TIMEZONES = map js
     [''UTC'', ''Asia/Shanghai'', ''Asia/Hong_Kong'', ''Asia/Tokyo'', ''Asia/Singapore'', ''Europe/London'',
      ''Europe/Berlin'', ''America/New_York'', ''America/Los_Angeles'']"

definition quota_text :: "jsnum \<Rightarrow> jstring" where
  "quota_text bytes = num_str (num_div (num_round (num_mul (num_div bytes GB) (num 100))) (num 100))"

definition vendor_total :: "subscription \<Rightarrow> jsnum" where
  "vendor_total sub = (case sb_userinfo sub of Some u \<Rightarrow> ui_total u | None \<Rightarrow> Fin 0)"

definition open_edit :: "date_env \<Rightarrow> zone_env \<Rightarrow> subscription \<Rightarrow> form \<Rightarrow> form" where
  "open_edit env z sub fm =
     (let expiryZone = str_or_text (sb_timezone sub) (browserTimezone z);
          hasReset = num_le (num 1) (sb_reset_day sub)
      in fm\<lparr>fm_formError := None, fm_url := [], fm_name := sb_name sub,
           fm_sourceType := (if sb_source_type sub = js ''traffic'' then TrafficSource else Native),
           fm_providerName := str_or_text (Some (sb_provider_name sub)) (sb_name sub),
           fm_providerTouched := True, fm_enabled := sb_enabled sub,
           fm_quotaGB := (case sb_quota_bytes sub of
              Some q \<Rightarrow> if num_le (vendor_total sub) (num 0) then quota_text q else [] | None \<Rightarrow> []),
           fm_expiryTimezone := expiryZone, fm_quotaDirty := False, fm_expiryDirty := False,
           fm_manualExpiry := (if sb_expires_source sub = js ''manual''
              then toDateTimeInput env z (sb_expires_at sub) expiryZone else []),
           fm_resetConfigured := hasReset, fm_resetDirty := False,
           fm_resetDay := (if hasReset then num_str (sb_reset_day sub) else js ''1''),
           fm_resetHour := num_str (num_or (Some (sb_reset_hour sub)) (num 0)),
           fm_resetMinute := num_str (num_or (Some (sb_reset_minute sub)) (num 0)),
           fm_timezone := or_default (sb_timezone sub) [],
           fm_trafficProviderID := sb_traffic_provider_id sub\<rparr>)"

definition open_create :: "zone_env \<Rightarrow> form \<Rightarrow> form" where
  "open_create z fm =
     fm\<lparr>fm_formError := None, fm_url := [], fm_name := [], fm_sourceType := Native, fm_providerName := [],
       fm_providerTouched := False, fm_enabled := True, fm_quotaGB := [], fm_quotaDirty := False,
       fm_manualExpiry := [], fm_expiryDirty := False, fm_expiryTimezone := browserTimezone z,
       fm_resetConfigured := False, fm_resetDirty := False, fm_resetDay := js ''1'', fm_resetHour := js ''0'',
       fm_resetMinute := js ''0'', fm_timezone := browserTimezone z, fm_trafficProviderID := []\<rparr>"

definition open_effect :: "date_env \<Rightarrow> zone_env \<Rightarrow> bool \<Rightarrow> subscription option \<Rightarrow> form \<Rightarrow> form" where
  "open_effect env z opened sub fm =
     (if \<not> opened then fm
      else case sub of Some s \<Rightarrow> open_edit env z s fm | None \<Rightarrow> open_create z fm)"

section \<open>Derived values and handlers\<close>

definition effectiveQuota :: "(rat \<Rightarrow> int) \<Rightarrow> subscription option \<Rightarrow> jstring option" where
  "effectiveQuota lg sub = (case sub of Some s \<Rightarrow> formatBytesExact lg (sb_quota_bytes s) | None \<Rightarrow> None)"

definition vendorExpiry :: "date_env \<Rightarrow> jstring \<Rightarrow> subscription option \<Rightarrow> jstring option" where
  "vendorExpiry env locale sub = (case sub of
     Some s \<Rightarrow> if sb_expires_source s = js ''vendor''
       then formatApiDateTime env (sb_expires_at s) locale (sb_timezone s) else None
   | None \<Rightarrow> None)"

definition existingProvider :: "discovered_provider list \<Rightarrow> form \<Rightarrow> discovered_provider option" where
  "existingProvider providers fm = find (\<lambda>p. dp_name p = trim (fm_providerName fm)) providers"

definition linkedElsewhere :: "discovered_provider list \<Rightarrow> subscription option \<Rightarrow> form \<Rightarrow> bool" where
  "linkedElsewhere providers sub fm = (case existingProvider providers fm of
     None \<Rightarrow> False
   | Some p \<Rightarrow> (case nonempty (dp_linked_subscription_id p) of
       None \<Rightarrow> False | Some i \<Rightarrow> Some i \<noteq> map_option sb_id sub))"

definition handleNameChange :: "subscription option \<Rightarrow> jstring \<Rightarrow> form \<Rightarrow> form" where
  "handleNameChange sub v fm =
     (let fm' = fm\<lparr>fm_name := v\<rparr>
      in if sub = None \<and> \<not> fm_providerTouched fm then fm'\<lparr>fm_providerName := v\<rparr> else fm')"

definition handleTimezoneChange :: "jstring \<Rightarrow> form \<Rightarrow> form" where
  "handleTimezoneChange v fm = fm\<lparr>fm_timezone := v, fm_resetDirty := True\<rparr>"

definition handleTrafficProviderChange ::
    "subscription option \<Rightarrow> traffic_provider list \<Rightarrow> jstring \<Rightarrow> form \<Rightarrow> form" where
  "handleTrafficProviderChange sub trafficProviders v fm =
     (let fm' = fm\<lparr>fm_trafficProviderID := v\<rparr>
      in if sub \<noteq> None then fm'
         else case find (\<lambda>p. tp_id p = v) trafficProviders of
           None \<Rightarrow> fm'
         | Some tp \<Rightarrow>
             (let hasReset = num_le (num 1) (tp_reset_day tp)
              in fm'\<lparr>fm_quotaGB := (if num_lt (num 0) (tp_quota_bytes tp) then quota_text (tp_quota_bytes tp) else []),
                   fm_quotaDirty := False, fm_resetConfigured := hasReset,
                   fm_resetDay := (if hasReset then num_str (tp_reset_day tp) else js ''1''),
                   fm_resetHour := num_str (num_or (Some (tp_reset_hour tp)) (num 0)),
                   fm_resetMinute := num_str (num_or (Some (tp_reset_minute tp)) (num 0)),
                   fm_timezone := tp_reset_timezone tp, fm_resetDirty := False\<rparr>))"

definition onSourceType :: "source_type \<Rightarrow> form \<Rightarrow> form" where
  "onSourceType s fm = fm\<lparr>fm_sourceType := s\<rparr>"

definition onProviderName :: "jstring \<Rightarrow> form \<Rightarrow> form" where
  "onProviderName v fm = fm\<lparr>fm_providerTouched := True, fm_providerName := v\<rparr>"

definition onUrl :: "jstring \<Rightarrow> form \<Rightarrow> form" where
  "onUrl v fm = fm\<lparr>fm_url := v\<rparr>"

definition onEnabled :: "bool \<Rightarrow> form \<Rightarrow> form" where
  "onEnabled b fm = fm\<lparr>fm_enabled := b\<rparr>"

definition onQuota :: "jstring \<Rightarrow> form \<Rightarrow> form" where
  "onQuota v fm = fm\<lparr>fm_quotaGB := v, fm_quotaDirty := True\<rparr>"

definition onResetConfigured :: "bool \<Rightarrow> form \<Rightarrow> form" where
  "onResetConfigured checked fm =
     (let fm' = fm\<lparr>fm_resetConfigured := checked, fm_resetDirty := True\<rparr>
      in if checked \<and> (fm_resetDay fm = [] \<or> fm_resetDay fm = js ''0'') then fm'\<lparr>fm_resetDay := js ''1''\<rparr> else fm')"

definition onResetDay :: "jstring \<Rightarrow> form \<Rightarrow> form" where
  "onResetDay v fm = fm\<lparr>fm_resetDay := v, fm_resetDirty := True\<rparr>"

definition onResetHour :: "jstring \<Rightarrow> form \<Rightarrow> form" where
  "onResetHour v fm = fm\<lparr>fm_resetHour := v, fm_resetDirty := True\<rparr>"

definition onResetMinute :: "jstring \<Rightarrow> form \<Rightarrow> form" where
  "onResetMinute v fm = fm\<lparr>fm_resetMinute := v, fm_resetDirty := True\<rparr>"

definition onNativeTrafficProvider :: "jstring \<Rightarrow> form \<Rightarrow> form" where
  "onNativeTrafficProvider v fm = fm\<lparr>fm_trafficProviderID := v\<rparr>"

definition onManualExpiry :: "jstring \<Rightarrow> form \<Rightarrow> form" where
  "onManualExpiry v fm = fm\<lparr>fm_manualExpiry := v, fm_expiryDirty := True\<rparr>"

definition onExpiryTimezone :: "jstring \<Rightarrow> form \<Rightarrow> form" where
  "onExpiryTimezone v fm = fm\<lparr>fm_expiryTimezone := v, fm_expiryDirty := True\<rparr>"

definition timezone_choices :: "zone_env \<Rightarrow> jstring list" where
  "timezone_choices z = set_of_list (browserTimezone z # COMMON_TIMEZONES)"

definition expiry_timezone_choices :: "zone_env \<Rightarrow> form \<Rightarrow> jstring list" where
  "expiry_timezone_choices z fm =
     set_of_list ((browserTimezone z # COMMON_TIMEZONES) @ [fm_expiryTimezone fm])"

section \<open>Submitting\<close>

definition quota_value :: "form \<Rightarrow> jsnum option" where
  "quota_value fm = (if trim (fm_quotaGB fm) = [] then None else Some (to_number (fm_quotaGB fm)))"

definition quota_bytes :: "form \<Rightarrow> jsnum" where
  "quota_bytes fm = (case quota_value fm of Some q \<Rightarrow> num_round (num_mul q GB) | None \<Rightarrow> num 0)"

text \<open>\<open>manualExpiry ? wallTimeToISO(...) : ''\<close>: \<open>None\<close> is null.\<close>

definition manualExpiryISO :: "zone_env \<Rightarrow> form \<Rightarrow> jstring option" where
  "manualExpiryISO z fm =
     (if fm_manualExpiry fm \<noteq> [] then wallTimeToISO z (fm_manualExpiry fm) (fm_expiryTimezone fm) else Some [])"

definition reset_value :: "form \<Rightarrow> jstring \<Rightarrow> jsnum" where
  "reset_value fm v = (if fm_resetConfigured fm then to_number v else num 0)"

definition in_range :: "jsnum \<Rightarrow> int \<Rightarrow> int \<Rightarrow> bool" where
  "in_range x lo hi \<longleftrightarrow> \<not> (\<not> is_integer x \<or> num_lt x (num lo) \<or> num_lt (num hi) x)"

definition trimmedProvider :: "form \<Rightarrow> jstring" where
  "trimmedProvider fm = str_or_text (Some (trim (fm_providerName fm))) (trim (fm_name fm))"

definition form_problem ::
    "zone_env \<Rightarrow> discovered_provider list \<Rightarrow> subscription option \<Rightarrow> form \<Rightarrow> string option" where
  "form_problem z providers sub fm =
     (if trim (fm_name fm) = [] then Some ''subscriptions.formInvalid''
      else if fm_resetConfigured fm \<and>
          \<not> (in_range (reset_value fm (fm_resetDay fm)) 1 31 \<and> in_range (reset_value fm (fm_resetHour fm)) 0 23 \<and>
             in_range (reset_value fm (fm_resetMinute fm)) 0 59) then Some ''subscriptions.formInvalid''
      else if (case quota_value fm of Some q \<Rightarrow> \<not> is_finite q \<or> num_le q (num 0) | None \<Rightarrow> False)
        then Some ''subscriptions.formInvalid''
      else if fm_resetConfigured fm \<and> \<not> validTimezone z (trim (fm_timezone fm))
        then Some ''subscriptions.formInvalid''
      else if fm_expiryDirty fm \<and> fm_manualExpiry fm \<noteq> [] \<and> manualExpiryISO z fm = None
        then Some ''subscriptions.formInvalid''
      else if fm_sourceType fm = TrafficSource then
        (if fm_trafficProviderID fm = [] then Some ''subscriptions.trafficProviderRequired'' else None)
      else if linkedElsewhere providers sub fm then Some ''subscriptions.providerConflict''
      else if (case sub of Some s \<Rightarrow> trimmedProvider fm \<noteq> sb_provider_name s \<and> existingProvider providers fm = None
               | None \<Rightarrow> False) then Some ''subscriptions.providerMustExist''
      else if existingProvider providers fm = None \<and> trim (fm_url fm) = [] then Some ''subscriptions.urlRequired''
      else None)"

definition reset_timezone :: "form \<Rightarrow> jstring" where
  "reset_timezone fm = (if fm_resetConfigured fm then trim (fm_timezone fm) else [])"

definition with_reset :: "form \<Rightarrow> subscription_input \<Rightarrow> subscription_input" where
  "with_reset fm si =
     si\<lparr>si_reset_day := Some (reset_value fm (fm_resetDay fm)),
       si_reset_hour := Some (reset_value fm (fm_resetHour fm)),
       si_reset_minute := Some (reset_value fm (fm_resetMinute fm)),
       si_timezone := Some (reset_timezone fm)\<rparr>"

definition mayUpdateProviderURL :: "discovered_provider list \<Rightarrow> subscription option \<Rightarrow> form \<Rightarrow> bool" where
  "mayUpdateProviderURL providers sub fm \<longleftrightarrow>
     existingProvider providers fm = None \<or>
     (case sub of Some s \<Rightarrow> trimmedProvider fm = sb_provider_name s | None \<Rightarrow> False)"

definition build_input ::
    "zone_env \<Rightarrow> discovered_provider list \<Rightarrow> subscription option \<Rightarrow> form \<Rightarrow> subscription_input" where
  "build_input z providers sub fm =
     (let base = \<lparr>si_name = trim (fm_name fm), si_url = None, si_provider_name = None, si_source_type = None,
            si_traffic_provider_id = None, si_quota_bytes = None, si_manual_expire = None, si_reset_day = None,
            si_reset_hour = None, si_reset_minute = None, si_timezone = None, si_enabled = fm_enabled fm\<rparr>;
          quota = (\<lambda>si. if fm_quotaDirty fm then si\<lparr>si_quota_bytes := Some (quota_bytes fm)\<rparr> else si);
          expiry = (\<lambda>si. if fm_expiryDirty fm then si\<lparr>si_manual_expire := Some (or_default (manualExpiryISO z fm) [])\<rparr> else si);
          bound = base\<lparr>si_traffic_provider_id := Some (fm_trafficProviderID fm)\<rparr>
      in if fm_sourceType fm = TrafficSource then
           (let typed = (if sub = None then bound\<lparr>si_source_type := Some TrafficSource\<rparr> else bound);
                inherited = quota typed
            in expiry (if fm_resetDirty fm then with_reset fm inherited else inherited))
         else
           (let named = with_reset fm (bound\<lparr>si_provider_name := Some (trimmedProvider fm)\<rparr>);
                located = (if mayUpdateProviderURL providers sub fm \<and> trim (fm_url fm) \<noteq> []
                           then named\<lparr>si_url := Some (trim (fm_url fm))\<rparr> else named)
            in expiry (quota located)))"

text \<open>The dialog as a page: its fields and whether it is open. \<open>onSave\<close> is the page's own handler.\<close>

record form_page =
  fp_form :: form
  fp_open :: bool

definition set_form :: "(form \<Rightarrow> form) \<Rightarrow> (('b, form_page) world, unit) io" where
  "set_form f = page (\<lambda>p. p\<lparr>fp_form := f (fp_form p)\<rparr>)"

definition submit ::
    "zone_env \<Rightarrow> discovered_provider list \<Rightarrow> subscription option \<Rightarrow>
     (subscription_input \<Rightarrow> jstring option \<Rightarrow> (('b, form_page) world, unit) io) \<Rightarrow>
     (('b, form_page) world, unit) io" where
  "submit z providers sub onSave = io_read (\<lambda>w.
     let fm = fp_form (w_page w)
     in case form_problem z providers sub fm of
          Some e \<Rightarrow> set_form (\<lambda>f. f\<lparr>fm_formError := Some e\<rparr>)
        | None \<Rightarrow>
            io_then (set_form (\<lambda>f. f\<lparr>fm_formError := None, fm_saving := True\<rparr>))
              (io_finally
                (io_catch
                  (io_then (onSave (build_input z providers sub fm) (map_option sb_id sub))
                    (page (\<lambda>p. p\<lparr>fp_open := False\<rparr>)))
                  (\<lambda>_. io_return ()))
                (set_form (\<lambda>f. f\<lparr>fm_saving := False\<rparr>))))"

definition save_disabled :: "discovered_provider list \<Rightarrow> subscription option \<Rightarrow> form \<Rightarrow> bool" where
  "save_disabled providers sub fm \<longleftrightarrow> fm_saving fm \<or> linkedElsewhere providers sub fm"

definition conflict_shown :: "discovered_provider list \<Rightarrow> subscription option \<Rightarrow> form \<Rightarrow> bool" where
  "conflict_shown providers sub fm \<longleftrightarrow>
     fm_sourceType fm = Native \<and> linkedElsewhere providers sub fm \<or>
     fm_formError fm = Some ''subscriptions.providerConflict''"

section \<open>What is sent\<close>

text \<open>
  The schedule round trip: what the dialog shows for a stored schedule reads back as that schedule.
\<close>

lemma schedule_roundtrip:
  assumes "sb_reset_day sub = num d" "1 \<le> d" "d \<le> 31" "sb_reset_hour sub = num h" "0 \<le> h" "h \<le> 23"
    and "sb_reset_minute sub = num m" "0 \<le> m" "m \<le> 59"
    and fm: "fm = open_edit env z sub f"
  shows "fm_resetConfigured fm" "reset_value fm (fm_resetDay fm) = num d"
    "reset_value fm (fm_resetHour fm) = num h" "reset_value fm (fm_resetMinute fm) = num m"
proof -
  have le: "num_le (num 1) (sb_reset_day sub)" using assms(1,2) by (simp add: num_def)
  have or: "num_or (Some (num n)) (num 0) = num n" for n by (simp add: num_or_def num_def)
  have f: "fm_resetConfigured fm" "fm_resetDay fm = num_str (num d)" "fm_resetHour fm = num_str (num h)"
    "fm_resetMinute fm = num_str (num m)"
    using le unfolding fm by (simp_all add: open_edit_def Let_def assms(1,4,7) or)
  then show "fm_resetConfigured fm" "reset_value fm (fm_resetDay fm) = num d"
    "reset_value fm (fm_resetHour fm) = num h" "reset_value fm (fm_resetMinute fm) = num m"
    using to_number_num_str assms by (simp_all add: reset_value_def)
qed

lemmas input_defs = build_input_def with_reset_def Let_def

text \<open>The fields of the input, one by one.\<close>

lemma build_input_fields [simp]:
  "si_name (build_input z ps sub fm) = trim (fm_name fm)"
  "si_enabled (build_input z ps sub fm) = fm_enabled fm"
  "si_traffic_provider_id (build_input z ps sub fm) = Some (fm_trafficProviderID fm)"
  "si_provider_name (build_input z ps sub fm) =
     (if fm_sourceType fm = TrafficSource then None else Some (trimmedProvider fm))"
  "si_source_type (build_input z ps sub fm) =
     (if fm_sourceType fm = TrafficSource \<and> sub = None then Some TrafficSource else None)"
  "si_url (build_input z ps sub fm) =
     (if fm_sourceType fm = Native \<and> mayUpdateProviderURL ps sub fm \<and> trim (fm_url fm) \<noteq> []
      then Some (trim (fm_url fm)) else None)"
  "si_quota_bytes (build_input z ps sub fm) = (if fm_quotaDirty fm then Some (quota_bytes fm) else None)"
  "si_manual_expire (build_input z ps sub fm) =
     (if fm_expiryDirty fm then Some (or_default (manualExpiryISO z fm) []) else None)"
  by (cases "fm_sourceType fm"; simp add: input_defs)+

lemma build_input_reset [simp]:
  "si_reset_day (build_input z ps sub fm) =
     (if fm_sourceType fm = Native \<or> fm_resetDirty fm then Some (reset_value fm (fm_resetDay fm)) else None)"
  "si_reset_hour (build_input z ps sub fm) =
     (if fm_sourceType fm = Native \<or> fm_resetDirty fm then Some (reset_value fm (fm_resetHour fm)) else None)"
  "si_reset_minute (build_input z ps sub fm) =
     (if fm_sourceType fm = Native \<or> fm_resetDirty fm then Some (reset_value fm (fm_resetMinute fm)) else None)"
  "si_timezone (build_input z ps sub fm) =
     (if fm_sourceType fm = Native \<or> fm_resetDirty fm then Some (reset_timezone fm) else None)"
  by (cases "fm_sourceType fm"; simp add: input_defs)+

lemma in_range_num: "in_range x lo hi \<longleftrightarrow> (\<exists>n. x = num n \<and> lo \<le> n \<and> n \<le> hi)"
proof
  assume r: "in_range x lo hi"
  then obtain n where "x = num n" by (auto simp: in_range_def elim: is_integerE)
  with r show "\<exists>n. x = num n \<and> lo \<le> n \<and> n \<le> hi"
    by (auto simp: in_range_def num_def)
qed (auto simp: in_range_def num_def is_integer_def is_int_rat_def)

lemma reset_valid:
  assumes "form_problem z ps sub fm = None"
  shows "\<exists>d h m. reset_value fm (fm_resetDay fm) = num d \<and> reset_value fm (fm_resetHour fm) = num h \<and>
    reset_value fm (fm_resetMinute fm) = num m \<and>
    (if fm_resetConfigured fm then 1 \<le> d \<and> d \<le> 31 \<and> 0 \<le> h \<and> h \<le> 23 \<and> 0 \<le> m \<and> m \<le> 59
     else d = 0 \<and> h = 0 \<and> m = 0)"
proof (cases "fm_resetConfigured fm")
  case True
  then have "in_range (reset_value fm (fm_resetDay fm)) 1 31 \<and> in_range (reset_value fm (fm_resetHour fm)) 0 23 \<and>
      in_range (reset_value fm (fm_resetMinute fm)) 0 59"
    using assms by (auto simp: form_problem_def split: if_splits)
  then show ?thesis using True by (auto simp: in_range_num)
qed (simp add: reset_value_def)

text \<open>
  C4: what passes validation is well formed. The name is not blank; the schedule that is sent is
  either none at all (day 0, 0:00, no zone) or a day from 1 to 31 with a time of day and a zone
  the browser accepts; every expiry that is sent is empty (cleared) or the ISO text of the
  entered time; and a traffic source is sent with the traffic provider that is chosen, which is not
  empty.
\<close>

theorem submitted_input_valid:
  assumes "form_problem z ps sub fm = None" "si = build_input z ps sub fm"
  shows "si_name si \<noteq> [] \<and> trim (si_name si) = si_name si \<and>
    (\<forall>d. si_reset_day si = Some d \<longrightarrow> (\<exists>n h m tz. d = num n \<and> si_reset_hour si = Some (num h) \<and>
       si_reset_minute si = Some (num m) \<and> si_timezone si = Some tz \<and>
       (if fm_resetConfigured fm then 1 \<le> n \<and> n \<le> 31 \<and> 0 \<le> h \<and> h \<le> 23 \<and> 0 \<le> m \<and> m \<le> 59 \<and> validTimezone z tz
        else n = 0 \<and> h = 0 \<and> m = 0 \<and> tz = []))) \<and>
    (\<forall>e. si_manual_expire si = Some e \<longrightarrow>
       (if fm_manualExpiry fm = [] then e = [] else wallTimeToISO z (fm_manualExpiry fm) (fm_expiryTimezone fm) = Some e)) \<and>
    (fm_sourceType fm = TrafficSource \<longrightarrow>
       si_traffic_provider_id si = Some (fm_trafficProviderID fm) \<and> fm_trafficProviderID fm \<noteq> [])"
proof -
  have "si_name si \<noteq> []" using assms by (auto simp: form_problem_def)
  moreover have "fm_resetConfigured fm \<Longrightarrow> validTimezone z (reset_timezone fm)"
    using assms(1) by (auto simp: form_problem_def reset_timezone_def split: if_splits)
  moreover have "fm_sourceType fm = TrafficSource \<longrightarrow> fm_trafficProviderID fm \<noteq> []"
    using assms(1) by (auto simp: form_problem_def split: if_splits)
  moreover have "fm_expiryDirty fm \<Longrightarrow> fm_manualExpiry fm \<noteq> [] \<Longrightarrow> manualExpiryISO z fm \<noteq> None"
    using assms(1) by (auto simp: form_problem_def split: if_splits)
  ultimately show ?thesis
    using reset_valid [OF assms(1)] unfolding assms(2)
    by (auto simp: trim_trim manualExpiryISO_def reset_timezone_def split: if_splits)
qed

definition blank_form :: form where
  "blank_form = \<lparr>fm_name = [], fm_sourceType = Native, fm_providerName = [], fm_providerTouched = False, fm_url = [],
     fm_enabled = True, fm_quotaGB = [], fm_quotaDirty = False, fm_manualExpiry = [], fm_expiryDirty = False,
     fm_expiryTimezone = [], fm_resetConfigured = False, fm_resetDirty = False, fm_resetDay = js ''1'',
     fm_resetHour = js ''0'', fm_resetMinute = js ''0'', fm_timezone = [], fm_trafficProviderID = [],
     fm_formError = None, fm_saving = False\<rparr>"

definition traffic_form :: form where
  "traffic_form = blank_form\<lparr>fm_name := js ''n'', fm_sourceType := TrafficSource, fm_trafficProviderID := js ''t''\<rparr>"

lemma trim_n: "trim (js ''n'') = js ''n''"
  by (rule trim_no_ws) (auto simp: js_def is_ws_def)

lemma traffic_form_ok: "form_problem z [] None traffic_form = None"
  by (simp add: traffic_form_def blank_form_def form_problem_def quota_value_def trim_n)

theorem submitted_input_valid_witness:
  "si_name (build_input shanghai [] None traffic_form) = js ''n'' \<and>
   si_traffic_provider_id (build_input shanghai [] None traffic_form) = Some (js ''t'')"
  using submitted_input_valid [OF traffic_form_ok refl, of shanghai] by (simp add: traffic_form_def trim_n)

text \<open>
  C5: the subscription URL goes nowhere it should not. It is sent only for a native source, exactly
  as typed without surrounding blanks, and never when the form links a provider that exists
  already, unless that is the provider of the subscription being edited; a traffic source sends
  neither a URL nor a provider name, and names its type only when it is created.
\<close>

theorem url_only_for_own_provider:
  "(\<forall>u. si_url (build_input z ps sub fm) = Some u \<longrightarrow>
      fm_sourceType fm = Native \<and> u = trim (fm_url fm) \<and> u \<noteq> [] \<and>
      (existingProvider ps fm = None \<or> (\<exists>s. sub = Some s \<and> trimmedProvider fm = sb_provider_name s))) \<and>
   (fm_sourceType fm = TrafficSource \<longrightarrow>
      si_url (build_input z ps sub fm) = None \<and> si_provider_name (build_input z ps sub fm) = None \<and>
      si_source_type (build_input z ps sub fm) = (if sub = None then Some TrafficSource else None))"
  by (auto simp: mayUpdateProviderURL_def split: option.splits if_splits)

theorem url_only_for_own_provider_witness:
  "si_url (build_input shanghai [] None traffic_form) = None \<and> fm_sourceType traffic_form = TrafficSource"
  using url_only_for_own_provider [of shanghai "[]" None traffic_form] by (simp add: traffic_form_def)

text \<open>
  What was not touched is not sent. Opening the dialog on a traffic source and saving sends the
  name, the enabled flag and the traffic provider only, whatever quota, schedule and expiry the
  dialog shows, so the backend keeps the stored values; for a native source the quota and the
  expiry are left out likewise. Choosing a traffic provider while creating shows its quota and
  schedule without sending them.
\<close>

theorem untouched_fields_omitted:
  assumes "si = build_input z ps (Some sub) (open_edit env z sub fm)"
    and "tp \<in> set tps" "distinct (map tp_id tps)"
    and "ti = build_input z ps None (handleTrafficProviderChange None tps (tp_id tp)
           (onSourceType TrafficSource (handleNameChange None name (open_create z fm))))"
  shows "si_quota_bytes si = None \<and> si_manual_expire si = None \<and>
    (sb_source_type sub = js ''traffic'' \<longrightarrow>
       si_reset_day si = None \<and> si_reset_hour si = None \<and> si_reset_minute si = None \<and> si_timezone si = None \<and>
       si_url si = None \<and> si_provider_name si = None \<and> si_source_type si = None \<and>
       si_traffic_provider_id si = Some (sb_traffic_provider_id sub)) \<and>
    si_quota_bytes ti = None \<and> si_manual_expire ti = None \<and> si_reset_day ti = None \<and> si_reset_hour ti = None \<and>
    si_reset_minute ti = None \<and> si_timezone ti = None \<and> si_url ti = None \<and>
    si_traffic_provider_id ti = Some (tp_id tp)"
proof -
  have "find (\<lambda>p. tp_id p = tp_id tp) tps \<noteq> None"
    using assms(2) by (auto simp: find_None_iff)
  then show ?thesis unfolding assms(1,4)
    by (auto simp: open_edit_def open_create_def handleTrafficProviderChange_def handleNameChange_def
        onSourceType_def Let_def)
qed

definition sample_sub :: subscription where
  "sample_sub = \<lparr>sb_id = js ''s1'', sb_name = js ''n'', sb_enabled = True, sb_status = js ''ok'', sb_last_error = [],
     sb_provider_name = js ''n'', sb_provider_source = js ''created'', sb_provider_exists = True, sb_url_masked = [],
     sb_node_count = None, sb_source_type = js ''traffic'', sb_traffic_provider_name = [], sb_supplier_reset_day = None,
     sb_quota_bytes = Some (num 1048576), sb_used_bytes = None, sb_remaining_bytes = None, sb_usage_source = js ''none'',
     sb_local_used_bytes = None, sb_expires_at = None, sb_expires_source = js ''unknown'', sb_reset_day = num 0,
     sb_reset_hour = num 0, sb_reset_minute = num 0, sb_timezone = None, sb_cycle_start = None, sb_cycle_end = None,
     sb_next_reset = None, sb_userinfo_fetched_at = None, sb_last_refresh_at = None, sb_last_success_at = None,
     sb_stale = False, sb_userinfo = None, sb_traffic_provider_id = js ''t'', sb_created_at = [], sb_updated_at = [],
     sb_draft_changed = None\<rparr>"

definition sample_traffic :: traffic_provider where
  "sample_traffic = \<lparr>tp_id = js ''t'', tp_name = js ''T'', tp_quota_bytes = num 0, tp_reset_day = num 0,
     tp_reset_hour = num 0, tp_reset_minute = num 0, tp_reset_timezone = [], tp_node_patterns = [],
     tp_subscription_url = [], tp_enabled = True, tp_created_at = [], tp_updated_at = []\<rparr>"

theorem untouched_fields_omitted_witness:
  "si_quota_bytes (build_input shanghai [] (Some sample_sub) (open_edit (sample_env None) shanghai sample_sub blank_form)) = None"
  using untouched_fields_omitted [of _ shanghai "[]" sample_sub "sample_env None" blank_form sample_traffic "[sample_traffic]",
      OF refl _ _ refl] by simp

text \<open>
  A small quota locks the form. When a subscription's quota rounds to 0.00 GB (under about
  5 MiB) and the vendor reports none, the dialog opens showing \<open>0\<close>, and saving it unchanged is
  rejected as invalid.
\<close>

theorem small_quota_rejected:
  assumes "sb_quota_bytes sub = Some q" "quota_text q = js ''0''" "num_le (vendor_total sub) (num 0)"
  shows "fm_quotaGB (open_edit env z sub fm) = js ''0'' \<and>
    form_problem z ps (Some sub) (open_edit env z sub fm) = Some ''subscriptions.formInvalid''"
proof -
  have q: "fm_quotaGB (open_edit env z sub fm) = js ''0''"
    using assms by (simp add: open_edit_def Let_def)
  have t: "trim (js ''0'') = js ''0''" by (rule trim_no_ws) (auto simp: js_def is_ws_def)
  have z: "js ''0'' = num_str (num 0)" by (simp add: num_str_num int_str_def dec_digits_eval js_def)
  then have "to_number (js ''0'') = num 0" using to_number_num_str [of 0] by simp
  then have "quota_value (open_edit env z sub fm) = Some (num 0)"
    by (simp add: quota_value_def q t)
  then show ?thesis using q by (simp add: form_problem_def num_def)
qed

lemma quota_text_1MiB: "quota_text (num 1048576) = js ''0''"
proof -
  have "num_div (num 1048576) GB = Fin (1 / 1024)"
    using rnd_exact [of 1 "- 10"] by (simp add: num_def GB_def num_div.simps pow2_def)
  moreover have "num_mul (Fin (1 / 1024)) (num 100) = Fin (25 / 256)"
    using rnd_exact [of 25 "- 8"] by (simp add: num_def pow2_def)
  moreover have "\<lfloor>25 / 256 + 1 / 2 :: rat\<rfloor> = 0" by (intro floor_unique) auto
  then have "num_round (Fin (25 / 256)) = num 0" by (simp add: num_round_def)
  moreover have "num_div (num 0) (num 100) = num 0" by (simp add: num_def num_div.simps rnd_0)
  ultimately have "quota_text (num 1048576) = num_str (num 0)" by (simp add: quota_text_def)
  also have "\<dots> = js ''0''" by (simp add: num_str_num int_str_def dec_digits_eval js_def)
  finally show ?thesis .
qed

theorem small_quota_rejected_witness:
  "form_problem shanghai [] (Some sample_sub) (open_edit (sample_env None) shanghai sample_sub blank_form) =
     Some ''subscriptions.formInvalid''"
  using small_quota_rejected [of sample_sub "num 1048576" "sample_env None" shanghai blank_form "[]"] quota_text_1MiB
  by (simp add: sample_sub_def vendor_total_def num_def)

text \<open>
  A traffic source can be blocked by a name. Creating a traffic source whose name is that of a
  provider linked to another subscription passes validation, yet its save button stays disabled
  and no conflict is shown, because the check looks at the hidden provider field.
\<close>

theorem traffic_source_blocked_by_name:
  assumes "p \<in> set ps" "dp_name p = trim name" "trim name \<noteq> []" "nonempty (dp_linked_subscription_id p) \<noteq> None"
    and "distinct (map dp_name ps)" "i \<noteq> []"
    and fm: "fm = handleTrafficProviderChange None [] i (onSourceType TrafficSource (handleNameChange None name (open_create z f)))"
  shows "form_problem z ps None fm = None \<and> (save_disabled ps None fm \<and> \<not> conflict_shown ps None fm)"
proof -
  have f: "fm_providerName fm = name" "fm_sourceType fm = TrafficSource" "fm_trafficProviderID fm = i"
    "fm_name fm = name" "\<not> fm_resetConfigured fm" "fm_quotaGB fm = []" "\<not> fm_expiryDirty fm" "fm_formError fm = None"
    unfolding fm by (simp_all add: handleTrafficProviderChange_def onSourceType_def handleNameChange_def
        open_create_def Let_def)
  have "find (\<lambda>q. dp_name q = trim name) ps = Some p"
  proof (cases "find (\<lambda>q. dp_name q = trim name) ps")
    case None
    then show ?thesis using assms(1,2) by (auto simp: find_None_iff)
  next
    case (Some q)
    then have "q \<in> set ps" "dp_name q = trim name" by (auto simp: find_Some_iff)
    then show ?thesis using Some assms(1,2,5) by (auto simp: distinct_map inj_on_def)
  qed
  then have "linkedElsewhere ps None fm"
    using assms(4) f(1) by (auto simp: linkedElsewhere_def existingProvider_def split: option.splits)
  then show ?thesis using f assms(3,6)
    by (simp add: form_problem_def save_disabled_def conflict_shown_def quota_value_def)
qed

definition linked_n :: discovered_provider where
  "linked_n = \<lparr>dp_name = js ''n'', dp_type = [], dp_node_count = None,
     dp_linked_subscription_id = Some (js ''s2''), dp_linked = True\<rparr>"

theorem traffic_source_blocked_by_name_witness:
  "\<exists>fm. form_problem shanghai [linked_n] None fm = None \<and> save_disabled [linked_n] None fm"
proof -
  have "dp_name linked_n = trim (js ''n'')" "trim (js ''n'') \<noteq> []" "js ''t'' \<noteq> []"
    "nonempty (dp_linked_subscription_id linked_n) \<noteq> None"
    unfolding trim_n by (simp_all add: linked_n_def js_def)
  from traffic_source_blocked_by_name [OF _ this(1,2,4) _ this(3) refl, of "[linked_n]"]
  show ?thesis by auto
qed

text \<open>
  Saving never loses what was typed. Whatever the page's save does (short of touching the form
  itself), the handler returns, the form is no longer saving, and the dialog closes only if the
  save succeeded; every field of the form is as it was.
\<close>

theorem submit_keeps_input:
  assumes "\<And>si i v. w_page (snd (onSave si i v)) = w_page v"
  shows "\<exists>w'. submit z ps sub onSave w = (Inr (), w') \<and>
    (\<exists>e. fp_form (w_page w') = (fp_form (w_page w))\<lparr>fm_formError := e, fm_saving := fm_saving (fp_form (w_page w'))\<rparr>) \<and>
    (form_problem z ps sub (fp_form (w_page w)) = None \<longrightarrow> \<not> fm_saving (fp_form (w_page w'))) \<and>
    (fp_open (w_page w) \<and> \<not> fp_open (w_page w') \<longrightarrow> form_problem z ps sub (fp_form (w_page w)) = None)"
proof (rule wp_total, cases "form_problem z ps sub (fp_form (w_page w))")
  case (Some e)
  then show "wp (submit z ps sub onSave) (\<lambda>_ w'.
      (\<exists>e. fp_form (w_page w') = (fp_form (w_page w))\<lparr>fm_formError := e, fm_saving := fm_saving (fp_form (w_page w'))\<rparr>) \<and>
      (form_problem z ps sub (fp_form (w_page w)) = None \<longrightarrow> \<not> fm_saving (fp_form (w_page w'))) \<and>
      (fp_open (w_page w) \<and> \<not> fp_open (w_page w') \<longrightarrow> form_problem z ps sub (fp_form (w_page w)) = None)) (\<lambda>_ _. False) w"
    by (auto simp: submit_def set_form_def)
next
  case None
  have save: "wp (onSave si i) (\<lambda>x. Q x) E v"
    if "\<And>x v'. w_page v' = w_page v \<Longrightarrow> Q x v'" "\<And>e v'. w_page v' = w_page v \<Longrightarrow> E e v'" for si i v Q E
    using that assms [of si i v] by (auto simp: wp_def split: prod.splits sum.splits)
  show "wp (submit z ps sub onSave) (\<lambda>_ w'.
      (\<exists>e. fp_form (w_page w') = (fp_form (w_page w))\<lparr>fm_formError := e, fm_saving := fm_saving (fp_form (w_page w'))\<rparr>) \<and>
      (form_problem z ps sub (fp_form (w_page w)) = None \<longrightarrow> \<not> fm_saving (fp_form (w_page w'))) \<and>
      (fp_open (w_page w) \<and> \<not> fp_open (w_page w') \<longrightarrow> form_problem z ps sub (fp_form (w_page w)) = None)) (\<lambda>_ _. False) w"
    using None by (simp add: submit_def set_form_def) (rule save; auto)
qed

definition form_world :: "(unit, form_page) world" where
  "form_world = \<lparr>w_storage = Map.empty, w_pathname = js ''/subscriptions'', w_auth = initial_auth,
     w_draft = initial_draft, w_toasts = [], w_sent = [], w_backend = (),
     w_page = \<lparr>fp_form = traffic_form, fp_open = True\<rparr>\<rparr>"

theorem submit_keeps_input_witness:
  "\<exists>w'. submit shanghai [] None (\<lambda>_ _. io_throw Unreachable) form_world = (Inr (), w')"
  using submit_keeps_input [of "\<lambda>_ _. io_throw Unreachable" shanghai "[]" None form_world] by (auto simp: io_throw_def)

end
