(* ===== verification/Delay_Board.thy ===== *)
theory Delay_Board
  imports Client "HOL-Library.Multiset"
begin

text \<open>
  The delay tests of three pages share one protocol: a test marks its row as running, awaits the
  answer, then records the outcome under the row's key. Several tests run at once, so the two
  halves of different tests interleave. This theory states the protocol as a locale over what a
  page does at the start and at the end of a test, and proves once what holds of every
  interleaving; each page's theory interprets it.
\<close>

datatype 'r event = Started 'r | Answered 'r "thrown + jsval"

fun event_row :: "'r event \<Rightarrow> 'r" where
  "event_row (Started r) = r"
| "event_row (Answered r _) = r"

lemma filter_distinct_map: "distinct (map f xs) \<Longrightarrow> x \<in> set xs \<Longrightarrow> filter (\<lambda>y. f y = f x) xs = [x]"
  by (induction xs) (auto simp: filter_empty_conv image_iff)

locale delay_board =
  fixes key :: "'r \<Rightarrow> 'k"
    and begin_test :: "'d option \<Rightarrow> 'd"
    and end_test :: "thrown + jsval \<Rightarrow> 'd option \<Rightarrow> 'd"
    and running :: "'d \<Rightarrow> bool"
  assumes begins: "running (begin_test d)"
    and ends: "\<not> running (end_test a d)"
begin

fun on_key :: "'r event \<Rightarrow> 'd option \<Rightarrow> 'd option" where
  "on_key (Started r) d = Some (begin_test d)"
| "on_key (Answered r a) d = Some (end_test a d)"

definition step :: "'r event \<Rightarrow> ('k \<Rightarrow> 'd option) \<Rightarrow> 'k \<Rightarrow> 'd option" where
  "step e b = b(key (event_row e) := on_key e (b (key (event_row e))))"

definition run :: "'r event list \<Rightarrow> ('k \<Rightarrow> 'd option) \<Rightarrow> 'k \<Rightarrow> 'd option" where
  "run es b = fold step es b"

text \<open>What a key shows depends on the events of that key alone, however they are interleaved with others.\<close>

lemma run_key: "run es b k = fold on_key (filter (\<lambda>e. key (event_row e) = k) es) (b k)"
  by (induction es arbitrary: b) (auto simp: run_def step_def)

lemma one_test:
  assumes "filter (\<lambda>e. key (event_row e) = k) es = [Started r, Answered r a]"
  shows "run es b k = Some (end_test a (Some (begin_test (b k))))"
  by (simp add: run_key assms)

lemma untouched: "k \<notin> (key \<circ> event_row) ` set es \<Longrightarrow> run es b k = b k"
  by (auto simp: run_key filter_empty_conv intro!: arg_cong [where f = "\<lambda>xs. fold on_key xs (b k)", of _ "[]", simplified])

definition started :: "'k \<Rightarrow> 'r event list \<Rightarrow> nat" where
  "started k es = length (filter (\<lambda>e. key (event_row e) = k \<and> (\<exists>r. e = Started r)) es)"

definition answers :: "'k \<Rightarrow> 'r event list \<Rightarrow> nat" where
  "answers k es = length (filter (\<lambda>e. key (event_row e) = k \<and> (\<exists>r a. e = Answered r a)) es)"

text \<open>A history in which no test is answered more often than it was started.\<close>

definition valid :: "'r event list \<Rightarrow> bool" where
  "valid es \<longleftrightarrow> (\<forall>n k. answers k (take n es) \<le> started k (take n es))"

definition pending :: "'k \<Rightarrow> 'r event list \<Rightarrow> bool" where
  "pending k es \<longleftrightarrow> answers k es < started k es"

lemma valid_prefix: "valid (es @ [e]) \<Longrightarrow> valid es"
  unfolding valid_def
proof (intro allI)
  fix n k
  assume v: "\<forall>n k. answers k (take n (es @ [e])) \<le> started k (take n (es @ [e]))"
  show "answers k (take n es) \<le> started k (take n es)"
    using v [rule_format, of k "min n (length es)"] by (cases "n \<le> length es") simp_all
qed

text \<open>A row that shows a running test has one: no answer leaves a spinner behind.\<close>

lemma running_pending:
  assumes "valid es" "\<forall>d. b k = Some d \<longrightarrow> \<not> running d" "run es b k = Some d" "running d"
  shows "pending k es"
  using assms(1,3,4)
proof (induction es arbitrary: d rule: rev_induct)
  case Nil
  then show ?case using assms(2) by (simp add: run_def)
next
  case (snoc e es)
  have le: "answers k es \<le> started k es"
    using valid_prefix [OF snoc.prems(1)] unfolding valid_def by (metis order_refl take_all)
  show ?case
  proof (cases "key (event_row e) = k")
    case True
    then show ?thesis using snoc.prems(2,3) ends le
      by (cases e) (auto simp: run_def step_def pending_def answers_def started_def)
  next
    case False
    then have "run es b k = Some d" using snoc.prems(2) by (simp add: run_def step_def)
    then have "pending k es" using snoc.IH [OF valid_prefix [OF snoc.prems(1)]] snoc.prems(3) by blast
    then show ?thesis using False by (cases e) (auto simp: pending_def answers_def started_def)
  qed
qed

text \<open>Testing all rows at once: whatever the order of the answers, every row ends with its own outcome.\<close>

lemma test_all:
  assumes "distinct (map key rows)" "mset (map fst ans) = mset rows" "(r, a) \<in> set ans"
  shows "run (map Started rows @ map (\<lambda>(r, a). Answered r a) ans) b (key r) =
    Some (end_test a (Some (begin_test (b (key r)))))"
proof (rule one_test)
  have "mset (map (key \<circ> fst) ans) = mset (map key rows)"
    using arg_cong [OF assms(2), of "image_mset key"] by (simp add: image_mset.compositionality)
  then have "distinct (map (key \<circ> fst) ans)" using assms(1) by (metis mset_eq_imp_distinct_iff)
  then have a: "filter (\<lambda>p. (key \<circ> fst) p = (key \<circ> fst) (r, a)) ans = [(r, a)]"
    using assms(3) by (rule filter_distinct_map)
  have "r \<in> set rows" using assms(2,3) by (metis fst_conv image_eqI set_map set_mset_mset)
  with assms(1) have "filter (\<lambda>x. key x = key r) rows = [r]" by (rule filter_distinct_map)
  moreover have "filter (\<lambda>e. key (event_row e) = key r) (map (\<lambda>(r, a). Answered r a) ans) = [Answered r a]"
    using arg_cong [OF a, of "map (\<lambda>(r, a). Answered r a)"]
    by (simp add: filter_map comp_def case_prod_beta)
  ultimately show "filter (\<lambda>e. key (event_row e) = key r) (map Started rows @ map (\<lambda>(r, a). Answered r a) ans) =
      [Started r, Answered r a]"
    by (simp add: filter_map comp_def)
qed

end

end
