(* ===== verification/En_Texts.thy ===== *)
theory En_Texts
  imports Js_String
begin

text \<open>
  The English dictionary, \<open>i18n/en.ts\<close>: the entries in the order of the object literal, in one block
  per group of screens. Characters outside ASCII are given by their code unit.
\<close>

type_synonym en_dictionary = "(string \<times> jstring) list"

definition en_general :: en_dictionary where
  "en_general =
    [(''app.name'', js ''Mihomo CP''),
     (''nav.overview'', js ''Overview''),
     (''nav.proxies'', js ''Proxies''),
     (''nav.proxyGroups'', js ''Proxy Groups''),
     (''nav.rules'', js ''Rules''),
     (''nav.ruleProviders'', js ''Rule Providers''),
     (''nav.systemConfig'', js ''System Config''),
     (''nav.publish'', js ''Publish''),
     (''nav.runtime'', js ''Runtime''),
     (''nav.subscriptions'', js ''Subscriptions''),
     (''nav.nodeScores'', js ''IP Scores''),
     (''nav.settings'', js ''Settings''),
     (''header.changesPending'', js ''Changes pending''),
     (''header.account'', js ''Account''),
     (''header.changePassword'', js ''Change Password''),
     (''header.signOut'', js ''Sign out''),
     (''header.currentPassword'', js ''Current Password''),
     (''header.newPassword'', js ''New Password''),
     (''header.currentPasswordPlaceholder'', js ''Enter current password''),
     (''header.newPasswordPlaceholder'', js ''Enter new password''),
     (''header.fillBothFields'', js ''Please fill in both fields''),
     (''header.passwordChanged'', js ''Password changed successfully''),
     (''header.passwordChangeFailed'', js ''Failed to change password. Check your current password.''),
     (''header.language'', js ''Language''),
     (''header.darkMode'', js ''Dark Mode''),
     (''header.lightMode'', js ''Light Mode''),
     (''common.cancel'', js ''Cancel''),
     (''common.save'', js ''Save''),
     (''common.saving'', js ''Saving...''),
     (''common.create'', js ''Create''),
     (''common.update'', js ''Update''),
     (''common.delete'', js ''Delete''),
     (''common.confirm'', js ''Confirm''),
     (''common.edit'', js ''Edit''),
     (''common.copy'', js ''Copy''),
     (''common.loading'', js ''Loading...''),
     (''common.name'', js ''Name''),
     (''common.type'', js ''Type''),
     (''common.actions'', js ''Actions''),
     (''common.search'', js ''Search''),
     (''common.allTypes'', js ''All types''),
     (''common.refresh'', js ''Refresh''),
     (''common.view'', js ''View''),
     (''common.unknown'', js ''Unknown''),
     (''common.never'', js ''Never''),
     (''common.yes'', js ''Yes''),
     (''common.no'', js ''No''),
     (''common.all'', js ''All''),
     (''common.adminOnly'', js ''Administrators only''),
     (''common.details'', js ''Details''),
     (''login.title'', js ''Mihomo CP''),
     (''login.subtitle'', js ''Sign in to your account''),
     (''login.username'', js ''Username''),
     (''login.password'', js ''Password''),
     (''login.usernamePlaceholder'', js ''Enter username''),
     (''login.passwordPlaceholder'', js ''Enter password''),
     (''login.signIn'', js ''Sign in''),
     (''login.signingIn'', js ''Signing in'' @ [8230]),
     (''login.failed'', js ''Login failed. Please check your credentials.''),
     (''overview.title'', js ''Overview''),
     (''overview.mihomoStatus'', js ''mihomo Status''),
     (''overview.proxies'', js ''Proxies''),
     (''overview.rules'', js ''Rules''),
     (''overview.groups'', js ''Groups''),
     (''overview.activeConnections'', js ''Active Connections''),
     (''overview.checking'', js ''Checking...''),
     (''overview.running'', js ''Running''),
     (''overview.unreachable'', js ''Unreachable''),
     (''overview.cannotConnect'', js ''Cannot connect''),
     (''overview.configured'', js ''configured''),
     (''overview.proxyGroups'', js ''proxy groups''),
     (''overview.live'', js ''live''),
     (''overview.mihomoUnreachable'', js ''mihomo unreachable''),
     (''overview.recentPublishes'', js ''Recent Publishes''),
     (''overview.noPublishHistory'', js ''No publish history''),
     (''overview.version'', js ''Version''),
     (''overview.status'', js ''Status''),
     (''overview.operator'', js ''Operator''),
     (''overview.note'', js ''Note''),
     (''overview.time'', js ''Time''),
     (''overview.noConnections'', js ''No active connections''),
     (''overview.host'', js ''Host''),
     (''overview.network'', js ''Network''),
     (''overview.chains'', js ''Chains''),
     (''overview.rule'', js ''Rule''),
     (''overview.traffic'', js ''Traffic''),
     (''overview.duration'', js ''Duration''),
     (''overview.closeConn'', js ''Close connection''),
     (''overview.closeConnFailed'', js ''Failed to close connection'')]"

definition en_proxies :: en_dictionary where
  "en_proxies =
    [(''proxies.title'', js ''Proxies''),
     (''proxies.add'', js ''Add Proxy''),
     (''proxies.searchPlaceholder'', js ''Search proxies...''),
     (''proxies.loadFailed'', js ''Failed to load proxies''),
     (''proxies.updated'', js ''Proxy updated''),
     (''proxies.created'', js ''Proxy created''),
     (''proxies.updateFailed'', js ''Failed to update proxy''),
     (''proxies.createFailed'', js ''Failed to create proxy''),
     (''proxies.deleted'', js ''Proxy deleted''),
     (''proxies.deleteFailed'', js ''Failed to delete proxy''),
     (''proxies.copied'', js ''Copied''),
     (''proxies.copyFailed'', js ''Failed to copy proxy''),
     (''proxies.noProxies'', js ''No proxies found. Click \"Add Proxy\" to create one.''),
     (''proxies.deleteTitle'', js ''Delete Proxy''),
     (''proxies.deleteConfirm'', js ''Are you sure you want to delete \"'' @ js ''{name}'' @
       js ''\"? This action cannot be undone.''),
     (''proxies.deleteWithRefs'', js ''This proxy is referenced by '' @ js ''{count}'' @ js '' group(s): '' @
       js ''{names}'' @ js ''. Deleting it will remove it from those groups. Continue?''),
     (''proxies.server'', js ''Server''),
     (''proxies.addDialog'', js ''Add Proxy''),
     (''proxies.editDialog'', js ''Edit Proxy''),
     (''proxies.namePlaceholder'', js ''Proxy name''),
     (''proxies.serverPlaceholder'', js ''hostname or IP''),
     (''proxies.port'', js ''Port''),
     (''proxies.portPlaceholder'', js ''1-65535''),
     (''proxies.selectType'', js ''Select type''),
     (''proxies.country'', js ''Country''),
     (''proxies.selectCountry'', js ''Select country''),
     (''proxies.allCountries'', js ''All countries''),
     (''proxies.detectCountries'', js ''Detect Countries''),
     (''proxies.detectingCountries'', js ''Detecting...''),
     (''proxies.countriesDetected'', js ''{count}'' @ js '' proxies updated''),
     (''proxies.countriesDetectFailed'', js ''Failed to detect countries''),
     (''proxies.noCountriesFound'', js ''No country flags found in the pasted text''),
     (''proxies.detectCountriesDesc'', js ''Paste your Surge [Proxy] section below. Country flags (e.g. '' @ [55356,
       56826, 55356, 56824, 55356, 56815, 55356, 56821, 55356, 56813, 55356, 56816] @
       js '') in proxy names will be matched to your mihomo proxies.''),
     (''proxies.detectCountriesPlaceholder'', [55356, 56826, 55356, 56824] @
       js '' PS-SS-c21s1 = ss, server, port, ...'' @ [10, 55356, 56815, 55356, 56821] @
       js '' JP-01 = ss, server, port, ...''),
     (''proxies.detectCountriesApply'', js ''Apply''),
     (''proxies.delay'', js ''Delay''),
     (''proxies.testDelay'', js ''Test Delay''),
     (''proxies.timeout'', js ''Timeout''),
     (''proxies.error'', js ''Error''),
     (''proxies.testAllDelay'', js ''Test All''),
     (''proxies.ipScores'', js ''IP scores''),
     (''proxies.testing'', js ''Testing...''),
     (''proxies.source'', js ''Source''),
     (''proxies.sourceAll'', js ''All sources''),
     (''proxies.sourceStatic'', js ''Static''),
     (''proxies.readOnly'', js ''Read-only''),
     (''proxies.details'', js ''Details''),
     (''proxies.nodeDetails'', js ''Node details''),
     (''proxies.nodeDetailsDesc'', js ''Subscription node '' @ [8212] @
       js '' read-only. Only safe runtime metadata is shown; the server address, provider URL and credentials are never exposed.''),
     (''proxies.fieldProtocol'', js ''Protocol''),
     (''proxies.fieldProvider'', js ''Subscription''),
     (''proxies.fieldAlive'', js ''Alive''),
     (''proxies.fieldUDP'', js ''UDP''),
     (''proxies.fieldDelay'', js ''Delay''),
     (''proxies.fieldProviderStatus'', js ''Subscription status''),
     (''proxies.fieldProviderUpdated'', js ''Updated''),
     (''proxies.nodeCount'', js ''Nodes''),
     (''proxies.unknown'', js ''Unknown''),
     (''proxies.yes'', js ''Yes''),
     (''proxies.no'', js ''No''),
     (''proxies.providerStatusOK'', js ''Loaded''),
     (''proxies.providerUnknown'', js ''Load failed / unknown''),
     (''proxies.providerLoadFailed'', js ''Failed to load subscription nodes''),
     (''proxies.providerLoadFailedDesc'', js ''Static nodes remain fully usable. Retry after mihomo is reachable again.''),
     (''proxies.retry'', js ''Retry''),
     (''proxies.noMatchingNodes'', js ''No nodes match the current filters.''),
     (''proxy.cipher'', js ''Cipher''),
     (''proxy.password'', js ''Password''),
     (''proxy.udp'', js ''UDP''),
     (''proxy.sni'', js ''SNI''),
     (''proxy.skipCertVerify'', js ''Skip Cert Verify''),
     (''proxy.uuid'', js ''UUID''),
     (''proxy.alterId'', js ''Alter ID''),
     (''proxy.tls'', js ''TLS''),
     (''proxy.serverName'', js ''Server Name''),
     (''proxy.network'', js ''Network''),
     (''proxy.flow'', js ''Flow''),
     (''proxy.username'', js ''Username''),
     (''proxy.obfs'', js ''Obfs''),
     (''proxy.obfsPassword'', js ''Obfs Password''),
     (''proxy.congestionController'', js ''Congestion Controller''),
     (''proxy.none'', js ''(none)'')]"

definition en_config :: en_dictionary where
  "en_config =
    [(''proxyGroups.title'', js ''Proxy Groups''),
     (''proxyGroups.add'', js ''Add Group''),
     (''proxyGroups.searchPlaceholder'', js ''Search groups...''),
     (''proxyGroups.loadFailed'', js ''Failed to load proxy groups''),
     (''proxyGroups.updated'', js ''Proxy group updated''),
     (''proxyGroups.created'', js ''Proxy group created''),
     (''proxyGroups.updateFailed'', js ''Failed to update proxy group''),
     (''proxyGroups.createFailed'', js ''Failed to create proxy group''),
     (''proxyGroups.deleted'', js ''Proxy group deleted''),
     (''proxyGroups.deleteFailed'', js ''Failed to delete proxy group''),
     (''proxyGroups.noGroups'', js ''No proxy groups found. Click \"Add Group\" to create one.''),
     (''proxyGroups.deleteTitle'', js ''Delete Proxy Group''),
     (''proxyGroups.deleteConfirm'', js ''Are you sure you want to delete \"'' @ js ''{name}'' @
       js ''\"? This action cannot be undone.''),
     (''proxyGroups.deleteWithRefs'', js ''This group is referenced by '' @ js ''{count}'' @ js '' other group(s): ''
       @ js ''{names}'' @ js ''. Deleting it may break those groups. Continue?''),
     (''proxyGroups.members'', js ''Members''),
     (''proxyGroups.addDialog'', js ''Add Proxy Group''),
     (''proxyGroups.editDialog'', js ''Edit Proxy Group''),
     (''proxyGroups.namePlaceholder'', js ''Group name''),
     (''proxyGroups.healthCheckUrl'', js ''Health Check URL''),
     (''proxyGroups.healthCheckUrlPlaceholder'', js ''http://www.gstatic.com/generate_204''),
     (''proxyGroups.interval'', js ''Interval (seconds)''),
     (''proxyGroups.intervalPlaceholder'', js ''300''),
     (''proxyGroups.strategy'', js ''Strategy''),
     (''proxyGroups.selectStrategy'', js ''Select strategy''),
     (''proxyGroups.selectType'', js ''Select type''),
     (''rules.title'', js ''Rules''),
     (''rules.add'', js ''Add Rule''),
     (''rules.searchPlaceholder'', js ''Search rules...''),
     (''rules.loadFailed'', js ''Failed to load rules''),
     (''rules.updated'', js ''Rule updated''),
     (''rules.created'', js ''Rule created''),
     (''rules.updateFailed'', js ''Failed to update rule''),
     (''rules.createFailed'', js ''Failed to create rule''),
     (''rules.deleted'', js ''Rule deleted''),
     (''rules.deleteFailed'', js ''Failed to delete rule''),
     (''rules.orderSaveFailed'', js ''Failed to save rule order''),
     (''rules.noRules'', js ''No rules found. Click \"Add Rule\" to create one.''),
     (''rules.noMatchRule'', js ''No MATCH rule found '' @ [8212] @ js '' add one as a fallback''),
     (''rules.deleteTitle'', js ''Delete Rule''),
     (''rules.deleteConfirm'', js ''Are you sure you want to delete this rule? This action cannot be undone.''),
     (''rules.addDialog'', js ''Add Rule''),
     (''rules.editDialog'', js ''Edit Rule''),
     (''rules.payload'', js ''Payload''),
     (''rules.target'', js ''Target''),
     (''rules.noResolve'', js ''No Resolve''),
     (''rules.payloadPlaceholder'', js ''e.g. example.com, 192.168.1.0/24''),
     (''rules.selectType'', js ''Select type''),
     (''rules.selectTarget'', js ''Select target''),
     (''rules.loadGroupsFailed'', js ''Failed to load proxy groups''),
     (''ruleProviders.title'', js ''Rule Providers''),
     (''ruleProviders.add'', js ''Add Provider''),
     (''ruleProviders.loadFailed'', js ''Failed to load rule providers''),
     (''ruleProviders.updated'', js ''Rule provider updated''),
     (''ruleProviders.created'', js ''Rule provider created''),
     (''ruleProviders.updateFailed'', js ''Failed to update rule provider''),
     (''ruleProviders.createFailed'', js ''Failed to create rule provider''),
     (''ruleProviders.deleted'', js ''Rule provider deleted''),
     (''ruleProviders.deleteFailed'', js ''Failed to delete rule provider''),
     (''ruleProviders.refreshed'', js ''Refreshed \"'' @ js ''{name}'' @ js ''\"''),
     (''ruleProviders.refreshFailed'', js ''Failed to refresh \"'' @ js ''{name}'' @ js ''\"''),
     (''ruleProviders.noProviders'', js ''No rule providers found. Click \"Add Provider\" to create one.''),
     (''ruleProviders.deleteTitle'', js ''Delete Rule Provider''),
     (''ruleProviders.deleteConfirm'', js ''Are you sure you want to delete \"'' @ js ''{name}'' @
       js ''\"? This action cannot be undone.''),
     (''ruleProviders.addDialog'', js ''Add Rule Provider''),
     (''ruleProviders.editDialog'', js ''Edit Rule Provider''),
     (''ruleProviders.behavior'', js ''Behavior''),
     (''ruleProviders.url'', js ''URL''),
     (''ruleProviders.urlPlaceholder'', js ''https://example.com/rules.yaml''),
     (''ruleProviders.intervalLabel'', js ''Interval (seconds)''),
     (''ruleProviders.intervalPlaceholder'', js ''86400''),
     (''ruleProviders.path'', js ''Path''),
     (''ruleProviders.pathPlaceholder'', js ''./rules/provider.yaml''),
     (''ruleProviders.editContent'', js ''Edit Content''),
     (''ruleProviders.loadContentFailed'', js ''Failed to load rule list''),
     (''ruleProviders.contentSaved'', js ''Rule list saved''),
     (''ruleProviders.contentSaveFailed'', js ''Failed to save rule list''),
     (''systemConfig.title'', js ''System Config''),
     (''systemConfig.loadFailed'', js ''Failed to load system config''),
     (''systemConfig.saved'', js ''System config saved''),
     (''systemConfig.saveFailed'', js ''Failed to save system config''),
     (''systemConfig.saveConfig'', js ''Save Configuration''),
     (''systemConfig.general'', js ''General''),
     (''systemConfig.externalController'', js ''External Controller''),
     (''systemConfig.tun'', js ''TUN''),
     (''systemConfig.dns'', js ''DNS''),
     (''systemConfig.allowLan'', js ''Allow LAN connections''),
     (''systemConfig.enableIpv6'', js ''Enable IPv6''),
     (''systemConfig.enableTun'', js ''Enable TUN''),
     (''systemConfig.autoRoute'', js ''Auto Route''),
     (''systemConfig.enableDns'', js ''Enable DNS''),
     (''systemConfig.selectMode'', js ''Select mode''),
     (''systemConfig.selectLogLevel'', js ''Select log level''),
     (''systemConfig.selectStack'', js ''Select stack'')]"

definition en_operation :: en_dictionary where
  "en_operation =
    [(''publish.title'', js ''Publish Center''),
     (''publish.loadingStatus'', js ''Loading status...''),
     (''publish.draftPending'', js ''Draft changes pending '' @ [8212] @ js '' not yet published''),
     (''publish.upToDate'', js ''Up to date''),
     (''publish.runningVersion'', js ''running version v'' @ js ''{version}''),
     (''publish.loadingPreview'', js ''Loading preview...''),
     (''publish.loadingHistory'', js ''Loading history...''),
     (''publish.previewFailed'', js ''Failed to load preview''),
     (''publish.historyFailed'', js ''Failed to load history''),
     (''publish.publishedSuccess'', js ''Configuration published successfully''),
     (''publish.previewTitle'', js ''Preview & Publish''),
     (''publish.diff'', js ''Diff''),
     (''publish.fullYaml'', js ''Full YAML''),
     (''publish.noDifferences'', js ''No differences''),
     (''publish.notValidated'', js ''Not validated''),
     (''publish.valid'', js ''Valid''),
     (''publish.invalid'', js ''Invalid ('' @ js ''{count}'' @ js '' error'' @ js ''{s}'' @ js '')''),
     (''publish.validationOutput'', js ''Validation output''),
     (''publish.releaseNote'', js ''Release note (optional)''),
     (''publish.validate'', js ''Validate''),
     (''publish.validating'', js ''Validating...''),
     (''publish.publish'', js ''Publish''),
     (''publish.publishing'', js ''Publishing...''),
     (''publish.validateFirst'', js ''Validate before publishing''),
     (''publish.discard'', js ''Discard Changes''),
     (''publish.discarding'', js ''Discarding...''),
     (''publish.discardSuccess'', js ''Changes discarded''),
     (''publish.discardFailed'', js ''Failed to discard changes''),
     (''publish.configValid'', js ''Configuration is valid''),
     (''publish.validationFailed'', js ''Validation failed: '' @ js ''{count}'' @ js '' error(s)''),
     (''publish.validationError'', js ''Validation failed''),
     (''publish.publishFailed'', js ''Publish failed''),
     (''publish.publishSuccess'', js ''Published successfully''),
     (''publish.history'', js ''Publish History''),
     (''publish.noHistory'', js ''No publish history yet.''),
     (''publish.rollback'', js ''Rollback''),
     (''publish.rollbackTitle'', js ''Rollback to previous version?''),
     (''publish.rollbackConfirm'',
       js ''This will revert to the last successful configuration. The current running config will be replaced.''),
     (''publish.rollbackSuccess'', js ''Rolled back successfully''),
     (''publish.rollbackFailed'', js ''Rollback failed''),
     (''publish.error'', js ''Error''),
     (''publish.config'', js ''Config YAML''),
     (''runtime.title'', js ''Runtime''),
     (''runtime.connections'', js ''Connections''),
     (''runtime.proxies'', js ''Proxies''),
     (''runtime.rules'', js ''Rules''),
     (''runtime.providers'', js ''Providers''),
     (''runtime.logs'', js ''Logs''),
     (''runtime.loadingProxies'', js ''Loading proxies...''),
     (''runtime.loadingRules'', js ''Loading rules...''),
     (''runtime.loadingProviders'', js ''Loading providers...''),
     (''runtime.noProxyGroups'', js ''No proxy groups found. Mihomo may not be running.''),
     (''runtime.noRules'', js ''No rules found. Mihomo may not be running.''),
     (''runtime.noProviders'', js ''No providers found. Mihomo may not be running.''),
     (''runtime.selected'', js ''Selected''),
     (''runtime.testDelay'', js ''Test delay''),
     (''runtime.switchProxy'', js ''Switch to this proxy''),
     (''runtime.switchedTo'', js ''Switched to '' @ js ''{name}''),
     (''runtime.switchFailed'', js ''Failed to switch proxy''),
     (''runtime.providerRefreshed'', js ''Provider \"'' @ js ''{name}'' @ js ''\" refreshed''),
     (''runtime.providerRefreshFailed'', js ''Failed to refresh \"'' @ js ''{name}'' @ js ''\"''),
     (''runtime.timeout'', js ''Timeout''),
     (''runtime.payload'', js ''Payload''),
     (''runtime.proxy'', js ''Proxy''),
     (''runtime.rules_count'', js ''{count}'' @ js '' rules''),
     (''runtime.updated'', js ''Updated''),
     (''runtime.searchPlaceholder'', js ''Search by host, rule, chain...''),
     (''runtime.connectionCount'', js ''{count}'' @ js '' connections''),
     (''runtime.loadingConnections'', js ''Loading connections...''),
     (''runtime.noConnections'', js ''No active connections''),
     (''runtime.host'', js ''Host''),
     (''runtime.network'', js ''Network''),
     (''runtime.chains'', js ''Chains''),
     (''runtime.rule'', js ''Rule''),
     (''runtime.download'', js ''Download''),
     (''runtime.upload'', js ''Upload''),
     (''runtime.closeConnection'', js ''Close connection''),
     (''runtime.addRule'', js ''Add rule for this host''),
     (''runtime.noLogs'', js ''No log entries available. Real-time log streaming requires WebSocket (deferred for MVP).''),
     (''settings.title'', js ''Settings''),
     (''settings.appSettings'', js ''App Settings''),
     (''settings.loadingSettings'', js ''Loading settings...''),
     (''settings.saved'', js ''Settings saved''),
     (''settings.saveFailed'', js ''Failed to save settings''),
     (''settings.saveSettings'', js ''Save Settings''),
     (''settings.configPath'', js ''mihomo Config Path''),
     (''settings.configPathPlaceholder'', js ''/etc/mihomo/config.yaml''),
     (''settings.workingDir'', js ''mihomo Working Directory''),
     (''settings.workingDirPlaceholder'', js ''/etc/mihomo''),
     (''settings.binaryPath'', js ''mihomo Binary Path''),
     (''settings.binaryPathPlaceholder'', js ''/usr/local/bin/mihomo''),
     (''settings.controllerUrl'', js ''External Controller URL''),
     (''settings.controllerUrlPlaceholder'', js ''http://127.0.0.1:9090''),
     (''settings.controllerSecret'', js ''External Controller Secret''),
     (''settings.controllerSecretPlaceholder'', js ''Leave blank if no secret''),
     (''settings.userManagement'', js ''User Management''),
     (''settings.addUser'', js ''Add User''),
     (''settings.username'', js ''Username''),
     (''settings.role'', js ''Role''),
     (''settings.loadingUsers'', js ''Loading users...''),
     (''settings.noUsers'', js ''No users found.''),
     (''settings.you'', js ''(you)''),
     (''settings.addUserDialog'', js ''Add User''),
     (''settings.editUserDialog'', js ''Edit User''),
     (''settings.usernamePlaceholder'', js ''username''),
     (''settings.passwordLabel'', js ''Password''),
     (''settings.passwordEditLabel'', js ''Password (leave blank to keep current)''),
     (''settings.passwordPlaceholder'', js ''Password''),
     (''settings.passwordEditPlaceholder'', js ''New password (optional)''),
     (''settings.roleAdmin'', js ''Admin''),
     (''settings.roleReadonly'', js ''Readonly''),
     (''settings.userUpdated'', js ''User updated''),
     (''settings.userCreated'', js ''User created''),
     (''settings.userUpdateFailed'', js ''Failed to update user''),
     (''settings.userCreateFailed'', js ''Failed to create user''),
     (''settings.userDeleted'', js ''User deleted''),
     (''settings.userDeleteFailed'', js ''Failed to delete user''),
     (''settings.cannotDeleteSelf'', js ''You cannot delete your own account''),
     (''settings.usernameRequired'', js ''Username is required''),
     (''settings.passwordRequired'', js ''Password is required''),
     (''settings.deleteUserTitle'', js ''Delete User''),
     (''settings.deleteUserConfirm'', js ''Are you sure you want to delete this user? This action cannot be undone.''),
     (''settings.configEditor'', js ''Config Editor''),
     (''settings.configEditorDesc'',
       js ''Directly edit the mihomo config.yaml. Save as draft, then validate and publish from the Publish page.''),
     (''settings.configLoading'', js ''Loading config...''),
     (''settings.configLoadFailed'', js ''Failed to load config''),
     (''settings.configSaved'', js ''Config draft saved''),
     (''settings.configSaveFailed'', js ''Failed to save config draft''),
     (''settings.configDraftCleared'', js ''Config draft cleared''),
     (''settings.configClearFailed'', js ''Failed to clear config draft''),
     (''settings.saveDraft'', js ''Save as Draft''),
     (''settings.clearDraft'', js ''Clear Draft''),
     (''settings.draftIndicator'', js ''Draft''),
     (''settings.fileIndicator'', js ''Current file'')]"

definition en_subscriptions :: en_dictionary where
  "en_subscriptions =
    [(''subscriptions.title'', js ''Subscriptions''),
     (''subscriptions.readonlyHint'',
       js ''Read-only view: only administrators can add, edit, refresh or delete subscriptions.''),
     (''subscriptions.add'', js ''Add Subscription''),
     (''subscriptions.edit'', js ''Edit Subscription''),
     (''subscriptions.empty'', js ''No subscriptions yet. Add one to track quota, expiry and resets.''),
     (''subscriptions.loadFailed'', js ''Failed to load subscriptions''),
     (''subscriptions.created'', js ''Subscription created in the draft''),
     (''subscriptions.updated'', js ''Subscription updated in the draft''),
     (''subscriptions.deleted'', js ''Subscription deleted''),
     (''subscriptions.deleteTitle'', js ''Delete Subscription''),
     (''subscriptions.deleteConfirm'', js ''Delete \"'' @ js ''{name}'' @
       js ''\"? If no proxy group references its provider, the provider entry is removed from the config draft as well; publish to apply. If it is still referenced, deletion is blocked until those references are removed.''),
     (''subscriptions.deleteFailed'', js ''Failed to delete subscription''),
     (''subscriptions.saveFailed'', js ''Failed to save subscription''),
     (''subscriptions.saveConflict'', js ''A subscription or provider with this name already exists.''),
     (''subscriptions.deleteReferencedGeneric'', js ''Cannot delete: the provider is still referenced by a proxy group.''),
     (''subscriptions.formInvalid'', js ''Please check the name, URL, quota and reset schedule''),
     (''subscriptions.refresh'', js ''Refresh''),
     (''subscriptions.refreshing'', js ''Refreshing'' @ [8230]),
     (''subscriptions.refreshed'', js ''Subscription refreshed''),
     (''subscriptions.refreshFailed'', js ''Refresh failed''),
     (''subscriptions.refreshAll'', js ''Refresh all''),
     (''subscriptions.refreshingAll'', js ''Refreshing all'' @ [8230]),
     (''subscriptions.statusOk'', js ''Up to date''),
     (''subscriptions.statusStale'', js ''Stale data''),
     (''subscriptions.statusError'', js ''Refresh failed''),
     (''subscriptions.statusDisabled'', js ''Auto-update paused''),
     (''subscriptions.statusPending'', js ''Waiting for first refresh''),
     (''subscriptions.provider'', js ''Native provider''),
     (''subscriptions.providerNone'', js ''Not linked''),
     (''subscriptions.providerHint'',
       js ''The subscription is stored as a mihomo proxy-provider in the config draft. Link an existing provider or create one with this name.''),
     (''subscriptions.providerName'', js ''Provider name''),
     (''subscriptions.providerNamePlaceholder'', js ''e.g. provider-main''),
     (''subscriptions.providerLink'', js ''Link an existing provider''),
     (''subscriptions.providerCreate'', js ''Create a new provider with this name''),
     (''subscriptions.nodeCount'', js ''Nodes''),
     (''subscriptions.nodeCountUnknown'', js ''Unknown until the provider is fetched''),
     (''subscriptions.providerMissing'', js ''The linked provider is missing from the config draft''),
     (''subscriptions.providerSourceCreated'', js ''Created''),
     (''subscriptions.providerSourceLinked'', js ''Linked''),
     (''subscriptions.sourceType'', js ''Source type''),
     (''subscriptions.sourceTypeNative'', js ''Native provider''),
     (''subscriptions.sourceTypeNativeHint'',
       js ''Creates or links a native mihomo proxy-provider in the config draft (published via Publish Center).''),
     (''subscriptions.sourceTypeTraffic'', js ''Existing static source''),
     (''subscriptions.sourceTypeTrafficHint'',
       js ''Tracks an existing traffic provider and its static nodes. No native provider is created and the config draft is never touched.''),
     (''subscriptions.sourceTypeTrafficBadge'', js ''Static source''),
     (''subscriptions.trafficSource'', js ''Traffic source''),
     (''subscriptions.trafficSourceSelect'', js ''Select an existing traffic provider'' @ [8230]),
     (''subscriptions.trafficProviderRequired'', js ''Select the traffic provider this source tracks.''),
     (''subscriptions.urlManagedByTrafficSource'',
       js ''The subscription link is owned by the traffic source and stays there; nothing is duplicated here.''),
     (''subscriptions.statusLocal'', js ''Local data''),
     (''subscriptions.localOnlyHint'',
       js ''This source has no subscription link. Showing locally sampled usage only; vendor usage and expiry are unknown.''),
     (''subscriptions.supplierResetDayNotice'', js ''Vendor reports reset day '' @ js ''{day}'' @ js '' (day only ''
       @ [8212] @ js '' no hour or timezone).''),
     (''subscriptions.scheduleConfiguredHint'',
       js ''Reset time and timezone above are locally configured, not supplied by the vendor.''),
     (''subscriptions.nodeCountMatched'', js ''Matched static nodes''),
     (''subscriptions.deleteTitleTraffic'', js ''Delete Static Source Tracking''),
     (''subscriptions.deleteConfirmTraffic'', js ''Delete the tracking record for \"'' @ js ''{name}'' @
       js ''\"? The traffic source, its history and all static nodes/groups stay untouched.''),
     (''subscriptions.pausedUsageHintTraffic'',
       js ''Automatic metadata refresh is paused. The traffic source and static config are untouched.''),
     (''subscriptions.localUsed'', js ''Local accounting this cycle''),
     (''subscriptions.resetInDays'', js ''in '' @ js ''{days}'' @ js '' day(s)''),
     (''subscriptions.cycleEnds'', js ''Current cycle ends '' @ js ''{time}''),
     (''subscriptions.pausedHint'',
       js ''Pausing only stops automatic subscription metadata refresh and node scoring. Already-published provider nodes keep carrying traffic until group references are removed and the provider is deleted and published.''),
     (''subscriptions.pausedUsageHint'',
       js ''Automatic subscription refresh and scoring are paused. Already-published nodes can still carry traffic; to stop using them, remove the proxy-group references first, then delete the provider and publish the change.''),
     (''subscriptions.neverFetchedHint'', js ''No vendor data yet. Refresh to fetch quota, expiry and reset information.''),
     (''subscriptions.staleHint'',
       js ''Vendor data is missing or older than 24 hours. The last successful values are kept and labelled with their fetch time.''),
     (''subscriptions.url'', js ''Subscription URL''),
     (''subscriptions.urlPlaceholder'', js ''https://provider.example/subscription''),
     (''subscriptions.urlKeepHint'', js ''Leave blank to keep the stored URL. It is never shown again in full.''),
     (''subscriptions.urlMaskedHint'', js ''URLs are masked in the UI; full URLs are never returned to the browser.''),
     (''subscriptions.enabled'', js ''Auto-update subscription info and scoring''),
     (''subscriptions.quota'', js ''Quota''),
     (''subscriptions.total'', js ''Total''),
     (''subscriptions.used'', js ''Used''),
     (''subscriptions.remaining'', js ''Remaining''),
     (''subscriptions.usageSource'', js ''Usage source''),
     (''subscriptions.sourceVendor'', js ''Vendor reported''),
     (''subscriptions.sourceLocal'', js ''Local accounting''),
     (''subscriptions.sourceManual'', js ''Manual''),
     (''subscriptions.sourceNone'', js ''No data yet''),
     (''subscriptions.dataUpdatedAt'', js ''Usage updated''),
     (''subscriptions.expiresAt'', js ''Expires''),
     (''subscriptions.expiryUnknown'', js ''Not reported''),
     (''subscriptions.expirySource'', js ''Expiry source''),
     (''subscriptions.expirySourceVendor'', js ''Vendor''),
     (''subscriptions.expirySourceManual'', js ''Manual''),
     (''subscriptions.expirySourceUnknown'', js ''Unknown''),
     (''subscriptions.nextReset'', js ''Next reset''),
     (''subscriptions.resetSchedule'', js ''Reset schedule''),
     (''subscriptions.resetConfigure'', js ''Configure monthly reset schedule''),
     (''subscriptions.resetNone'', js ''No monthly reset policy (unknown)''),
     (''subscriptions.resetNoneHint'',
       js ''Unchecked means no monthly reset policy (unknown). Changing other fields will not invent a schedule.''),
     (''subscriptions.resetDay'', js ''Reset day''),
     (''subscriptions.resetHour'', js ''Hour''),
     (''subscriptions.resetMinute'', js ''Minute''),
     (''subscriptions.timezone'', js ''Timezone''),
     (''subscriptions.resetHint'',
       js ''Day is clamped to the last day of shorter months. Time is interpreted in the selected IANA timezone.''),
     (''subscriptions.lastRefresh'', js ''Last refresh attempt''),
     (''subscriptions.lastSuccess'', js ''Last successful refresh''),
     (''subscriptions.neverRefreshed'', js ''Never refreshed''),
     (''subscriptions.lastError'', js ''Last error''),
     (''subscriptions.draftPending'', js ''Draft changes pending''),
     (''subscriptions.draftPendingHint'',
       js ''Saved to the draft. Publish from Publish Center to apply it to the running mihomo config.''),
     (''subscriptions.goToPublish'', js ''Open Publish Center''),
     (''subscriptions.sectionBasic'', js ''Basics''),
     (''subscriptions.sectionQuota'', js ''Quota & schedule''),
     (''subscriptions.sectionExpiry'', js ''Expiry''),
     (''subscriptions.quotaGB'', js ''Manual monthly quota (GiB)''),
     (''subscriptions.quotaGBHint'', js ''Leave blank to use the quota reported by the vendor.''),
     (''subscriptions.manualExpiry'', js ''Manual expiry (date, time & timezone)''),
     (''subscriptions.manualExpiryTimezone'', js ''Expiry timezone''),
     (''subscriptions.manualExpiryHint'',
       js ''Used only when the vendor does not report an expiry. Untouched values are preserved.''),
     (''subscriptions.remainingUnknown'', js ''Unknown''),
     (''subscriptions.urlRequired'', js ''A subscription URL is required to create a new provider.''),
     (''subscriptions.providerConflict'', js ''This provider is already linked to another subscription.''),
     (''subscriptions.providerMustExist'',
       js ''When editing, choose an existing provider. Create new providers from a new subscription.''),
     (''subscriptions.urlIgnoredForLink'',
       js ''This provider already exists, so the URL field is ignored and the provider is linked as-is.''),
     (''subscriptions.providerSelectHint'',
       js ''If the name matches an existing native provider, it is linked instead of duplicated.''),
     (''subscriptions.effectiveQuota'', js ''Current effective quota: '' @ js ''{value}''),
     (''subscriptions.vendorExpiry'', js ''Vendor expiry: '' @ js ''{value}''),
     (''subscriptions.clearManualExpiry'', js ''Clear the field and save to remove the manual expiry.''),
     (''subscriptions.serverTimezone'', js ''Server local time''),
     (''subscriptions.delete'', js ''Delete subscription''),
     (''subscriptions.deleteBlocked'', js ''Cannot delete: the provider is still referenced by '' @ js ''{groups}''
       @ js ''. Remove those references first.''),
     (''subscriptions.localProvider'', js ''Local accounting provider (optional)''),
     (''subscriptions.localProviderNone'', js ''None''),
     (''subscriptions.localProviderHint'',
       js ''Link a traffic provider to show locally sampled usage for the current cycle next to vendor numbers.''),
     (''subscriptions.rateLimited'', js ''Rate limited; retry after '' @ js ''{seconds}'' @ js ''s.''),
     (''subscriptions.refreshAllSummary'', js ''{ok}'' @ js '' refreshed, '' @ js ''{failed}'' @ js '' failed'')]"

definition en_scores :: en_dictionary where
  "en_scores =
    [(''nodeScores.title'', js ''Node IP Scores''),
     (''nodeScores.readonlyHint'', js ''Read-only view: only administrators can queue score refreshes.''),
     (''nodeScores.disclaimer'', js ''The Claude Trust Score is an independent Net.Coffee signal (0'' @ [8211] @
       js ''100, higher is better). It is not an official Anthropic score.''),
     (''nodeScores.loadFailed'', js ''Failed to load node scores''),
     (''nodeScores.cadenceHint'',
       js ''Scores refresh automatically every 7 days; manual refresh queues the node and the list polls for the result.''),
     (''nodeScores.empty'', js ''No nodes have been scored yet. Add a node or refresh a provider to queue scoring.''),
     (''nodeScores.searchPlaceholder'', js ''Search nodes, egress IP or ASN'' @ [8230]),
     (''nodeScores.kind'', js ''Source''),
     (''nodeScores.allKinds'', js ''All node sources''),
     (''nodeScores.allStatuses'', js ''All statuses''),
     (''nodeScores.sourceStatic'', js ''Static''),
     (''nodeScores.sourceProvider'', js ''Provider''),
     (''nodeScores.statusPending'', js ''Pending''),
     (''nodeScores.statusTesting'', js ''Testing''),
     (''nodeScores.statusOk'', js ''Scored''),
     (''nodeScores.statusFailed'', js ''Failed''),
     (''nodeScores.statusSkipped'', js ''Skipped''),
     (''nodeScores.scoreMissing'', js ''No score''),
     (''nodeScores.scoreHigh'', js ''High trust''),
     (''nodeScores.scoreMedium'', js ''Moderate''),
     (''nodeScores.scoreLow'', js ''Low trust''),
     (''nodeScores.scoreVeryLow'', js ''Very low''),
     (''nodeScores.trustScore'', js ''Claude Trust Score''),
     (''nodeScores.exitIp'', js ''Egress IP''),
     (''nodeScores.exitIpUnknown'', js ''Unknown''),
     (''nodeScores.rangeOnly'', js ''Neighbor IP in declared range ('' @ js ''{cidr}'' @ js '')''),
     (''nodeScores.ipMatch'', js ''IP match''),
     (''nodeScores.matchExact'', js ''Exact address''),
     (''nodeScores.matchCidr'', js ''Declared range (not exact)''),
     (''nodeScores.matchMismatch'', js ''Different IP''),
     (''nodeScores.matchUnknown'', js ''Unknown''),
     (''nodeScores.ipMismatchHint'',
       js ''The vendor returned data for a different address. It is not presented as this node'' @ [8217] @
       js ''s score.''),
     (''nodeScores.cidrHint'',
       js ''The vendor returned a neighbor IP inside the declared range. Use it as a reference only, not as an exact score for the queried IP.''),
     (''nodeScores.country'', js ''Country''),
     (''nodeScores.asn'', js ''ASN''),
     (''nodeScores.asnOrg'', js ''ASN organization''),
     (''nodeScores.companyType'', js ''Company type''),
     (''nodeScores.ipType'', js ''IP type''),
     (''nodeScores.residential'', js ''Residential''),
     (''nodeScores.datacenter'', js ''Datacenter''),
     (''nodeScores.vpn'', js ''VPN''),
     (''nodeScores.proxy'', js ''Proxy''),
     (''nodeScores.tor'', js ''Tor''),
     (''nodeScores.mobile'', js ''Mobile''),
     (''nodeScores.crawler'', js ''Crawler''),
     (''nodeScores.abuser'', js ''Abuse signals''),
     (''nodeScores.abuserScore'', js ''Abuse score''),
     (''nodeScores.sources'', js ''Sources''),
     (''nodeScores.sourceLink'', js ''Public details''),
     (''nodeScores.checkedAt'', js ''Last checked''),
     (''nodeScores.lastSuccess'', js ''Last success''),
     (''nodeScores.nextRefresh'', js ''Next refresh''),
     (''nodeScores.neverChecked'', js ''Never checked''),
     (''nodeScores.detailTitle'', js ''Node IP Score''),
     (''nodeScores.detailIdentity'', js ''Node''),
     (''nodeScores.detailEgress'', js ''Egress''),
     (''nodeScores.detailIntel'', js ''IP intelligence''),
     (''nodeScores.detailTiming'', js ''Schedule''),
     (''nodeScores.detailError'', js ''Error''),
     (''nodeScores.refresh'', js ''Refresh score''),
     (''nodeScores.refreshing'', js ''Refreshing'' @ [8230]),
     (''nodeScores.refreshed'', js ''Scoring refreshed''),
     (''nodeScores.refreshFailed'', js ''Failed to refresh score''),
     (''nodeScores.refreshAll'', js ''Refresh all''),
     (''nodeScores.refreshingAll'', js ''Refreshing all'' @ [8230]),
     (''nodeScores.batchQueued'', js ''Queued '' @ js ''{count}'' @ js '' node(s) for scoring''),
     (''nodeScores.batchFailed'', js ''Failed to queue scoring''),
     (''nodeScores.scopeNote'',
       js ''Scores come from a server-side egress probe. Browser DNS, STUN and WebRTC are not tested.''),
     (''nodeScores.pendingHint'', js ''Waiting for the first probe.''),
     (''nodeScores.failedHint'', js ''The last attempt failed. A previous successful score is kept when available.''),
     (''nodeScores.nextDueUnknown'', js ''Not scheduled''),
     (''nodeScores.scoreSource'', js ''Score source''),
     (''nodeScores.probeMethod'', js ''Egress probe''),
     (''nodeScores.probeMethodValue'', js ''Server-side, isolated transport''),
     (''nodeScores.unscored'', js ''Not scored''),
     (''nodeScores.showingCount'', js ''{count}'' @ js '' node(s)''),
     (''nodeScores.updated'', js ''Updated''),
     (''nodeScores.selectAll'', js ''Select all''),
     (''nodeScores.selectedCount'', js ''{count}'' @ js '' selected''),
     (''nodeScores.refreshSelected'', js ''Refresh selected''),
     (''nodeScores.clearSelection'', js ''Clear selection''),
     (''nodeScores.claudeSource'', js ''Claude source '' @ [183] @ js '' /api/iprisk''),
     (''nodeScores.lookupSource'', js ''Comprehensive source '' @ [183] @ js '' /api/ip/lookup''),
     (''nodeScores.sourceIdle'', js ''No data from this source''),
     (''nodeScores.lookupNotStored'', js ''The comprehensive source result is not stored for this row.''),
     (''nodeScores.exitSource'', js ''Egress source''),
     (''nodeScores.exitSourceClaude'', js ''claude.ai trace''),
     (''nodeScores.exitSourceCloudflare'', js ''Cloudflare trace''),
     (''nodeScores.errorCode'', js ''Error code''),
     (''nodeScores.scoreUnavailable'', js ''Score unavailable''),
     (''nodeScores.noMismatch'', js ''No mismatch''),
     (''nodeScores.rangeBadge'', js ''Neighbor IP''),
     (''nodeScores.attempts'', js ''Attempts''),
     (''nodeScores.noFlags'', js ''None detected'')]"

definition en_traffic :: en_dictionary where
  "en_traffic =
    [(''nav.traffic'', js ''Traffic''),
     (''traffic.disabled'', js ''Disabled''),
     (''traffic.cycle'', js ''Cycle''),
     (''traffic.resetDay'', js ''resets on day''),
     (''traffic.localCounted'', js ''Locally counted''),
     (''traffic.vendorReported'', js ''Vendor reported''),
     (''traffic.today'', js ''Today''),
     (''traffic.estDaysLeft'', js ''Est. days left''),
     (''traffic.days'', js ''days''),
     (''traffic.topNodes'', js ''Top nodes this cycle''),
     (''traffic.unassigned'', js ''Unassigned''),
     (''traffic.total'', js ''Total''),
     (''traffic.upload'', js ''Upload''),
     (''traffic.download'', js ''Download''),
     (''traffic.dailyUsage'', js ''Daily usage (last 30 days)''),
     (''traffic.unassignedNodes'', js ''Nodes not assigned to any provider (last 30 days)''),
     (''traffic.alertSettings'', js ''Alert notifications''),
     (''traffic.alertChannel'', js ''Channel''),
     (''traffic.channelNone'', js ''Disabled (log only)''),
     (''traffic.alertTarget'', js ''Target URL''),
     (''traffic.alertThresholds'', js ''Thresholds (% of quota, comma-separated)''),
     (''traffic.testNotify'', js ''Send test''),
     (''traffic.alertHint'',
       js ''Each threshold fires at most once per billing cycle. Alerts are checked every 5 minutes against max(local count, vendor reported).''),
     (''traffic.recentAlerts'', js ''Recent alerts''),
     (''traffic.noAlerts'', js ''No alerts fired''),
     (''traffic.notNotified'', js ''not delivered''),
     (''traffic.addProvider'', js ''Add provider''),
     (''traffic.editProvider'', js ''Edit provider''),
     (''traffic.noProviders'', js ''No traffic providers configured yet. Add one to start tracking quota.''),
     (''traffic.quotaGB'', js ''Monthly quota (GB)''),
     (''traffic.resetDayLabel'', js ''Reset day (1-31)''),
     (''traffic.resetHour'', js ''Reset hour''),
     (''traffic.resetMinute'', js ''Reset minute''),
     (''traffic.resetTimezone'', js ''Reset timezone''),
     (''traffic.resetTimezoneHint'', js ''IANA name, e.g. Asia/Shanghai. Empty uses the server timezone.''),
     (''traffic.nodePatterns'', js ''Node patterns''),
     (''traffic.nodePatternsHint'', js ''Comma-separated glob patterns matched against node names, e.g. PS-*, HK-*''),
     (''traffic.subscriptionUrl'', js ''Subscription URL (optional)''),
     (''traffic.subscriptionUrlHint'',
       js ''If set, vendor-reported usage is read from the subscription-userinfo header every 30 minutes.''),
     (''traffic.enabled'', js ''Enabled''),
     (''traffic.loadFailed'', js ''Failed to load traffic data''),
     (''traffic.saveFailed'', js ''Save failed''),
     (''traffic.formInvalid'', js ''Please fill name, quota and reset day correctly''),
     (''traffic.deleteConfirm'', js ''Delete this provider? Its alerts and vendor usage snapshots are removed too.''),
     (''traffic.settingsSaved'', js ''Alert settings saved''),
     (''traffic.testSent'', js ''Test notification sent''),
     (''traffic.testFailed'', js ''Test notification failed '' @ [8212] @ js '' check channel and target'')]"

definition en :: en_dictionary where
  "en = en_general @ en_proxies @ en_config @ en_operation @ en_subscriptions @ en_scores @ en_traffic"

end
