(* ===== verification/Zh_Texts.thy ===== *)
theory Zh_Texts
  imports Js_String
begin

text \<open>
  The Chinese dictionary, \<open>i18n/zh.ts\<close>: the entries in the order of the object literal, in one block
  per group of screens. A text is the list of its UTF-16 code units; its ASCII parts are written as literals.
\<close>

type_synonym zh_dictionary = "(string \<times> jstring) list"

definition zh_general :: zh_dictionary where
  "zh_general =
    [(''app.name'', js ''Mihomo '' @ [25511, 21046, 38754, 26495]),
     (''nav.overview'', [24635, 35272]),
     (''nav.proxies'', [20195, 29702, 33410, 28857]),
     (''nav.proxyGroups'', [31574, 30053, 32452]),
     (''nav.rules'', [35268, 21017]),
     (''nav.ruleProviders'', [35268, 21017, 38598]),
     (''nav.systemConfig'', [31995, 32479, 37197, 32622]),
     (''nav.publish'', [21457, 24067]),
     (''nav.runtime'', [36816, 34892, 29366, 24577]),
     (''nav.subscriptions'', [35746, 38405, 31649, 29702]),
     (''nav.nodeScores'', js ''IP '' @ [35780, 20998]),
     (''nav.settings'', [35774, 32622]),
     (''header.changesPending'', [26377, 26410, 21457, 24067, 30340, 26356, 25913]),
     (''header.account'', [36134, 25143]),
     (''header.changePassword'', [20462, 25913, 23494, 30721]),
     (''header.signOut'', [36864, 20986, 30331, 24405]),
     (''header.currentPassword'', [24403, 21069, 23494, 30721]),
     (''header.newPassword'', [26032, 23494, 30721]),
     (''header.currentPasswordPlaceholder'', [36755, 20837, 24403, 21069, 23494, 30721]),
     (''header.newPasswordPlaceholder'', [36755, 20837, 26032, 23494, 30721]),
     (''header.fillBothFields'', [35831, 22635, 20889, 25152, 26377, 23383, 27573]),
     (''header.passwordChanged'', [23494, 30721, 20462, 25913, 25104, 21151]),
     (''header.passwordChangeFailed'', [23494, 30721, 20462, 25913, 22833, 36133, 65292, 35831, 26816, 26597, 24403,
       21069, 23494, 30721]),
     (''header.language'', [35821, 35328]),
     (''header.darkMode'', [28145, 33394, 27169, 24335]),
     (''header.lightMode'', [27973, 33394, 27169, 24335]),
     (''common.cancel'', [21462, 28040]),
     (''common.save'', [20445, 23384]),
     (''common.saving'', [20445, 23384, 20013] @ js ''...''),
     (''common.create'', [21019, 24314]),
     (''common.update'', [26356, 26032]),
     (''common.delete'', [21024, 38500]),
     (''common.confirm'', [30830, 35748]),
     (''common.edit'', [32534, 36753]),
     (''common.copy'', [22797, 21046]),
     (''common.loading'', [21152, 36733, 20013] @ js ''...''),
     (''common.name'', [21517, 31216]),
     (''common.type'', [31867, 22411]),
     (''common.actions'', [25805, 20316]),
     (''common.search'', [25628, 32034]),
     (''common.allTypes'', [25152, 26377, 31867, 22411]),
     (''common.refresh'', [21047, 26032]),
     (''common.view'', [26597, 30475]),
     (''common.unknown'', [26410, 30693]),
     (''common.never'', [20174, 26410]),
     (''common.yes'', [26159]),
     (''common.no'', [21542]),
     (''common.all'', [20840, 37096]),
     (''common.adminOnly'', [20165, 31649, 29702, 21592, 21487, 25805, 20316]),
     (''common.details'', [35814, 24773]),
     (''login.title'', js ''Mihomo '' @ [25511, 21046, 38754, 26495]),
     (''login.subtitle'', [30331, 24405, 24744, 30340, 36134, 25143]),
     (''login.username'', [29992, 25143, 21517]),
     (''login.password'', [23494, 30721]),
     (''login.usernamePlaceholder'', [36755, 20837, 29992, 25143, 21517]),
     (''login.passwordPlaceholder'', [36755, 20837, 23494, 30721]),
     (''login.signIn'', [30331, 24405]),
     (''login.signingIn'', [30331, 24405, 20013, 8230]),
     (''login.failed'', [30331, 24405, 22833, 36133, 65292, 35831, 26816, 26597, 29992, 25143, 21517, 21644, 23494, 30721]),
     (''overview.title'', [24635, 35272]),
     (''overview.mihomoStatus'', js ''mihomo '' @ [29366, 24577]),
     (''overview.proxies'', [20195, 29702, 33410, 28857]),
     (''overview.rules'', [35268, 21017]),
     (''overview.groups'', [31574, 30053, 32452]),
     (''overview.activeConnections'', [27963, 36291, 36830, 25509]),
     (''overview.checking'', [26816, 26597, 20013] @ js ''...''),
     (''overview.running'', [36816, 34892, 20013]),
     (''overview.unreachable'', [19981, 21487, 36798]),
     (''overview.cannotConnect'', [26080, 27861, 36830, 25509]),
     (''overview.configured'', [24050, 37197, 32622]),
     (''overview.proxyGroups'', [31574, 30053, 32452]),
     (''overview.live'', [23454, 26102]),
     (''overview.mihomoUnreachable'', js ''mihomo '' @ [19981, 21487, 36798]),
     (''overview.recentPublishes'', [26368, 36817, 21457, 24067]),
     (''overview.noPublishHistory'', [26242, 26080, 21457, 24067, 35760, 24405]),
     (''overview.version'', [29256, 26412]),
     (''overview.status'', [29366, 24577]),
     (''overview.operator'', [25805, 20316, 32773]),
     (''overview.note'', [22791, 27880]),
     (''overview.time'', [26102, 38388]),
     (''overview.noConnections'', [26080, 27963, 36291, 36830, 25509]),
     (''overview.host'', [20027, 26426]),
     (''overview.network'', [32593, 32476]),
     (''overview.chains'', [38142, 36335]),
     (''overview.rule'', [35268, 21017]),
     (''overview.traffic'', [27969, 37327]),
     (''overview.duration'', [26102, 38271]),
     (''overview.closeConn'', [20851, 38381, 36830, 25509]),
     (''overview.closeConnFailed'', [20851, 38381, 36830, 25509, 22833, 36133])]"

definition zh_proxies :: zh_dictionary where
  "zh_proxies =
    [(''proxies.title'', [20195, 29702, 33410, 28857]),
     (''proxies.add'', [28155, 21152, 33410, 28857]),
     (''proxies.searchPlaceholder'', [25628, 32034, 33410, 28857] @ js ''...''),
     (''proxies.loadFailed'', [21152, 36733, 33410, 28857, 22833, 36133]),
     (''proxies.updated'', [33410, 28857, 24050, 26356, 26032]),
     (''proxies.created'', [33410, 28857, 24050, 21019, 24314]),
     (''proxies.updateFailed'', [26356, 26032, 33410, 28857, 22833, 36133]),
     (''proxies.createFailed'', [21019, 24314, 33410, 28857, 22833, 36133]),
     (''proxies.deleted'', [33410, 28857, 24050, 21024, 38500]),
     (''proxies.deleteFailed'', [21024, 38500, 33410, 28857, 22833, 36133]),
     (''proxies.copied'', [24050, 22797, 21046]),
     (''proxies.copyFailed'', [22797, 21046, 33410, 28857, 22833, 36133]),
     (''proxies.noProxies'', [26242, 26080, 33410, 28857, 65292, 28857, 20987] @ js ''\"'' @ [28155, 21152, 33410,
       28857] @ js ''\"'' @ [21019, 24314]),
     (''proxies.deleteTitle'', [21024, 38500, 33410, 28857]),
     (''proxies.deleteConfirm'', [30830, 23450, 35201, 21024, 38500] @ js '' \"'' @ js ''{name}'' @ js ''\" '' @
       [21527, 65311, 27492, 25805, 20316, 19981, 21487, 25764, 38144, 12290]),
     (''proxies.deleteWithRefs'', [27492, 33410, 28857, 34987] @ js '' '' @ js ''{count}'' @ js '' '' @ [20010, 31574
       , 30053, 32452, 24341, 29992, 65306] @ js ''{names}'' @ [12290, 21024, 38500, 21518, 23558, 33258, 21160
       , 20174, 36825, 20123, 32452, 20013, 31227, 38500, 12290, 32487, 32493, 65311]),
     (''proxies.server'', [26381, 21153, 22120]),
     (''proxies.addDialog'', [28155, 21152, 33410, 28857]),
     (''proxies.editDialog'', [32534, 36753, 33410, 28857]),
     (''proxies.namePlaceholder'', [33410, 28857, 21517, 31216]),
     (''proxies.serverPlaceholder'', [20027, 26426, 21517, 25110] @ js '' IP''),
     (''proxies.port'', [31471, 21475]),
     (''proxies.portPlaceholder'', js ''1-65535''),
     (''proxies.selectType'', [36873, 25321, 31867, 22411]),
     (''proxies.country'', [22269, 23478] @ js ''/'' @ [22320, 21306]),
     (''proxies.selectCountry'', [36873, 25321, 22269, 23478] @ js ''/'' @ [22320, 21306]),
     (''proxies.allCountries'', [25152, 26377, 22269, 23478] @ js ''/'' @ [22320, 21306]),
     (''proxies.detectCountries'', [35782, 21035, 22269, 23478]),
     (''proxies.detectingCountries'', [35782, 21035, 20013] @ js ''...''),
     (''proxies.countriesDetected'', [24050, 26356, 26032] @ js '' '' @ js ''{count}'' @ js '' '' @ [20010, 33410, 28857]),
     (''proxies.countriesDetectFailed'', [35782, 21035, 22269, 23478, 22833, 36133]),
     (''proxies.noCountriesFound'', [26410, 22312, 31896, 36148, 20869, 23481, 20013, 25214, 21040, 22269, 26071,
       26631, 35782]),
     (''proxies.detectCountriesDesc'', [31896, 36148] @ js '' Surge '' @ [37197, 32622, 30340] @ js '' [Proxy] '' @
       [37096, 20998, 12290, 23558, 33258, 21160, 20174, 33410, 28857, 21517, 31216, 20013, 30340, 22269, 26071
       , 65288, 22914] @ js '' '' @ [55356, 56826, 55356, 56824, 55356, 56815, 55356, 56821, 55356, 56813, 55356
       , 56816, 65289, 35782, 21035, 22269, 23478, 24182, 21305, 37197, 21040] @ js '' mihomo '' @ [33410, 28857
       , 12290]),
     (''proxies.detectCountriesPlaceholder'', [55356, 56826, 55356, 56824] @
       js '' PS-SS-c21s1 = ss, server, port, ...'' @ [10, 55356, 56815, 55356, 56821] @
       js '' JP-01 = ss, server, port, ...''),
     (''proxies.detectCountriesApply'', [24212, 29992]),
     (''proxies.delay'', [24310, 36831]),
     (''proxies.testDelay'', [27979, 35797, 24310, 36831]),
     (''proxies.timeout'', [36229, 26102]),
     (''proxies.error'', [38169, 35823]),
     (''proxies.testAllDelay'', [20840, 37096, 27979, 36895]),
     (''proxies.ipScores'', js ''IP '' @ [35780, 20998]),
     (''proxies.testing'', [27979, 36895, 20013] @ js ''...''),
     (''proxies.source'', [26469, 28304]),
     (''proxies.sourceAll'', [20840, 37096, 26469, 28304]),
     (''proxies.sourceStatic'', [38745, 24577]),
     (''proxies.readOnly'', [21482, 35835]),
     (''proxies.details'', [35814, 24773]),
     (''proxies.nodeDetails'', [33410, 28857, 20449, 24687]),
     (''proxies.nodeDetailsDesc'', [35746, 38405, 33410, 28857, 21482, 35835, 65292, 20165, 23637, 31034, 23433,
       20840, 36816, 34892, 24577, 20803, 20449, 24687, 65307, 26381, 21153, 22320, 22336, 12289, 35746, 38405]
       @ js '' URL '' @ [21644, 33410, 28857, 20973, 25454, 19981, 20250, 26292, 38706, 12290]),
     (''proxies.fieldProtocol'', [21327, 35758]),
     (''proxies.fieldProvider'', [35746, 38405]),
     (''proxies.fieldAlive'', [21487, 29992, 29366, 24577]),
     (''proxies.fieldUDP'', js ''UDP''),
     (''proxies.fieldDelay'', [24310, 36831]),
     (''proxies.fieldProviderStatus'', [35746, 38405, 29366, 24577]),
     (''proxies.fieldProviderUpdated'', [26356, 26032, 26102, 38388]),
     (''proxies.nodeCount'', [33410, 28857, 25968]),
     (''proxies.unknown'', [26410, 30693]),
     (''proxies.yes'', [26159]),
     (''proxies.no'', [21542]),
     (''proxies.providerStatusOK'', [24050, 21152, 36733]),
     (''proxies.providerUnknown'', [35746, 38405, 21152, 36733, 22833, 36133, 25110, 26410, 30693]),
     (''proxies.providerLoadFailed'', [35746, 38405, 33410, 28857, 21152, 36733, 22833, 36133]),
     (''proxies.providerLoadFailedDesc'', [38745, 24577, 33410, 28857, 20173, 21487, 27491, 24120, 25805, 20316,
       65307] @ js ''mihomo '' @ [24674, 22797, 21487, 36798, 21518, 37325, 35797, 12290]),
     (''proxies.retry'', [37325, 35797]),
     (''proxies.noMatchingNodes'', [27809, 26377, 21305, 37197, 24403, 21069, 31579, 36873, 26465, 20214, 30340,
       33410, 28857, 12290]),
     (''proxy.cipher'', [21152, 23494, 26041, 24335]),
     (''proxy.password'', [23494, 30721]),
     (''proxy.udp'', js ''UDP''),
     (''proxy.sni'', js ''SNI''),
     (''proxy.skipCertVerify'', [36339, 36807, 35777, 20070, 39564, 35777]),
     (''proxy.uuid'', js ''UUID''),
     (''proxy.alterId'', js ''Alter ID''),
     (''proxy.tls'', js ''TLS''),
     (''proxy.serverName'', [26381, 21153, 22120, 21517, 31216]),
     (''proxy.network'', [20256, 36755, 21327, 35758]),
     (''proxy.flow'', [27969, 25511]),
     (''proxy.username'', [29992, 25143, 21517]),
     (''proxy.obfs'', [28151, 28102]),
     (''proxy.obfsPassword'', [28151, 28102, 23494, 30721]),
     (''proxy.congestionController'', [25317, 22622, 25511, 21046]),
     (''proxy.none'', [65288, 26080, 65289])]"

definition zh_config :: zh_dictionary where
  "zh_config =
    [(''proxyGroups.title'', [31574, 30053, 32452]),
     (''proxyGroups.add'', [28155, 21152, 31574, 30053, 32452]),
     (''proxyGroups.searchPlaceholder'', [25628, 32034, 31574, 30053, 32452] @ js ''...''),
     (''proxyGroups.loadFailed'', [21152, 36733, 31574, 30053, 32452, 22833, 36133]),
     (''proxyGroups.updated'', [31574, 30053, 32452, 24050, 26356, 26032]),
     (''proxyGroups.created'', [31574, 30053, 32452, 24050, 21019, 24314]),
     (''proxyGroups.updateFailed'', [26356, 26032, 31574, 30053, 32452, 22833, 36133]),
     (''proxyGroups.createFailed'', [21019, 24314, 31574, 30053, 32452, 22833, 36133]),
     (''proxyGroups.deleted'', [31574, 30053, 32452, 24050, 21024, 38500]),
     (''proxyGroups.deleteFailed'', [21024, 38500, 31574, 30053, 32452, 22833, 36133]),
     (''proxyGroups.noGroups'', [26242, 26080, 31574, 30053, 32452, 65292, 28857, 20987] @ js ''\"'' @ [28155, 21152
       , 31574, 30053, 32452] @ js ''\"'' @ [21019, 24314]),
     (''proxyGroups.deleteTitle'', [21024, 38500, 31574, 30053, 32452]),
     (''proxyGroups.deleteConfirm'', [30830, 23450, 35201, 21024, 38500] @ js '' \"'' @ js ''{name}'' @ js ''\" '' @
       [21527, 65311, 27492, 25805, 20316, 19981, 21487, 25764, 38144, 12290]),
     (''proxyGroups.deleteWithRefs'', [27492, 31574, 30053, 32452, 34987] @ js '' '' @ js ''{count}'' @ js '' '' @
       [20010, 20854, 20182, 32452, 24341, 29992, 65306] @ js ''{names}'' @ [12290, 21024, 38500, 21487, 33021,
       24433, 21709, 36825, 20123, 32452, 12290, 32487, 32493, 65311]),
     (''proxyGroups.members'', [25104, 21592]),
     (''proxyGroups.addDialog'', [28155, 21152, 31574, 30053, 32452]),
     (''proxyGroups.editDialog'', [32534, 36753, 31574, 30053, 32452]),
     (''proxyGroups.namePlaceholder'', [31574, 30053, 32452, 21517, 31216]),
     (''proxyGroups.healthCheckUrl'', [20581, 24247, 26816, 26597] @ js '' URL''),
     (''proxyGroups.healthCheckUrlPlaceholder'', js ''http://www.gstatic.com/generate_204''),
     (''proxyGroups.interval'', [26816, 26597, 38388, 38548, 65288, 31186, 65289]),
     (''proxyGroups.intervalPlaceholder'', js ''300''),
     (''proxyGroups.strategy'', [31574, 30053]),
     (''proxyGroups.selectStrategy'', [36873, 25321, 31574, 30053]),
     (''proxyGroups.selectType'', [36873, 25321, 31867, 22411]),
     (''rules.title'', [35268, 21017]),
     (''rules.add'', [28155, 21152, 35268, 21017]),
     (''rules.searchPlaceholder'', [25628, 32034, 35268, 21017] @ js ''...''),
     (''rules.loadFailed'', [21152, 36733, 35268, 21017, 22833, 36133]),
     (''rules.updated'', [35268, 21017, 24050, 26356, 26032]),
     (''rules.created'', [35268, 21017, 24050, 21019, 24314]),
     (''rules.updateFailed'', [26356, 26032, 35268, 21017, 22833, 36133]),
     (''rules.createFailed'', [21019, 24314, 35268, 21017, 22833, 36133]),
     (''rules.deleted'', [35268, 21017, 24050, 21024, 38500]),
     (''rules.deleteFailed'', [21024, 38500, 35268, 21017, 22833, 36133]),
     (''rules.orderSaveFailed'', [20445, 23384, 35268, 21017, 25490, 24207, 22833, 36133]),
     (''rules.noRules'', [26242, 26080, 35268, 21017, 65292, 28857, 20987] @ js ''\"'' @ [28155, 21152, 35268, 21017]
       @ js ''\"'' @ [21019, 24314]),
     (''rules.noMatchRule'', [26410, 25214, 21040] @ js '' MATCH '' @ [35268, 21017] @ js '' '' @ [8212] @ js '' ''
       @ [24314, 35758, 28155, 21152, 19968, 26465, 20316, 20026, 20828, 24213]),
     (''rules.deleteTitle'', [21024, 38500, 35268, 21017]),
     (''rules.deleteConfirm'', [30830, 23450, 35201, 21024, 38500, 27492, 35268, 21017, 21527, 65311, 27492, 25805,
       20316, 19981, 21487, 25764, 38144, 12290]),
     (''rules.addDialog'', [28155, 21152, 35268, 21017]),
     (''rules.editDialog'', [32534, 36753, 35268, 21017]),
     (''rules.payload'', [21305, 37197, 20540]),
     (''rules.target'', [30446, 26631]),
     (''rules.noResolve'', [19981, 35299, 26512]),
     (''rules.payloadPlaceholder'', [22914] @ js '' example.com, 192.168.1.0/24''),
     (''rules.selectType'', [36873, 25321, 31867, 22411]),
     (''rules.selectTarget'', [36873, 25321, 30446, 26631]),
     (''rules.loadGroupsFailed'', [21152, 36733, 31574, 30053, 32452, 22833, 36133]),
     (''ruleProviders.title'', [35268, 21017, 38598]),
     (''ruleProviders.add'', [28155, 21152, 35268, 21017, 38598]),
     (''ruleProviders.loadFailed'', [21152, 36733, 35268, 21017, 38598, 22833, 36133]),
     (''ruleProviders.updated'', [35268, 21017, 38598, 24050, 26356, 26032]),
     (''ruleProviders.created'', [35268, 21017, 38598, 24050, 21019, 24314]),
     (''ruleProviders.updateFailed'', [26356, 26032, 35268, 21017, 38598, 22833, 36133]),
     (''ruleProviders.createFailed'', [21019, 24314, 35268, 21017, 38598, 22833, 36133]),
     (''ruleProviders.deleted'', [35268, 21017, 38598, 24050, 21024, 38500]),
     (''ruleProviders.deleteFailed'', [21024, 38500, 35268, 21017, 38598, 22833, 36133]),
     (''ruleProviders.refreshed'', [24050, 21047, 26032] @ js '' \"'' @ js ''{name}'' @ js ''\"''),
     (''ruleProviders.refreshFailed'', [21047, 26032] @ js '' \"'' @ js ''{name}'' @ js ''\" '' @ [22833, 36133]),
     (''ruleProviders.noProviders'', [26242, 26080, 35268, 21017, 38598, 65292, 28857, 20987] @ js ''\"'' @ [28155,
       21152, 35268, 21017, 38598] @ js ''\"'' @ [21019, 24314]),
     (''ruleProviders.deleteTitle'', [21024, 38500, 35268, 21017, 38598]),
     (''ruleProviders.deleteConfirm'', [30830, 23450, 35201, 21024, 38500] @ js '' \"'' @ js ''{name}'' @ js ''\" ''
       @ [21527, 65311, 27492, 25805, 20316, 19981, 21487, 25764, 38144, 12290]),
     (''ruleProviders.addDialog'', [28155, 21152, 35268, 21017, 38598]),
     (''ruleProviders.editDialog'', [32534, 36753, 35268, 21017, 38598]),
     (''ruleProviders.behavior'', [34892, 20026]),
     (''ruleProviders.url'', js ''URL''),
     (''ruleProviders.urlPlaceholder'', js ''https://example.com/rules.yaml''),
     (''ruleProviders.intervalLabel'', [26356, 26032, 38388, 38548, 65288, 31186, 65289]),
     (''ruleProviders.intervalPlaceholder'', js ''86400''),
     (''ruleProviders.path'', [36335, 24452]),
     (''ruleProviders.pathPlaceholder'', js ''./rules/provider.yaml''),
     (''ruleProviders.editContent'', [32534, 36753, 20869, 23481]),
     (''ruleProviders.loadContentFailed'', [21152, 36733, 35268, 21017, 21015, 34920, 22833, 36133]),
     (''ruleProviders.contentSaved'', [35268, 21017, 21015, 34920, 24050, 20445, 23384]),
     (''ruleProviders.contentSaveFailed'', [20445, 23384, 35268, 21017, 21015, 34920, 22833, 36133]),
     (''systemConfig.title'', [31995, 32479, 37197, 32622]),
     (''systemConfig.loadFailed'', [21152, 36733, 31995, 32479, 37197, 32622, 22833, 36133]),
     (''systemConfig.saved'', [31995, 32479, 37197, 32622, 24050, 20445, 23384]),
     (''systemConfig.saveFailed'', [20445, 23384, 31995, 32479, 37197, 32622, 22833, 36133]),
     (''systemConfig.saveConfig'', [20445, 23384, 37197, 32622]),
     (''systemConfig.general'', [36890, 29992]),
     (''systemConfig.externalController'', [22806, 37096, 25511, 21046, 22120]),
     (''systemConfig.tun'', js ''TUN''),
     (''systemConfig.dns'', js ''DNS''),
     (''systemConfig.allowLan'', [20801, 35768, 23616, 22495, 32593, 36830, 25509]),
     (''systemConfig.enableIpv6'', [21551, 29992] @ js '' IPv6''),
     (''systemConfig.enableTun'', [21551, 29992] @ js '' TUN''),
     (''systemConfig.autoRoute'', [33258, 21160, 36335, 30001]),
     (''systemConfig.enableDns'', [21551, 29992] @ js '' DNS''),
     (''systemConfig.selectMode'', [36873, 25321, 27169, 24335]),
     (''systemConfig.selectLogLevel'', [36873, 25321, 26085, 24535, 32423, 21035]),
     (''systemConfig.selectStack'', [36873, 25321, 21327, 35758, 26632])]"

definition zh_operation :: zh_dictionary where
  "zh_operation =
    [(''publish.title'', [21457, 24067, 20013, 24515]),
     (''publish.loadingStatus'', [21152, 36733, 29366, 24577, 20013] @ js ''...''),
     (''publish.draftPending'', [26377, 33609, 31295, 26356, 25913, 26410, 21457, 24067]),
     (''publish.upToDate'', [24050, 26159, 26368, 26032]),
     (''publish.runningVersion'', [24403, 21069, 36816, 34892, 29256, 26412] @ js '' v'' @ js ''{version}''),
     (''publish.loadingPreview'', [21152, 36733, 39044, 35272, 20013] @ js ''...''),
     (''publish.loadingHistory'', [21152, 36733, 21382, 21490, 20013] @ js ''...''),
     (''publish.previewFailed'', [21152, 36733, 39044, 35272, 22833, 36133]),
     (''publish.historyFailed'', [21152, 36733, 21382, 21490, 22833, 36133]),
     (''publish.publishedSuccess'', [37197, 32622, 21457, 24067, 25104, 21151]),
     (''publish.previewTitle'', [39044, 35272, 19982, 21457, 24067]),
     (''publish.diff'', [24046, 24322]),
     (''publish.fullYaml'', [23436, 25972] @ js '' YAML''),
     (''publish.noDifferences'', [26080, 24046, 24322]),
     (''publish.notValidated'', [26410, 26657, 39564]),
     (''publish.valid'', [26657, 39564, 36890, 36807]),
     (''publish.invalid'', [26657, 39564, 22833, 36133, 65288] @ js ''{count}'' @ js '' '' @ [20010, 38169, 35823, 65289]),
     (''publish.validationOutput'', [26657, 39564, 36755, 20986]),
     (''publish.releaseNote'', [21457, 24067, 35828, 26126, 65288, 21487, 36873, 65289]),
     (''publish.validate'', [26657, 39564]),
     (''publish.validating'', [26657, 39564, 20013] @ js ''...''),
     (''publish.publish'', [21457, 24067]),
     (''publish.publishing'', [21457, 24067, 20013] @ js ''...''),
     (''publish.validateFirst'', [35831, 20808, 26657, 39564, 20877, 21457, 24067]),
     (''publish.discard'', [21462, 28040, 26356, 25913]),
     (''publish.discarding'', [21462, 28040, 20013] @ js ''...''),
     (''publish.discardSuccess'', [26356, 25913, 24050, 21462, 28040]),
     (''publish.discardFailed'', [21462, 28040, 26356, 25913, 22833, 36133]),
     (''publish.configValid'', [37197, 32622, 26657, 39564, 36890, 36807]),
     (''publish.validationFailed'', [26657, 39564, 22833, 36133, 65306] @ js ''{count}'' @ js '' '' @ [20010, 38169,
       35823]),
     (''publish.validationError'', [26657, 39564, 22833, 36133]),
     (''publish.publishFailed'', [21457, 24067, 22833, 36133]),
     (''publish.publishSuccess'', [21457, 24067, 25104, 21151]),
     (''publish.history'', [21457, 24067, 21382, 21490]),
     (''publish.noHistory'', [26242, 26080, 21457, 24067, 35760, 24405]),
     (''publish.rollback'', [22238, 28378]),
     (''publish.rollbackTitle'', [22238, 28378, 21040, 19978, 19968, 29256, 26412, 65311]),
     (''publish.rollbackConfirm'', [23558, 24674, 22797, 21040, 19978, 27425, 25104, 21151, 30340, 37197, 32622,
       65292, 24403, 21069, 36816, 34892, 30340, 37197, 32622, 23558, 34987, 26367, 25442, 12290]),
     (''publish.rollbackSuccess'', [22238, 28378, 25104, 21151]),
     (''publish.rollbackFailed'', [22238, 28378, 22833, 36133]),
     (''publish.error'', [38169, 35823]),
     (''publish.config'', [37197, 32622] @ js '' YAML''),
     (''runtime.title'', [36816, 34892, 29366, 24577]),
     (''runtime.connections'', [36830, 25509]),
     (''runtime.proxies'', [33410, 28857]),
     (''runtime.rules'', [35268, 21017]),
     (''runtime.providers'', [35268, 21017, 38598]),
     (''runtime.logs'', [26085, 24535]),
     (''runtime.loadingProxies'', [21152, 36733, 33410, 28857, 20013] @ js ''...''),
     (''runtime.loadingRules'', [21152, 36733, 35268, 21017, 20013] @ js ''...''),
     (''runtime.loadingProviders'', [21152, 36733, 35268, 21017, 38598, 20013] @ js ''...''),
     (''runtime.noProxyGroups'', [26410, 25214, 21040, 31574, 30053, 32452, 65292] @ js ''mihomo '' @ [21487, 33021,
       26410, 36816, 34892]),
     (''runtime.noRules'', [26410, 25214, 21040, 35268, 21017, 65292] @ js ''mihomo '' @ [21487, 33021, 26410, 36816
       , 34892]),
     (''runtime.noProviders'', [26410, 25214, 21040, 35268, 21017, 38598, 65292] @ js ''mihomo '' @ [21487, 33021,
       26410, 36816, 34892]),
     (''runtime.selected'', [24403, 21069, 36873, 25321]),
     (''runtime.testDelay'', [27979, 35797, 24310, 36831]),
     (''runtime.switchProxy'', [20999, 25442, 21040, 27492, 33410, 28857]),
     (''runtime.switchedTo'', [24050, 20999, 25442, 21040] @ js '' '' @ js ''{name}''),
     (''runtime.switchFailed'', [20999, 25442, 33410, 28857, 22833, 36133]),
     (''runtime.providerRefreshed'', [35268, 21017, 38598] @ js '' \"'' @ js ''{name}'' @ js ''\" '' @ [24050, 21047
       , 26032]),
     (''runtime.providerRefreshFailed'', [21047, 26032] @ js '' \"'' @ js ''{name}'' @ js ''\" '' @ [22833, 36133]),
     (''runtime.timeout'', [36229, 26102]),
     (''runtime.payload'', [21305, 37197, 20540]),
     (''runtime.proxy'', [20195, 29702]),
     (''runtime.rules_count'', js ''{count}'' @ js '' '' @ [26465, 35268, 21017]),
     (''runtime.updated'', [26356, 26032, 26102, 38388]),
     (''runtime.searchPlaceholder'', [25353, 20027, 26426, 12289, 35268, 21017, 12289, 38142, 36335, 25628, 32034] @
       js ''...''),
     (''runtime.connectionCount'', js ''{count}'' @ js '' '' @ [20010, 36830, 25509]),
     (''runtime.loadingConnections'', [21152, 36733, 36830, 25509, 20013] @ js ''...''),
     (''runtime.noConnections'', [26080, 27963, 36291, 36830, 25509]),
     (''runtime.host'', [20027, 26426]),
     (''runtime.network'', [32593, 32476]),
     (''runtime.chains'', [38142, 36335]),
     (''runtime.rule'', [35268, 21017]),
     (''runtime.download'', [19979, 36733]),
     (''runtime.upload'', [19978, 20256]),
     (''runtime.closeConnection'', [20851, 38381, 36830, 25509]),
     (''runtime.addRule'', [20026, 27492, 20027, 26426, 28155, 21152, 35268, 21017]),
     (''runtime.noLogs'', [26242, 26080, 26085, 24535, 12290, 23454, 26102, 26085, 24535, 27969, 38656, 35201] @
       js '' WebSocket '' @ [25903, 25345, 65288] @ js ''MVP '' @ [21518, 32493, 29256, 26412, 65289, 12290]),
     (''settings.title'', [35774, 32622]),
     (''settings.appSettings'', [24212, 29992, 35774, 32622]),
     (''settings.loadingSettings'', [21152, 36733, 35774, 32622, 20013] @ js ''...''),
     (''settings.saved'', [35774, 32622, 24050, 20445, 23384]),
     (''settings.saveFailed'', [20445, 23384, 35774, 32622, 22833, 36133]),
     (''settings.saveSettings'', [20445, 23384, 35774, 32622]),
     (''settings.configPath'', js ''mihomo '' @ [37197, 32622, 36335, 24452]),
     (''settings.configPathPlaceholder'', js ''/etc/mihomo/config.yaml''),
     (''settings.workingDir'', js ''mihomo '' @ [24037, 20316, 30446, 24405]),
     (''settings.workingDirPlaceholder'', js ''/etc/mihomo''),
     (''settings.binaryPath'', js ''mihomo '' @ [21487, 25191, 34892, 25991, 20214, 36335, 24452]),
     (''settings.binaryPathPlaceholder'', js ''/usr/local/bin/mihomo''),
     (''settings.controllerUrl'', [22806, 37096, 25511, 21046, 22120, 22320, 22336]),
     (''settings.controllerUrlPlaceholder'', js ''http://127.0.0.1:9090''),
     (''settings.controllerSecret'', [22806, 37096, 25511, 21046, 22120, 23494, 38053]),
     (''settings.controllerSecretPlaceholder'', [30041, 31354, 34920, 31034, 26080, 23494, 38053]),
     (''settings.userManagement'', [29992, 25143, 31649, 29702]),
     (''settings.addUser'', [28155, 21152, 29992, 25143]),
     (''settings.username'', [29992, 25143, 21517]),
     (''settings.role'', [35282, 33394]),
     (''settings.loadingUsers'', [21152, 36733, 29992, 25143, 20013] @ js ''...''),
     (''settings.noUsers'', [26242, 26080, 29992, 25143]),
     (''settings.you'', [65288, 25105, 65289]),
     (''settings.addUserDialog'', [28155, 21152, 29992, 25143]),
     (''settings.editUserDialog'', [32534, 36753, 29992, 25143]),
     (''settings.usernamePlaceholder'', [29992, 25143, 21517]),
     (''settings.passwordLabel'', [23494, 30721]),
     (''settings.passwordEditLabel'', [23494, 30721, 65288, 30041, 31354, 20445, 25345, 19981, 21464, 65289]),
     (''settings.passwordPlaceholder'', [23494, 30721]),
     (''settings.passwordEditPlaceholder'', [26032, 23494, 30721, 65288, 21487, 36873, 65289]),
     (''settings.roleAdmin'', [31649, 29702, 21592]),
     (''settings.roleReadonly'', [21482, 35835]),
     (''settings.userUpdated'', [29992, 25143, 24050, 26356, 26032]),
     (''settings.userCreated'', [29992, 25143, 24050, 21019, 24314]),
     (''settings.userUpdateFailed'', [26356, 26032, 29992, 25143, 22833, 36133]),
     (''settings.userCreateFailed'', [21019, 24314, 29992, 25143, 22833, 36133]),
     (''settings.userDeleted'', [29992, 25143, 24050, 21024, 38500]),
     (''settings.userDeleteFailed'', [21024, 38500, 29992, 25143, 22833, 36133]),
     (''settings.cannotDeleteSelf'', [19981, 33021, 21024, 38500, 24403, 21069, 30331, 24405, 30340, 36134, 25143]),
     (''settings.usernameRequired'', [29992, 25143, 21517, 19981, 33021, 20026, 31354]),
     (''settings.passwordRequired'', [23494, 30721, 19981, 33021, 20026, 31354]),
     (''settings.deleteUserTitle'', [21024, 38500, 29992, 25143]),
     (''settings.deleteUserConfirm'', [30830, 23450, 35201, 21024, 38500, 27492, 29992, 25143, 21527, 65311, 27492,
       25805, 20316, 19981, 21487, 25764, 38144, 12290]),
     (''settings.configEditor'', [37197, 32622, 32534, 36753, 22120]),
     (''settings.configEditorDesc'', [30452, 25509, 32534, 36753] @ js '' mihomo config.yaml'' @ [12290, 20445, 23384
       , 20026, 33609, 31295, 21518, 65292, 21069, 24448, 21457, 24067, 39029, 38754, 36827, 34892, 26657, 39564
       , 21644, 21457, 24067, 12290]),
     (''settings.configLoading'', [21152, 36733, 37197, 32622, 20013] @ js ''...''),
     (''settings.configLoadFailed'', [21152, 36733, 37197, 32622, 22833, 36133]),
     (''settings.configSaved'', [37197, 32622, 33609, 31295, 24050, 20445, 23384]),
     (''settings.configSaveFailed'', [20445, 23384, 37197, 32622, 33609, 31295, 22833, 36133]),
     (''settings.configDraftCleared'', [37197, 32622, 33609, 31295, 24050, 28165, 38500]),
     (''settings.configClearFailed'', [28165, 38500, 37197, 32622, 33609, 31295, 22833, 36133]),
     (''settings.saveDraft'', [20445, 23384, 20026, 33609, 31295]),
     (''settings.clearDraft'', [28165, 38500, 33609, 31295]),
     (''settings.draftIndicator'', [33609, 31295]),
     (''settings.fileIndicator'', [24403, 21069, 25991, 20214])]"

definition zh_subscriptions :: zh_dictionary where
  "zh_subscriptions =
    [(''subscriptions.title'', [35746, 38405, 31649, 29702]),
     (''subscriptions.readonlyHint'', [21482, 35835, 35270, 22270, 65306, 21482, 26377, 31649, 29702, 21592, 21487,
       20197, 26032, 22686, 12289, 32534, 36753, 12289, 21047, 26032, 25110, 21024, 38500, 35746, 38405, 12290]),
     (''subscriptions.add'', [28155, 21152, 35746, 38405]),
     (''subscriptions.edit'', [32534, 36753, 35746, 38405]),
     (''subscriptions.empty'', [26242, 26080, 35746, 38405, 12290, 28155, 21152, 21518, 21487, 36319, 36394, 37197,
       39069, 12289, 21040, 26399, 21644, 37325, 32622, 26102, 38388, 12290]),
     (''subscriptions.loadFailed'', [21152, 36733, 35746, 38405, 22833, 36133]),
     (''subscriptions.created'', [35746, 38405, 24050, 20445, 23384, 21040, 33609, 31295]),
     (''subscriptions.updated'', [35746, 38405, 24050, 26356, 26032, 21040, 33609, 31295]),
     (''subscriptions.deleted'', [35746, 38405, 24050, 21024, 38500]),
     (''subscriptions.deleteTitle'', [21024, 38500, 35746, 38405]),
     (''subscriptions.deleteConfirm'', [30830, 23450, 21024, 38500, 8220] @ js ''{name}'' @ [8221, 21527, 65311,
       33509, 27809, 26377, 31574, 30053, 32452, 24341, 29992, 20854] @ js '' provider'' @ [65292, 20250, 21516
       , 26102, 20174, 37197, 32622, 33609, 31295, 20013, 31227, 38500, 35813] @ js '' provider'' @ [65292,
       21457, 24067, 21518, 29983, 25928, 65307, 33509, 20173, 34987, 24341, 29992, 65292, 21017, 21024, 38500,
       20250, 34987, 38459, 27490, 65292, 38656, 20808, 35299, 38500, 24341, 29992, 12290]),
     (''subscriptions.deleteFailed'', [21024, 38500, 35746, 38405, 22833, 36133]),
     (''subscriptions.saveFailed'', [20445, 23384, 35746, 38405, 22833, 36133]),
     (''subscriptions.saveConflict'', [21516, 21517, 35746, 38405, 25110] @ js '' provider '' @ [24050, 23384, 22312
       , 12290]),
     (''subscriptions.deleteReferencedGeneric'', [26080, 27861, 21024, 38500, 65306, 35813] @ js '' provider '' @
       [20173, 34987, 31574, 30053, 32452, 24341, 29992, 12290]),
     (''subscriptions.formInvalid'', [35831, 26816, 26597, 21517, 31216, 12289, 38142, 25509, 12289, 37197, 39069,
       21644, 37325, 32622, 35745, 21010]),
     (''subscriptions.refresh'', [21047, 26032]),
     (''subscriptions.refreshing'', [21047, 26032, 20013, 8230]),
     (''subscriptions.refreshed'', [35746, 38405, 24050, 21047, 26032]),
     (''subscriptions.refreshFailed'', [21047, 26032, 22833, 36133]),
     (''subscriptions.refreshAll'', [20840, 37096, 21047, 26032]),
     (''subscriptions.refreshingAll'', [27491, 22312, 20840, 37096, 21047, 26032, 8230]),
     (''subscriptions.statusOk'', [25968, 25454, 27491, 24120]),
     (''subscriptions.statusStale'', [25968, 25454, 38472, 26087]),
     (''subscriptions.statusError'', [21047, 26032, 22833, 36133]),
     (''subscriptions.statusDisabled'', [33258, 21160, 26356, 26032, 24050, 26242, 20572]),
     (''subscriptions.statusPending'', [31561, 24453, 39318, 27425, 21047, 26032]),
     (''subscriptions.provider'', [21407, 29983] @ js '' provider''),
     (''subscriptions.providerNone'', [26410, 20851, 32852]),
     (''subscriptions.providerHint'', [35746, 38405, 20197] @ js '' mihomo proxy-provider '' @ [30340, 24418, 24335,
       20445, 23384, 22312, 37197, 32622, 33609, 31295, 20013, 12290, 21487, 20851, 32852, 24050, 26377] @
       js '' provider'' @ [65292, 25110, 29992, 27492, 21517, 31216, 26032, 24314, 12290]),
     (''subscriptions.providerName'', js ''Provider '' @ [21517, 31216]),
     (''subscriptions.providerNamePlaceholder'', [20363, 22914] @ js '' provider-main''),
     (''subscriptions.providerLink'', [20851, 32852, 24050, 26377] @ js '' provider''),
     (''subscriptions.providerCreate'', [29992, 27492, 21517, 31216, 26032, 24314] @ js '' provider''),
     (''subscriptions.nodeCount'', [33410, 28857, 25968]),
     (''subscriptions.nodeCountUnknown'', js ''provider '' @ [25289, 21462, 21518, 25165, 33021, 30830, 23450]),
     (''subscriptions.providerMissing'', [37197, 32622, 33609, 31295, 20013, 25214, 19981, 21040, 25152, 20851, 32852
       , 30340] @ js '' provider''),
     (''subscriptions.providerSourceCreated'', [26032, 24314]),
     (''subscriptions.providerSourceLinked'', [20851, 32852]),
     (''subscriptions.sourceType'', [26469, 28304, 31867, 22411]),
     (''subscriptions.sourceTypeNative'', [21407, 29983] @ js '' provider''),
     (''subscriptions.sourceTypeNativeHint'', [22312, 37197, 32622, 33609, 31295, 20013, 21019, 24314, 25110, 20851,
       32852, 21407, 29983] @ js '' mihomo proxy-provider'' @ [65288, 32463, 21457, 24067, 20013, 24515, 29983,
       25928, 65289, 12290]),
     (''subscriptions.sourceTypeTraffic'', [26082, 26377, 38745, 24577, 26469, 28304]),
     (''subscriptions.sourceTypeTrafficHint'', [36319, 36394, 26082, 26377, 27969, 37327, 26469, 28304, 21450, 20854
       , 38745, 24577, 33410, 28857, 65307, 19981, 21019, 24314, 21407, 29983] @ js '' provider'' @ [65292,
       20063, 32477, 19981, 25913, 21160, 37197, 32622, 33609, 31295, 12290]),
     (''subscriptions.sourceTypeTrafficBadge'', [38745, 24577, 26469, 28304]),
     (''subscriptions.trafficSource'', [27969, 37327, 26469, 28304]),
     (''subscriptions.trafficSourceSelect'', [36873, 25321, 26082, 26377, 27969, 37327, 26469, 28304, 8230]),
     (''subscriptions.trafficProviderRequired'', [35831, 36873, 25321, 35813, 26469, 28304, 35201, 36319, 36394,
       30340, 27969, 37327] @ js '' provider'' @ [12290]),
     (''subscriptions.urlManagedByTrafficSource'', [35746, 38405, 38142, 25509, 30001, 27969, 37327, 26469, 28304,
       25345, 26377, 65292, 26412, 39029, 19981, 37325, 22797, 23384, 20648, 65307, 35831, 22312, 27969, 37327,
       39029, 20462, 25913, 38142, 25509, 12290]),
     (''subscriptions.statusLocal'', [20165, 26412, 22320, 25968, 25454]),
     (''subscriptions.localOnlyHint'', [35813, 27969, 37327, 26469, 28304, 27809, 26377, 35746, 38405, 38142, 25509,
       65306, 20165, 26174, 31034, 26412, 22320, 37319, 26679, 29992, 37327, 65292, 21378, 21830, 29992, 37327,
       19982, 21040, 26399, 26102, 38388, 26410, 30693, 12290]),
     (''subscriptions.supplierResetDayNotice'', [21378, 21830, 20165, 25253, 21578, 37325, 32622, 26085] @ js '' ''
       @ js ''{day}'' @ [65288, 19981, 21547, 23567, 26102, 19982, 26102, 21306, 65289, 12290]),
     (''subscriptions.scheduleConfiguredHint'', [19978, 26041, 37325, 32622, 26102, 38388, 19982, 26102, 21306, 20026
       , 26412, 22320, 37197, 32622, 65292, 24182, 38750, 21378, 21830, 25552, 20379, 12290]),
     (''subscriptions.nodeCountMatched'', [21305, 37197, 30340, 38745, 24577, 33410, 28857]),
     (''subscriptions.deleteTitleTraffic'', [21024, 38500, 38745, 24577, 26469, 28304, 36319, 36394]),
     (''subscriptions.deleteConfirmTraffic'', [21024, 38500, 8220] @ js ''{name}'' @ [8221, 30340, 36319, 36394,
       35760, 24405, 65311, 27969, 37327, 26469, 28304, 12289, 21382, 21490, 32479, 35745, 19982, 25152, 26377,
       38745, 24577, 33410, 28857] @ js ''/'' @ [20998, 32452, 22343, 19981, 21463, 24433, 21709, 12290]),
     (''subscriptions.pausedUsageHintTraffic'', [33258, 21160, 20803, 25968, 25454, 21047, 26032, 24050, 26242, 20572
       , 65307, 27969, 37327, 26469, 28304, 19982, 38745, 24577, 37197, 32622, 19981, 21463, 24433, 21709,
       12290]),
     (''subscriptions.localUsed'', [26412, 21608, 26399, 26412, 22320, 32479, 35745]),
     (''subscriptions.resetInDays'', js ''{days}'' @ js '' '' @ [22825, 21518]),
     (''subscriptions.cycleEnds'', [24403, 21069, 21608, 26399, 32467, 26463, 20110] @ js '' '' @ js ''{time}''),
     (''subscriptions.pausedHint'', [26242, 20572, 21482, 20250, 20572, 27490, 33258, 21160, 26356, 26032, 35746,
       38405, 20449, 24687, 21644, 33410, 28857, 35780, 20998, 12290, 24050, 21457, 24067, 30340] @
       js '' provider '' @ [33410, 28857, 20173, 20250, 25215, 36733, 27969, 37327, 65292, 30452, 21040, 35299,
       38500, 31574, 30053, 32452, 24341, 29992, 24182, 21024, 38500] @ js '' provider '' @ [21518, 21457, 24067
       , 29983, 25928, 12290]),
     (''subscriptions.pausedUsageHint'', [33258, 21160, 26356, 26032, 35746, 38405, 20449, 24687, 21644, 35780, 20998
       , 24050, 26242, 20572, 12290, 24050, 21457, 24067, 30340, 33410, 28857, 20173, 20250, 25215, 36733, 27969
       , 37327, 65307, 22914, 38656, 20572, 27490, 20351, 29992, 65292, 35831, 20808, 35299, 38500, 31574, 30053
       , 32452, 24341, 29992, 65292, 20877, 21024, 38500] @ js '' provider '' @ [24182, 36890, 36807, 21457,
       24067, 20013, 24515, 21457, 24067, 12290]),
     (''subscriptions.neverFetchedHint'', [23578, 26080, 20379, 24212, 21830, 25968, 25454, 12290, 21047, 26032,
       20197, 33719, 21462, 37197, 39069, 12289, 21040, 26399, 21644, 37325, 32622, 20449, 24687, 12290]),
     (''subscriptions.staleHint'', [20379, 24212, 21830, 25968, 25454, 32570, 22833, 25110, 36229, 36807] @
       js '' 24 '' @ [23567, 26102, 26410, 26356, 26032, 12290, 39029, 38754, 20445, 30041, 26368, 21518, 19968
       , 27425, 25104, 21151, 20540, 24182, 26631, 27880, 20854, 33719, 21462, 26102, 38388, 12290]),
     (''subscriptions.url'', [35746, 38405, 38142, 25509]),
     (''subscriptions.urlPlaceholder'', js ''https://provider.example/subscription''),
     (''subscriptions.urlKeepHint'', [30041, 31354, 34920, 31034, 20445, 30041, 24050, 23384, 20648, 30340, 38142,
       25509, 65307, 23436, 25972, 38142, 25509, 19981, 20250, 20877, 27425, 26174, 31034, 12290]),
     (''subscriptions.urlMaskedHint'', [30028, 38754, 21482, 26174, 31034, 25513, 30721, 38142, 25509, 65292, 23436,
       25972, 38142, 25509, 19981, 20250, 36820, 22238, 27983, 35272, 22120, 12290]),
     (''subscriptions.enabled'', [33258, 21160, 26356, 26032, 35746, 38405, 20449, 24687, 19982, 35780, 20998]),
     (''subscriptions.quota'', [37197, 39069]),
     (''subscriptions.total'', [24635, 37327]),
     (''subscriptions.used'', [24050, 29992]),
     (''subscriptions.remaining'', [21097, 20313]),
     (''subscriptions.usageSource'', [29992, 37327, 26469, 28304]),
     (''subscriptions.sourceVendor'', [21378, 21830, 25253, 21578]),
     (''subscriptions.sourceLocal'', [26412, 22320, 32479, 35745]),
     (''subscriptions.sourceManual'', [25163, 21160]),
     (''subscriptions.sourceNone'', [26242, 26080, 25968, 25454]),
     (''subscriptions.dataUpdatedAt'', [29992, 37327, 26356, 26032, 26102, 38388]),
     (''subscriptions.expiresAt'', [21040, 26399]),
     (''subscriptions.expiryUnknown'', [20379, 24212, 21830, 26410, 25552, 20379]),
     (''subscriptions.expirySource'', [21040, 26399, 26469, 28304]),
     (''subscriptions.expirySourceVendor'', [20379, 24212, 21830]),
     (''subscriptions.expirySourceManual'', [25163, 21160]),
     (''subscriptions.expirySourceUnknown'', [26410, 30693]),
     (''subscriptions.nextReset'', [19979, 27425, 37325, 32622]),
     (''subscriptions.resetSchedule'', [37325, 32622, 35745, 21010]),
     (''subscriptions.resetConfigure'', [37197, 32622, 27599, 26376, 37325, 32622, 35745, 21010]),
     (''subscriptions.resetNone'', [26080, 27599, 26376, 37325, 32622, 35745, 21010, 65288, 26410, 30693, 65289]),
     (''subscriptions.resetNoneHint'', [19981, 21246, 36873, 34920, 31034, 26080, 27599, 26376, 37325, 32622, 35745,
       21010, 65288, 26410, 30693, 65289, 65307, 20462, 25913, 20854, 20182, 23383, 27573, 19981, 20250, 33258,
       21160, 29983, 25104, 37325, 32622, 35745, 21010, 12290]),
     (''subscriptions.resetDay'', [37325, 32622, 26085]),
     (''subscriptions.resetHour'', [26102]),
     (''subscriptions.resetMinute'', [20998]),
     (''subscriptions.timezone'', [26102, 21306]),
     (''subscriptions.resetHint'', [30701, 26376, 20250, 33258, 21160, 21462, 35813, 26376, 26368, 21518, 19968,
       22825, 65307, 26102, 38388, 25353, 25152, 36873] @ js '' IANA '' @ [26102, 21306, 35299, 37322, 12290]),
     (''subscriptions.lastRefresh'', [26368, 36817, 21047, 26032, 23581, 35797]),
     (''subscriptions.lastSuccess'', [26368, 36817, 25104, 21151, 21047, 26032]),
     (''subscriptions.neverRefreshed'', [20174, 26410, 21047, 26032]),
     (''subscriptions.lastError'', [26368, 36817, 38169, 35823]),
     (''subscriptions.draftPending'', [26377, 26410, 21457, 24067, 30340, 33609, 31295, 26356, 25913]),
     (''subscriptions.draftPendingHint'', [24050, 20445, 23384, 21040, 33609, 31295, 12290, 35831, 21040, 21457,
       24067, 20013, 24515, 21457, 24067, 21518, 25165, 20250, 24212, 29992, 21040, 36816, 34892, 20013, 30340]
       @ js '' mihomo '' @ [37197, 32622, 12290]),
     (''subscriptions.goToPublish'', [25171, 24320, 21457, 24067, 20013, 24515]),
     (''subscriptions.sectionBasic'', [22522, 26412, 20449, 24687]),
     (''subscriptions.sectionQuota'', [37197, 39069, 19982, 37325, 32622]),
     (''subscriptions.sectionExpiry'', [21040, 26399]),
     (''subscriptions.quotaGB'', [25163, 21160, 26376, 37197, 39069, 65288] @ js ''GiB'' @ [65289]),
     (''subscriptions.quotaGBHint'', [30041, 31354, 21017, 20351, 29992, 20379, 24212, 21830, 19978, 25253, 30340,
       37197, 39069, 12290]),
     (''subscriptions.manualExpiry'', [25163, 21160, 21040, 26399, 26102, 38388, 65288, 26085, 26399, 12289, 26102,
       38388, 19982, 26102, 21306, 65289]),
     (''subscriptions.manualExpiryTimezone'', [21040, 26399, 26102, 38388, 26102, 21306]),
     (''subscriptions.manualExpiryHint'', [20165, 22312, 20379, 24212, 21830, 26410, 19978, 25253, 21040, 26399,
       26102, 38388, 26102, 20351, 29992, 65307, 26410, 25913, 21160, 26102, 20445, 30041, 21407, 20540, 12290]),
     (''subscriptions.remainingUnknown'', [26410, 30693]),
     (''subscriptions.urlRequired'', [26032, 24314] @ js '' provider '' @ [26102, 24517, 39035, 22635, 20889, 35746,
       38405, 38142, 25509, 12290]),
     (''subscriptions.providerConflict'', [35813] @ js '' provider '' @ [24050, 20851, 32852, 21040, 21478, 19968,
       20010, 35746, 38405, 12290]),
     (''subscriptions.providerMustExist'', [32534, 36753, 26102, 21482, 33021, 36873, 25321, 24050, 26377] @
       js '' provider'' @ [65307, 26032, 24314] @ js '' provider '' @ [35831, 26032, 24314, 35746, 38405,
       12290]),
     (''subscriptions.urlIgnoredForLink'', [35813] @ js '' provider '' @ [24050, 23384, 22312, 65292, 35746, 38405,
       38142, 25509, 36755, 20837, 20250, 34987, 24573, 30053, 65292, 30452, 25509, 25353, 21407, 37197, 32622,
       20851, 32852, 12290]),
     (''subscriptions.providerSelectHint'', [21517, 31216, 19982, 24050, 26377, 21407, 29983] @ js '' provider '' @
       [30456, 21516, 26102, 20250, 30452, 25509, 20851, 32852, 65292, 19981, 20250, 37325, 22797, 21019, 24314
       , 12290]),
     (''subscriptions.effectiveQuota'', [24403, 21069, 29983, 25928, 37197, 39069, 65306] @ js ''{value}''),
     (''subscriptions.vendorExpiry'', [20379, 24212, 21830, 21040, 26399, 26102, 38388, 65306] @ js ''{value}''),
     (''subscriptions.clearManualExpiry'', [28165, 31354, 35813, 23383, 27573, 24182, 20445, 23384, 21363, 21487,
       21024, 38500, 25163, 21160, 21040, 26399, 26102, 38388, 12290]),
     (''subscriptions.serverTimezone'', [26381, 21153, 22120, 26412, 22320, 26102, 21306]),
     (''subscriptions.delete'', [21024, 38500, 35746, 38405]),
     (''subscriptions.deleteBlocked'', [26080, 27861, 21024, 38500, 65306, 35813] @ js '' provider '' @ [20173,
       34987] @ js '' '' @ js ''{groups}'' @ js '' '' @ [24341, 29992, 65292, 35831, 20808, 35299, 38500, 24341
       , 29992, 12290]),
     (''subscriptions.localProvider'', [26412, 22320, 32479, 35745, 20379, 24212, 21830, 65288, 21487, 36873, 65289]),
     (''subscriptions.localProviderNone'', [19981, 20851, 32852]),
     (''subscriptions.localProviderHint'', [20851, 32852, 27969, 37327, 20379, 24212, 21830, 21518, 65292, 21487,
       22312, 20379, 24212, 21830, 25968, 23383, 26049, 26174, 31034, 26412, 21608, 26399, 26412, 22320, 37319,
       26679, 29992, 37327, 12290]),
     (''subscriptions.rateLimited'', [35302, 21457, 38480, 27969, 65292, 35831, 22312] @ js '' '' @ js ''{seconds}''
       @ js '' '' @ [31186, 21518, 37325, 35797, 12290]),
     (''subscriptions.refreshAllSummary'', [25104, 21151] @ js '' '' @ js ''{ok}'' @ js '' '' @ [20010, 65292, 22833
       , 36133] @ js '' '' @ js ''{failed}'' @ js '' '' @ [20010])]"

definition zh_scores :: zh_dictionary where
  "zh_scores =
    [(''nodeScores.title'', [33410, 28857] @ js '' IP '' @ [35780, 20998]),
     (''nodeScores.readonlyHint'', [21482, 35835, 35270, 22270, 65306, 21482, 26377, 31649, 29702, 21592, 21487,
       20197, 25490, 38431, 21047, 26032, 35780, 20998, 12290]),
     (''nodeScores.disclaimer'', js ''Claude Trust Score '' @ [26159] @ js '' Net.Coffee '' @ [30340, 29420, 31435,
       31532, 19977, 26041, 20449, 21495, 65288] @ js ''0'' @ [8211] @ js ''100'' @ [65292, 36234, 39640, 36234
       , 21487, 20449, 65289, 65292, 19981, 26159] @ js '' Anthropic '' @ [23448, 26041, 35780, 20998, 12290]),
     (''nodeScores.loadFailed'', [21152, 36733, 33410, 28857, 35780, 20998, 22833, 36133]),
     (''nodeScores.cadenceHint'', [35780, 20998, 27599] @ js '' 7 '' @ [22825, 33258, 21160, 26356, 26032, 65307,
       25163, 21160, 21047, 26032, 21482, 20250, 25226, 33410, 28857, 21152, 20837, 38431, 21015, 65292, 21015,
       34920, 20250, 33258, 21160, 36718, 35810, 32467, 26524, 12290]),
     (''nodeScores.empty'', [26242, 26080, 24050, 35780, 20998, 33410, 28857, 12290, 28155, 21152, 33410, 28857,
       25110, 21047, 26032] @ js '' provider '' @ [21518, 20250, 25490, 38431, 35780, 20998, 12290]),
     (''nodeScores.searchPlaceholder'', [25628, 32034, 33410, 28857, 12289, 20986, 21475] @ js '' IP '' @ [25110] @
       js '' ASN'' @ [8230]),
     (''nodeScores.kind'', [26469, 28304]),
     (''nodeScores.allKinds'', [20840, 37096, 33410, 28857, 26469, 28304]),
     (''nodeScores.allStatuses'', [20840, 37096, 29366, 24577]),
     (''nodeScores.sourceStatic'', [38745, 24577, 33410, 28857]),
     (''nodeScores.sourceProvider'', [35746, 38405, 33410, 28857]),
     (''nodeScores.statusPending'', [31561, 24453, 26816, 27979]),
     (''nodeScores.statusTesting'', [26816, 27979, 20013]),
     (''nodeScores.statusOk'', [24050, 35780, 20998]),
     (''nodeScores.statusFailed'', [26816, 27979, 22833, 36133]),
     (''nodeScores.statusSkipped'', [24050, 36339, 36807]),
     (''nodeScores.scoreMissing'', [26242, 26080, 35780, 20998]),
     (''nodeScores.scoreHigh'', [39640, 21487, 20449]),
     (''nodeScores.scoreMedium'', [20013, 31561]),
     (''nodeScores.scoreLow'', [20559, 20302]),
     (''nodeScores.scoreVeryLow'', [24456, 20302]),
     (''nodeScores.trustScore'', js ''Claude Trust Score''),
     (''nodeScores.exitIp'', [20986, 21475] @ js '' IP''),
     (''nodeScores.exitIpUnknown'', [26410, 30693]),
     (''nodeScores.rangeOnly'', [22768, 26126, 32593, 27573, 20869, 30340, 37051, 36817] @ js '' IP'' @ [65288] @
       js ''{cidr}'' @ [65289]),
     (''nodeScores.ipMatch'', js ''IP '' @ [21305, 37197]),
     (''nodeScores.matchExact'', [31934, 30830, 21305, 37197]),
     (''nodeScores.matchCidr'', [22768, 26126, 32593, 27573, 65288, 38750, 31934, 30830, 65289]),
     (''nodeScores.matchMismatch'', js ''IP '' @ [19981, 19968, 33268]),
     (''nodeScores.matchUnknown'', [26410, 30693]),
     (''nodeScores.ipMismatchHint'', [31532, 19977, 26041, 36820, 22238, 30340, 26159, 21478, 19968, 20010, 22320,
       22336, 30340, 25968, 25454, 65292, 19981, 20250, 24403, 20316, 27492, 33410, 28857, 30340, 35780, 20998,
       12290]),
     (''nodeScores.cidrHint'', [31532, 19977, 26041, 36820, 22238, 30340, 26159, 22768, 26126, 32593, 27573, 20869,
       30340, 37051, 36817] @ js '' IP'' @ [65307, 20165, 20316, 21442, 32771, 65292, 19981, 20195, 34920, 26597
       , 35810] @ js '' IP '' @ [30340, 31934, 30830, 35780, 20998, 12290]),
     (''nodeScores.country'', [22269, 23478] @ js ''/'' @ [22320, 21306]),
     (''nodeScores.asn'', js ''ASN''),
     (''nodeScores.asnOrg'', js ''ASN '' @ [32452, 32455]),
     (''nodeScores.companyType'', [20844, 21496, 31867, 22411]),
     (''nodeScores.ipType'', js ''IP '' @ [31867, 22411]),
     (''nodeScores.residential'', [20303, 23429]),
     (''nodeScores.datacenter'', [26426, 25151]),
     (''nodeScores.vpn'', js ''VPN''),
     (''nodeScores.proxy'', [20195, 29702]),
     (''nodeScores.tor'', js ''Tor''),
     (''nodeScores.mobile'', [31227, 21160, 32593, 32476]),
     (''nodeScores.crawler'', [29228, 34411]),
     (''nodeScores.abuser'', [28389, 29992, 20449, 21495]),
     (''nodeScores.abuserScore'', [28389, 29992, 35780, 20998]),
     (''nodeScores.sources'', [25968, 25454, 26469, 28304]),
     (''nodeScores.sourceLink'', [20844, 24320, 35814, 24773]),
     (''nodeScores.checkedAt'', [26368, 36817, 26816, 27979]),
     (''nodeScores.lastSuccess'', [26368, 36817, 25104, 21151]),
     (''nodeScores.nextRefresh'', [19979, 27425, 21047, 26032]),
     (''nodeScores.neverChecked'', [20174, 26410, 26816, 27979]),
     (''nodeScores.detailTitle'', [33410, 28857] @ js '' IP '' @ [35780, 20998]),
     (''nodeScores.detailIdentity'', [33410, 28857]),
     (''nodeScores.detailEgress'', [20986, 21475]),
     (''nodeScores.detailIntel'', js ''IP '' @ [20449, 24687]),
     (''nodeScores.detailTiming'', [35745, 21010]),
     (''nodeScores.detailError'', [38169, 35823]),
     (''nodeScores.refresh'', [21047, 26032, 35780, 20998]),
     (''nodeScores.refreshing'', [21047, 26032, 20013, 8230]),
     (''nodeScores.refreshed'', [35780, 20998, 24050, 21047, 26032]),
     (''nodeScores.refreshFailed'', [21047, 26032, 35780, 20998, 22833, 36133]),
     (''nodeScores.refreshAll'', [20840, 37096, 21047, 26032]),
     (''nodeScores.refreshingAll'', [27491, 22312, 20840, 37096, 21047, 26032, 8230]),
     (''nodeScores.batchQueued'', [24050, 25490, 38431] @ js '' '' @ js ''{count}'' @ js '' '' @ [20010, 33410, 28857]),
     (''nodeScores.batchFailed'', [25490, 38431, 35780, 20998, 22833, 36133]),
     (''nodeScores.scopeNote'', [35780, 20998, 26469, 33258, 26381, 21153, 31471, 20986, 21475, 25506, 27979, 65307,
       26410, 27979, 35797, 27983, 35272, 22120] @ js '' DNS'' @ [12289] @ js ''STUN '' @ [25110] @
       js '' WebRTC'' @ [12290]),
     (''nodeScores.pendingHint'', [31561, 24453, 39318, 27425, 25506, 27979, 12290]),
     (''nodeScores.failedHint'', [26368, 36817, 19968, 27425, 23581, 35797, 22833, 36133, 65307, 33509, 24050, 26377
       , 25104, 21151, 35780, 20998, 20250, 32487, 32493, 20445, 30041, 12290]),
     (''nodeScores.nextDueUnknown'', [26410, 23433, 25490]),
     (''nodeScores.scoreSource'', [35780, 20998, 26469, 28304]),
     (''nodeScores.probeMethod'', [20986, 21475, 25506, 27979]),
     (''nodeScores.probeMethodValue'', [26381, 21153, 31471, 38548, 31163, 20256, 36755]),
     (''nodeScores.unscored'', [26410, 35780, 20998]),
     (''nodeScores.showingCount'', js ''{count}'' @ js '' '' @ [20010, 33410, 28857]),
     (''nodeScores.updated'', [26356, 26032, 26102, 38388]),
     (''nodeScores.selectAll'', [20840, 36873]),
     (''nodeScores.selectedCount'', [24050, 36873] @ js '' '' @ js ''{count}'' @ js '' '' @ [20010]),
     (''nodeScores.refreshSelected'', [21047, 26032, 25152, 36873]),
     (''nodeScores.clearSelection'', [28165, 38500, 36873, 25321]),
     (''nodeScores.claudeSource'', js ''Claude '' @ [25968, 25454, 28304] @ js '' '' @ [183] @ js '' /api/iprisk''),
     (''nodeScores.lookupSource'', [32508, 21512, 25968, 25454, 28304] @ js '' '' @ [183] @ js '' /api/ip/lookup''),
     (''nodeScores.sourceIdle'', [35813, 25968, 25454, 28304, 26242, 26080, 25968, 25454]),
     (''nodeScores.lookupNotStored'', [27492, 33410, 28857, 26410, 20445, 23384, 32508, 21512, 25968, 25454, 28304,
       32467, 26524, 12290]),
     (''nodeScores.exitSource'', [20986, 21475, 26469, 28304]),
     (''nodeScores.exitSourceClaude'', js ''claude.ai trace''),
     (''nodeScores.exitSourceCloudflare'', js ''Cloudflare trace''),
     (''nodeScores.errorCode'', [38169, 35823, 20195, 30721]),
     (''nodeScores.scoreUnavailable'', [26242, 26080, 35780, 20998]),
     (''nodeScores.noMismatch'', [26080, 19981, 21305, 37197]),
     (''nodeScores.rangeBadge'', [37051, 36817] @ js '' IP''),
     (''nodeScores.attempts'', [23581, 35797, 27425, 25968]),
     (''nodeScores.noFlags'', [26410, 26816, 20986])]"

definition zh_traffic :: zh_dictionary where
  "zh_traffic =
    [(''nav.traffic'', [27969, 37327]),
     (''traffic.disabled'', [24050, 20572, 29992]),
     (''traffic.cycle'', [35745, 36153, 21608, 26399]),
     (''traffic.resetDay'', [27599, 26376, 21047, 26032, 26085]),
     (''traffic.localCounted'', [26412, 22320, 32479, 35745]),
     (''traffic.vendorReported'', [20379, 24212, 21830, 19978, 25253]),
     (''traffic.today'', [20170, 26085, 29992, 37327]),
     (''traffic.estDaysLeft'', [39044, 35745, 21487, 29992]),
     (''traffic.days'', [22825]),
     (''traffic.topNodes'', [26412, 21608, 26399, 29992, 37327, 26368, 39640, 30340, 33410, 28857]),
     (''traffic.unassigned'', [26410, 24402, 23646]),
     (''traffic.total'', [21512, 35745]),
     (''traffic.upload'', [19978, 20256]),
     (''traffic.download'', [19979, 36733]),
     (''traffic.dailyUsage'', [27599, 26085, 27969, 37327, 65288, 36817] @ js '' 30 '' @ [22825, 65289]),
     (''traffic.unassignedNodes'', [26410, 24402, 23646, 20219, 20309, 20379, 24212, 21830, 30340, 33410, 28857,
       65288, 36817] @ js '' 30 '' @ [22825, 65289]),
     (''traffic.alertSettings'', [21578, 35686, 36890, 30693]),
     (''traffic.alertChannel'', [36890, 30693, 28192, 36947]),
     (''traffic.channelNone'', [19981, 36890, 30693, 65288, 20165, 35760, 24405, 65289]),
     (''traffic.alertTarget'', [30446, 26631] @ js '' URL''),
     (''traffic.alertThresholds'', [21578, 35686, 38408, 20540, 65288, 37197, 39069, 30334, 20998, 27604, 65292,
       36887, 21495, 20998, 38548, 65289]),
     (''traffic.testNotify'', [21457, 36865, 27979, 35797]),
     (''traffic.alertHint'', [27599, 20010, 38408, 20540, 22312, 19968, 20010, 35745, 36153, 21608, 26399, 20869,
       21482, 21578, 35686, 19968, 27425, 12290, 27599] @ js '' 5 '' @ [20998, 38047, 26816, 26597, 19968, 27425
       , 65292, 29992, 37327, 21462, 26412, 22320, 32479, 35745, 19982, 20379, 24212, 21830, 19978, 25253, 30340
       , 36739, 22823, 20540, 12290]),
     (''traffic.recentAlerts'', [26368, 36817, 21578, 35686]),
     (''traffic.noAlerts'', [26242, 26080, 21578, 35686]),
     (''traffic.notNotified'', [26410, 36865, 36798]),
     (''traffic.addProvider'', [28155, 21152, 20379, 24212, 21830]),
     (''traffic.editProvider'', [32534, 36753, 20379, 24212, 21830]),
     (''traffic.noProviders'', [23578, 26410, 37197, 32622, 27969, 37327, 20379, 24212, 21830, 65292, 28155, 21152,
       21518, 24320, 22987, 32479, 35745, 37197, 39069, 12290]),
     (''traffic.quotaGB'', [27599, 26376, 37197, 39069] @ js '' (GB)''),
     (''traffic.resetDayLabel'', [21047, 26032, 26085] @ js '' (1-31)''),
     (''traffic.resetHour'', [21047, 26032, 26102]),
     (''traffic.resetMinute'', [21047, 26032, 20998]),
     (''traffic.resetTimezone'', [21047, 26032, 26102, 21306]),
     (''traffic.resetTimezoneHint'', js ''IANA '' @ [21517, 31216, 65292, 22914] @ js '' Asia/Shanghai'' @ [65307,
       30041, 31354, 34920, 31034, 20351, 29992, 26381, 21153, 22120, 26102, 21306, 12290]),
     (''traffic.nodePatterns'', [33410, 28857, 21305, 37197, 27169, 24335]),
     (''traffic.nodePatternsHint'', [25353, 33410, 28857, 21517, 21305, 37197, 30340] @ js '' glob '' @ [27169, 24335
       , 65292, 36887, 21495, 20998, 38548, 65292, 22914] @ js '' PS-*, HK-*''),
     (''traffic.subscriptionUrl'', [35746, 38405, 38142, 25509, 65288, 21487, 36873, 65289]),
     (''traffic.subscriptionUrlHint'', [22635, 20889, 21518, 27599] @ js '' 30 '' @ [20998, 38047, 20174, 35746,
       38405, 21709, 24212, 30340] @ js '' subscription-userinfo '' @ [22836, 35835, 21462, 20379, 24212, 21830
       , 20391, 30495, 23454, 29992, 37327, 12290]),
     (''traffic.enabled'', [21551, 29992]),
     (''traffic.loadFailed'', [21152, 36733, 27969, 37327, 25968, 25454, 22833, 36133]),
     (''traffic.saveFailed'', [20445, 23384, 22833, 36133]),
     (''traffic.formInvalid'', [35831, 27491, 30830, 22635, 20889, 21517, 31216, 12289, 37197, 39069, 21644, 21047,
       26032, 26085]),
     (''traffic.deleteConfirm'', [30830, 23450, 21024, 38500, 35813, 20379, 24212, 21830, 65311, 20854, 21578, 35686
       , 35760, 24405, 21644, 20379, 24212, 21830, 29992, 37327, 24555, 29031, 20063, 20250, 19968, 24182, 21024
       , 38500, 12290]),
     (''traffic.settingsSaved'', [21578, 35686, 35774, 32622, 24050, 20445, 23384]),
     (''traffic.testSent'', [27979, 35797, 36890, 30693, 24050, 21457, 36865]),
     (''traffic.testFailed'', [27979, 35797, 36890, 30693, 21457, 36865, 22833, 36133, 65292, 35831, 26816, 26597,
       28192, 36947, 21644, 30446, 26631, 22320, 22336])]"

definition zh :: zh_dictionary where
  "zh = zh_general @ zh_proxies @ zh_config @ zh_operation @ zh_subscriptions @ zh_scores @ zh_traffic"

end
