(* ===== verification/I18n.thy ===== *)
theory I18n
  imports Client En_Texts Zh_Texts
begin

text \<open>
  \<open>i18n/index.ts\<close>: the locale store and the translation function over the two dictionaries. The
  lemmas compare the dictionaries key by key and placeholder by placeholder, and show that the
  chain of \<open>replaceAll\<close> calls fills the placeholders of a text at once, as long as the values hold
  no brace and no dollar sign.
\<close>

section \<open>Texts with placeholders\<close>

datatype Locale = En | Zh

definition dictionary :: "Locale \<Rightarrow> (string \<times> jstring) list" where
  "dictionary l = (case l of En \<Rightarrow> en | Zh \<Rightarrow> zh)"

text \<open>
  \<open>s.replaceAll(search, repl)\<close> for texts: in the replacement \<open>$$\<close> stands for a dollar sign,
  \<open>$&\<close> for the match, \<open>$`\<close> and \<open>$'\<close> for what precedes and follows it; there are no groups, so
  every other dollar sign is literal.
\<close>

fun get_substitution :: "jstring \<Rightarrow> jstring \<Rightarrow> jstring \<Rightarrow> jstring \<Rightarrow> jstring" where
  "get_substitution m before after [] = []"
| "get_substitution m before after [u] = [u]"
| "get_substitution m before after (u # c # r) =
     (if u = 36 \<and> c = 36 then 36 # get_substitution m before after r
      else if u = 36 \<and> c = 38 then m @ get_substitution m before after r
      else if u = 36 \<and> c = 96 then before @ get_substitution m before after r
      else if u = 36 \<and> c = 39 then after @ get_substitution m before after r
      else u # get_substitution m before after (c # r))"

function replace_from :: "jstring \<Rightarrow> jstring \<Rightarrow> jstring \<Rightarrow> jstring \<Rightarrow> jstring" where
  "replace_from before s srch repl =
     (case s of
        [] \<Rightarrow> []
      | u # r \<Rightarrow>
          if srch \<noteq> [] \<and> starts_with s srch then
            (let after = drop (length srch) s
             in get_substitution srch before after repl @ replace_from (before @ srch) after srch repl)
          else u # replace_from (before @ [u]) r srch repl)"
  by pat_completeness auto
termination by (relation "measure (\<lambda>(b, s, srch, repl). length s)") auto

declare replace_from.simps [simp del]

definition replaceAll :: "jstring \<Rightarrow> jstring \<Rightarrow> jstring \<Rightarrow> jstring" where
  "replaceAll s srch repl = replace_from [] s srch repl"

definition interpolate :: "(string \<times> jstring) list \<Rightarrow> jstring \<Rightarrow> jstring" where
  "interpolate params text = fold (\<lambda>(k, v) text. replaceAll text ([123] @ js k @ [125]) v) params text"

definition dict_text :: "Locale \<Rightarrow> string \<Rightarrow> jstring" where
  "dict_text l key = or_default (nullish (map_of (dictionary l) key) (map_of en key)) (js key)"

definition translate :: "Locale \<Rightarrow> string \<Rightarrow> (string \<times> jstring) list option \<Rightarrow> jstring" where
  "translate l key params =
     (let text = dict_text l key
      in case params of Some ps \<Rightarrow> interpolate ps text | None \<Rightarrow> text)"

text \<open>A text as its characters and placeholders; \<open>None\<close> when a brace is unmatched or nested.\<close>

datatype piece = Lit nat | Hole jstring

fun scan :: "jstring option \<Rightarrow> jstring \<Rightarrow> piece list option" where
  "scan None [] = Some []"
| "scan (Some h) [] = None"
| "scan None (u # r) =
     (if u = 123 then scan (Some []) r
      else if u = 125 then None
      else map_option (\<lambda>ps. Lit u # ps) (scan None r))"
| "scan (Some h) (u # r) =
     (if u = 125 then map_option (\<lambda>ps. Hole h # ps) (scan None r)
      else if u = 123 then None
      else scan (Some (h @ [u])) r)"

definition template :: "jstring \<Rightarrow> piece list option" where
  "template s = scan None s"

fun holes :: "piece list \<Rightarrow> jstring list" where
  "holes [] = []"
| "holes (Lit u # ps) = holes ps"
| "holes (Hole h # ps) = h # holes ps"

definition holes_of :: "jstring \<Rightarrow> jstring list option" where
  "holes_of s = map_option holes (template s)"

text \<open>
  Two entries that translate each other: the same key, two texts that are not empty and have the
  same placeholders. \<open>publish.invalid\<close> alone has one, the English plural ending, in one language only.
\<close>

definition same_holes :: "jstring \<Rightarrow> jstring \<Rightarrow> bool" where
  "same_holes a b \<longleftrightarrow> holes_of a \<noteq> None \<and> map_option set (holes_of a) = map_option set (holes_of b)"

definition fewer_holes :: "jstring \<Rightarrow> jstring \<Rightarrow> bool" where
  "fewer_holes a b \<longleftrightarrow> (case (holes_of a, holes_of b) of
     (Some p, Some q) \<Rightarrow> set q \<subseteq> set p | _ \<Rightarrow> False)"

definition paired :: "string \<times> jstring \<Rightarrow> string \<times> jstring \<Rightarrow> bool" where
  "paired a b \<longleftrightarrow> fst a = fst b \<and> snd a \<noteq> [] \<and> snd b \<noteq> [] \<and>
     (if fst a = ''publish.invalid'' then fewer_holes (snd a) (snd b) else same_holes (snd a) (snd b))"

definition no_brace :: "string \<Rightarrow> bool" where
  "no_brace s \<longleftrightarrow> CHR ''{'' \<notin> set s \<and> CHR ''}'' \<notin> set s"

lemma no_brace_simps:
  "no_brace []"
  "no_brace (c # s) \<longleftrightarrow> c \<noteq> CHR ''{'' \<and> c \<noteq> CHR ''}'' \<and> no_brace s"
  by (auto simp: no_brace_def)

lemma of_char_brace: "(of_char c :: nat) = 123 \<longleftrightarrow> c = CHR ''{''" "(of_char c :: nat) = 125 \<longleftrightarrow> c = CHR ''}''"
proof -
  have "(of_char c :: nat) = of_char CHR ''{'' \<longleftrightarrow> c = CHR ''{''"
    "(of_char c :: nat) = of_char CHR ''}'' \<longleftrightarrow> c = CHR ''}''" by (rule of_char_eq_iff)+
  then show "(of_char c :: nat) = 123 \<longleftrightarrow> c = CHR ''{''" "(of_char c :: nat) = 125 \<longleftrightarrow> c = CHR ''}''"
    by simp_all
qed

lemma scan_plain: "no_brace s \<Longrightarrow> scan None (js s @ b) = map_option (\<lambda>ps. map Lit (js s) @ ps) (scan None b)"
  by (cases "scan None b"; induction s) (auto simp: no_brace_simps js_Cons of_char_brace)

lemma scan_hole: "no_brace s \<Longrightarrow> scan (Some h) (js s @ 125 # b) = map_option (\<lambda>ps. Hole (h @ js s) # ps) (scan None b)"
  by (induction s arbitrary: h) (auto simp: no_brace_simps js_Cons of_char_brace)

lemma holes_lits [simp]: "holes (map Lit s @ ps) = holes ps"
  by (induction s) simp_all

lemma holes_of_plain: "no_brace s \<Longrightarrow> holes_of (js s @ b) = holes_of b"
  by (simp add: holes_of_def template_def scan_plain option.map_comp comp_def)

lemma holes_of_js: "no_brace s \<Longrightarrow> holes_of (js s) = Some []"
  using holes_of_plain [of s "[]"] by (simp add: holes_of_def template_def)

lemma holes_of_hole:
  assumes "s \<noteq> []" "List.last s = CHR ''}''" "no_brace (butlast s)"
  shows "holes_of (js (CHR ''{'' # s) @ b) = map_option (\<lambda>hs. js (butlast s) # hs) (holes_of b)"
proof -
  have "s = butlast s @ ''}''" using assms(1,2) by (metis append_butlast_last_id)
  then have "js s = js (butlast s) @ [125]" by (metis js_append js_Cons js_Nil of_char_brace(2))
  then have "js (CHR ''{'' # s) @ b = 123 # js (butlast s) @ 125 # b" by (simp add: js_Cons)
  then show ?thesis using assms(3)
    by (simp add: holes_of_def template_def scan_hole option.map_comp comp_def)
qed

lemma holes_of_unit: "u \<noteq> 123 \<Longrightarrow> u \<noteq> 125 \<Longrightarrow> holes_of (u # b) = holes_of b"
  by (simp add: holes_of_def template_def option.map_comp comp_def)

lemmas holes_of_simps = holes_of_js holes_of_plain holes_of_hole holes_of_hole [where b = "[]", simplified] holes_of_unit

section \<open>The two dictionaries\<close>

lemma holes_of_Nil: "holes_of [] = Some []"
  by (simp add: holes_of_def template_def)

lemmas paired_simps = paired_def same_holes_def fewer_holes_def holes_of_simps holes_of_Nil no_brace_simps insert_commute

lemma paired_general: "list_all2 paired en_general zh_general"
  by (simp add: paired_simps en_general_def zh_general_def)

lemma paired_proxies: "list_all2 paired en_proxies zh_proxies"
  by (simp add: paired_simps en_proxies_def zh_proxies_def)

lemma paired_config: "list_all2 paired en_config zh_config"
  by (simp add: paired_simps en_config_def zh_config_def)

lemma paired_operation: "list_all2 paired en_operation zh_operation"
  by (simp add: paired_simps en_operation_def zh_operation_def)

lemma paired_subscriptions: "list_all2 paired en_subscriptions zh_subscriptions"
  by (simp add: paired_simps en_subscriptions_def zh_subscriptions_def)

lemma paired_scores: "list_all2 paired en_scores zh_scores"
  by (simp add: paired_simps en_scores_def zh_scores_def)

lemma paired_traffic: "list_all2 paired en_traffic zh_traffic"
  by (simp add: paired_simps en_traffic_def zh_traffic_def)

lemma paired: "list_all2 paired en zh"
  unfolding en_def zh_def
  by (intro list_all2_appendI paired_general paired_proxies paired_config paired_operation
      paired_subscriptions paired_scores paired_traffic)

text \<open>The screen a key belongs to: what precedes its first dot. It keeps the blocks of keys apart.\<close>

definition screen_of :: "string \<Rightarrow> string" where
  "screen_of k = takeWhile (\<lambda>c. c \<noteq> CHR ''.'') k"

definition screens_in :: "string list \<Rightarrow> (string \<times> jstring) list \<Rightarrow> bool" where
  "screens_in ss d \<longleftrightarrow> list_all (\<lambda>k. screen_of k \<in> set ss) (map fst d)"

lemma screens_general: "screens_in [''app'', ''nav'', ''header'', ''common'', ''login'', ''overview''] en_general"
  by (simp only: screens_in_def en_general_def list.map fst_conv, simp add: screen_of_def)

lemma screens_proxies: "screens_in [''proxies'', ''proxy''] en_proxies"
  by (simp only: screens_in_def en_proxies_def list.map fst_conv, simp add: screen_of_def)

lemma screens_config: "screens_in [''proxyGroups'', ''rules'', ''ruleProviders'', ''systemConfig''] en_config"
  by (simp only: screens_in_def en_config_def list.map fst_conv, simp add: screen_of_def)

lemma screens_operation: "screens_in [''publish'', ''runtime'', ''settings''] en_operation"
  by (simp only: screens_in_def en_operation_def list.map fst_conv, simp add: screen_of_def)

lemma screens_subscriptions: "screens_in [''subscriptions''] en_subscriptions"
  by (simp only: screens_in_def en_subscriptions_def list.map fst_conv, simp add: screen_of_def)

lemma screens_scores: "screens_in [''nodeScores''] en_scores"
  by (simp only: screens_in_def en_scores_def list.map fst_conv, simp add: screen_of_def)

lemma screens_traffic: "screens_in [''traffic'', ''nav''] en_traffic"
  by (simp only: screens_in_def en_traffic_def list.map fst_conv, simp add: screen_of_def)

lemma screens_apart: "screens_in ss d \<Longrightarrow> screens_in ss' d' \<Longrightarrow> set ss \<inter> set ss' = {} \<Longrightarrow>
    set (map fst d) \<inter> set (map fst d') = {}"
  by (fastforce simp: screens_in_def list_all_iff)

text \<open>Two keys of a block differ because a weighted sum of their characters does.\<close>

primrec key_weight :: "string \<Rightarrow> nat" where
  "key_weight [] = 0"
| "key_weight (c # s) = of_char c + 2 * key_weight s"

lemma distinct_weights: "distinct (map key_weight (map fst d)) \<Longrightarrow> distinct (map fst d)"
  by (metis distinct_map)

lemmas key_simps = list.map fst_conv append.simps key_weight.simps

lemma distinct_general_traffic: "distinct (map fst (en_general @ en_traffic))"
  by (rule distinct_weights, simp only: en_general_def en_traffic_def key_simps, simp)

lemma distinct_proxies: "distinct (map fst en_proxies)"
  by (rule distinct_weights, simp only: en_proxies_def key_simps, simp)

lemma distinct_config: "distinct (map fst en_config)"
  by (rule distinct_weights, simp only: en_config_def key_simps, simp)

lemma distinct_operation: "distinct (map fst en_operation)"
  by (rule distinct_weights, simp only: en_operation_def key_simps, simp)

lemma distinct_subscriptions: "distinct (map fst en_subscriptions)"
  by (rule distinct_weights, simp only: en_subscriptions_def key_simps, simp)

lemma distinct_scores: "distinct (map fst en_scores)"
  by (rule distinct_weights, simp only: en_scores_def key_simps, simp)

lemma distinct_keys: "distinct (map fst en)"
proof -
  note apart = screens_apart [OF screens_general screens_proxies] screens_apart [OF screens_general screens_config]
    screens_apart [OF screens_general screens_operation] screens_apart [OF screens_general screens_subscriptions]
    screens_apart [OF screens_general screens_scores]
    screens_apart [OF screens_proxies screens_config] screens_apart [OF screens_proxies screens_operation]
    screens_apart [OF screens_proxies screens_subscriptions] screens_apart [OF screens_proxies screens_scores]
    screens_apart [OF screens_proxies screens_traffic] screens_apart [OF screens_config screens_operation]
    screens_apart [OF screens_config screens_subscriptions] screens_apart [OF screens_config screens_scores]
    screens_apart [OF screens_config screens_traffic] screens_apart [OF screens_operation screens_subscriptions]
    screens_apart [OF screens_operation screens_scores] screens_apart [OF screens_operation screens_traffic]
    screens_apart [OF screens_subscriptions screens_scores] screens_apart [OF screens_subscriptions screens_traffic]
    screens_apart [OF screens_scores screens_traffic]
  show ?thesis
    unfolding en_def map_append distinct_append set_append Int_Un_distrib
    using distinct_general_traffic distinct_proxies distinct_config distinct_operation distinct_subscriptions
      distinct_scores apart
    by (simp add: Int_commute)
qed

lemma keys_zh: "map fst zh = map fst en"
  using paired by (induction rule: list_all2_induct) (simp_all add: paired_def)

lemma map_of_paired: "list_all2 paired xs ys \<Longrightarrow> map_of xs k = Some x \<Longrightarrow> \<exists>y. map_of ys k = Some y \<and> paired (k, x) (k, y)"
proof (induction rule: list_all2_induct)
  case (Cons e xs z ys)
  then show ?case by (cases e; cases z) (auto simp: paired_def split: if_splits)
qed simp

lemma dictionary_entry:
  assumes "key \<in> fst ` set en"
  shows "\<exists>x ps. map_of (dictionary l) key = Some x \<and> template x = Some ps"
proof -
  obtain x where x: "map_of en key = Some x" using assms by (metis map_of_eq_None_iff not_None_eq)
  then obtain y where y: "map_of zh key = Some y" "paired (key, x) (key, y)" using map_of_paired [OF paired] by blast
  then have "holes_of x \<noteq> None \<and> holes_of y \<noteq> None"
    by (cases "holes_of y") (auto simp: paired_def same_holes_def fewer_holes_def split: if_splits option.splits)
  then show ?thesis using x y(1) by (cases l) (auto simp: dictionary_def holes_of_def)
qed

text \<open>
  C16: The two dictionaries translate each other. They have the same keys in the same order, none
  twice; no text is empty, braces are matched in all of them, and the two texts of a key have the
  same placeholders, up to the plural ending of one English text.
\<close>

theorem dictionaries_agree:
  "map fst zh = map fst en \<and> distinct (map fst en) \<and> list_all2 paired en zh"
  by (intro conjI keys_zh distinct_keys paired)

section \<open>Filling placeholders\<close>

fun shown_piece :: "(jstring \<Rightarrow> jstring option) \<Rightarrow> piece \<Rightarrow> jstring" where
  "shown_piece env (Lit u) = [u]"
| "shown_piece env (Hole h) = (case env h of Some v \<Rightarrow> v | None \<Rightarrow> 123 # h @ [125])"

definition fill :: "(jstring \<Rightarrow> jstring option) \<Rightarrow> piece list \<Rightarrow> jstring" where
  "fill env ps = concat (map (shown_piece env) ps)"

fun wf_piece :: "piece \<Rightarrow> bool" where
  "wf_piece (Lit u) = (u \<noteq> 123 \<and> u \<noteq> 125)"
| "wf_piece (Hole h) = (123 \<notin> set h \<and> 125 \<notin> set h)"

lemma scan_pieces:
  "scan m s = Some ps \<Longrightarrow> 
     (case m of None \<Rightarrow> fill Map.empty ps = s \<and> list_all wf_piece ps
      | Some h \<Rightarrow> 123 \<notin> set h \<and> 125 \<notin> set h \<longrightarrow> fill Map.empty ps = 123 # h @ s \<and> list_all wf_piece ps)"
  by (induction m s arbitrary: ps rule: scan.induct) (auto simp: fill_def split: if_splits)

lemma template_pieces: "template s = Some ps \<Longrightarrow> fill Map.empty ps = s \<and> list_all wf_piece ps"
  using scan_pieces [of None s ps] by (simp add: template_def)

lemma get_substitution_plain: "36 \<notin> set v \<Longrightarrow> get_substitution m before after v = v"
  by (induction m before after v rule: get_substitution.induct) auto

lemma replace_from_Nil [simp]: "replace_from b [] srch v = []"
  by (simp add: replace_from.simps)

lemma replace_from_skip:
  assumes "u \<noteq> 123"
  shows "replace_from b (u # r) (123 # k) v = u # replace_from (b @ [u]) r (123 # k) v"
  using assms by (subst replace_from.simps) (simp add: starts_with_def)

lemma replace_from_run: "123 \<notin> set x \<Longrightarrow> \<exists>b'. replace_from b (x @ r) (123 # k) v = x @ replace_from b' r (123 # k) v"
proof (induction x arbitrary: b)
  case Nil
  show ?case by auto
next
  case (Cons u x)
  then obtain b' where "replace_from (b @ [u]) (x @ r) (123 # k) v = x @ replace_from b' r (123 # k) v" by fastforce
  then show ?case using Cons.prems by (auto simp: replace_from_skip)
qed

lemma closed_prefix: "125 \<notin> set h \<Longrightarrow> 125 \<notin> set k \<Longrightarrow> starts_with (h @ 125 # r) (k @ [125]) \<longleftrightarrow> h = k"
proof (induction h arbitrary: k)
  case Nil
  then show ?case by (cases k) (auto simp: starts_with_def)
next
  case (Cons a h)
  then show ?case by (cases k) (auto simp: starts_with_def)
qed

lemma replace_from_hit:
  assumes "36 \<notin> set v"
  shows "\<exists>b'. replace_from b (123 # k @ 125 # r) (123 # k @ [125]) v = v @ replace_from b' r (123 # k @ [125]) v"
proof -
  have "starts_with (123 # k @ 125 # r) (123 # k @ [125])"
    using starts_with_append [of "123 # k @ [125]" r] by simp
  then show ?thesis using assms
    by (subst replace_from.simps) (auto simp: Let_def get_substitution_plain)
qed

lemma replace_from_miss:
  assumes "125 \<notin> set h" "125 \<notin> set k" "123 \<notin> set h" "h \<noteq> k"
  shows "\<exists>b'. replace_from b (123 # h @ 125 # r) (123 # k @ [125]) v = 123 # h @ 125 # replace_from b' r (123 # k @ [125]) v"
proof -
  have "\<not> starts_with (123 # h @ 125 # r) (123 # k @ [125])"
    using closed_prefix [OF assms(1,2), of r] assms(4) by (simp add: starts_with_def)
  then have "replace_from b (123 # h @ 125 # r) (123 # k @ [125]) v =
      123 # replace_from (b @ [123]) ((h @ [125]) @ r) (123 # k @ [125]) v"
    by (subst replace_from.simps) simp
  moreover have "123 \<notin> set (h @ [125])" using assms(3) by simp
  ultimately show ?thesis using replace_from_run [of "h @ [125]" "b @ [123]" r "k @ [125]" v] by auto
qed

lemma replace_from_fill:
  assumes "list_all wf_piece ps" "\<forall>h v. env h = Some v \<longrightarrow> 123 \<notin> set v" "36 \<notin> set v" "125 \<notin> set k"
  shows "replace_from b (fill env ps) (123 # k @ [125]) v = fill (\<lambda>h. nullish (env h) (if h = k then Some v else None)) ps"
  using assms(1)
proof (induction ps arbitrary: b)
  case Nil
  show ?case by (simp add: fill_def)
next
  case (Cons p ps)
  let ?S = "123 # k @ [125]" and ?e = "\<lambda>h. nullish (env h) (if h = k then Some v else None)"
  have tl: "fill e (p # ps) = shown_piece e p @ fill e ps" for e by (simp add: fill_def)
  have IH: "replace_from b' (fill env ps) ?S v = fill ?e ps" for b' using Cons by simp
  have "\<exists>b'. replace_from b (shown_piece env p @ fill env ps) ?S v = shown_piece ?e p @ replace_from b' (fill env ps) ?S v"
  proof (cases p)
    case (Lit u)
    then show ?thesis using Cons.prems replace_from_run [of "[u]" b "fill env ps" "k @ [125]" v] by simp
  next
    case (Hole h)
    then have h: "123 \<notin> set h" "125 \<notin> set h" using Cons.prems by auto
    show ?thesis
    proof (cases "env h")
      case None
      then show ?thesis using Hole replace_from_hit [OF assms(3), of b k "fill env ps"]
          replace_from_miss [OF h(2) assms(4) h(1), of b "fill env ps" v] by auto
    next
      case (Some x)
      then show ?thesis using Hole assms(2) replace_from_run [of x b "fill env ps" "k @ [125]" v] by simp
    qed
  qed
  then show ?case using IH by (auto simp: tl)
qed

definition param_env :: "(string \<times> jstring) list \<Rightarrow> jstring \<Rightarrow> jstring option" where
  "param_env params = map_of (map (\<lambda>(k, v). (js k, v)) params)"

definition plain_param :: "string \<times> jstring \<Rightarrow> bool" where
  "plain_param kv \<longleftrightarrow> no_brace (fst kv) \<and> 36 \<notin> set (snd kv) \<and> 123 \<notin> set (snd kv)"

lemma no_brace_js: "no_brace k \<Longrightarrow> 123 \<notin> set (js k) \<and> 125 \<notin> set (js k)"
  by (induction k) (auto simp: no_brace_simps js_Cons eq_commute [of 123] eq_commute [of 125] of_char_brace)

text \<open>
  Parameters that the successive replacements fill as they stand: no name has a brace and no value a
  dollar sign, which would start a replacement pattern, and only the value that is put in last may
  have an opening brace, which a later replacement could take for a placeholder.
\<close>

definition fillable :: "(string \<times> jstring) list \<Rightarrow> bool" where
  "fillable params \<longleftrightarrow> (\<forall>kv \<in> set params. no_brace (fst kv) \<and> 36 \<notin> set (snd kv)) \<and>
     (\<forall>kv \<in> set (butlast params). 123 \<notin> set (snd kv))"

lemma fillable_plain: "\<forall>kv \<in> set params. plain_param kv \<Longrightarrow> fillable params"
  by (auto simp: fillable_def plain_param_def dest: in_set_butlastD)

lemma fillable_Cons:
  "fillable (kv # params) \<Longrightarrow>
     no_brace (fst kv) \<and> 36 \<notin> set (snd kv) \<and> (params \<noteq> [] \<longrightarrow> 123 \<notin> set (snd kv)) \<and> fillable params"
  by (cases params) (auto simp: fillable_def)

lemma interpolate_fill:
  assumes "list_all wf_piece ps" "params \<noteq> [] \<longrightarrow> (\<forall>h v. env h = Some v \<longrightarrow> 123 \<notin> set v)" "fillable params"
  shows "interpolate params (fill env ps) = fill (\<lambda>h. nullish (env h) (param_env params h)) ps"
  using assms(2,3)
proof (induction params arbitrary: env)
  case Nil
  show ?case by (simp add: interpolate_def param_env_def)
next
  case (Cons kv params)
  obtain k v where kv: "kv = (k, v)" by (cases kv)
  let ?e = "\<lambda>h. nullish (env h) (if h = js k then Some v else None)"
  have p: "36 \<notin> set v" "params \<noteq> [] \<longrightarrow> 123 \<notin> set v" "125 \<notin> set (js k)" "fillable params"
    using fillable_Cons [OF Cons.prems(2)] kv no_brace_js by auto
  have env: "\<forall>h v. env h = Some v \<longrightarrow> 123 \<notin> set v" using Cons.prems(1) by simp
  have r: "replaceAll (fill env ps) ([123] @ js k @ [125]) v = fill ?e ps"
    using replace_from_fill [OF assms(1) env p(1,3)] by (simp add: replaceAll_def)
  have e: "params \<noteq> [] \<longrightarrow> (\<forall>h x. ?e h = Some x \<longrightarrow> 123 \<notin> set x)"
    using env p(2) by (auto simp: nullish_def split: option.splits)
  have "interpolate (kv # params) (fill env ps) = interpolate params (fill ?e ps)"
    using r by (simp add: interpolate_def kv)
  also have "\<dots> = fill (\<lambda>h. nullish (?e h) (param_env params h)) ps"
    using Cons.IH [OF e p(4)] .
  also have "(\<lambda>h. nullish (?e h) (param_env params h)) = (\<lambda>h. nullish (env h) (param_env (kv # params) h))"
    by (rule ext) (simp add: kv param_env_def nullish_assoc)
  finally show ?case .
qed

lemma param_env_order:
  assumes "distinct (map fst params)" "distinct (map fst params')" "set params' = set params"
  shows "param_env params' = param_env params"
proof -
  have "map fst (map (\<lambda>(k, v). (js k, v)) ps) = map js (map fst ps)" for ps :: "(string \<times> jstring) list"
    by (induction ps) auto
  then have d: "distinct (map fst (map (\<lambda>(k, v). (js k, v)) params))" "distinct (map fst (map (\<lambda>(k, v). (js k, v)) params'))"
    using assms(1,2) by (simp_all only: distinct_map) (auto simp: inj_on_def)
  then show ?thesis unfolding param_env_def using map_of_inject_set [OF d(2,1)] assms(3) by simp
qed

lemma translate_Some: "translate l key (Some ps) = interpolate ps (dict_text l key)"
  by (simp add: translate_def Let_def)

lemma fill_covered:
  assumes "list_all wf_piece ps" "set (holes ps) \<subseteq> dom env" "\<forall>h v. env h = Some v \<longrightarrow> 123 \<notin> set v"
  shows "123 \<notin> set (fill env ps)"
  using assms(1,2)
proof (induction ps)
  case (Cons p ps)
  then show ?case using assms(3) by (cases p) (auto simp: fill_def)
qed (simp add: fill_def)

text \<open>
  C17: A translated message is its text with every placeholder filled at once. For a key of the
  dictionary and parameters whose names have no brace and whose values have no dollar sign, and no
  opening brace except in the last one, the result of the successive replacements is the text in
  which each placeholder that has a parameter shows that parameter's value and the others stand as
  they are. When no value has an opening brace the order of the parameters does not matter, and with
  a parameter for every placeholder no brace is left. (A value with a dollar sign is not shown as it
  is: \<open>translate_dollar\<close>.)
\<close>

theorem translate_fills:
  assumes "key \<in> fst ` set en" "fillable params"
  shows "\<exists>ps. template (dict_text l key) = Some ps \<and> fill Map.empty ps = dict_text l key \<and>
    translate l key (Some params) = fill (param_env params) ps \<and>
    ((\<forall>kv \<in> set params. plain_param kv) \<longrightarrow>
      (set (holes ps) \<subseteq> dom (param_env params) \<longrightarrow> 123 \<notin> set (translate l key (Some params))) \<and>
      (\<forall>params'. distinct (map fst params) \<and> distinct (map fst params') \<and> set params' = set params \<longrightarrow>
        translate l key (Some params') = translate l key (Some params)))"
proof -
  obtain x ps where x: "map_of (dictionary l) key = Some x" "template x = Some ps"
    using dictionary_entry [OF assms(1)] by blast
  have d: "dict_text l key = x" using x(1) by (simp add: dict_text_def)
  have w: "fill Map.empty ps = x" "list_all wf_piece ps" using template_pieces [OF x(2)] by auto
  have f: "translate l key (Some qs) = fill (param_env qs) ps" if "fillable qs" for qs
    using interpolate_fill [OF w(2) _ that, of Map.empty] w(1) d by (simp add: translate_Some)
  have o: "translate l key (Some qs) = translate l key (Some params)"
    if "\<forall>kv \<in> set params. plain_param kv" "distinct (map fst params)" "distinct (map fst qs)" "set qs = set params" for qs
  proof -
    have "fillable qs" using that(1,4) by (intro fillable_plain) auto
    then show ?thesis using f [OF assms(2)] f [of qs] param_env_order [OF that(2,3,4)] by simp
  qed
  have "\<forall>h v. param_env params h = Some v \<longrightarrow> 123 \<notin> set v" if "\<forall>kv \<in> set params. plain_param kv"
    using that by (fastforce simp: param_env_def plain_param_def dest!: map_of_SomeD)
  then show ?thesis using fill_covered [OF w(2)] x(2) d w(1) f [OF assms(2)] o
    by (intro exI [of _ ps]) auto
qed

theorem translate_fills_witness:
  "\<exists>ps. template (dict_text Zh ''proxies.deleteConfirm'') = Some ps \<and>
     translate Zh ''proxies.deleteConfirm'' (Some [(''name'', js ''HK 01'')]) = fill (param_env [(''name'', js ''HK 01'')]) ps"
proof -
  have "''proxies.deleteConfirm'' \<in> fst ` set en"
    by (simp add: en_def en_proxies_def)
  moreover have "fillable [(''name'', js ''HK 01'')]"
    by (simp add: fillable_def no_brace_def js_def)
  ultimately show ?thesis using translate_fills [of "''proxies.deleteConfirm''" _ Zh] by blast
qed

text \<open>
  A dollar sign in a value is not shown as it was given. The value of a parameter is used as a
  replacement pattern: two dollar signs show as one, in every text and in both languages.
\<close>

theorem translate_dollar:
  "translate l key (Some [(k, js ''$$'')]) = translate l key (Some [(k, js ''$'')])"
proof -
  have "replace_from b s m (js ''$$'') = replace_from b s m (js ''$'')" for b s m
    by (induction b s m "js ''$''" rule: replace_from.induct)
      (subst (1 2) replace_from.simps, auto simp: js_def Let_def split: list.splits)
  then show ?thesis by (simp add: translate_Some interpolate_def replaceAll_def)
qed

section \<open>The language store\<close>

definition locale_value :: "Locale \<Rightarrow> jsval" where
  "locale_value l = JStr (case l of En \<Rightarrow> js ''en'' | Zh \<Rightarrow> js ''zh'')"

definition initial_locale :: Locale where
  "initial_locale = En"

definition setLocale :: "Locale \<Rightarrow> Locale \<Rightarrow> Locale" where
  "setLocale l _ = l"

definition locale_record :: "Locale \<Rightarrow> jsval" where
  "locale_record l = JObj [(js ''state'', JObj [(js ''locale'', locale_value l)]), (js ''version'', JNum (Fin 0))]"

definition persist_locale :: "Locale \<Rightarrow> storage \<Rightarrow> storage" where
  "persist_locale l st = (case json_image (locale_record l) of
     Some v \<Rightarrow> st(''i18n-storage'' \<mapsto> Json v) | None \<Rightarrow> st)"

text \<open>What the page starts with: the stored value as it is, whatever it is.\<close>

definition rehydrate_locale :: "storage \<Rightarrow> jsval" where
  "rehydrate_locale st = (case st ''i18n-storage'' of
     Some (Json v) \<Rightarrow> merged (opt_member v ''state'') ''locale'' (locale_value initial_locale)
   | _ \<Rightarrow> locale_value initial_locale)"

definition clear_locale :: "storage \<Rightarrow> storage" where
  "clear_locale st = st(''i18n-storage'' := None)"

lemma rehydrate_persist_locale: "rehydrate_locale (persist_locale l st) = locale_value l"
  by (cases l) (simp_all add: rehydrate_locale_def persist_locale_def locale_record_def locale_value_def
      merged_def opt_member_def prop_of_def)

interpretation language: token_store persist_locale clear_locale rehydrate_locale locale_value
    "locale_value initial_locale" "\<lambda>_. True"
  by unfold_locales (simp_all add: rehydrate_persist_locale, simp add: rehydrate_locale_def clear_locale_def)

lemma language_after_choices:
  "rehydrate_locale (language.run (ops @ [Save l]) st) = locale_value l"
  by (rule language.load_last(1)) simp

end
