(* ===== verification/Proxy_List.thy ===== *)
theory Proxy_List
  imports Node_Inventory Api Session Delay_Board
begin

text \<open>
  \<open>pages/proxies.tsx\<close> with \<open>components/proxies/proxy-list.tsx\<close>, \<open>node-details-dialog.tsx\<close> and
  \<open>components/shared/confirm-dialog.tsx\<close>: the two loads of the page, the filters, the table's rows
  and what each offers, delay tests, copying, deleting and saving. TypeScript's types are not
  checked at run time; the readings of a response as a list of proxies or providers are arguments.
\<close>

section \<open>State\<close>

datatype delay_state = Ms jsnum | Testing | TimedOut | Errored

record proxies_page =
  pg_proxies :: "proxy list"
  pg_providers :: "proxy_provider list"
  pg_loading :: bool
  pg_staticError :: bool
  pg_providersLoading :: bool
  pg_providersError :: bool
  pg_search :: jstring
  pg_protocolFilter :: jstring
  pg_sourceFilter :: jstring
  pg_countryFilter :: jstring
  pg_formOpen :: bool
  pg_editingProxy :: "proxy option"
  pg_testAllTrigger :: nat
  pg_testingAll :: bool
  pl_deletingId :: "jstring option"
  pl_confirmOpen :: bool
  pl_confirmDescription :: message
  pl_delays :: "jstring \<Rightarrow> delay_state option"
  pl_detailsRow :: "node_row option"
  pl_testAllRef :: nat

definition initial_proxies_page :: proxies_page where
  "initial_proxies_page = \<lparr>pg_proxies = [], pg_providers = [], pg_loading = False, pg_staticError = False,
     pg_providersLoading = False, pg_providersError = False, pg_search = [], pg_protocolFilter = [],
     pg_sourceFilter = ALL_SOURCES, pg_countryFilter = [], pg_formOpen = False, pg_editingProxy = None,
     pg_testAllTrigger = 0, pg_testingAll = False, pl_deletingId = None, pl_confirmOpen = False,
     pl_confirmDescription = Raw [], pl_delays = (\<lambda>_. None), pl_detailsRow = None, pl_testAllRef = 0\<rparr>"

section \<open>Loading\<close>

definition fetchProxies :: "'b server \<Rightarrow> (jsval \<Rightarrow> proxy list) \<Rightarrow> (('b, proxies_page) world, unit) io" where
  "fetchProxies server as_proxies =
     io_then (page (\<lambda>p. p\<lparr>pg_loading := True\<rparr>))
       (io_finally
         (io_catch
           (io_bind (api server (proxiesApi_list [])) (\<lambda>res.
            io_bind (io_lift (member res ''data'')) (\<lambda>d.
            page (\<lambda>p. p\<lparr>pg_proxies := as_proxies (coalesce d (JArr [])), pg_staticError := False\<rparr>))))
           (\<lambda>_. io_then (page (\<lambda>p. p\<lparr>pg_staticError := True\<rparr>)) (toast (Failure (Key ''proxies.loadFailed'' [])))))
         (page (\<lambda>p. p\<lparr>pg_loading := False\<rparr>)))"

definition fetchProviders :: "'b server \<Rightarrow> (jsval \<Rightarrow> proxy_provider list) \<Rightarrow> (('b, proxies_page) world, unit) io" where
  "fetchProviders server as_providers =
     io_then (page (\<lambda>p. p\<lparr>pg_providersLoading := True\<rparr>))
       (io_finally
         (io_catch
           (io_bind (api server runtimeApi_proxyProviders) (\<lambda>res.
            io_bind (io_lift (member res ''data'')) (\<lambda>d.
            page (\<lambda>p. p\<lparr>pg_providers := as_providers (coalesce (opt_member d ''providers'') (JArr [])),
                        pg_providersError := False\<rparr>))))
           (\<lambda>_. page (\<lambda>p. p\<lparr>pg_providers := [], pg_providersError := True\<rparr>)))
         (page (\<lambda>p. p\<lparr>pg_providersLoading := False\<rparr>)))"

section \<open>What the page shows\<close>

definition allRows :: "(jstring \<Rightarrow> jstring) \<Rightarrow> proxies_page \<Rightarrow> node_row list" where
  "allRows lower p = buildNodeRows lower (pg_proxies p) (pg_providers p)"

definition shown_rows :: "(jstring \<Rightarrow> jstring) \<Rightarrow> proxies_page \<Rightarrow> node_row list" where
  "shown_rows lower p = filterNodeRows lower (allRows lower p)
     \<lparr>nf_search = Some (pg_search p), nf_protocol = Some (pg_protocolFilter p),
      nf_source = Some (pg_sourceFilter p), nf_country = Some (pg_countryFilter p)\<rparr>"

definition selectedProviderName :: "proxies_page \<Rightarrow> jstring" where
  "selectedProviderName p =
     (let prefix = providerSource []
      in if starts_with (pg_sourceFilter p) prefix then drop (length prefix) (pg_sourceFilter p) else [])"

definition selectedProvider :: "proxies_page \<Rightarrow> proxy_provider option" where
  "selectedProvider p = find (\<lambda>pr. rp_name pr = selectedProviderName p) (pg_providers p)"

text \<open>A label is a name, optionally followed by a translated mark.\<close>

datatype label = Named jstring | Marked jstring string | Translated string

definition sourceLabel :: "proxies_page \<Rightarrow> label" where
  "sourceLabel p =
     (if pg_sourceFilter p = STATIC_SOURCE then Translated ''proxies.sourceStatic''
      else if selectedProviderName p \<noteq> [] then
        (case selectedProvider p of
           Some pr \<Rightarrow> if rp_status pr \<noteq> StOk then Marked (selectedProviderName p) ''proxies.unknown''
                      else Named (selectedProviderName p)
         | None \<Rightarrow> Named (selectedProviderName p))
      else Translated ''proxies.sourceAll'')"

definition hasFilters :: "proxies_page \<Rightarrow> bool" where
  "hasFilters p \<longleftrightarrow> trim (pg_search p) \<noteq> [] \<or> pg_protocolFilter p \<noteq> [] \<or> pg_countryFilter p \<noteq> [] \<or>
     pg_sourceFilter p \<noteq> ALL_SOURCES"

definition emptyMessage :: "proxies_page \<Rightarrow> string" where
  "emptyMessage p =
     (if (case selectedProvider p of Some pr \<Rightarrow> rp_status pr \<noteq> StOk | None \<Rightarrow> False) then ''proxies.providerUnknown''
      else if hasFilters p then ''proxies.noMatchingNodes''
      else if pg_staticError p then ''proxies.loadFailed''
      else ''proxies.noProxies'')"

definition source_items :: "proxies_page \<Rightarrow> (jstring \<times> label) list" where
  "source_items p =
     [(ALL_SOURCES, Translated ''proxies.sourceAll''), (STATIC_SOURCE, Translated ''proxies.sourceStatic'')] @
     map (\<lambda>pr. (providerSource (rp_name pr),
        if rp_status pr = StOk then Named (rp_name pr) else Marked (rp_name pr) ''proxies.unknown'')) (pg_providers p)"

datatype content = Loading_Text | Empty_Text string | Rows "node_row list"

definition content :: "(jstring \<Rightarrow> jstring) \<Rightarrow> proxies_page \<Rightarrow> content" where
  "content lower p =
     (if pg_loading p \<and> allRows lower p = [] then Loading_Text
      else if shown_rows lower p = [] then Empty_Text (emptyMessage p)
      else Rows (shown_rows lower p))"

definition onSearch :: "jstring \<Rightarrow> proxies_page \<Rightarrow> proxies_page" where
  "onSearch v p = p\<lparr>pg_search := v\<rparr>"

definition onSource :: "jstring \<Rightarrow> proxies_page \<Rightarrow> proxies_page" where
  "onSource v p = p\<lparr>pg_sourceFilter := (if v = [] then ALL_SOURCES else v)\<rparr>"

definition onProtocol :: "jstring \<Rightarrow> proxies_page \<Rightarrow> proxies_page" where
  "onProtocol v p = p\<lparr>pg_protocolFilter := (if v = [] \<or> v = js ''__all__'' then [] else v)\<rparr>"

definition onCountry :: "jstring \<Rightarrow> proxies_page \<Rightarrow> proxies_page" where
  "onCountry v p = p\<lparr>pg_countryFilter := (if v = [] \<or> v = js ''__all__'' then [] else v)\<rparr>"

section \<open>Adding, editing, saving\<close>

definition handleAddClick :: "proxies_page \<Rightarrow> proxies_page" where
  "handleAddClick p = p\<lparr>pg_editingProxy := None, pg_formOpen := True\<rparr>"

definition handleEditClick :: "proxy \<Rightarrow> proxies_page \<Rightarrow> proxies_page" where
  "handleEditClick px p = p\<lparr>pg_editingProxy := Some px, pg_formOpen := True\<rparr>"

definition onProxyForm :: "bool \<Rightarrow> proxies_page \<Rightarrow> proxies_page" where
  "onProxyForm opened p = (if opened then p\<lparr>pg_formOpen := True\<rparr> else p\<lparr>pg_formOpen := False, pg_editingProxy := None\<rparr>)"

definition proxy_payload :: "jstring \<Rightarrow> jstring \<Rightarrow> (jstring \<times> jsval) list \<Rightarrow> jsval" where
  "proxy_payload name type config =
     JObj [(js ''name'', JStr name), (js ''type'', JStr type), (js ''config'', JObj config)]"

definition handleSave :: "'b server \<Rightarrow> (jsval \<Rightarrow> proxy list) \<Rightarrow> jsval \<Rightarrow> (('b, proxies_page) world, unit) io" where
  "handleSave server as_proxies payload = io_read (\<lambda>w.
     let editing = pg_editingProxy (w_page w)
     in io_catch
          (io_then
            (case editing of
               Some px \<Rightarrow> io_then (api server (proxiesApi_update (px_id px) payload))
                 (toast (Success (Key ''proxies.updated'' [])))
             | None \<Rightarrow> io_then (api server (proxiesApi_create payload))
                 (toast (Success (Key ''proxies.created'' []))))
            (io_then (page (\<lambda>p. p\<lparr>pg_formOpen := False, pg_editingProxy := None\<rparr>))
              (fetchProxies server as_proxies)))
          (\<lambda>_. toast (Failure (Key (if editing \<noteq> None then ''proxies.updateFailed'' else ''proxies.createFailed'') []))))"

section \<open>Delay tests\<close>

definition delay_request :: "node_row \<Rightarrow> request result" where
  "delay_request row =
     (if nr_kind row = ProviderRow then runtimeApi_providerNodeHealthcheck (nr_providerName row) (nr_name row) None None
      else runtimeApi_proxyDelay (nr_name row) None None)"

definition delay_outcome :: "thrown + jsval \<Rightarrow> delay_state" where
  "delay_outcome a = (case a of
     Inl _ \<Rightarrow> Errored
   | Inr res \<Rightarrow> (case opt_member (opt_member res ''data'') ''delay'' of
       JNum n \<Rightarrow> if num_lt (num 0) n then Ms n else TimedOut
     | _ \<Rightarrow> TimedOut))"

definition set_delay :: "node_row \<Rightarrow> delay_state \<Rightarrow> (('b, proxies_page) world, unit) io" where
  "set_delay row d = page (\<lambda>p. p\<lparr>pl_delays := (pl_delays p)(nr_key row := Some d)\<rparr>)"

definition testOneDelay :: "'b server \<Rightarrow> node_row \<Rightarrow> (('b, proxies_page) world, unit) io" where
  "testOneDelay server row =
     io_then (set_delay row Testing)
       (io_catch
         (io_bind (io_bind (io_lift (delay_request row)) (api server)) (\<lambda>res. set_delay row (delay_outcome (Inr res))))
         (\<lambda>e. set_delay row (delay_outcome (Inl e))))"

definition onTestAll :: "proxies_page \<Rightarrow> proxies_page" where
  "onTestAll p = p\<lparr>pg_testingAll := True, pg_testAllTrigger := pg_testAllTrigger p + 1\<rparr>"

text \<open>The effect that answers the trigger: the rows whose tests it starts, and the new state.\<close>

definition test_all_effect :: "(jstring \<Rightarrow> jstring) \<Rightarrow> proxies_page \<Rightarrow> node_row list option \<times> proxies_page" where
  "test_all_effect lower p =
     (if pg_testAllTrigger p = 0 \<or> pg_testAllTrigger p = pl_testAllRef p then (None, p)
      else (Some (shown_rows lower p), p\<lparr>pl_testAllRef := pg_testAllTrigger p\<rparr>))"

definition onTestAllDone :: "proxies_page \<Rightarrow> proxies_page" where
  "onTestAllDone p = p\<lparr>pg_testingAll := False\<rparr>"

section \<open>The table\<close>

definition TYPE_VARIANT :: "(string \<times> string) list" where
  "TYPE_VARIANT =
     [(''ss'', ''default''), (''trojan'', ''secondary''), (''vmess'', ''default''), (''vless'', ''secondary''),
      (''http'', ''outline''), (''socks5'', ''outline''), (''hysteria2'', ''default''), (''tuic'', ''secondary''),
      (''anytls'', ''default'')]"

definition COUNTRY_FLAG :: "(string \<times> jstring) list" where
  "COUNTRY_FLAG =
     [(''HK'', utf16 0x1F1ED @ utf16 0x1F1F0), (''TW'', utf16 0x1F1F9 @ utf16 0x1F1FC),
      (''JP'', utf16 0x1F1EF @ utf16 0x1F1F5), (''KR'', utf16 0x1F1F0 @ utf16 0x1F1F7),
      (''SG'', utf16 0x1F1F8 @ utf16 0x1F1EC), (''US'', utf16 0x1F1FA @ utf16 0x1F1F8),
      (''GB'', utf16 0x1F1EC @ utf16 0x1F1E7), (''DE'', utf16 0x1F1E9 @ utf16 0x1F1EA),
      (''FR'', utf16 0x1F1EB @ utf16 0x1F1F7), (''CA'', utf16 0x1F1E8 @ utf16 0x1F1E6),
      (''AU'', utf16 0x1F1E6 @ utf16 0x1F1FA), (''IN'', utf16 0x1F1EE @ utf16 0x1F1F3),
      (''RU'', utf16 0x1F1F7 @ utf16 0x1F1FA), (''TR'', utf16 0x1F1F9 @ utf16 0x1F1F7),
      (''AR'', utf16 0x1F1E6 @ utf16 0x1F1F7), (''VN'', utf16 0x1F1FB @ utf16 0x1F1F3),
      (''TH'', utf16 0x1F1F9 @ utf16 0x1F1ED), (''ID'', utf16 0x1F1EE @ utf16 0x1F1E9),
      (''MY'', utf16 0x1F1F2 @ utf16 0x1F1FE), (''BR'', utf16 0x1F1E7 @ utf16 0x1F1F7),
      (''NL'', utf16 0x1F1F3 @ utf16 0x1F1F1), (''IT'', utf16 0x1F1EE @ utf16 0x1F1F9),
      (''ES'', utf16 0x1F1EA @ utf16 0x1F1F8), (''SE'', utf16 0x1F1F8 @ utf16 0x1F1EA),
      (''NO'', utf16 0x1F1F3 @ utf16 0x1F1F4), (''FI'', utf16 0x1F1EB @ utf16 0x1F1EE),
      (''DK'', utf16 0x1F1E9 @ utf16 0x1F1F0), (''PL'', utf16 0x1F1F5 @ utf16 0x1F1F1),
      (''CH'', utf16 0x1F1E8 @ utf16 0x1F1ED), (''IE'', utf16 0x1F1EE @ utf16 0x1F1EA),
      (''PT'', utf16 0x1F1F5 @ utf16 0x1F1F9), (''NZ'', utf16 0x1F1F3 @ utf16 0x1F1FF),
      (''ZA'', utf16 0x1F1FF @ utf16 0x1F1E6), (''AE'', utf16 0x1F1E6 @ utf16 0x1F1EA),
      (''SA'', utf16 0x1F1F8 @ utf16 0x1F1E6), (''IL'', utf16 0x1F1EE @ utf16 0x1F1F1),
      (''UA'', utf16 0x1F1FA @ utf16 0x1F1E6), (''PH'', utf16 0x1F1F5 @ utf16 0x1F1ED),
      (''MX'', utf16 0x1F1F2 @ utf16 0x1F1FD), (''MO'', utf16 0x1F1F2 @ utf16 0x1F1F4),
      (''EG'', utf16 0x1F1EA @ utf16 0x1F1EC)]"

text \<open>A country code that is the name of an inherited property finds that property: \<open>Inherited\<close>.\<close>

definition countryDisplay :: "jstring \<Rightarrow> keyed" where
  "countryDisplay code =
     (if code = [] then Own []
      else case map_of (map (\<lambda>(c, f). (js c, f)) COUNTRY_FLAG) code of
        Some flag \<Rightarrow> Own (flag @ [32] @ code)
      | None \<Rightarrow> if code \<in> set prototype_keys then Inherited code else Own code)"

definition typeVariant :: "keyed \<Rightarrow> keyed" where
  "typeVariant protocol = (case protocol of
     Own k \<Rightarrow> (case table_get TYPE_VARIANT k of Some v \<Rightarrow> v | None \<Rightarrow> Own (js ''outline''))
   | Inherited _ \<Rightarrow> Own (js ''outline''))"

definition protocol_text :: "keyed \<Rightarrow> keyed" where
  "protocol_text protocol = (case protocol of Own k \<Rightarrow> protocolLabel k | Inherited k \<Rightarrow> Inherited k)"

datatype delay_cell = Spinner | Timeout_Text | Error_Text | Fast jsnum | Medium jsnum | Slow jsnum | No_Delay

definition row_delay :: "(jstring \<Rightarrow> delay_state option) \<Rightarrow> node_row \<Rightarrow> delay_state option" where
  "row_delay delays row = nullish (delays (nr_key row)) (map_option Ms (nr_delay row))"

definition delay_cell :: "delay_state option \<Rightarrow> delay_cell" where
  "delay_cell d = (case d of
     Some Testing \<Rightarrow> Spinner
   | Some TimedOut \<Rightarrow> Timeout_Text
   | Some Errored \<Rightarrow> Error_Text
   | Some (Ms n) \<Rightarrow> if num_lt n (num 300) then Fast n else if num_lt n (num 600) then Medium n else Slow n
   | None \<Rightarrow> No_Delay)"

datatype row_action = Test_Delay bool | Edit proxy | Copy proxy | Delete proxy | Details

record row_view =
  rv_key :: jstring
  rv_click :: "proxy option"
  rv_name :: jstring
  rv_source :: label
  rv_country :: keyed
  rv_variant :: keyed
  rv_protocol :: keyed
  rv_server :: jstring
  rv_delay :: delay_cell
  rv_actions :: "row_action list"

definition row_view :: "(jstring \<Rightarrow> delay_state option) \<Rightarrow> node_row \<Rightarrow> row_view" where
  "row_view delays row =
     (let isStatic = (nr_kind row = StaticRow); d = row_delay delays row
      in \<lparr>rv_key = nr_key row, rv_click = (if isStatic then nr_proxy row else None), rv_name = nr_name row,
          rv_source = (if isStatic then Translated ''proxies.sourceStatic'' else Named (nr_providerName row)),
          rv_country = (if isStatic then countryDisplay (nr_country row) else Own dash),
          rv_variant = typeVariant (nr_protocol row), rv_protocol = protocol_text (nr_protocol row),
          rv_server = nr_server row, rv_delay = delay_cell d,
          rv_actions = Test_Delay (d = Some Testing) #
            (if isStatic then (case nr_proxy row of Some px \<Rightarrow> [Edit px, Copy px, Delete px] | None \<Rightarrow> [Details])
             else [Details])\<rparr>)"

section \<open>Deleting and copying\<close>

definition delete_question :: "proxy \<Rightarrow> message" where
  "delete_question px = Key ''proxies.deleteConfirm'' [(''name'', px_name px)]"

text \<open>\<open>refs.length > 0\<close> and \<open>refs.join(', ')\<close>: a text has a length but no \<open>join\<close>.\<close>

definition refs_question :: "proxy \<Rightarrow> jsval \<Rightarrow> message result" where
  "refs_question px refs = (case refs of
     JArr xs \<Rightarrow> Inr (if xs \<noteq> [] then
         Key ''proxies.deleteWithRefs''
           [(''count'', dec_digits (length xs)),
            (''names'', join (js '', '') (map (\<lambda>x. if x = Undef \<or> x = Null then [] else to_str x) xs))]
       else delete_question px)
   | JStr s \<Rightarrow> (if s \<noteq> [] then Inl TypeError else Inr (delete_question px))
   | _ \<Rightarrow> Inr (delete_question px))"

definition describe :: "message \<Rightarrow> (('b, proxies_page) world, unit) io" where
  "describe m = page (\<lambda>p. p\<lparr>pl_confirmDescription := m\<rparr>)"

definition handleDeleteClick :: "'b server \<Rightarrow> proxy \<Rightarrow> (('b, proxies_page) world, unit) io" where
  "handleDeleteClick server px =
     io_then
       (io_catch
         (io_bind (api server (proxiesApi_refs (px_id px))) (\<lambda>res.
          io_bind (io_lift (member res ''data'')) (\<lambda>d.
          io_bind (io_lift (refs_question px (coalesce d (JArr [])))) describe)))
         (\<lambda>_. describe (delete_question px)))
       (page (\<lambda>p. p\<lparr>pl_deletingId := Some (px_id px), pl_confirmOpen := True\<rparr>))"

text \<open>The part of \<open>handleDeleteConfirm\<close> that runs with the id it was started with.\<close>

definition deletion :: "'b server \<Rightarrow> (jsval \<Rightarrow> proxy list) \<Rightarrow> jstring \<Rightarrow> (('b, proxies_page) world, unit) io" where
  "deletion server as_proxies i =
     io_finally
       (io_catch
         (io_then (api server (proxiesApi_delete i))
           (io_then (toast (Success (Key ''proxies.deleted'' []))) (fetchProxies server as_proxies)))
         (\<lambda>_. toast (Failure (Key ''proxies.deleteFailed'' []))))
       (page (\<lambda>p. p\<lparr>pl_deletingId := None\<rparr>))"

definition handleDeleteConfirm :: "'b server \<Rightarrow> (jsval \<Rightarrow> proxy list) \<Rightarrow> (('b, proxies_page) world, unit) io" where
  "handleDeleteConfirm server as_proxies = io_read (\<lambda>w.
     case nonempty (pl_deletingId (w_page w)) of None \<Rightarrow> io_return () | Some i \<Rightarrow> deletion server as_proxies i)"

text \<open>
  \<open>ConfirmDialog\<close> starts the action and closes at once; what the action does after its first
  request comes later. Closing touches only the flag, so the order of the two is written that way.
\<close>

definition handleConfirm :: "('w, unit) io \<Rightarrow> ('w, unit) io \<Rightarrow> ('w, unit) io" where
  "handleConfirm onConfirm close = io_then close onConfirm"

definition handleCopy :: "'b server \<Rightarrow> (jsval \<Rightarrow> proxy list) \<Rightarrow> proxy \<Rightarrow> (('b, proxies_page) world, unit) io" where
  "handleCopy server as_proxies px =
     io_catch
       (io_then (api server (proxiesApi_copy (px_id px)))
         (io_then (toast (Success (Key ''proxies.copied'' []))) (fetchProxies server as_proxies)))
       (\<lambda>_. toast (Failure (Key ''proxies.copyFailed'' [])))"

section \<open>Details of a subscription node\<close>

definition providerFor :: "proxy_provider list \<Rightarrow> node_row \<Rightarrow> proxy_provider option" where
  "providerFor providers row =
     (if nr_kind row = ProviderRow then find (\<lambda>pr. rp_name pr = nr_providerName row) providers else None)"

datatype detail = Plain jstring | Text_Of keyed | Word string

definition triState :: "bool option \<Rightarrow> detail" where
  "triState v = (case v of Some True \<Rightarrow> Word ''proxies.yes'' | Some False \<Rightarrow> Word ''proxies.no''
     | None \<Rightarrow> Word ''proxies.unknown'')"

definition detail_or_unknown :: "jstring option \<Rightarrow> detail" where
  "detail_or_unknown a = (case nonempty a of Some s \<Rightarrow> Plain s | None \<Rightarrow> Word ''proxies.unknown'')"

text \<open>The dialog's lines; \<open>local_time\<close> is \<open>new Date(s).toLocaleString()\<close>.\<close>

definition node_details ::
    "(jstring \<Rightarrow> jstring) \<Rightarrow> node_row option \<Rightarrow> proxy_provider option \<Rightarrow> jstring \<times> (string \<times> detail) list" where
  "node_details local_time row provider =
     (let ok = (case provider of Some pr \<Rightarrow> rp_status pr = StOk | None \<Rightarrow> False)
      in (case row of Some r \<Rightarrow> nr_name r | None \<Rightarrow> [],
          [(''proxies.fieldProvider'', detail_or_unknown (map_option nr_providerName row)),
           (''proxies.fieldProtocol'', (case row of
              Some r \<Rightarrow> if nr_protocol r = Own [] then Word ''proxies.unknown'' else Text_Of (protocol_text (nr_protocol r))
            | None \<Rightarrow> Word ''proxies.unknown'')),
           (''proxies.fieldAlive'', triState (Option.bind row nr_alive)),
           (''proxies.fieldUDP'', triState (Option.bind row nr_udp)),
           (''proxies.fieldDelay'', (case Option.bind row nr_delay of
              Some d \<Rightarrow> if num_lt (num 0) d then Plain (num_str d @ js ''ms'') else Word ''proxies.unknown''
            | None \<Rightarrow> Word ''proxies.unknown'')),
           (''proxies.fieldProviderStatus'', Word (if ok then ''proxies.providerStatusOK'' else ''proxies.providerUnknown'')),
           (''proxies.nodeCount'', (case Option.bind provider rp_node_count of
              Some n \<Rightarrow> if ok then Plain (num_str n) else Word ''proxies.unknown''
            | None \<Rightarrow> Word ''proxies.unknown'')),
           (''proxies.fieldProviderUpdated'', (case nonempty (Option.bind provider rp_updated_at) of
              Some s \<Rightarrow> Plain (local_time s) | None \<Rightarrow> Word ''proxies.unknown''))]))"

section \<open>Reads do not disturb each other\<close>

lemma fetchProxies_page:
  "wp (fetchProxies server f) (\<lambda>_ v.
     w_page v = (w_page w)\<lparr>pg_staticError := True, pg_loading := False\<rparr> \<or>
     (\<exists>ps. w_page v = (w_page w)\<lparr>pg_proxies := ps, pg_staticError := False, pg_loading := False\<rparr>))
     (\<lambda>_ _. False) w"
  by (auto simp: fetchProxies_def split: sum.splits)

lemma fetchProviders_page:
  "wp (fetchProviders server g) (\<lambda>_ v. \<exists>ps err.
     w_page v = (w_page w)\<lparr>pg_providers := ps, pg_providersError := err, pg_providersLoading := False\<rparr> \<and>
     (err \<longrightarrow> ps = []) \<and> w_toasts v = w_toasts w) (\<lambda>_ _. False) w"
  by (auto simp: fetchProviders_def split: sum.splits)

text \<open>
  A failing provider inventory never hides the static proxies. Whatever the backend answers, the
  load of the providers returns, ends its own loading state and leaves the static list, its error
  and its loading flag as they were; when it fails the table is exactly the static rows, editable
  as before.
\<close>

theorem providers_failure_keeps_static:
  "\<exists>w'. fetchProviders server g w = (Inr (), w') \<and> \<not> pg_providersLoading (w_page w') \<and>
     pg_proxies (w_page w') = pg_proxies (w_page w) \<and> pg_staticError (w_page w') = pg_staticError (w_page w) \<and>
     pg_loading (w_page w') = pg_loading (w_page w) \<and>
     (pg_providersError (w_page w') \<longrightarrow> allRows lower (w_page w') = buildNodeRows lower (pg_proxies (w_page w)) [])"
  by (rule wp_total, rule wp_mono [OF fetchProviders_page]) (auto simp: allRows_def)

theorem providers_failure_keeps_static_witness:
  "\<exists>w'. fetchProviders silent (\<lambda>_. []) (fresh initial_proxies_page) = (Inr (), w') \<and>
     pg_proxies (w_page w') = [] \<and> allRows lower_ascii (w_page w') = []"
proof -
  obtain w' where w: "fetchProviders silent (\<lambda>_. []) (fresh initial_proxies_page) = (Inr (), w')"
    and k: "pg_proxies (w_page w') = pg_proxies initial_proxies_page"
    and e: "pg_providersError (w_page w') \<longrightarrow>
      allRows lower_ascii (w_page w') = buildNodeRows lower_ascii (pg_proxies initial_proxies_page) []"
    using providers_failure_keeps_static [of silent "\<lambda>_. []" "fresh initial_proxies_page" lower_ascii] by auto
  have "wp (fetchProviders silent (\<lambda>_. []) ) (\<lambda>_ v. pg_providersError (w_page v)) (\<lambda>_ _. False) (fresh initial_proxies_page)"
    by (simp add: fetchProviders_def)
  then have "pg_providersError (w_page w')" using w by (simp add: wp_def)
  then show ?thesis using w k e by (simp add: initial_proxies_page_def buildNodeRows_def raw_rows_def)
qed

section \<open>Reading a row\<close>

text \<open>
  C15: Subscription nodes are read-only on the page. A row of the merged table that stands for a
  static proxy opens that proxy on a click and offers to edit, copy and delete exactly that proxy;
  a subscription node offers a delay test and its details, and a click on it does nothing.
\<close>

theorem row_view_actions:
  assumes "r \<in> set (allRows lower p)"
  shows "(nr_kind r = ProviderRow \<longrightarrow> rv_click (row_view delays r) = None \<and>
            (\<exists>b. rv_actions (row_view delays r) = [Test_Delay b, Details])) \<and>
         (nr_kind r = StaticRow \<longrightarrow> (\<exists>px \<in> set (pg_proxies p). rv_click (row_view delays r) = Some px \<and>
            rv_name (row_view delays r) = px_name px \<and>
            (\<exists>b. rv_actions (row_view delays r) = [Test_Delay b, Edit px, Copy px, Delete px])))"
  using buildNodeRows_member [OF assms [unfolded allRows_def]]
  by (auto simp: row_view_def Let_def)

definition sample_proxy :: proxy where
  "sample_proxy = \<lparr>px_id = js ''7'', px_name = js ''HK'', px_type = js ''ss'', px_country = None, px_config = None,
     px_sort_order = num 0, px_created_at = [], px_updated_at = []\<rparr>"

lemma sample_row: "allRows lower (initial_proxies_page\<lparr>pg_proxies := [sample_proxy]\<rparr>) = [static_row lower sample_proxy]"
  by (simp add: allRows_def initial_proxies_page_def buildNodeRows_def raw_rows_def unique_key_def)

lemma sample_row_fields [simp]:
  "nr_kind (static_row lower px) = StaticRow" "nr_key (static_row lower px) = js ''static:'' @ px_id px"
  by (simp_all add: static_row_def Let_def)

theorem row_view_actions_witness:
  "rv_click (row_view (\<lambda>_. None) (static_row lower_ascii sample_proxy)) = Some sample_proxy"
proof -
  have "static_row lower_ascii sample_proxy \<in> set (allRows lower_ascii (initial_proxies_page\<lparr>pg_proxies := [sample_proxy]\<rparr>))"
    by (simp add: sample_row)
  then show ?thesis using row_view_actions by fastforce
qed

text \<open>
  The details of a subscription node show nothing but allowed metadata. They do not depend on
  the row's server, country, key, proxy record or runtime node, nor on the provider's nodes, type or vehicle.
\<close>

theorem node_details_allow_list:
  "node_details lt (Some (r\<lparr>nr_server := s, nr_country := c, nr_proxy := px, nr_providerNode := n, nr_key := k\<rparr>))
     (map_option (\<lambda>pr. pr\<lparr>rp_nodes := ns, rp_type := ty, rp_vehicle_type := vt\<rparr>) prov) =
   node_details lt (Some r) prov"
  by (cases prov) (simp_all add: node_details_def Let_def)

lemma flag_codes: "list_all (\<lambda>(c, f). f = concat (map (\<lambda>x. utf16 (0x1F1E6 + (of_char x - 65))) c)) COUNTRY_FLAG"
  by (simp add: COUNTRY_FLAG_def)

section \<open>Testing delays\<close>

interpretation tests: delay_board nr_key "\<lambda>_. Testing" "\<lambda>a _. delay_outcome a" "\<lambda>d. d = Testing"
  by unfold_locales (auto simp: delay_outcome_def Let_def split: sum.splits jsval.splits)

text \<open>One half of a test applied to the page; a run of tests is a fold of such halves.\<close>

fun apply_event :: "node_row event \<Rightarrow> proxies_page \<Rightarrow> proxies_page" where
  "apply_event (Started r) p = p\<lparr>pl_delays := (pl_delays p)(nr_key r := Some Testing)\<rparr>"
| "apply_event (Answered r a) p = p\<lparr>pl_delays := (pl_delays p)(nr_key r := Some (delay_outcome a))\<rparr>"

lemma apply_events: "fold apply_event es p = p\<lparr>pl_delays := tests.run es (pl_delays p)\<rparr>"
proof (induction es arbitrary: p)
  case (Cons e es)
  then show ?case by (cases e) (simp_all add: tests.run_def tests.step_def)
qed (simp add: tests.run_def)

text \<open>The handler is such a run, of its own two halves, with the answer it was given.\<close>

lemma testOneDelay_events:
  "wp (testOneDelay server row) (\<lambda>_ v. \<exists>a. w_page v = fold apply_event [Started row, Answered row a] (w_page w))
     (\<lambda>_ _. False) w"
proof -
  have "wp (testOneDelay server row) (\<lambda>_ v. \<exists>a. w_page v =
      (w_page w)\<lparr>pl_delays := (pl_delays (w_page w))(nr_key row := Some (delay_outcome a))\<rparr>) (\<lambda>_ _. False) w"
    unfolding testOneDelay_def set_delay_def by (auto split: sum.splits)
  then show ?thesis by simp
qed

text \<open>
  C3: Testing all nodes settles every row with its own result. The effect starts a test of every
  row shown; in whatever order the answers come back, each row ends with the outcome of its own
  answer, so none is left testing, even when several nodes share a name; rows that were not shown
  keep what they had, and nothing but delays changes.
\<close>

theorem test_all_settles:
  assumes "test_all_effect lower p = (Some rows, p')" "mset (map fst ans) = mset rows"
  defines "q \<equiv> fold apply_event (map Started rows @ map (\<lambda>(r, a). Answered r a) ans) p'"
  shows "(\<forall>(r, a) \<in> set ans. pl_delays q (nr_key r) = Some (delay_outcome a) \<and> delay_outcome a \<noteq> Testing) \<and>
     (\<forall>r \<in> set rows. row_delay (pl_delays q) r \<noteq> Some Testing) \<and>
     (\<forall>k. k \<notin> nr_key ` set rows \<longrightarrow> pl_delays q k = pl_delays p k) \<and>
     q = p'\<lparr>pl_delays := pl_delays q\<rparr>"
proof (intro conjI)
  have rows: "rows = shown_rows lower p" "pl_delays p' = pl_delays p"
    using assms(1) by (auto simp: test_all_effect_def split: if_splits)
  have d: "distinct (map nr_key rows)" unfolding rows(1) shown_rows_def allRows_def filterNodeRows_def buildNodeRows_def
    by (rule distinct_map_filter) (use push_rows_keys in blast)
  have q: "pl_delays q = tests.run (map Started rows @ map (\<lambda>(r, a). Answered r a) ans) (pl_delays p')"
    unfolding q_def apply_events by simp
  have one: "(r, a) \<in> set ans \<Longrightarrow> pl_delays q (nr_key r) = Some (delay_outcome a)" for r a
    unfolding q by (rule tests.test_all [OF d assms(2)])
  then show own: "\<forall>(r, a) \<in> set ans. pl_delays q (nr_key r) = Some (delay_outcome a) \<and> delay_outcome a \<noteq> Testing"
    using tests.ends by blast
  have s: "set rows = fst ` set ans" using arg_cong [OF assms(2), of set_mset] by simp
  then show "\<forall>r \<in> set rows. row_delay (pl_delays q) r \<noteq> Some Testing" using own by (auto simp: row_delay_def)
  show "\<forall>k. k \<notin> nr_key ` set rows \<longrightarrow> pl_delays q k = pl_delays p k"
    unfolding q using s rows(2) by (intro allI impI) (subst tests.untouched, force+)
  show "q = p'\<lparr>pl_delays := pl_delays q\<rparr>" unfolding q_def apply_events by simp
qed

theorem test_all_settles_witness:
  "\<exists>p'. test_all_effect lower_ascii (onTestAll (initial_proxies_page\<lparr>pg_proxies := [sample_proxy]\<rparr>)) =
      (Some [static_row lower_ascii sample_proxy], p') \<and>
    pl_delays (fold apply_event [Started (static_row lower_ascii sample_proxy),
      Answered (static_row lower_ascii sample_proxy) (Inl Unreachable)] p') (js ''static:7'') = Some Errored"
proof -
  let ?p = "onTestAll (initial_proxies_page\<lparr>pg_proxies := [sample_proxy]\<rparr>)" and ?r = "static_row lower_ascii sample_proxy"
  have "allRows lower_ascii ?p = [?r]" using sample_row by (simp add: onTestAll_def allRows_def)
  then have "shown_rows lower_ascii ?p = [?r]"
    by (simp add: shown_rows_def filterNodeRows_def row_matches_def onTestAll_def initial_proxies_page_def
        source_ok_all lower_ascii_def trim_Nil)
  then have e: "test_all_effect lower_ascii ?p = (Some [?r], ?p\<lparr>pl_testAllRef := pg_testAllTrigger ?p\<rparr>)"
    by (simp add: test_all_effect_def onTestAll_def initial_proxies_page_def)
  have k: "nr_key ?r = js ''static:7''" by (simp add: sample_proxy_def js_def)
  show ?thesis using e test_all_settles [OF e, of "[(?r, Inl Unreachable)]"] k
    by (simp add: delay_outcome_def)
qed

section \<open>Deleting\<close>

text \<open>
  A deletion that is still running loses the next one. When its request ends, whatever the
  answer, the id of the dialog is cleared, also if the user has opened the dialog for another proxy
  in the meantime: the open dialog's confirmation then sends nothing and reports nothing.
\<close>

theorem running_deletion_drops_next:
  assumes "deletion server f i w = (r, w')"
  shows "pl_confirmOpen (w_page w') = pl_confirmOpen (w_page w) \<and>
    pl_confirmDescription (w_page w') = pl_confirmDescription (w_page w) \<and>
    handleDeleteConfirm server f w' = (Inr (), w')"
proof -
  have "wp (deletion server f i) (\<lambda>_ v. pl_deletingId (w_page v) = None \<and>
      pl_confirmOpen (w_page v) = pl_confirmOpen (w_page w) \<and>
      pl_confirmDescription (w_page v) = pl_confirmDescription (w_page w)) (\<lambda>_ _. False) w"
    by (auto simp: deletion_def fetchProxies_def split: sum.splits)
  then show ?thesis using assms
    by (auto simp: wp_def handleDeleteConfirm_def io_read_def io_return_def split: sum.splits)
qed

theorem running_deletion_drops_next_witness:
  "handleDeleteConfirm silent (\<lambda>_. []) (snd (deletion silent (\<lambda>_. []) (js ''7'')
      (fresh (initial_proxies_page\<lparr>pl_deletingId := Some (js ''8''), pl_confirmOpen := True\<rparr>)))) =
    (Inr (), snd (deletion silent (\<lambda>_. []) (js ''7'')
      (fresh (initial_proxies_page\<lparr>pl_deletingId := Some (js ''8''), pl_confirmOpen := True\<rparr>))))"
  using running_deletion_drops_next [OF surjective_pairing] by blast

end
