(* ===== verification/Connections.thy ===== *)
theory Connections
  imports Subscription_Format Api Session Delay_Board
begin

text \<open>
  The connection lists of \<open>pages/overview.tsx\<close> and \<open>components/runtime/connection-table.tsx\<close>: the
  formatting of sizes and ages, the rule guessed from a host, refreshing, closing, searching, and
  what a row shows. The two files carry their own copies of these functions; both are modelled.
\<close>

section \<open>Data\<close>

record conn_meta =
  cm_host :: "jstring option"
  cm_destinationIP :: "jstring option"
  cm_destinationPort :: "jstring option"
  cm_network :: "jstring option"
  cm_type :: "jstring option"

record connection =
  cn_id :: jstring
  cn_metadata :: "conn_meta option"
  cn_chains :: "jstring list option"
  cn_rule :: "jstring option"
  cn_rulePayload :: "jstring option"
  cn_upload :: "jsnum option"
  cn_download :: "jsnum option"
  cn_start :: "jstring option"

record rule_guess =
  rg_type :: string
  rg_payload :: jstring

section \<open>Formatting\<close>

definition formatBytes :: "jsnum \<Rightarrow> jstring" where
  "formatBytes b =
     (if num_lt b (num 1024) then num_str b @ js '' B''
      else if num_lt b (num 1048576) then to_fixed 1 (num_div b (num 1024)) @ js '' KB''
      else to_fixed 1 (num_div b (num 1048576)) @ js '' MB'')"

definition elapsed_ms :: "date_env \<Rightarrow> int \<Rightarrow> jstring \<Rightarrow> jsnum" where
  "elapsed_ms env now s = (case parse_date env s of Some t \<Rightarrow> num_sub (num now) (num t) | None \<Rightarrow> NaN)"

definition formatDuration :: "date_env \<Rightarrow> int \<Rightarrow> jstring \<Rightarrow> jstring" where
  "formatDuration env now s =
     (let sec = num_floor (num_div (elapsed_ms env now s) (num 1000))
      in if num_lt sec (num 60) then num_str sec @ js ''s''
         else let min = num_floor (num_div sec (num 60))
              in if num_lt min (num 60) then num_str min @ js ''m'' @ num_str (num_rem sec (num 60)) @ js ''s''
                 else num_str (num_floor (num_div min (num 60))) @ js ''h'' @ num_str (num_rem min (num 60)) @ js ''m'')"

definition formatRelativeTime :: "date_env \<Rightarrow> int \<Rightarrow> jstring \<Rightarrow> jstring" where
  "formatRelativeTime env now s =
     (let diffSec = num_floor (num_div (elapsed_ms env now s) (num 1000))
      in if num_lt diffSec (num 60) then num_str diffSec @ js ''s ago''
         else let diffMin = num_floor (num_div diffSec (num 60))
              in if num_lt diffMin (num 60) then num_str diffMin @ js ''m ago''
                 else num_str (num_floor (num_div diffMin (num 60))) @ js ''h ago'')"

section \<open>The rule guessed from a host\<close>

text \<open>\<open>/^(\d{1,3}\.){3}\d{1,3}$/\<close>: four groups of one to three digits between dots.\<close>

definition digit_group :: "jstring \<Rightarrow> bool" where
  "digit_group g \<longleftrightarrow> 1 \<le> length g \<and> length g \<le> 3 \<and> list_all is_digit g"

definition dotted_quad :: "jstring \<Rightarrow> bool" where
  "dotted_quad host \<longleftrightarrow>
     (let gs = split_units (\<lambda>u. u = 46) host in length gs = 4 \<and> list_all digit_group gs)"

definition isIP :: "jstring \<Rightarrow> bool" where
  "isIP host \<longleftrightarrow> dotted_quad host \<or> str_includes host [58]"

definition guessRuleType :: "jstring \<Rightarrow> rule_guess" where
  "guessRuleType host =
     (if host = [] then \<lparr>rg_type = ''DOMAIN'', rg_payload = []\<rparr>
      else if isIP host then
        \<lparr>rg_type = (if str_includes host [58] then ''IP-CIDR6'' else ''IP-CIDR''),
         rg_payload = (if str_includes host [47] then host
           else if str_includes host [58] then host @ js ''/128'' else host @ js ''/32'')\<rparr>
      else \<lparr>rg_type = ''DOMAIN'', rg_payload = host\<rparr>)"

text \<open>The copies of \<open>connection-table.tsx\<close>.\<close>

definition ct_formatBytes :: "jsnum \<Rightarrow> jstring" where
  "ct_formatBytes b =
     (if num_lt b (num 1024) then num_str b @ js '' B''
      else if num_lt b (num_mul (num 1024) (num 1024)) then to_fixed 1 (num_div b (num 1024)) @ js '' KB''
      else to_fixed 1 (num_div b (num_mul (num 1024) (num 1024))) @ js '' MB'')"

definition ct_isIP :: "jstring \<Rightarrow> bool" where
  "ct_isIP host \<longleftrightarrow> dotted_quad host \<or> str_includes host [58]"

definition ct_guessRuleType :: "jstring \<Rightarrow> rule_guess" where
  "ct_guessRuleType host =
     (if host = [] then \<lparr>rg_type = ''DOMAIN'', rg_payload = []\<rparr>
      else if ct_isIP host then
        \<lparr>rg_type = (if str_includes host [58] then ''IP-CIDR6'' else ''IP-CIDR''),
         rg_payload = (if str_includes host [47] then host
           else if str_includes host [58] then host @ js ''/128'' else host @ js ''/32'')\<rparr>
      else \<lparr>rg_type = ''DOMAIN'', rg_payload = host\<rparr>)"

section \<open>The lists\<close>

record conns =
  co_connections :: "connection list"
  co_loading :: bool
  co_ruleFormOpen :: bool
  co_ruleInitial :: "rule_guess option"

text \<open>The list a response carries: \<open>data.connections\<close>, \<open>data\<close> itself, or none.\<close>

definition payload_connections :: "jsval \<Rightarrow> jsval list" where
  "payload_connections data = (case data of
     JObj kvs \<Rightarrow> (case prop_of kvs ''connections'' of JArr xs \<Rightarrow> xs | _ \<Rightarrow> [])
   | JArr xs \<Rightarrow> xs
   | _ \<Rightarrow> [])"

definition ov_fetchConnections :: "'b server \<Rightarrow> (jsval \<Rightarrow> connection) \<Rightarrow> (('b, 'e conns_scheme) world, unit) io" where
  "ov_fetchConnections server as_connection =
     io_then (page (\<lambda>p. p\<lparr>co_loading := True\<rparr>))
       (io_finally
         (io_catch
           (io_bind (api server runtimeApi_connections) (\<lambda>res.
            page (\<lambda>p. p\<lparr>co_connections := map as_connection (payload_connections (opt_member res ''data''))\<rparr>)))
           (\<lambda>_. page (\<lambda>p. p\<lparr>co_connections := []\<rparr>)))
         (page (\<lambda>p. p\<lparr>co_loading := False\<rparr>)))"

definition ct_fetchConnections :: "'b server \<Rightarrow> (jsval \<Rightarrow> connection) \<Rightarrow> (('b, 'e conns_scheme) world, unit) io" where
  "ct_fetchConnections server as_connection =
     io_finally
       (io_catch
         (io_bind (api server runtimeApi_connections) (\<lambda>res.
          page (\<lambda>p. p\<lparr>co_connections := map as_connection (payload_connections (opt_member res ''data''))\<rparr>)))
         (\<lambda>_. page (\<lambda>p. p\<lparr>co_connections := []\<rparr>)))
       (page (\<lambda>p. p\<lparr>co_loading := False\<rparr>))"

definition close_connection :: "'b server \<Rightarrow> message \<Rightarrow> jstring \<Rightarrow> (('b, 'e conns_scheme) world, unit) io" where
  "close_connection server failure i =
     io_catch
       (io_then (api server (runtimeApi_closeConnection i))
         (page (\<lambda>p. p\<lparr>co_connections := filter (\<lambda>c. cn_id c \<noteq> i) (co_connections p)\<rparr>)))
       (\<lambda>_. toast (Failure failure))"

definition ov_handleCloseConnection :: "'b server \<Rightarrow> jstring \<Rightarrow> (('b, 'e conns_scheme) world, unit) io" where
  "ov_handleCloseConnection server i = close_connection server (Key ''overview.closeConnFailed'' []) i"

definition ct_handleClose :: "'b server \<Rightarrow> jstring \<Rightarrow> (('b, 'e conns_scheme) world, unit) io" where
  "ct_handleClose server i = close_connection server (Raw (js ''Failed to close connection'')) i"

definition ov_handleAddRule :: "jstring \<Rightarrow> 'e conns_scheme \<Rightarrow> 'e conns_scheme" where
  "ov_handleAddRule host p = p\<lparr>co_ruleInitial := Some (guessRuleType host), co_ruleFormOpen := True\<rparr>"

definition ct_handleAddRule :: "jstring \<Rightarrow> 'e conns_scheme \<Rightarrow> 'e conns_scheme" where
  "ct_handleAddRule host p = p\<lparr>co_ruleInitial := Some (ct_guessRuleType host), co_ruleFormOpen := True\<rparr>"

definition save_rule :: "'b server \<Rightarrow> jsval \<Rightarrow> (('b, 'e conns_scheme) world, unit) io" where
  "save_rule server data =
     io_catch
       (io_then (api server (rulesApi_create data))
         (io_then (toast (Success (Key ''rules.created'' [])))
           (page (\<lambda>p. p\<lparr>co_ruleFormOpen := False\<rparr>))))
       (\<lambda>_. toast (Failure (Key ''rules.createFailed'' [])))"

definition ov_handleRuleSave :: "'b server \<Rightarrow> jsval \<Rightarrow> (('b, 'e conns_scheme) world, unit) io" where
  "ov_handleRuleSave = save_rule"

definition ct_handleRuleSave :: "'b server \<Rightarrow> jsval \<Rightarrow> (('b, 'e conns_scheme) world, unit) io" where
  "ct_handleRuleSave = save_rule"

section \<open>Rows\<close>

record conn_row =
  cr_display :: jstring
  cr_network :: jstring
  cr_chains :: jstring
  cr_rule :: jstring
  cr_traffic :: jstring
  cr_duration :: jstring
  cr_addRule :: "jstring option"

definition em_dash :: jstring where
  "em_dash = [8212]"

definition rule_suffix :: "connection \<Rightarrow> jstring" where
  "rule_suffix c = (case nonempty (cn_rulePayload c) of Some p \<Rightarrow> js '' ('' @ p @ js '')'' | None \<Rightarrow> [])"

definition ov_row :: "date_env \<Rightarrow> int \<Rightarrow> connection \<Rightarrow> conn_row" where
  "ov_row env now c =
     (let m = cn_metadata c;
          host = str_or_text (str_or (Option.bind m cm_host) (Option.bind m cm_destinationIP)) em_dash
      in \<lparr>cr_display = (case nonempty (Option.bind m cm_destinationPort) of Some p \<Rightarrow> host @ [58] @ p | None \<Rightarrow> host),
          cr_network = or_default (Option.bind m cm_network) em_dash,
          cr_chains = or_default (map_option (join [32, 8594, 32]) (cn_chains c)) em_dash,
          cr_rule = or_default (cn_rule c) em_dash @ rule_suffix c,
          cr_traffic = [8593] @ formatBytes (or_default (cn_upload c) (num 0)) @ [32, 8595] @
            formatBytes (or_default (cn_download c) (num 0)),
          cr_duration = (case nonempty (cn_start c) of Some s \<Rightarrow> formatDuration env now s | None \<Rightarrow> em_dash),
          cr_addRule = nonempty (Option.bind m cm_host)\<rparr>)"

text \<open>
  The search of \<open>connection-table.tsx\<close>: \<open>c.metadata.host\<close> raises when a connection has no
  metadata, also while rendering; the filter stops at the first such connection.
\<close>

definition ct_matches :: "(jstring \<Rightarrow> jstring) \<Rightarrow> jstring \<Rightarrow> connection \<Rightarrow> bool result" where
  "ct_matches lower search c =
     (if search = [] then Inr True
      else case cn_metadata c of
        None \<Rightarrow> Inl TypeError
      | Some m \<Rightarrow>
          (let term = lower search; has = (\<lambda>s. str_includes (lower s) term)
           in Inr ((case cm_host m of Some h \<Rightarrow> has h | None \<Rightarrow> False) \<or>
                   (case cn_rule c of Some r \<Rightarrow> has r | None \<Rightarrow> False) \<or>
                   (case cn_chains c of Some chs \<Rightarrow> list_ex has chs | None \<Rightarrow> False))))"

fun ct_filtered :: "(jstring \<Rightarrow> jstring) \<Rightarrow> jstring \<Rightarrow> connection list \<Rightarrow> connection list result" where
  "ct_filtered lower search [] = Inr []"
| "ct_filtered lower search (c # cs) =
     (case ct_matches lower search c of
        Inl e \<Rightarrow> Inl e
      | Inr b \<Rightarrow> map_result (\<lambda>cs'. if b then c # cs' else cs') (ct_filtered lower search cs))"

record ct_row_view =
  tr_host :: jstring
  tr_network :: "jstring option"
  tr_type :: "jstring option"
  tr_chains :: "jstring list"
  tr_rule :: jstring
  tr_download :: jstring
  tr_upload :: jstring
  tr_time :: jstring
  tr_addRule :: "jstring option"

definition ct_row :: "date_env \<Rightarrow> int \<Rightarrow> connection \<Rightarrow> ct_row_view result" where
  "ct_row env now c = (case cn_metadata c of
     None \<Rightarrow> Inl TypeError
   | Some m \<Rightarrow> Inr
       \<lparr>tr_host = or_default (cm_host m) [] @
          (case nonempty (cm_destinationPort m) of Some p \<Rightarrow> [58] @ p | None \<Rightarrow> []),
        tr_network = cm_network m, tr_type = cm_type m, tr_chains = or_default (cn_chains c) [],
        tr_rule = or_default (cn_rule c) [] @ rule_suffix c,
        tr_download = ct_formatBytes (or_default (cn_download c) NaN), tr_upload = ct_formatBytes (or_default (cn_upload c) NaN),
        tr_time = (case cn_start c of Some s \<Rightarrow> formatRelativeTime env now s | None \<Rightarrow> js ''NaNh ago''),
        tr_addRule = nonempty (cm_host m)\<rparr>)"

section \<open>Ages\<close>

lemma elapsed_num:
  assumes "parse_date env s = Some t" "\<bar>now - t\<bar> < 2 ^ 53"
  shows "elapsed_ms env now s = num (now - t)"
  using rnd_int [OF assms(2)] assms(1) by (simp add: elapsed_ms_def num_sub_def num_def)

lemma num_str_nat: "0 \<le> n \<Longrightarrow> n < 2 ^ 53 \<Longrightarrow> num_str (num n) = int_str n"
  by (rule num_str_num) simp

text \<open>
  The age of a connection reads as whole units of the time elapsed. For a start in the past the
  text is the number of full seconds below a minute, minutes and seconds below an hour, hours and
  minutes from then on, each the exact integer quotient although the code divides doubles.
\<close>

theorem formatDuration_spec:
  assumes "parse_date env s = Some t" "t \<le> now" "now - t < 2 ^ 53"
  defines "sec \<equiv> (now - t) div 1000"
  shows "formatDuration env now s =
    (if sec < 60 then int_str sec @ js ''s''
     else if sec < 3600 then int_str (sec div 60) @ js ''m'' @ int_str (sec mod 60) @ js ''s''
     else int_str (sec div 3600) @ js ''h'' @ int_str (sec div 60 mod 60) @ js ''m'')"
proof -
  have d: "0 \<le> now - t" "\<bar>now - t\<bar> < 2 ^ 53" using assms(2,3) by simp_all
  have s0: "0 \<le> sec" using d(1) by (simp add: sec_def pos_imp_zdiv_nonneg_iff)
  have "sec * 1000 \<le> now - t" unfolding sec_def by (metis add.commute div_mult_mod_eq le_add_same_cancel1 pos_mod_sign zero_less_numeral)
  then have s1: "sec < 2 ^ 53" using s0 assms(3) by linarith
  have sec: "num_floor (num_div (elapsed_ms env now s) (num 1000)) = num sec"
    unfolding elapsed_num [OF assms(1) d(2)] sec_def by (rule floor_quotient) (use d assms(3) in simp_all)
  have q: "0 \<le> x \<Longrightarrow> x < 2 ^ 53 \<Longrightarrow> num_floor (num_div (num x) (num 60)) = num (x div 60)" for x
    by (rule floor_quotient) simp_all
  have b: "0 \<le> x div 60" "x div 60 \<le> x" if "0 \<le> x" for x :: int
    using that by (simp_all add: pos_imp_zdiv_nonneg_iff)
  have m: "0 \<le> sec div 60" "sec div 60 < 2 ^ 53" using b [OF s0] s1 by linarith+
  have h: "0 \<le> sec div 60 div 60" "sec div 60 div 60 < 2 ^ 53" using b [OF m(1)] m(2) by linarith+
  have r: "0 \<le> x mod 60" "x mod 60 < 2 ^ 53" for x :: int
    using pos_mod_bound [of 60 x] by simp_all
  have c: "sec div 60 < 60 \<longleftrightarrow> sec < 3600" "sec div 60 div 60 = sec div 3600"
    by (simp_all add: zdiv_zmult2_eq [symmetric]) linarith
  note simps = sec q [OF s0 s1] q [OF m] num_rem_num num_str_nat [OF s0 s1] num_str_nat [OF m] num_str_nat [OF h]
    num_str_nat [OF r] s0 m(1)
  show ?thesis unfolding formatDuration_def Let_def by (simp add: simps c [symmetric])
qed

definition utc_env :: date_env where
  "utc_env = \<lparr>parse_date = (\<lambda>_. Some 0), date_format = (\<lambda>_ _ _. None)\<rparr>"

theorem formatDuration_spec_witness: "formatDuration utc_env 3725999 [] = js ''1h2m''"
  using formatDuration_spec [of utc_env "[]" 0 3725999]
  by (simp add: utc_env_def int_str_def dec_digits_eval js_def)

section \<open>The guessed rule\<close>

lemma includes_unit: "str_includes s [u] \<longleftrightarrow> u \<in> set s"
  by (induction s) (auto simp: starts_with_def)

lemma digits_no_dot: "digit_group g \<Longrightarrow> 46 \<notin> set g"
  by (auto simp: digit_group_def list_all_iff is_digit_def)

lemma dotted_quad_iff:
  "dotted_quad host \<longleftrightarrow> (\<exists>a b c d. digit_group a \<and> digit_group b \<and> digit_group c \<and> digit_group d \<and>
     host = a @ [46] @ b @ [46] @ c @ [46] @ d)"
proof
  assume q: "dotted_quad host"
  then obtain a b c d where "split_units (\<lambda>u. u = 46) host = [a, b, c, d]"
    by (auto simp: dotted_quad_def Let_def numeral_eq_Suc length_Suc_conv)
  with q join_split [of 46 host] show "\<exists>a b c d. digit_group a \<and> digit_group b \<and> digit_group c \<and> digit_group d \<and>
     host = a @ [46] @ b @ [46] @ c @ [46] @ d"
    by (auto simp: dotted_quad_def Let_def)
next
  assume "\<exists>a b c d. digit_group a \<and> digit_group b \<and> digit_group c \<and> digit_group d \<and>
     host = a @ [46] @ b @ [46] @ c @ [46] @ d"
  then obtain a b c d where g: "digit_group a" "digit_group b" "digit_group c" "digit_group d"
    and "host = join [46] [a, b, c, d]" by auto
  moreover have "split_units (\<lambda>u. u = 46) (join [46] [a, b, c, d]) = [a, b, c, d]"
    by (rule split_units_join) (use g digits_no_dot in auto)
  ultimately show "dotted_quad host" by (simp add: dotted_quad_def)
qed

text \<open>
  The rule offered for a connection matches its host. A host of four groups of one to three
  digits between dots becomes an IP-CIDR rule for that single address, a host with a colon an
  IP-CIDR6 rule, any other host a DOMAIN rule for the host itself; an address that already has a
  prefix length keeps it, and none is ever added twice.
\<close>

theorem guessRuleType_cases:
  "rg_type (guessRuleType host) =
     (if 58 \<in> set host then ''IP-CIDR6''
      else if \<exists>a b c d. digit_group a \<and> digit_group b \<and> digit_group c \<and> digit_group d \<and>
        host = a @ [46] @ b @ [46] @ c @ [46] @ d then ''IP-CIDR''
      else ''DOMAIN'') \<and>
   rg_payload (guessRuleType host) =
     (if rg_type (guessRuleType host) = ''DOMAIN'' \<or> 47 \<in> set host then host
      else host @ (if 58 \<in> set host then js ''/128'' else js ''/32''))"
  unfolding dotted_quad_iff [symmetric]
  by (auto simp: guessRuleType_def isIP_def includes_unit dotted_quad_def digit_group_def)

text \<open>The copies of the two files agree.\<close>

lemma copies_agree: "ct_formatBytes b = formatBytes b" "ct_guessRuleType host = guessRuleType host"
proof -
  have "num_mul (num 1024) (num 1024) = num 1048576"
    using rnd_int [of 1048576] by (simp add: num_def)
  then show "ct_formatBytes b = formatBytes b" by (simp add: ct_formatBytes_def formatBytes_def)
  show "ct_guessRuleType host = guessRuleType host"
    by (simp add: ct_guessRuleType_def guessRuleType_def ct_isIP_def isIP_def)
qed

section \<open>Closing and searching\<close>

text \<open>
  Closing a connection. When the backend accepts, exactly the connections with that id leave
  the list and nothing is reported; when it does not, the list is unchanged and one failure is
  shown. Nothing else of the page changes, and the handler always returns.
\<close>

theorem close_connection_outcome:
  "\<exists>w'. ov_handleCloseConnection server i w = (Inr (), w') \<and>
     (case answered server (runtimeApi_closeConnection i) w of
        Inr _ \<Rightarrow> w_page w' = (w_page w)\<lparr>co_connections := filter (\<lambda>c. cn_id c \<noteq> i) (co_connections (w_page w))\<rparr> \<and>
          w_toasts w' = w_toasts w
      | Inl _ \<Rightarrow> w_page w' = w_page w \<and>
          w_toasts w' = w_toasts w @ [Failure (Key ''overview.closeConnFailed'' [])])"
  by (rule wp_total) (simp add: ov_handleCloseConnection_def close_connection_def split: sum.split)

text \<open>A search over connections that all have metadata never fails and keeps exactly the matches.\<close>

lemma ct_filtered_total:
  "\<forall>c \<in> set cs. cn_metadata c \<noteq> None \<Longrightarrow>
    ct_filtered lower search cs = Inr (filter (\<lambda>c. ct_matches lower search c = Inr True) cs)"
  by (induction cs) (auto simp: ct_matches_def Let_def split: option.splits)

lemma ct_filtered_raises:
  assumes "search \<noteq> []"
  shows "(\<exists>cs'. ct_filtered lower search cs = Inr cs') \<longleftrightarrow> (\<forall>c \<in> set cs. cn_metadata c \<noteq> None)"
  using assms by (induction cs) (auto simp: ct_matches_def Let_def split: option.splits sum.splits)

end
