(* ===== verification/Overview.thy ===== *)
theory Overview
  imports Proxy_List Connections
begin

text \<open>
  \<open>pages/overview.tsx\<close> beyond its connection list: the version check, the proxies with their
  delays, and testing all of them.
\<close>

record overview_page = conns +
  ov_version :: "jstring option"
  ov_reachable :: "bool option"
  ov_dbProxies :: "proxy list"
  ov_delays :: "jstring \<Rightarrow> delay_state option"
  ov_testingAll :: bool

definition initial_overview :: overview_page where
  "initial_overview = \<lparr>co_connections = [], co_loading = False, co_ruleFormOpen = False, co_ruleInitial = None,
     ov_version = None, ov_reachable = None, ov_dbProxies = [], ov_delays = (\<lambda>_. None), ov_testingAll = False\<rparr>"

definition ov_fetchVersion :: "'b server \<Rightarrow> (('b, overview_page) world, unit) io" where
  "ov_fetchVersion server =
     io_catch
       (io_bind (api server runtimeApi_version) (\<lambda>res.
        let d = opt_member res ''data''; v = coalesce (opt_member d ''version'') d
        in page (\<lambda>p. p\<lparr>ov_version := Some (case v of JStr s \<Rightarrow> s | _ \<Rightarrow> js ''unknown''), ov_reachable := Some True\<rparr>)))
       (\<lambda>_. page (\<lambda>p. p\<lparr>ov_reachable := Some False\<rparr>))"

definition ov_fetchProxies :: "'b server \<Rightarrow> (jsval \<Rightarrow> proxy list) \<Rightarrow> (('b, overview_page) world, unit) io" where
  "ov_fetchProxies server as_proxies =
     io_catch
       (io_bind (api server (proxiesApi_list [])) (\<lambda>res.
        io_bind (io_lift (member res ''data'')) (\<lambda>d.
        page (\<lambda>p. p\<lparr>ov_dbProxies := as_proxies (coalesce d (JArr []))\<rparr>))))
       (\<lambda>_. io_return ())"

text \<open>The effect on mount; the first connections are fetched like every later batch.\<close>

definition ov_mount :: "'b server \<Rightarrow> (jsval \<Rightarrow> connection) \<Rightarrow> (jsval \<Rightarrow> proxy list) \<Rightarrow> (('b, overview_page) world, unit) io" where
  "ov_mount server as_connection as_proxies =
     io_then (ov_fetchVersion server)
       (io_then (ov_fetchConnections server as_connection) (ov_fetchProxies server as_proxies))"

datatype status_badge = Checking | Reachable jstring | Unreachable_Badge

definition ov_status :: "overview_page \<Rightarrow> status_badge" where
  "ov_status p = (case ov_reachable p of
     None \<Rightarrow> Checking
   | Some True \<Rightarrow> Reachable (js ''mihomo '' @ or_default (ov_version p) [])
   | Some False \<Rightarrow> Unreachable_Badge)"

definition ov_set_delay :: "proxy \<Rightarrow> delay_state \<Rightarrow> (('b, overview_page) world, unit) io" where
  "ov_set_delay px d = page (\<lambda>p. p\<lparr>ov_delays := (ov_delays p)(px_id px := Some d)\<rparr>)"

definition ov_testOneDelay :: "'b server \<Rightarrow> proxy \<Rightarrow> (('b, overview_page) world, unit) io" where
  "ov_testOneDelay server px =
     io_then (ov_set_delay px Testing)
       (io_catch
         (io_bind (io_bind (io_lift (runtimeApi_proxyDelay (px_name px) None None)) (api server))
           (\<lambda>res. ov_set_delay px (delay_outcome (Inr res))))
         (\<lambda>e. ov_set_delay px (delay_outcome (Inl e))))"

definition ov_begin_all :: "overview_page \<Rightarrow> proxy list \<times> overview_page" where
  "ov_begin_all p = (ov_dbProxies p, p\<lparr>ov_testingAll := True\<rparr>)"

definition ov_end_all :: "overview_page \<Rightarrow> overview_page" where
  "ov_end_all p = p\<lparr>ov_testingAll := False\<rparr>"

definition OV_COUNTRY_FLAG :: "(string \<times> jstring) list" where
  "OV_COUNTRY_FLAG =
     [(''HK'', utf16 0x1F1ED @ utf16 0x1F1F0), (''TW'', utf16 0x1F1F9 @ utf16 0x1F1FC),
      (''JP'', utf16 0x1F1EF @ utf16 0x1F1F5), (''KR'', utf16 0x1F1F0 @ utf16 0x1F1F7),
      (''SG'', utf16 0x1F1F8 @ utf16 0x1F1EC), (''US'', utf16 0x1F1FA @ utf16 0x1F1F8),
      (''GB'', utf16 0x1F1EC @ utf16 0x1F1E7), (''DE'', utf16 0x1F1E9 @ utf16 0x1F1EA),
      (''FR'', utf16 0x1F1EB @ utf16 0x1F1F7), (''CA'', utf16 0x1F1E8 @ utf16 0x1F1E6),
      (''AU'', utf16 0x1F1E6 @ utf16 0x1F1FA), (''IN'', utf16 0x1F1EE @ utf16 0x1F1F3),
      (''RU'', utf16 0x1F1F7 @ utf16 0x1F1FA), (''TR'', utf16 0x1F1F9 @ utf16 0x1F1F7)]"

definition ov_country :: "proxy \<Rightarrow> keyed" where
  "ov_country px = (case nonempty (px_country px) of
     None \<Rightarrow> Own em_dash
   | Some code \<Rightarrow> (case map_of (map (\<lambda>(c, f). (js c, f)) OV_COUNTRY_FLAG) code of
       Some flag \<Rightarrow> Own (flag @ [32] @ code)
     | None \<Rightarrow> if code \<in> set prototype_keys then Inherited code else Own code))"

record proxy_row =
  ow_name :: jstring
  ow_country :: keyed
  ow_type :: jstring
  ow_delay :: delay_cell
  ow_disabled :: bool

definition ov_proxy_row :: "overview_page \<Rightarrow> proxy \<Rightarrow> proxy_row" where
  "ov_proxy_row p px =
     \<lparr>ow_name = px_name px, ow_country = ov_country px, ow_type = px_type px,
      ow_delay = delay_cell (ov_delays p (px_id px)), ow_disabled = (ov_delays p (px_id px) = Some Testing)\<rparr>"

section \<open>Testing delays\<close>

interpretation overview: delay_board px_id "\<lambda>_. Testing" "\<lambda>a _. delay_outcome a" "\<lambda>d. d = Testing"
  by unfold_locales (auto simp: delay_outcome_def Let_def split: sum.splits jsval.splits)

fun ov_apply_event :: "proxy event \<Rightarrow> overview_page \<Rightarrow> overview_page" where
  "ov_apply_event (Started px) p = p\<lparr>ov_delays := (ov_delays p)(px_id px := Some Testing)\<rparr>"
| "ov_apply_event (Answered px a) p = p\<lparr>ov_delays := (ov_delays p)(px_id px := Some (delay_outcome a))\<rparr>"

lemma ov_apply_events: "fold ov_apply_event es p = p\<lparr>ov_delays := overview.run es (ov_delays p)\<rparr>"
proof (induction es arbitrary: p)
  case (Cons e es)
  then show ?case by (cases e) (simp_all add: overview.run_def overview.step_def)
qed (simp add: overview.run_def)

lemma ov_testOneDelay_events:
  "wp (ov_testOneDelay server px) (\<lambda>_ v. \<exists>a. w_page v = fold ov_apply_event [Started px, Answered px a] (w_page w))
     (\<lambda>_ _. False) w"
proof -
  have "wp (ov_testOneDelay server px) (\<lambda>_ v. \<exists>a. w_page v =
      (w_page w)\<lparr>ov_delays := (ov_delays (w_page w))(px_id px := Some (delay_outcome a))\<rparr>) (\<lambda>_ _. False) w"
    unfolding ov_testOneDelay_def ov_set_delay_def by (auto split: sum.splits)
  then show ?thesis by simp
qed

text \<open>
  On the overview no spinner outlives its test. Through any interleaving of delay tests in which
  no test is answered before it is started, a proxy shown as testing has a test under way: as many
  of its tests have been answered as started otherwise, and its cell shows a result.
\<close>

theorem overview_spinner_has_test:
  assumes "overview.valid es" "\<forall>k. ov_delays p k \<noteq> Some Testing"
    and "ow_delay (ov_proxy_row (fold ov_apply_event es p) px) = Spinner"
  shows "overview.pending (px_id px) es \<and> ow_disabled (ov_proxy_row (fold ov_apply_event es p) px)"
proof -
  have t: "ov_delays (fold ov_apply_event es p) (px_id px) = Some Testing"
    using assms(3) by (auto simp: ov_proxy_row_def delay_cell_def split: option.splits delay_state.splits if_splits)
  then have "overview.run es (ov_delays p) (px_id px) = Some Testing" by (simp add: ov_apply_events)
  then show ?thesis using overview.running_pending [OF assms(1)] assms(2) t by (auto simp: ov_proxy_row_def)
qed

theorem overview_spinner_has_test_witness:
  "overview.pending (js ''7'') [Started sample_proxy]"
proof -
  have v: "overview.valid [Started sample_proxy]"
    by (auto simp: overview.valid_def overview.answers_def take_Cons' filter_empty_conv split: if_splits)
  have d: "\<forall>k. ov_delays initial_overview k \<noteq> Some Testing" by (simp add: initial_overview_def)
  have s: "ow_delay (ov_proxy_row (fold ov_apply_event [Started sample_proxy] initial_overview) sample_proxy) = Spinner"
    by (simp add: ov_proxy_row_def delay_cell_def)
  show ?thesis using overview_spinner_has_test [OF v d s] by (simp add: sample_proxy_def)
qed

end
