(* ===== verification/Runtime_Page.thy ===== *)
theory Runtime_Page
  imports Connections
begin

text \<open>
  The tabs of \<open>pages/runtime.tsx\<close> and \<open>components/runtime/log-viewer.tsx\<close>: the proxy groups with
  delay tests and the switch of a group's member, the rules, and the providers. JavaScript objects
  that are used as tables keyed by name are association lists, in the order of their properties.
\<close>

section \<open>State\<close>

record proxy_info =
  pi_name :: jstring
  pi_type :: jstring
  pi_now :: "jstring option"
  pi_all :: "jstring list option"
  pi_history :: "jsval list option"

text \<open>A delay: never tested, or the value recorded, a number or null.\<close>

record rt_cell =
  rc_delay :: "jsnum option option"
  rc_testing :: bool

record proxies_tab =
  rt_proxies :: "(jstring \<times> proxy_info) list"
  rt_loading :: bool
  rt_cells :: "jstring \<Rightarrow> rt_cell option"
  rt_switching :: "jstring \<Rightarrow> bool"

definition cell_of :: "rt_cell option \<Rightarrow> rt_cell" where
  "cell_of d = or_default d \<lparr>rc_delay = None, rc_testing = False\<rparr>"

section \<open>Proxies\<close>

definition rt_fetchProxies :: "'b server \<Rightarrow> (jsval \<Rightarrow> (jstring \<times> proxy_info) list) \<Rightarrow> (('b, proxies_tab) world, unit) io" where
  "rt_fetchProxies server as_table =
     io_finally
       (io_catch
         (io_bind (api server runtimeApi_proxies) (\<lambda>res.
          let d = opt_member (opt_member res ''data'') ''proxies''
          in page (\<lambda>p. p\<lparr>rt_proxies := (if truthy d then as_table d else [])\<rparr>)))
         (\<lambda>_. page (\<lambda>p. p\<lparr>rt_proxies := []\<rparr>)))
       (page (\<lambda>p. p\<lparr>rt_loading := False\<rparr>))"

definition rt_begin :: "rt_cell option \<Rightarrow> rt_cell" where
  "rt_begin d = (cell_of d)\<lparr>rc_testing := True\<rparr>"

text \<open>\<open>res?.data?.delay ?? res?.data\<close>: a number as it is, anything else null; a failure counts as \<open>-1\<close>.\<close>

definition rt_measured :: "thrown + jsval \<Rightarrow> jsnum option" where
  "rt_measured a = (case a of
     Inl _ \<Rightarrow> Some (num (- 1))
   | Inr res \<Rightarrow>
       (let d = opt_member res ''data''
        in case coalesce (opt_member d ''delay'') d of JNum n \<Rightarrow> Some n | _ \<Rightarrow> None))"

definition rt_end :: "thrown + jsval \<Rightarrow> rt_cell option \<Rightarrow> rt_cell" where
  "rt_end a d = (cell_of d)\<lparr>rc_delay := Some (rt_measured a), rc_testing := False\<rparr>"

definition set_cell :: "jstring \<Rightarrow> (rt_cell option \<Rightarrow> rt_cell) \<Rightarrow> (('b, proxies_tab) world, unit) io" where
  "set_cell name f = page (\<lambda>p. p\<lparr>rt_cells := (rt_cells p)(name := Some (f (rt_cells p name)))\<rparr>)"

definition record_delay :: "jstring \<Rightarrow> thrown + jsval \<Rightarrow> (('b, proxies_tab) world, unit) io" where
  "record_delay name a = set_cell name (\<lambda>d. (cell_of d)\<lparr>rc_delay := Some (rt_measured a)\<rparr>)"

definition handleTestDelay :: "'b server \<Rightarrow> jstring \<Rightarrow> (('b, proxies_tab) world, unit) io" where
  "handleTestDelay server name =
     io_then (set_cell name rt_begin)
       (io_finally
         (io_catch
           (io_bind (io_bind (io_lift (runtimeApi_proxyDelay name None None)) (api server))
             (\<lambda>res. record_delay name (Inr res)))
           (\<lambda>e. record_delay name (Inl e)))
         (set_cell name (\<lambda>d. (cell_of d)\<lparr>rc_testing := False\<rparr>)))"

definition switch_key :: "jstring \<Rightarrow> jstring \<Rightarrow> jstring" where
  "switch_key g mem = g @ [58] @ mem"

text \<open>The flag of a running switch is shared by the buttons whose group and member read alike around a colon.\<close>

lemma switch_key_shared: "switch_key (g @ [58] @ x) m = switch_key g (x @ [58] @ m)"
  by (simp add: switch_key_def)

text \<open>\<open>{ ...prev, [g]: { ...prev[g], now } }\<close>: the entry is replaced in place, or added at the end.\<close>

definition set_now :: "jstring \<Rightarrow> jstring \<Rightarrow> (jstring \<times> proxy_info) list \<Rightarrow> (jstring \<times> proxy_info) list" where
  "set_now g mem tab =
     (if map_of tab g = None then
        tab @ [(g, \<lparr>pi_name = [], pi_type = [], pi_now = Some mem, pi_all = None, pi_history = None\<rparr>)]
      else map (\<lambda>(k, v). if k = g then (k, v\<lparr>pi_now := Some mem\<rparr>) else (k, v)) tab)"

definition handleSwitch :: "'b server \<Rightarrow> jstring \<Rightarrow> jstring \<Rightarrow> (('b, proxies_tab) world, unit) io" where
  "handleSwitch server g mem =
     io_then (page (\<lambda>p. p\<lparr>rt_switching := (rt_switching p)(switch_key g mem := True)\<rparr>))
       (io_finally
         (io_catch
           (io_then (io_bind (io_lift (runtimeApi_switchProxy g mem)) (api server))
             (io_then (page (\<lambda>p. p\<lparr>rt_proxies := set_now g mem (rt_proxies p)\<rparr>))
               (toast (Success (Key ''runtime.switchedTo'' [(''name'', mem)])))))
           (\<lambda>_. toast (Failure (Key ''runtime.switchFailed'' []))))
         (page (\<lambda>p. p\<lparr>rt_switching := (rt_switching p)(switch_key g mem := False)\<rparr>)))"

datatype delay_badge = No_Badge | Timeout_Badge | Green jsnum | Yellow jsnum | Red jsnum

text \<open>\<open>d !== undefined ? d : hist?.[hist.length - 1]?.delay\<close>; what is not a number is kept out of the comparison by the type.\<close>

definition last_delay :: "rt_cell option \<Rightarrow> jsval list option \<Rightarrow> jsnum option" where
  "last_delay d hist = (case rc_delay (cell_of d) of
     Some r \<Rightarrow> r
   | None \<Rightarrow> (case hist of
       Some h \<Rightarrow> (if h = [] then None
         else case opt_member (h ! (length h - 1)) ''delay'' of JNum n \<Rightarrow> Some n | _ \<Rightarrow> None)
     | None \<Rightarrow> None))"

definition delayBadge :: "rt_cell option \<Rightarrow> jsval list option \<Rightarrow> delay_badge" where
  "delayBadge d hist = (case last_delay d hist of
     None \<Rightarrow> No_Badge
   | Some n \<Rightarrow> if num_lt n (num 0) then Timeout_Badge
       else if num_lt n (num 100) then Green n else if num_lt n (num 300) then Yellow n else Red n)"

definition group_types :: "string list" where
  "group_types = [''Selector'', ''URLTest'', ''Fallback'', ''LoadBalance'', ''Relay'']"

definition proxy_groups_shown :: "proxies_tab \<Rightarrow> proxy_info list" where
  "proxy_groups_shown p = filter (\<lambda>i. pi_type i \<in> set (map js group_types)) (map snd (rt_proxies p))"

record member_row =
  mr_name :: jstring
  mr_selected :: bool
  mr_type :: "jstring option"
  mr_badge :: delay_badge
  mr_testing :: bool
  mr_switch :: "bool option"

definition member_row :: "proxies_tab \<Rightarrow> proxy_info \<Rightarrow> jstring \<Rightarrow> member_row" where
  "member_row p g name =
     (let mem = map_of (rt_proxies p) name; selected = (pi_now g = Some name)
      in \<lparr>mr_name = name, mr_selected = selected, mr_type = map_option pi_type mem,
          mr_badge = delayBadge (rt_cells p name) (Option.bind mem pi_history),
          mr_testing = rc_testing (cell_of (rt_cells p name)),
          mr_switch = (if pi_type g = js ''Selector'' \<and> \<not> selected
            then Some (rt_switching p (switch_key (pi_name g) name)) else None)\<rparr>)"

definition member_rows :: "proxies_tab \<Rightarrow> proxy_info \<Rightarrow> member_row list" where
  "member_rows p g = map (member_row p g) (or_default (pi_all g) [])"

section \<open>Rules and providers\<close>

definition rules_payload :: "jsval \<Rightarrow> jsval" where
  "rules_payload data = (case data of
     JArr xs \<Rightarrow> JArr xs
   | _ \<Rightarrow> (if truthy (opt_member data ''rules'') then opt_member data ''rules'' else JArr []))"

record rules_tab =
  rl_rules :: jsval
  rl_loading :: bool

definition fetchRules :: "'b server \<Rightarrow> (('b, rules_tab) world, unit) io" where
  "fetchRules server =
     io_finally
       (io_catch
         (io_bind (api server runtimeApi_rules) (\<lambda>res.
          page (\<lambda>p. p\<lparr>rl_rules := rules_payload (opt_member res ''data'')\<rparr>)))
         (\<lambda>_. page (\<lambda>p. p\<lparr>rl_rules := JArr []\<rparr>)))
       (page (\<lambda>p. p\<lparr>rl_loading := False\<rparr>))"

record providers_tab =
  pt_providers :: "(jstring \<times> jsval) list"
  pt_loading :: bool
  pt_refreshing :: "jstring \<Rightarrow> bool"

text \<open>A value used as a table: only an object has properties of its own here.\<close>

definition as_table :: "jsval \<Rightarrow> (jstring \<times> jsval) list" where
  "as_table v = (case v of JObj kvs \<Rightarrow> kvs | _ \<Rightarrow> [])"

definition pt_fetchProviders :: "'b server \<Rightarrow> (('b, providers_tab) world, unit) io" where
  "pt_fetchProviders server =
     io_finally
       (io_catch
         (io_bind (api server runtimeApi_providers) (\<lambda>res.
          page (\<lambda>p. p\<lparr>pt_providers := as_table (opt_member (opt_member res ''data'') ''providers'')\<rparr>)))
         (\<lambda>_. page (\<lambda>p. p\<lparr>pt_providers := []\<rparr>)))
       (page (\<lambda>p. p\<lparr>pt_loading := False\<rparr>))"

definition handleRefresh :: "'b server \<Rightarrow> jstring \<Rightarrow> (('b, providers_tab) world, unit) io" where
  "handleRefresh server name =
     io_then (page (\<lambda>p. p\<lparr>pt_refreshing := (pt_refreshing p)(name := True)\<rparr>))
       (io_finally
         (io_catch
           (io_then (io_bind (io_lift (runtimeApi_refreshProvider name)) (api server))
             (io_then (toast (Success (Key ''runtime.providerRefreshed'' [(''name'', name)])))
               (pt_fetchProviders server)))
           (\<lambda>_. toast (Failure (Key ''runtime.providerRefreshFailed'' [(''name'', name)]))))
         (page (\<lambda>p. p\<lparr>pt_refreshing := (pt_refreshing p)(name := False)\<rparr>)))"

definition provider_count :: "jsval \<Rightarrow> message option" where
  "provider_count provider = (case opt_member provider ''ruleCount'' of
     Undef \<Rightarrow> None | Null \<Rightarrow> None | v \<Rightarrow> Some (Key ''runtime.rules_count'' [(''count'', to_str v)]))"

section \<open>Logs\<close>

definition LEVEL_CLASSES :: "(string \<times> string) list" where
  "LEVEL_CLASSES =
     [(''error'', ''text-red-500 dark:text-red-400''), (''warning'', ''text-yellow-600 dark:text-yellow-400''),
      (''warn'', ''text-yellow-600 dark:text-yellow-400''), (''info'', ''text-blue-600 dark:text-blue-400''),
      (''debug'', ''text-muted-foreground'')]"

definition level_class :: "(jstring \<Rightarrow> jstring) \<Rightarrow> jstring option \<Rightarrow> keyed" where
  "level_class lower ty =
     (let level = or_default (map_option lower ty) (js ''info'')
      in case table_get LEVEL_CLASSES level of Some k \<Rightarrow> k | None \<Rightarrow> Own (js ''text-foreground''))"

section \<open>Delay tests\<close>

interpretation runtime: delay_board "\<lambda>n. n" rt_begin rt_end rc_testing
  by unfold_locales (simp_all add: rt_begin_def rt_end_def)

lemma handleTestDelay_cells:
  "wp (handleTestDelay server name) (\<lambda>_ v. \<exists>a. w_page v =
       (w_page w)\<lparr>rt_cells := runtime.run [Started name, Answered name a] (rt_cells (w_page w))\<rparr> \<and>
       w_toasts v = w_toasts w) (\<lambda>_ _. False) w"
proof -
  have e: "rt_end a (Some (rt_begin d)) =
      (cell_of (Some ((cell_of (Some (rt_begin d)))\<lparr>rc_delay := Some (rt_measured a)\<rparr>)))\<lparr>rc_testing := False\<rparr>" for a d
    by (simp add: rt_end_def rt_begin_def cell_of_def)
  have "wp (handleTestDelay server name) (\<lambda>_ v. \<exists>a. w_page v =
       (w_page w)\<lparr>rt_cells := (rt_cells (w_page w))(name := Some (rt_end a (Some (rt_begin (rt_cells (w_page w) name)))))\<rparr> \<and>
       w_toasts v = w_toasts w) (\<lambda>_ _. False) w"
    unfolding handleTestDelay_def set_cell_def record_delay_def e by (auto split: sum.splits)
  then show ?thesis by (simp add: runtime.run_def runtime.step_def)
qed

text \<open>
  Testing several proxies at once on the runtime page. However the tests interleave, a proxy
  whose own events are one start and one answer ends not testing and with the delay of that answer;
  when the test failed the badge says timeout, and a proxy without events keeps what it had.
\<close>

theorem runtime_tests_interleave:
  assumes "filter (\<lambda>e. event_row e = name) es = [Started name, Answered name a]"
  shows "\<exists>c. runtime.run es b name = Some c \<and> \<not> rc_testing c \<and> last_delay (Some c) hist = rt_measured a \<and>
      (isl a \<longrightarrow> delayBadge (Some c) hist = Timeout_Badge) \<and>
    (\<forall>k. k \<notin> event_row ` set es \<longrightarrow> runtime.run es b k = b k)"
proof -
  have r: "runtime.run es b name = Some (rt_end a (Some (rt_begin (b name))))"
    by (rule runtime.one_test) (rule assms)
  have u: "k \<notin> event_row ` set es \<Longrightarrow> runtime.run es b k = b k" for k
    by (rule runtime.untouched) (simp add: comp_def)
  show ?thesis using r u
    by (auto simp: rt_end_def rt_begin_def cell_of_def last_delay_def delayBadge_def rt_measured_def isl_def)
qed

theorem runtime_tests_interleave_witness:
  "\<exists>c. runtime.run [Started (js ''a''), Started (js ''b''), Answered (js ''b'') (Inl Unreachable),
       Answered (js ''a'') (Inl Unreachable)] (\<lambda>_. None) (js ''a'') = Some c \<and> \<not> rc_testing c"
  using runtime_tests_interleave [of "js ''a''" "[Started (js ''a''), Started (js ''b''),
      Answered (js ''b'') (Inl Unreachable), Answered (js ''a'') (Inl Unreachable)]" "Inl Unreachable" "\<lambda>_. None" None]
  by auto

section \<open>Switching\<close>

lemma set_now_lookup:
  "map_of (set_now g mem tab) k =
     (if k = g then Some ((case map_of tab g of Some i \<Rightarrow> i
        | None \<Rightarrow> \<lparr>pi_name = [], pi_type = [], pi_now = None, pi_all = None, pi_history = None\<rparr>)\<lparr>pi_now := Some mem\<rparr>)
      else map_of tab k)"
proof -
  have m: "map_of (map (\<lambda>(k, v). if k = g then (k, v\<lparr>pi_now := Some mem\<rparr>) else (k, v)) tab) k =
      map_option (\<lambda>v. if k = g then v\<lparr>pi_now := Some mem\<rparr> else v) (map_of tab k)" for k
    by (induction tab) auto
  show ?thesis
    by (cases "map_of tab g"; cases "map_of tab k") (auto simp: set_now_def m map_add_def split: option.splits)
qed

text \<open>
  Switching a group's member. When the backend accepts, the group shows the new member as
  selected, every other entry of the table is untouched and one success is reported; when it does
  not, or the name has no path, the table is unchanged and one failure is reported. The button is
  enabled again either way.
\<close>

theorem handleSwitch_outcome:
  "\<exists>w'. handleSwitch server g mem w = (Inr (), w') \<and>
     \<not> rt_switching (w_page w') (switch_key g mem) \<and>
     (w_toasts w' = w_toasts w @ [Success (Key ''runtime.switchedTo'' [(''name'', mem)])] \<and>
        (\<forall>k. map_of (rt_proxies (w_page w')) k =
           (if k = g then map_of (set_now g mem (rt_proxies (w_page w))) g else map_of (rt_proxies (w_page w)) k)) \<and>
        Option.bind (map_of (rt_proxies (w_page w')) g) pi_now = Some mem
      \<or> w_toasts w' = w_toasts w @ [Failure (Key ''runtime.switchFailed'' [])] \<and>
        rt_proxies (w_page w') = rt_proxies (w_page w))"
  by (rule wp_total) (auto simp: handleSwitch_def set_now_lookup split: sum.split option.splits)

end
