(* ===== verification/Json.thy ===== *)
theory Json
  imports Js_Value
begin

text \<open>
  \<open>JSON.parse\<close> on texts, and \<open>JSON.stringify\<close> of a list of numbers, as ECMAScript defines them.
  Every call of the parser consumes fuel; twice the length of the text is enough, because a value
  and what surrounds it take at least one code unit each. The lemmas show that a list of small
  integers survives writing and reading.
\<close>

definition json_space :: "nat \<Rightarrow> bool" where
  "json_space u \<longleftrightarrow> u = 32 \<or> u = 9 \<or> u = 10 \<or> u = 13"

definition skip_space :: "jstring \<Rightarrow> jstring" where
  "skip_space s = dropWhile json_space s"

definition simple_escape :: "nat \<Rightarrow> nat option" where
  "simple_escape c =
     (if c = 34 \<or> c = 92 \<or> c = 47 then Some c else if c = 98 then Some 8 else if c = 102 then Some 12
      else if c = 110 then Some 10 else if c = 114 then Some 13 else if c = 116 then Some 9 else None)"

definition hex4 :: "jstring \<Rightarrow> nat option" where
  "hex4 s = (if length s < 4 then None else radix_val 16 0 (take 4 s))"

text \<open>The rest of a string literal after its opening quote.\<close>

function json_chars :: "jstring \<Rightarrow> (jstring \<times> jstring) option" where
  "json_chars s =
     (case s of
        [] \<Rightarrow> None
      | u # r \<Rightarrow>
          if u = 34 then Some ([], r)
          else if u < 32 then None
          else if u = 92 then
            (case r of
               [] \<Rightarrow> None
             | c # r' \<Rightarrow>
                 if c = 117 then
                   (case hex4 r' of None \<Rightarrow> None
                    | Some x \<Rightarrow> map_option (\<lambda>(cs, t). (x # cs, t)) (json_chars (drop 4 r')))
                 else (case simple_escape c of None \<Rightarrow> None
                    | Some x \<Rightarrow> map_option (\<lambda>(cs, t). (x # cs, t)) (json_chars r')))
          else map_option (\<lambda>(cs, t). (u # cs, t)) (json_chars r))"
  by pat_completeness auto
termination by (relation "measure length") auto

declare json_chars.simps [simp del]

text \<open>A number: no leading zero or plus sign, digits on both sides of a point.\<close>

definition json_number :: "jstring \<Rightarrow> (jsval \<times> jstring) option" where
  "json_number s =
     (let (neg, t) = (case s of u # r \<Rightarrow> if u = 45 then (True, r) else (False, s) | [] \<Rightarrow> (False, s));
          ip = takeWhile is_digit t; r = dropWhile is_digit t;
          (fp, r') = (case r of
             u # r2 \<Rightarrow> if u = 46 \<and> takeWhile is_digit r2 \<noteq> [] then (takeWhile is_digit r2, dropWhile is_digit r2) else ([], r)
           | [] \<Rightarrow> ([], r));
          (e, rest) = exp_part r';
          q = of_nat (digits_val 0 (ip @ fp)) * pow10 (e - int (length fp))
      in if ip = [] \<or> (hd ip = 48 \<and> 1 < length ip) then None
         else Some (JNum (rnd (if neg then - q else q)), rest))"

definition json_literal :: "jstring \<Rightarrow> (jsval \<times> jstring) option" where
  "json_literal s =
     (if starts_with s (js ''true'') then Some (JBool True, drop 4 s)
      else if starts_with s (js ''false'') then Some (JBool False, drop 5 s)
      else if starts_with s (js ''null'') then Some (Null, drop 4 s)
      else json_number s)"

text \<open>A repeated key keeps its first place and its last value.\<close>

fun json_value :: "nat \<Rightarrow> jstring \<Rightarrow> (jsval \<times> jstring) option"
  and json_elements :: "nat \<Rightarrow> jstring \<Rightarrow> (jsval list \<times> jstring) option"
  and json_members :: "nat \<Rightarrow> jstring \<Rightarrow> ((jstring \<times> jsval) list \<times> jstring) option" where
  "json_value 0 s = None"
| "json_value (Suc n) s =
     (case skip_space s of
        [] \<Rightarrow> None
      | u # r \<Rightarrow>
          if u = 34 then map_option (\<lambda>(cs, t). (JStr cs, t)) (json_chars r)
          else if u = 91 then
            (if skip_space r \<noteq> [] \<and> hd (skip_space r) = 93 then Some (JArr [], tl (skip_space r))
             else map_option (\<lambda>(vs, t). (JArr vs, t)) (json_elements n r))
          else if u = 123 then
            (if skip_space r \<noteq> [] \<and> hd (skip_space r) = 125 then Some (JObj [], tl (skip_space r))
             else map_option (\<lambda>(kvs, t). (JObj (fold (\<lambda>(k, v). put k v) kvs []), t)) (json_members n r))
          else json_literal (u # r))"
| "json_elements 0 s = None"
| "json_elements (Suc n) s =
     (case json_value n s of
        None \<Rightarrow> None
      | Some (v, r) \<Rightarrow>
          (case skip_space r of
             [] \<Rightarrow> None
           | c # r' \<Rightarrow>
               if c = 44 then map_option (\<lambda>(vs, t). (v # vs, t)) (json_elements n r')
               else if c = 93 then Some ([v], r') else None))"
| "json_members 0 s = None"
| "json_members (Suc n) s =
     (case skip_space s of
        [] \<Rightarrow> None
      | q # r \<Rightarrow>
          if q \<noteq> 34 then None
          else (case json_chars r of
             None \<Rightarrow> None
           | Some (k, r1) \<Rightarrow>
               (case skip_space r1 of
                  [] \<Rightarrow> None
                | c # r2 \<Rightarrow>
                    if c \<noteq> 58 then None
                    else (case json_value n r2 of
                       None \<Rightarrow> None
                     | Some (v, r3) \<Rightarrow>
                         (case skip_space r3 of
                            [] \<Rightarrow> None
                          | d # r4 \<Rightarrow>
                              if d = 44 then map_option (\<lambda>(kvs, t). ((k, v) # kvs, t)) (json_members n r4)
                              else if d = 125 then Some ([(k, v)], r4) else None)))))"

definition json_parse :: "jstring \<Rightarrow> jsval result" where
  "json_parse s = (case json_value (2 * length s + 2) s of
     Some (v, r) \<Rightarrow> (if skip_space r = [] then Inr v else Inl SyntaxError)
   | None \<Rightarrow> Inl SyntaxError)"

definition stringify_nums :: "jsnum list \<Rightarrow> jstring" where
  "stringify_nums ns = 91 # join [44] (map (\<lambda>n. if is_finite n then num_str n else js ''null'') ns) @ [93]"

section \<open>Lists of small integers\<close>

definition small :: "jsnum \<Rightarrow> bool" where
  "small x \<longleftrightarrow> (\<exists>n :: nat. x = num (int n) \<and> n < 2 ^ 53)"

lemma num_str_small: "n < 2 ^ 53 \<Longrightarrow> num_str (num (int n)) = dec_digits n"
  by (subst num_str_num) (simp_all add: int_str_def)

lemma smallE:
  assumes "small x"
  obtains n where "x = num (int n)" "n < 2 ^ 53" "num_str x = dec_digits n"
  using assms by (auto simp: small_def num_str_small)

lemma dec_digits_hd: "n \<noteq> 0 \<Longrightarrow> hd (dec_digits n) \<noteq> 48"
proof (induction n rule: dec_digits.induct)
  case (1 n)
  then show ?case by (subst dec_digits.simps) (auto simp: hd_append)
qed

lemma dec_digits_zero_hd: "hd (dec_digits n) = 48 \<Longrightarrow> length (dec_digits n) = 1"
  using dec_digits_hd [of n] by (cases "n = 0") (auto simp: dec_digits.simps [of 0])

text \<open>What ends a number in a list.\<close>

definition ends_item :: "nat \<Rightarrow> bool" where
  "ends_item c \<longleftrightarrow> c = 44 \<or> c = 93"

lemma take_digits: "ends_item c \<Longrightarrow> takeWhile is_digit (dec_digits n @ c # t) = dec_digits n \<and>
    dropWhile is_digit (dec_digits n @ c # t) = c # t"
  by (subst takeWhile_append2, use dec_digits_digit in blast, subst dropWhile_append2, use dec_digits_digit in blast)
    (auto simp: ends_item_def is_digit_def)

lemma dec_digits_Cons: obtains u ds where "dec_digits n = u # ds" "is_digit u"
  using dec_digits_not_Nil [of n] dec_digits_digit [of _ n] by (cases "dec_digits n") auto

lemma json_number_digits:
  assumes "n < 2 ^ 53" "ends_item c"
  shows "json_number (dec_digits n @ c # t) = Some (JNum (num (int n)), c # t)"
proof -
  obtain u ds where u: "dec_digits n = u # ds" "is_digit u" by (rule dec_digits_Cons)
  have s: "(case dec_digits n @ c # t of [] \<Rightarrow> (False, dec_digits n @ c # t)
      | u # r \<Rightarrow> if u = 45 then (True, r) else (False, dec_digits n @ c # t)) = (False, dec_digits n @ c # t)"
    using u by (auto simp: is_digit_def)
  have z: "\<not> (hd (dec_digits n) = 48 \<and> 1 < length (dec_digits n))" using dec_digits_zero_hd [of n] by auto
  have e: "exp_part (c # t) = (0, c # t)" using assms(2) by (auto simp: exp_part_def ends_item_def)
  have r: "rnd (of_nat n) = num (int n)" using rnd_int [of "int n"] assms(1) by simp
  show ?thesis
    unfolding json_number_def s Let_def prod.case take_digits [OF assms(2), THEN conjunct1] take_digits [OF assms(2), THEN conjunct2]
    using assms(2) z e r by (auto simp: ends_item_def pow10_def)
qed

lemma json_value_digits:
  assumes "n < 2 ^ 53" "ends_item c"
  shows "json_value (Suc k) (dec_digits n @ c # t) = Some (JNum (num (int n)), c # t)"
proof -
  obtain u ds where u: "dec_digits n = u # ds" "is_digit u" by (rule dec_digits_Cons)
  have d: "\<not> json_space u" "u \<noteq> 34" "u \<noteq> 91" "u \<noteq> 123" "u \<noteq> 116" "u \<noteq> 102" "u \<noteq> 110"
    using u(2) by (auto simp: is_digit_def json_space_def)
  have sk: "skip_space (dec_digits n @ c # t) = u # (ds @ c # t)" using u d by (simp add: skip_space_def)
  have l: "json_literal (u # (ds @ c # t)) = json_number (dec_digits n @ c # t)"
    using d u by (simp add: json_literal_def starts_with_def js_def)
  show ?thesis using d by (simp add: sk l json_number_digits [OF assms])
qed

lemma skip_item: "ends_item c \<Longrightarrow> skip_space (c # t) = c # t"
  by (auto simp: ends_item_def skip_space_def json_space_def)

lemma json_elements_digits:
  assumes "\<forall>n \<in> set ns. n < 2 ^ 53" "ns \<noteq> []" "length ns < k"
  shows "json_elements k (join [44] (map dec_digits ns) @ [93]) = Some (map (\<lambda>n. JNum (num (int n))) ns, [])"
  using assms
proof (induction ns arbitrary: k rule: induct_list012)
  case (2 n)
  then obtain j where "k = Suc (Suc j)" by (cases k; cases "k - 1") auto
  then show ?case using 2 json_value_digits [of n 93 j "[]"] skip_item [of 93 "[]"] by (simp add: ends_item_def)
next
  case (3 n m ns)
  then obtain k' j where k: "k = Suc k'" and j: "k' = Suc j" by (cases k; cases "k - 1") auto
  let ?r = "join [44] (map dec_digits (m # ns)) @ [93]"
  have IH: "json_elements k' ?r = Some (map (\<lambda>n. JNum (num (int n))) (m # ns), [])"
    using 3 k by simp
  have v: "json_value k' (dec_digits n @ 44 # ?r) = Some (JNum (num (int n)), 44 # ?r)"
    unfolding j by (rule json_value_digits) (use 3 in \<open>simp_all add: ends_item_def\<close>)
  have jn: "join [44] (map dec_digits (n # m # ns)) @ [93] = dec_digits n @ 44 # ?r" by simp
  show ?case unfolding jn k json_elements.simps(2) v using IH skip_item [of 44 ?r] by (simp add: ends_item_def)
qed simp

text \<open>Writing a list of small integers and reading it back gives the list.\<close>

lemma json_parse_stringify:
  assumes "\<forall>x \<in> set xs. small x"
  shows "json_parse (stringify_nums xs) = Inr (JArr (map JNum xs))"
proof -
  obtain ns where ns: "xs = map (\<lambda>n. num (int n)) ns" "\<forall>n \<in> set ns. n < 2 ^ 53"
    using assms by (induction xs) (auto simp: small_def, metis list.simps(9) set_ConsD)
  have t: "stringify_nums xs = 91 # join [44] (map dec_digits ns) @ [93]"
    unfolding stringify_nums_def ns(1) using ns(2) num_str_small by (simp cong: map_cong)
  show ?thesis
  proof (cases "ns = []")
    case True
    then have "stringify_nums xs = [91, 93]" using t by simp
    then show ?thesis using ns(1) True
      by (simp add: json_parse_def skip_space_def json_space_def eval_nat_numeral)
  next
    case False
    obtain u r where u: "join [44] (map dec_digits ns) @ [93] = u # r" "is_digit u"
    proof -
      obtain n ms where n: "ns = n # ms" using False by (cases ns) auto
      obtain u ds where "dec_digits n = u # ds" "is_digit u" by (rule dec_digits_Cons)
      then show ?thesis using that n by (cases ms) auto
    qed
    have sp: "skip_space (u # r) = u # r" "u \<noteq> 93" using u(2) by (auto simp: skip_space_def json_space_def is_digit_def)
    have len: "length ns \<le> length (join [44] (map dec_digits ns))"
    proof (induction ns rule: induct_list012)
      case (2 n)
      then show ?case using dec_digits_not_Nil [of n] by (cases "dec_digits n") auto
    qed auto
    have "json_elements (2 * length (stringify_nums xs) + 1) (u # r) = Some (map (\<lambda>n. JNum (num (int n))) ns, [])"
      unfolding u(1) [symmetric] by (rule json_elements_digits) (use ns(2) False len t in auto)
    then show ?thesis unfolding json_parse_def t u(1) [symmetric]
      using ns(1) sp by (simp add: t u skip_space_def [of "[]"] skip_space_def [of "91 # _"] json_space_def comp_def)
  qed
qed

end
