(* ===== verification/Render_Loop.thy ===== *)
theory Render_Loop
  imports Client
begin

text \<open>
  What React does with an effect that depends on a function created while rendering. \<open>useT\<close> returns
  a new function on every render, so a callback memoised on it is new on every render, and so is the
  dependency of an effect on that callback: the effect runs after each render. A load that stores
  fresh data makes React render again. A page is its state, the number of its renders, which stands
  for the identity of the functions created last, and the number its effect ran with.
\<close>

type_synonym 'w rendered = "'w \<times> nat \<times> nat option"

text \<open>One turn: the effect runs if its dependency has changed, and a load that changed the state renders again.\<close>

definition turn :: "('w \<Rightarrow> 'w \<times> bool) \<Rightarrow> 'w rendered \<Rightarrow> 'w rendered" where
  "turn load = (\<lambda>(w, render, ran).
     if ran = Some render then (w, render, ran)
     else (case load w of (w', changed) \<Rightarrow> (w', if changed then Suc render else render, Some render)))"

definition at_rest :: "'w rendered \<Rightarrow> bool" where
  "at_rest = (\<lambda>(w, render, ran). ran = Some render)"

definition mounted :: "'w \<Rightarrow> 'w rendered" where
  "mounted w = (w, 0, None)"

definition turns :: "('w \<Rightarrow> 'w \<times> bool) \<Rightarrow> nat \<Rightarrow> 'w \<Rightarrow> 'w rendered" where
  "turns load n w = (turn load ^^ n) (mounted w)"

text \<open>
  A server that answers a request, sent with the session's header, with an envelope whose \<open>data\<close> has
  the shape the page expects of it: a list for the list endpoints, an object for the others.
\<close>

definition is_list :: "jsval \<Rightarrow> bool" where
  "is_list d \<longleftrightarrow> (case d of JArr _ \<Rightarrow> True | _ \<Rightarrow> False)"

definition is_object :: "jsval \<Rightarrow> bool" where
  "is_object d \<longleftrightarrow> (case d of JObj _ \<Rightarrow> True | _ \<Rightarrow> False)"

definition gives :: "'b server \<Rightarrow> jstring option \<Rightarrow> (jsval \<Rightarrow> bool) \<Rightarrow> request \<Rightarrow> bool" where
  "gives server header shape rq \<longleftrightarrow> (\<forall>b. \<exists>r b' kvs. server rq header b = (Some r, b') \<and>
     200 \<le> rs_status r \<and> rs_status r \<le> 299 \<and> rs_body r = Some (JObj kvs) \<and> shape (prop_of kvs ''data''))"

definition healthy :: "request list \<Rightarrow> request list \<Rightarrow> 'b server \<Rightarrow> ('b, 'p) world \<Rightarrow> bool" where
  "healthy arrays objects server w \<longleftrightarrow>
     list_all (gives server (authHeader (w_storage w)) is_list) arrays \<and>
     list_all (gives server (authHeader (w_storage w)) is_object) objects"

lemma is_list_iff: "is_list d \<longleftrightarrow> (\<exists>xs. d = JArr xs)" "is_object d \<longleftrightarrow> (\<exists>kvs. d = JObj kvs)"
  by (cases d; simp add: is_list_def is_object_def)+

lemma answered_gives:
  assumes "gives server (authHeader (w_storage w)) shape rq"
  shows "\<exists>kvs. answered server rq w = Inr (JObj kvs) \<and> shape (prop_of kvs ''data'') \<and>
    w_storage (called server rq w) = w_storage w"
proof -
  obtain r b' kvs where "server rq (authHeader (w_storage w)) (w_backend w) = (Some r, b')"
    "200 \<le> rs_status r" "rs_status r \<le> 299" "rs_body r = Some (JObj kvs)" "shape (prop_of kvs ''data'')"
    using assms unfolding gives_def by blast
  then show ?thesis by (simp add: answered_def called_def api_def afterResponse_def)
qed

lemma answered_list:
  "gives server (authHeader (w_storage w)) is_list rq \<Longrightarrow> w_storage v = w_storage w \<Longrightarrow>
     \<exists>kvs xs. answered server rq v = Inr (JObj kvs) \<and> prop_of kvs ''data'' = JArr xs \<and>
       w_storage (called server rq v) = w_storage w"
  using answered_gives [of server v is_list rq] by (auto simp: is_list_iff)

lemma answered_object:
  "gives server (authHeader (w_storage w)) is_object rq \<Longrightarrow> w_storage v = w_storage w \<Longrightarrow>
     \<exists>kvs ps. answered server rq v = Inr (JObj kvs) \<and> prop_of kvs ''data'' = JObj ps \<and>
       w_storage (called server rq v) = w_storage w"
  using answered_gives [of server v is_object rq] by (auto simp: is_list_iff)

text \<open>A server that gives empty lists, and empty objects for the requests named.\<close>

definition steady :: "request list \<Rightarrow> unit server" where
  "steady objects rq header b =
     (Some \<lparr>rs_status = 200, rs_body = Some (JObj [(js ''data'', if rq \<in> set objects then JObj [] else JArr [])])\<rparr>, b)"

lemma healthy_steady: "set arrays \<inter> set objects = {} \<Longrightarrow> healthy arrays objects (steady objects) w"
  by (auto simp: healthy_def gives_def steady_def is_list_def is_object_def list_all_iff)

locale effect_loop =
  fixes load :: "'w \<Rightarrow> 'w \<times> bool" and requests :: "'w \<Rightarrow> nat" and cost :: nat and inv :: "'w \<Rightarrow> bool"
  assumes changes: "inv w \<Longrightarrow> snd (load w)"
    and keeps: "inv w \<Longrightarrow> inv (fst (load w))"
    and costs: "inv w \<Longrightarrow> requests (fst (load w)) = requests w + cost"
begin

lemma turns_state:
  assumes "inv w"
  shows "\<exists>v. turns load n w = (v, n, if n = 0 then None else Some (n - 1)) \<and> inv v \<and> requests v = requests w + cost * n"
proof (induction n)
  case 0
  then show ?case using assms by (simp add: turns_def mounted_def)
next
  case (Suc n)
  then obtain v where v: "turns load n w = (v, n, if n = 0 then None else Some (n - 1))" "inv v"
    "requests v = requests w + cost * n" by blast
  have "turns load (Suc n) w = turn load (v, n, if n = 0 then None else Some (n - 1))"
    using v(1) by (simp add: turns_def)
  also have "\<dots> = (fst (load v), Suc n, Some n)"
    using changes [OF v(2)] by (auto simp: turn_def split: prod.splits)
  finally show ?case using keeps [OF v(2)] costs [OF v(2)] v(3) by simp
qed

lemma never_rests:
  assumes "inv w"
  shows "\<not> at_rest (turns load n w) \<and> requests (fst (turns load n w)) = requests w + cost * n"
  using turns_state [OF assms, of n] by (auto simp: at_rest_def split: if_splits)

end

end
