(* ===== verification/Traffic_Page.thy ===== *)
theory Traffic_Page
  imports Subscription_Form Json Render_Loop
begin

text \<open>
  \<open>pages/traffic.tsx\<close> and the types and \<open>formatBytes\<close> of \<open>api/traffic.ts\<close>: loading the page, the
  provider dialog, the alert settings, the provider cards and the chart. The lemmas show what a
  saved provider can contain, that the thresholds survive the round trip through the backend, and
  where the page loses or locks input.
\<close>

section \<open>Data\<close>

record traffic_userinfo =
  tu_provider_id :: jstring
  tu_upload :: jsnum
  tu_download :: jsnum
  tu_total :: jsnum
  tu_expire :: jsnum
  tu_fetched_at :: jstring

record node_usage =
  nu_node :: jstring
  nu_upload :: jsnum
  nu_download :: jsnum
  nu_total :: jsnum

record traffic_provider_summary =
  pv_provider :: traffic_provider
  pv_cycle_start :: jstring
  pv_cycle_end :: jstring
  pv_local_upload :: jsnum
  pv_local_download :: jsnum
  pv_local_total :: jsnum
  pv_reported :: "traffic_userinfo option"
  pv_usage_bytes :: jsnum
  pv_percent :: jsnum
  pv_today_bytes :: jsnum
  pv_est_days_left :: jsnum
  pv_top_nodes :: "node_usage list"

record traffic_summary =
  ts_providers :: "traffic_provider_summary list"
  ts_unassigned :: "node_usage list"

record daily_usage =
  du_date :: jstring
  du_providers :: "(jstring \<times> jsnum) list"
  du_unassigned :: jsnum

record traffic_alert =
  ta_id :: jstring
  ta_provider_id :: jstring
  ta_cycle_start :: jstring
  ta_threshold :: jsnum
  ta_usage_bytes :: jsnum
  ta_quota_bytes :: jsnum
  ta_message :: jstring
  ta_notified :: bool
  ta_created_at :: jstring

record provider_form =
  tf_name :: jstring
  tf_quotaGB :: jstring
  tf_resetDay :: jstring
  tf_resetHour :: jstring
  tf_resetMinute :: jstring
  tf_resetTimezone :: jstring
  tf_patterns :: jstring
  tf_subscriptionUrl :: jstring
  tf_enabled :: bool

definition EMPTY_FORM :: provider_form where
  "EMPTY_FORM = \<lparr>tf_name = [], tf_quotaGB = [], tf_resetDay = js ''1'', tf_resetHour = js ''0'',
     tf_resetMinute = js ''0'', tf_resetTimezone = [], tf_patterns = [], tf_subscriptionUrl = [], tf_enabled = True\<rparr>"

record traffic_page =
  tg_summary :: "traffic_summary option"
  tg_history :: "daily_usage list"
  tg_alerts :: "traffic_alert list"
  tg_settings :: jsval
  tg_loading :: bool
  tg_dialogOpen :: bool
  tg_editing :: "traffic_provider option"
  tg_form :: provider_form
  tg_saving :: bool
  tg_channel :: jstring
  tg_target :: jstring
  tg_thresholds :: jstring
  tg_testing :: bool

definition initial_traffic_page :: traffic_page where
  "initial_traffic_page = \<lparr>tg_summary = None, tg_history = [], tg_alerts = [], tg_settings = Null, tg_loading = True,
     tg_dialogOpen = False, tg_editing = None, tg_form = EMPTY_FORM, tg_saving = False, tg_channel = [],
     tg_target = [], tg_thresholds = js ''80,95'', tg_testing = False\<rparr>"

text \<open>
  How the page reads the parts of a response it does not look into while loading. The settings are
  strings; a stored value that is not one is read as its text.
\<close>

record traffic_reads =
  as_summary :: "jsval \<Rightarrow> traffic_summary option"
  as_history :: "jsval \<Rightarrow> daily_usage list"
  as_alerts :: "jsval \<Rightarrow> traffic_alert list"

section \<open>Loading\<close>

definition shown_thresholds :: "jsval list \<Rightarrow> jstring" where
  "shown_thresholds xs = join [44] (map (\<lambda>x. if x = Undef \<or> x = Null then [] else to_str x) xs)"

definition load_thresholds :: "jsval \<Rightarrow> (('b, traffic_page) world, unit) io" where
  "load_thresholds v = (case json_parse (to_str v) of
     Inr (JArr xs) \<Rightarrow> page (\<lambda>p. p\<lparr>tg_thresholds := shown_thresholds xs\<rparr>)
   | _ \<Rightarrow> io_return ())"

definition store_settings :: "jsval \<Rightarrow> (('b, traffic_page) world, unit) io" where
  "store_settings d =
     io_then (page (\<lambda>p. p\<lparr>tg_settings := d\<rparr>))
       (io_bind (io_lift (member d ''alert_channel'')) (\<lambda>c. io_then (page (\<lambda>p. p\<lparr>tg_channel := to_str c\<rparr>))
       (io_bind (io_lift (member d ''alert_target'')) (\<lambda>g. io_then (page (\<lambda>p. p\<lparr>tg_target := to_str g\<rparr>))
       (io_bind (io_lift (member d ''alert_thresholds'')) load_thresholds)))))"

definition store_all :: "traffic_reads \<Rightarrow> jsval \<Rightarrow> jsval \<Rightarrow> jsval \<Rightarrow> jsval \<Rightarrow> (('b, traffic_page) world, unit) io" where
  "store_all rd s h a st =
     io_bind (io_lift (member s ''data'')) (\<lambda>sd. io_then (page (\<lambda>p. p\<lparr>tg_summary := as_summary rd sd\<rparr>))
     (io_bind (io_lift (member h ''data'')) (\<lambda>hd. io_then (page (\<lambda>p. p\<lparr>tg_history := as_history rd (coalesce hd (JArr []))\<rparr>))
     (io_bind (io_lift (member a ''data'')) (\<lambda>ad. io_then (page (\<lambda>p. p\<lparr>tg_alerts := as_alerts rd (coalesce ad (JArr []))\<rparr>))
     (io_bind (io_lift (member st ''data'')) store_settings))))))"

definition fetchAll :: "'b server \<Rightarrow> traffic_reads \<Rightarrow> (('b, traffic_page) world, unit) io" where
  "fetchAll server rd =
     io_finally
       (io_catch
         (io_bind (io_try (api server trafficApi_summary)) (\<lambda>s.
          io_bind (io_try (api server (trafficApi_history (Some (num 30))))) (\<lambda>h.
          io_bind (io_try (api server (trafficApi_alerts (Some (num 20))))) (\<lambda>a.
          io_bind (io_try (api server trafficApi_settings)) (\<lambda>st.
          case (s, h, a, st) of
            (Inr s', Inr h', Inr a', Inr st') \<Rightarrow> store_all rd s' h' a' st'
          | _ \<Rightarrow> io_throw Unreachable)))))
         (\<lambda>_. toast (Failure (Key ''traffic.loadFailed'' []))))
       (page (\<lambda>p. p\<lparr>tg_loading := False\<rparr>))"

definition providers_of :: "traffic_page \<Rightarrow> traffic_provider list" where
  "providers_of p = (case tg_summary p of Some s \<Rightarrow> map pv_provider (ts_providers s) | None \<Rightarrow> [])"

definition providerName :: "traffic_page \<Rightarrow> jstring \<Rightarrow> jstring" where
  "providerName p i = or_default (map_option tp_name (find (\<lambda>q. tp_id q = i) (providers_of p))) i"

section \<open>The provider dialog\<close>

definition openCreate :: "traffic_page \<Rightarrow> traffic_page" where
  "openCreate p = p\<lparr>tg_editing := None, tg_form := EMPTY_FORM, tg_dialogOpen := True\<rparr>"

definition openEdit :: "traffic_provider \<Rightarrow> traffic_page \<Rightarrow> traffic_page" where
  "openEdit q p = p\<lparr>tg_editing := Some q,
     tg_form := \<lparr>tf_name = tp_name q,
       tf_quotaGB = (if num_lt (num 0) (tp_quota_bytes q) then quota_text (tp_quota_bytes q) else []),
       tf_resetDay = num_str (tp_reset_day q), tf_resetHour = num_str (tp_reset_hour q),
       tf_resetMinute = num_str (tp_reset_minute q), tf_resetTimezone = tp_reset_timezone q,
       tf_patterns = join (js '', '') (tp_node_patterns q), tf_subscriptionUrl = tp_subscription_url q,
       tf_enabled = tp_enabled q\<rparr>,
     tg_dialogOpen := True\<rparr>"

definition edit_form :: "(provider_form \<Rightarrow> provider_form) \<Rightarrow> traffic_page \<Rightarrow> traffic_page" where
  "edit_form f p = p\<lparr>tg_form := f (tg_form p)\<rparr>"

definition reset_out_of :: "jsnum \<Rightarrow> int \<Rightarrow> int \<Rightarrow> bool" where
  "reset_out_of x lo hi \<longleftrightarrow> is_nan x \<or> num_lt x (num lo) \<or> num_lt (num hi) x"

definition provider_form_invalid :: "zone_env \<Rightarrow> provider_form \<Rightarrow> bool" where
  "provider_form_invalid z fm \<longleftrightarrow>
     (let quotaGB = parse_float (tf_quotaGB fm); timezone = trim (tf_resetTimezone fm)
      in trim (tf_name fm) = [] \<or> is_nan quotaGB \<or> num_lt quotaGB (num 0) \<or>
         reset_out_of (parse_int (tf_resetDay fm)) 1 31 \<or> reset_out_of (parse_int (tf_resetHour fm)) 0 23 \<or>
         reset_out_of (parse_int (tf_resetMinute fm)) 0 59 \<or> (timezone \<noteq> [] \<and> \<not> ze_known z timezone))"

record provider_input =
  in_name :: jstring
  in_quota_bytes :: jsnum
  in_reset_day :: jsnum
  in_reset_hour :: jsnum
  in_reset_minute :: jsnum
  in_reset_timezone :: jstring
  in_node_patterns :: "jstring list"
  in_subscription_url :: jstring
  in_enabled :: bool

text \<open>\<open>split(/[,\u{FF0C}]/)\<close>: commas, also the full-width one.\<close>

definition is_comma :: "nat \<Rightarrow> bool" where
  "is_comma u \<longleftrightarrow> u = 44 \<or> u = 65292"

definition provider_input_of :: "provider_form \<Rightarrow> provider_input" where
  "provider_input_of fm =
     \<lparr>in_name = trim (tf_name fm), in_quota_bytes = num_round (num_mul (parse_float (tf_quotaGB fm)) GB),
      in_reset_day = parse_int (tf_resetDay fm), in_reset_hour = parse_int (tf_resetHour fm),
      in_reset_minute = parse_int (tf_resetMinute fm), in_reset_timezone = trim (tf_resetTimezone fm),
      in_node_patterns = filter (\<lambda>s. s \<noteq> []) (map trim (split_units is_comma (tf_patterns fm))),
      in_subscription_url = trim (tf_subscriptionUrl fm), in_enabled = tf_enabled fm\<rparr>"

definition provider_json :: "provider_input \<Rightarrow> jsval" where
  "provider_json i = JObj
     [(js ''name'', JStr (in_name i)), (js ''quota_bytes'', JNum (in_quota_bytes i)),
      (js ''reset_day'', JNum (in_reset_day i)), (js ''reset_hour'', JNum (in_reset_hour i)),
      (js ''reset_minute'', JNum (in_reset_minute i)), (js ''reset_timezone'', JStr (in_reset_timezone i)),
      (js ''node_patterns'', JArr (map JStr (in_node_patterns i))),
      (js ''subscription_url'', JStr (in_subscription_url i)), (js ''enabled'', JBool (in_enabled i))]"

text \<open>The load that \<open>saveProvider\<close> starts without waiting for it is run to its end here; it leaves \<open>saving\<close> alone.\<close>

definition saveProvider :: "'b server \<Rightarrow> traffic_reads \<Rightarrow> zone_env \<Rightarrow> (('b, traffic_page) world, unit) io" where
  "saveProvider server rd z = io_read (\<lambda>w.
     let fm = tg_form (w_page w); editing = tg_editing (w_page w)
     in if provider_form_invalid z fm then toast (Failure (Key ''traffic.formInvalid'' []))
        else
          let input = provider_json (provider_input_of fm)
          in io_then (page (\<lambda>p. p\<lparr>tg_saving := True\<rparr>))
               (io_finally
                 (io_catch
                   (io_then
                     (api server (case editing of
                        Some q \<Rightarrow> trafficApi_updateProvider (tp_id q) input
                      | None \<Rightarrow> trafficApi_createProvider input))
                     (io_then (toast (Success (Joined (Key ''common.save'' []) (js '' OK''))))
                       (io_then (page (\<lambda>p. p\<lparr>tg_dialogOpen := False\<rparr>)) (fetchAll server rd))))
                   (\<lambda>_. toast (Failure (Key ''traffic.saveFailed'' []))))
                 (page (\<lambda>p. p\<lparr>tg_saving := False\<rparr>))))"

definition deleteProvider :: "'b server \<Rightarrow> traffic_reads \<Rightarrow> bool \<Rightarrow> (('b, traffic_page) world, unit) io" where
  "deleteProvider server rd confirmed = io_read (\<lambda>w.
     case tg_editing (w_page w) of
       None \<Rightarrow> io_return ()
     | Some q \<Rightarrow>
         if \<not> confirmed then io_return ()
         else io_catch
           (io_then (api server (trafficApi_deleteProvider (tp_id q)))
             (io_then (toast (Success (Joined (Key ''common.delete'' []) (js '' OK''))))
               (io_then (page (\<lambda>p. p\<lparr>tg_dialogOpen := False\<rparr>)) (fetchAll server rd))))
           (\<lambda>_. toast (Failure (Key ''traffic.saveFailed'' []))))"

section \<open>Alert settings\<close>

definition onChannel :: "jstring \<Rightarrow> traffic_page \<Rightarrow> traffic_page" where
  "onChannel v p = p\<lparr>tg_channel := v\<rparr>"

definition onTarget :: "jstring \<Rightarrow> traffic_page \<Rightarrow> traffic_page" where
  "onTarget v p = p\<lparr>tg_target := v\<rparr>"

definition onThresholds :: "jstring \<Rightarrow> traffic_page \<Rightarrow> traffic_page" where
  "onThresholds v p = p\<lparr>tg_thresholds := v\<rparr>"

definition threshold_ok :: "jsnum \<Rightarrow> bool" where
  "threshold_ok n \<longleftrightarrow> \<not> is_nan n \<and> num_lt (num 0) n \<and> num_le n (num 100)"

definition parsed_thresholds :: "jstring \<Rightarrow> jsnum list" where
  "parsed_thresholds s = filter threshold_ok (map (\<lambda>x. parse_int (trim x)) (split_units is_comma s))"

definition saved_thresholds :: "jstring \<Rightarrow> jsnum list" where
  "saved_thresholds s = (let arr = parsed_thresholds s in if arr \<noteq> [] then arr else [num 80, num 95])"

definition settings_json :: "traffic_page \<Rightarrow> jsval" where
  "settings_json p = JObj
     [(js ''alert_channel'', JStr (tg_channel p)), (js ''alert_target'', JStr (trim (tg_target p))),
      (js ''alert_thresholds'', JStr (stringify_nums (saved_thresholds (tg_thresholds p))))]"

definition saveSettings :: "'b server \<Rightarrow> traffic_reads \<Rightarrow> (('b, traffic_page) world, unit) io" where
  "saveSettings server rd = io_read (\<lambda>w.
     io_catch
       (io_then (api server (trafficApi_updateSettings (settings_json (w_page w))))
         (io_then (toast (Success (Key ''traffic.settingsSaved'' []))) (fetchAll server rd)))
       (\<lambda>_. toast (Failure (Key ''traffic.saveFailed'' []))))"

definition testNotify :: "'b server \<Rightarrow> (('b, traffic_page) world, unit) io" where
  "testNotify server =
     io_then (page (\<lambda>p. p\<lparr>tg_testing := True\<rparr>))
       (io_finally
         (io_catch
           (io_then (api server trafficApi_testNotify) (toast (Success (Key ''traffic.testSent'' []))))
           (\<lambda>_. toast (Failure (Key ''traffic.testFailed'' []))))
         (page (\<lambda>p. p\<lparr>tg_testing := False\<rparr>)))"

definition target_placeholder :: "jstring \<Rightarrow> string option" where
  "target_placeholder channel =
     (if channel = [] then None
      else if channel = js ''bark'' then Some ''https://api.day.app/<device-key>''
      else if channel = js ''ntfy'' then Some ''https://ntfy.sh/<topic>''
      else Some ''https://example.com/webhook'')"

definition test_disabled :: "traffic_page \<Rightarrow> bool" where
  "test_disabled p \<longleftrightarrow> tg_testing p \<or> tg_channel p = []"

section \<open>Cards and chart\<close>

definition TRAFFIC_UNITS :: "string list" where
  "TRAFFIC_UNITS = [''B'', ''KB'', ''MB'', ''GB'', ''TB'', ''PB'']"

text \<open>\<open>lg q\<close> is \<open>Math.floor(Math.log(q) / Math.log(1024))\<close>, as for \<open>formatBytesExact\<close>.\<close>

definition traffic_formatBytes :: "(rat \<Rightarrow> int) \<Rightarrow> jsnum \<Rightarrow> jstring" where
  "traffic_formatBytes lg b =
     (let shown = (\<lambda>i v. to_fixed (if num_le (num 100) v then 0 else if num_le (num 10) v then 1 else 2) v @
            [32] @ unit_at TRAFFIC_UNITS i)
      in case b of
           Fin q \<Rightarrow>
             (if q \<le> 0 then js ''0 B''
              else let i = min (lg q) (int (length TRAFFIC_UNITS) - 1) in shown i (num_div (Fin q) (pow1024 i)))
         | PInf \<Rightarrow> shown (int (length TRAFFIC_UNITS) - 1) PInf
         | _ \<Rightarrow> js ''0 B'')"

definition SERIES_LIGHT :: "string list" where
  "SERIES_LIGHT = [''#2a78d6'', ''#1baf7a'', ''#eda100'', ''#4a3aa7'']"

definition SERIES_DARK :: "string list" where
  "SERIES_DARK = [''#3987e5'', ''#199e70'', ''#c98500'', ''#9085e9'']"

definition UNASSIGNED_COLOR :: string where
  "UNASSIGNED_COLOR = ''#898781''"

definition meterColor :: "jsnum \<Rightarrow> string" where
  "meterColor percent =
     (if num_le (num 95) percent then ''#d03b3b''
      else if num_le (num 80) percent then ''#fab219'' else ''#2a78d6'')"

record provider_card =
  pc_name :: jstring
  pc_disabled :: bool
  pc_cycle :: "jstring \<times> jstring \<times> jstring"
  pc_percent :: jstring
  pc_warning :: "string option"
  pc_usage :: jstring
  pc_width :: jsnum
  pc_color :: string
  pc_local :: jstring
  pc_reported :: jstring
  pc_today :: jstring
  pc_days_left :: "jstring option"
  pc_top :: "(jstring \<times> jstring) list"

definition provider_card :: "(rat \<Rightarrow> int) \<Rightarrow> traffic_provider_summary \<Rightarrow> provider_card" where
  "provider_card lg s =
     (let p = pv_provider s; bytes = traffic_formatBytes lg; color = meterColor (pv_percent s)
      in \<lparr>pc_name = tp_name p, pc_disabled = (\<not> tp_enabled p),
          pc_cycle = (pv_cycle_start s, pv_cycle_end s, num_str (tp_reset_day p)),
          pc_percent = to_fixed 1 (pv_percent s) @ js ''%'',
          pc_warning = (if num_le (num 80) (pv_percent s) then Some color else None),
          pc_usage = bytes (pv_usage_bytes s) @ js '' / '' @ bytes (tp_quota_bytes p),
          pc_width = num_min (pv_percent s) (num 100), pc_color = color,
          pc_local = bytes (pv_local_total s),
          pc_reported = (case pv_reported s of
             Some u \<Rightarrow> bytes (num_add (tu_upload u) (tu_download u)) | None \<Rightarrow> [8212]),
          pc_today = bytes (pv_today_bytes s),
          pc_days_left = (if num_le (num 0) (pv_est_days_left s)
             then Some ([8776, 32] @ to_fixed 1 (pv_est_days_left s)) else None),
          pc_top = map (\<lambda>n. (nu_node n, bytes (nu_total n))) (take 5 (pv_top_nodes s))\<rparr>)"

definition day_total :: "daily_usage \<Rightarrow> jsnum" where
  "day_total d = num_add (foldl num_add (num 0) (map snd (du_providers d))) (du_unassigned d)"

definition chart_max :: "daily_usage list \<Rightarrow> jsnum" where
  "chart_max ds = foldl num_max (num 1) (map day_total ds)"

definition hasUnassigned :: "daily_usage list \<Rightarrow> bool" where
  "hasUnassigned ds \<longleftrightarrow> list_ex (\<lambda>d. num_lt (num 0) (du_unassigned d)) ds"

text \<open>\<open>m.set\<close> in the order of the providers: the last of two with one id wins.\<close>

definition colorOf :: "bool \<Rightarrow> traffic_provider list \<Rightarrow> jstring \<Rightarrow> string option" where
  "colorOf isDark ps i =
     (let series = (if isDark then SERIES_DARK else SERIES_LIGHT)
      in map_of (rev (map (\<lambda>(n, p). (tp_id p, series ! (n mod length series))) (enumerate 0 ps))) i)"

definition bar_height :: "jsnum \<Rightarrow> jsnum \<Rightarrow> jsnum" where
  "bar_height mx v = num_max (num_mul (num_div v mx) (num 152)) (num 2)"

definition provider_value :: "daily_usage \<Rightarrow> traffic_provider \<Rightarrow> jsnum" where
  "provider_value d p = num_or (map_of (du_providers d) (tp_id p)) (num 0)"

text \<open>The bars of a day, from the bottom: colour and height.\<close>

definition day_bars :: "bool \<Rightarrow> traffic_provider list \<Rightarrow> jsnum \<Rightarrow> daily_usage \<Rightarrow> (string option \<times> jsnum) list" where
  "day_bars isDark ps mx d =
     map (\<lambda>p. (colorOf isDark ps (tp_id p), bar_height mx (provider_value d p)))
       (filter (\<lambda>p. \<not> num_le (provider_value d p) (num 0)) ps) @
     (if num_lt (num 0) (du_unassigned d) then [(Some UNASSIGNED_COLOR, bar_height mx (du_unassigned d))] else [])"

definition axis_label :: "daily_usage list \<Rightarrow> nat \<Rightarrow> jstring option" where
  "axis_label ds i =
     (let d = du_date (ds ! i)
      in if i = 0 \<or> ends_with d (js ''01'') \<or> i = length ds - 1 then Some (drop 5 d) else None)"

text \<open>The legend of the chart, the box over a day and the lists below: what each of them shows.\<close>

definition legend :: "bool \<Rightarrow> traffic_provider list \<Rightarrow> daily_usage list \<Rightarrow> (string option \<times> message) list" where
  "legend isDark ps ds =
     map (\<lambda>p. (colorOf isDark ps (tp_id p), Raw (tp_name p))) ps @
     (if hasUnassigned ds then [(Some UNASSIGNED_COLOR, Key ''traffic.unassigned'' [])] else [])"

definition day_box :: "(rat \<Rightarrow> int) \<Rightarrow> traffic_provider list \<Rightarrow> daily_usage \<Rightarrow> (message \<times> jstring) list" where
  "day_box lg ps d =
     map (\<lambda>p. (Raw (tp_name p), traffic_formatBytes lg (provider_value d p))) ps @
     (if num_lt (num 0) (du_unassigned d)
      then [(Key ''traffic.unassigned'' [], traffic_formatBytes lg (du_unassigned d))] else []) @
     [(Key ''traffic.total'' [], traffic_formatBytes lg (day_total d))]"

definition unassigned_rows :: "(rat \<Rightarrow> int) \<Rightarrow> traffic_summary option \<Rightarrow> (jstring \<times> jstring \<times> jstring \<times> jstring) list" where
  "unassigned_rows lg s = (case s of
     None \<Rightarrow> []
   | Some x \<Rightarrow> map (\<lambda>n. (nu_node n, traffic_formatBytes lg (nu_upload n), traffic_formatBytes lg (nu_download n),
       traffic_formatBytes lg (nu_total n))) (take 15 (ts_unassigned x)))"

text \<open>An alert: its colour, its text, the provider's name, the date as the browser shows it, and the mark of one not sent.\<close>

definition alert_row :: "(jstring \<Rightarrow> jstring) \<Rightarrow> traffic_page \<Rightarrow> traffic_alert \<Rightarrow> string \<times> jstring \<times> jstring \<times> jstring \<times> string option" where
  "alert_row show_date p a =
     (meterColor (ta_threshold a), ta_message a, providerName p (ta_provider_id a), show_date (ta_created_at a),
      if ta_notified a then None else Some ''traffic.notNotified'')"

section \<open>What is saved\<close>

lemma parse_int_cases: "parse_int s = NaN \<or> (\<exists>n. parse_int s = rnd (of_int n))"
proof -
  obtain neg t where st: "split_sign (trim_start s) = (neg, t)" by force
  show ?thesis unfolding parse_int_def st Let_def prod.case
    by (cases "takeWhile is_digit t = []") (simp_all only: if_True if_False simp_thms, blast)
qed

lemma rnd_far:
  assumes "2 ^ 53 \<le> n"
  shows "\<not> num_le (rnd (of_int n)) (num 999)" "num_lt (rnd (of_int (- n))) (num 0)"
proof -
  have "1000 \<le> n" using assms by simp
  then have "(of_int 1000 :: rat) \<le> of_int n" by (simp only: of_int_le_iff)
  moreover have "pos_double (1000 :: rat)" using pos_doubleI [of 1000 0] by (simp add: pow2_def)
  ultimately have "1000 \<le> round_abs (of_int n)" using round_abs_ge [of 1000 "of_int n"] by simp
  then show "\<not> num_le (rnd (of_int n)) (num 999)" "num_lt (rnd (of_int (- n))) (num 0)"
    using assms by (auto simp: rnd_def Let_def num_def num_le_def)
qed

lemma in_small_range:
  assumes "\<not> reset_out_of (parse_int s) lo hi" "0 \<le> lo" "hi < 1000"
  shows "\<exists>n. parse_int s = num n \<and> lo \<le> n \<and> n \<le> hi"
proof -
  have nn: "parse_int s \<noteq> NaN" using assms(1) by (auto simp: reset_out_of_def is_nan_def)
  then obtain n where n: "parse_int s = rnd (of_int n)" using parse_int_cases [of s] by blast
  have "\<bar>n\<bar> < 2 ^ 53"
  proof (rule ccontr)
    assume "\<not> \<bar>n\<bar> < 2 ^ 53"
    then consider "2 ^ 53 \<le> n" | "2 ^ 53 \<le> - n" by linarith
    then show False
    proof cases
      case 1
      then have "num_lt (num hi) (rnd (of_int n))"
        using rnd_far(1) [of n] assms(3) by (cases "rnd (of_int n)") (auto simp: num_def num_le_def)
      then show ?thesis using assms(1) n by (simp add: reset_out_of_def)
    next
      case 2
      then have "num_lt (rnd (of_int n)) (num lo)"
        using rnd_far(2) [of "- n"] assms(2) by (cases "rnd (of_int n)") (auto simp: num_def)
      then show ?thesis using assms(1) n by (simp add: reset_out_of_def)
    qed
  qed
  then have "parse_int s = num n" using n rnd_int by simp
  then show ?thesis using assms(1) by (auto simp: reset_out_of_def)
qed

lemma parse_float_cases: "parse_float s \<in> {NaN, PInf, NInf} \<or> (\<exists>q. parse_float s = rnd q)"
  by (auto simp: parse_float_def Let_def split: prod.splits option.splits if_splits)

lemma num_mul_nonneg:
  assumes "num_le (num 0) x"
  shows "num_le (num 0) (num_round (num_mul x GB))"
proof -
  have r: "num_le (num 0) (num_round y)" if y: "num_le (num 0) y" for y
  proof (cases y)
    case (Fin a)
    then have "0 \<le> a" using y by (simp add: num_def)
    then have "0 \<le> \<lfloor>a + 1 / 2\<rfloor>" by simp
    then show ?thesis using Fin by (simp add: num_round_def)
  qed (use y in \<open>simp_all add: num_round_def\<close>)
  show ?thesis
  proof (cases x)
    case (Fin a)
    then have a: "0 \<le> a" using assms by (simp add: num_def)
    have "num_le (num 0) (rnd (a * of_int (1024 ^ 3)))"
      using a rnd_sign(1) [of "a * of_int (1024 ^ 3)"] by (cases "a = 0") (simp_all add: num_def)
    then show ?thesis using Fin r by (simp add: GB_def num_def)
  next
    case PInf
    then have "num_mul x GB = PInf" by (simp add: GB_def num_def inf_of_sign_def num_sign_def)
    then show ?thesis using r by (simp add: num_le_def num_def)
  qed (use assms in \<open>auto simp: num_le_def num_def\<close>)
qed

text \<open>
  C20: what the traffic page saves is a well-formed provider. When validation passes, the name is
  not empty and trimmed, the reset day, hour and minute are integers in their ranges even though the
  fields are read with parseInt, the time zone is empty or known, the quota is not negative, and
  every node pattern is a trimmed text without a comma that is not empty.
\<close>

theorem saved_provider_valid:
  assumes "\<not> provider_form_invalid z fm"
  shows "let i = provider_input_of fm
    in in_name i \<noteq> [] \<and> trim (in_name i) = in_name i \<and>
      (\<exists>d h m. in_reset_day i = num d \<and> 1 \<le> d \<and> d \<le> 31 \<and> in_reset_hour i = num h \<and> 0 \<le> h \<and> h \<le> 23 \<and>
         in_reset_minute i = num m \<and> 0 \<le> m \<and> m \<le> 59) \<and>
      (in_reset_timezone i = [] \<or> ze_known z (in_reset_timezone i)) \<and>
      num_le (num 0) (in_quota_bytes i) \<and>
      list_all (\<lambda>p. p \<noteq> [] \<and> trim p = p \<and> 44 \<notin> set p \<and> 65292 \<notin> set p) (in_node_patterns i)"
proof -
  let ?q = "parse_float (tf_quotaGB fm)"
  have v: "trim (tf_name fm) \<noteq> []" "\<not> is_nan ?q" "\<not> num_lt ?q (num 0)"
    "\<not> reset_out_of (parse_int (tf_resetDay fm)) 1 31" "\<not> reset_out_of (parse_int (tf_resetHour fm)) 0 23"
    "\<not> reset_out_of (parse_int (tf_resetMinute fm)) 0 59"
    "trim (tf_resetTimezone fm) = [] \<or> ze_known z (trim (tf_resetTimezone fm))"
    using assms(1) by (auto simp: provider_form_invalid_def Let_def)
  have "num_le (num 0) ?q" using v(2,3) by (cases ?q) (auto simp: is_nan_def num_def num_le_def)
  then have q: "num_le (num 0) (in_quota_bytes (provider_input_of fm))"
    using num_mul_nonneg by (simp add: provider_input_of_def)
  have p: "list_all (\<lambda>p. p \<noteq> [] \<and> trim p = p \<and> 44 \<notin> set p \<and> 65292 \<notin> set p)
      (in_node_patterns (provider_input_of fm))"
    by (auto simp: provider_input_of_def list_all_iff is_comma_def
        dest!: set_trim [THEN subsetD] dest: split_units_pieces)
  show ?thesis using v(1,7) q p in_small_range [OF v(4)] in_small_range [OF v(5)] in_small_range [OF v(6)]
    by (auto simp: provider_input_of_def Let_def)
qed

definition sample_form :: provider_form where
  "sample_form = EMPTY_FORM\<lparr>tf_name := js ''n'', tf_quotaGB := js ''0'', tf_resetDay := js ''31st''\<rparr>"

lemma sample_form_ok: "\<not> provider_form_invalid z sample_form"
proof -
  have "parse_int (js ''31st'') = rnd (of_int 31)" "parse_int (js ''0'') = rnd (of_int 0)"
    by (simp_all add: parse_int_def split_sign_def trim_start_def js_def is_ws_def is_digit_def)
  then have "parse_int (js ''31st'') = num 31" "parse_int (js ''0'') = num 0"
    using rnd_int [of 31] rnd_int [of 0] by simp_all
  moreover have "parse_float (js ''0'') = num 0"
    by (simp add: parse_float_def split_sign_def trim_start_def js_def is_ws_def is_digit_def dec_literal_def
        exp_part_def starts_with_def num_def)
  ultimately show ?thesis
    by (simp add: provider_form_invalid_def sample_form_def EMPTY_FORM_def trim_n is_nan_def reset_out_of_def num_def)
qed

theorem saved_provider_valid_witness:
  "num_le (num 0) (in_quota_bytes (provider_input_of sample_form)) \<and>
   in_name (provider_input_of sample_form) \<noteq> []"
  using saved_provider_valid [OF sample_form_ok] by (simp add: Let_def)

section \<open>Input that is locked, kept or lost\<close>

lemma parse_float_Nil: "parse_float [] = NaN"
  by (simp add: parse_float_def split_sign_def trim_start_def starts_with_def dec_literal_def js_def)

text \<open>
  A provider without a quota cannot be saved as it is. The dialog shows a quota of zero as an
  empty field, which validation rejects: saving the unchanged form sends nothing and reports an
  invalid form.
\<close>

theorem zero_quota_locks_form:
  assumes "num_le (tp_quota_bytes q) (num 0)"
  shows "saveProvider server rd z (w\<lparr>w_page := openEdit q (w_page w)\<rparr>) =
    (Inr (), w\<lparr>w_page := openEdit q (w_page w), w_toasts := w_toasts w @ [Failure (Key ''traffic.formInvalid'' [])]\<rparr>)"
proof -
  have "\<not> num_lt (num 0) (tp_quota_bytes q)"
    using assms by (cases "tp_quota_bytes q") (auto simp: num_def num_le_def)
  then have "provider_form_invalid z (tg_form (openEdit q (w_page w)))"
    by (simp add: provider_form_invalid_def openEdit_def parse_float_Nil is_nan_def Let_def)
  then show ?thesis by (simp add: saveProvider_def io_read_def toast_def io_update_def Let_def)
qed

definition unlimited :: traffic_provider where
  "unlimited = \<lparr>tp_id = js ''1'', tp_name = js ''n'', tp_quota_bytes = num 0, tp_reset_day = num 1, tp_reset_hour = num 0,
     tp_reset_minute = num 0, tp_reset_timezone = [], tp_node_patterns = [], tp_subscription_url = [],
     tp_enabled = True, tp_created_at = [], tp_updated_at = []\<rparr>"

definition no_reads :: traffic_reads where
  "no_reads = \<lparr>as_summary = (\<lambda>_. None), as_history = (\<lambda>_. []), as_alerts = (\<lambda>_. [])\<rparr>"

theorem zero_quota_locks_form_witness:
  "w_toasts (snd (saveProvider silent no_reads shanghai
     ((fresh initial_traffic_page)\<lparr>w_page := openEdit unlimited initial_traffic_page\<rparr>))) =
   [Failure (Key ''traffic.formInvalid'' [])]"
  using zero_quota_locks_form [of unlimited silent no_reads shanghai "fresh initial_traffic_page"]
  by (simp add: unlimited_def)

lemma split_units_join_sep:
  assumes "P c" "xs \<noteq> []" "\<And>x u. x \<in> set xs \<Longrightarrow> u \<in> set x \<Longrightarrow> \<not> P u"
  shows "split_units P (join [c] xs) = xs"
  using assms(2,3)
proof (induction xs rule: induct_list012)
  case (3 x y xs)
  have "split_units P (x @ c # join [c] (y # xs)) = x # split_units P (join [c] (y # xs))"
    by (rule split_units_append_sep) (use 3(4) assms(1) in auto)
  moreover have "split_units P (join [c] (y # xs)) = y # xs" by (rule 3(2)) (use 3(4) in auto)
  ultimately show ?case by simp
qed (auto simp: split_units_none)

lemma parse_int_digits: "n < 2 ^ 53 \<Longrightarrow> parse_int (trim (dec_digits n)) = num (int n)"
proof -
  assume n: "n < 2 ^ 53"
  obtain u ds where u: "dec_digits n = u # ds" "is_digit u" by (rule dec_digits_Cons)
  have t: "trim (dec_digits n) = dec_digits n"
    by (rule trim_no_ws) (use dec_digits_digit digit_facts in blast)
  have ts: "trim_start (dec_digits n) = dec_digits n" using u digit_facts [of u] by (simp add: trim_start_def)
  have sg: "split_sign (dec_digits n) = (False, dec_digits n)" using u digit_facts [of u] by (simp add: split_sign_def)
  have tw: "takeWhile is_digit (dec_digits n) = dec_digits n"
    using dec_digits_digit by (auto simp: takeWhile_eq_all_conv)
  have r: "rnd (of_nat n) = num (int n)" using rnd_int [of "int n"] n by simp
  show ?thesis unfolding parse_int_def t ts sg Let_def prod.case tw using r by simp
qed

lemma threshold_range: "threshold_ok (parse_int s) \<Longrightarrow> \<exists>n. parse_int s = num (int n) \<and> 1 \<le> n \<and> n \<le> 100"
proof -
  assume a: "threshold_ok (parse_int s)"
  then have "\<not> reset_out_of (parse_int s) 0 100"
    by (cases "parse_int s") (auto simp: threshold_ok_def reset_out_of_def num_def num_le_def is_nan_def)
  then obtain k where k: "parse_int s = num k" "0 \<le> k" "k \<le> 100"
    using in_small_range [of s 0 100] by auto
  then have "0 < k" using a by (simp add: threshold_ok_def)
  then show ?thesis using k by (intro exI [of _ "nat k"]) auto
qed

lemma saved_thresholds_range:
  obtains ns where "saved_thresholds s = map (\<lambda>n. num (int n)) ns" "ns \<noteq> []" "list_all (\<lambda>n. 1 \<le> n \<and> n \<le> 100) ns"
proof (cases "parsed_thresholds s = []")
  case True
  then show ?thesis using that [of "[80, 95]"] by (simp add: saved_thresholds_def)
next
  case False
  have "\<exists>ns. xs' = map (\<lambda>n. num (int n)) ns \<and> list_all (\<lambda>n. 1 \<le> n \<and> n \<le> 100) ns"
    if "xs' = filter threshold_ok (map (\<lambda>x. parse_int (trim x)) xs)" for xs xs'
    using that
  proof (induction xs arbitrary: xs')
    case (Cons x xs)
    then obtain ns where "filter threshold_ok (map (\<lambda>x. parse_int (trim x)) xs) = map (\<lambda>n. num (int n)) ns"
      "list_all (\<lambda>n. 1 \<le> n \<and> n \<le> 100) ns" by blast
    then show ?case using Cons.prems threshold_range [of "trim x"]
      by (cases "threshold_ok (parse_int (trim x))") (auto intro: exI [of _ "_ # ns"])
  qed auto
  then show ?thesis using that False by (fastforce simp: saved_thresholds_def parsed_thresholds_def Let_def)
qed

lemma parsed_digits:
  assumes "ns \<noteq> []" "list_all (\<lambda>n. 1 \<le> n \<and> n \<le> 100) ns"
  shows "saved_thresholds (join [44] (map dec_digits ns)) = map (\<lambda>n. num (int n)) ns"
proof -
  have s: "split_units is_comma (join [44] (map dec_digits ns)) = map dec_digits ns"
    by (rule split_units_join_sep) (use assms(1) in \<open>auto simp: is_comma_def is_digit_def dest!: dec_digits_digit\<close>)
  have "filter threshold_ok (map (\<lambda>x. parse_int (trim x)) (map dec_digits ns)) = map (\<lambda>n. num (int n)) ns"
    using assms(2)
  proof (induction ns)
    case (Cons n ns)
    then have "parse_int (trim (dec_digits n)) = num (int n)" by (intro parse_int_digits) simp
    then show ?case using Cons by (simp add: threshold_ok_def is_nan_def num_def)
  qed simp
  then show ?thesis using s assms(1) by (simp add: saved_thresholds_def parsed_thresholds_def)
qed

text \<open>
  C21: alert thresholds survive saving and loading. Whatever was typed, the page stores a list that
  is not empty of whole percentages from 1 to 100; the text that stores it parses as JSON, and what
  the page shows for it after loading stands for the same list, so saving again changes nothing.
\<close>

theorem thresholds_roundtrip:
  "\<exists>xs ns. json_parse (stringify_nums (saved_thresholds s)) = Inr (JArr xs) \<and>
     saved_thresholds s = map (\<lambda>n. num (int n)) ns \<and> ns \<noteq> [] \<and> list_all (\<lambda>n. 1 \<le> n \<and> n \<le> 100) ns \<and>
     saved_thresholds (shown_thresholds xs) = saved_thresholds s"
proof -
  obtain ns where ns: "saved_thresholds s = map (\<lambda>n. num (int n)) ns" "ns \<noteq> []" "list_all (\<lambda>n. 1 \<le> n \<and> n \<le> 100) ns"
    by (rule saved_thresholds_range)
  have sm: "\<forall>x \<in> set (saved_thresholds s). small x"
    using ns(1,3) by (fastforce simp: small_def list_all_iff)
  have "map (\<lambda>x. if x = Undef \<or> x = Null then [] else to_str x) (map JNum (saved_thresholds s)) = map dec_digits ns"
    using ns(3) by (auto simp: ns(1) list_all_iff num_str_small)
  then have "shown_thresholds (map JNum (saved_thresholds s)) = join [44] (map dec_digits ns)"
    by (simp only: shown_thresholds_def)
  then have "saved_thresholds (shown_thresholds (map JNum (saved_thresholds s))) = saved_thresholds s"
    using parsed_digits [OF ns(2,3)] ns(1) by simp
  then show ?thesis using json_parse_stringify [OF sm] ns by blast
qed

section \<open>Reloading\<close>

definition after_three :: "'b server \<Rightarrow> ('b, traffic_page) world \<Rightarrow> ('b, traffic_page) world" where
  "after_three server w = called server (trafficApi_alerts (Some (num 20)))
     (called server (trafficApi_history (Some (num 30))) (called server trafficApi_summary w))"

text \<open>What the backend says of a setting when the page asks for it.\<close>

definition stored_setting :: "'b server \<Rightarrow> ('b, traffic_page) world \<Rightarrow> string \<Rightarrow> jstring option" where
  "stored_setting server w k = (case answered server trafficApi_settings (after_three server w) of
     Inr st \<Rightarrow> Some (to_str (opt_member (opt_member st ''data'') k)) | Inl _ \<Rightarrow> None)"

lemma stored_setting_page [simp]: "stored_setting server (w\<lparr>w_page := p\<rparr>) k = stored_setting server w k"
  by (simp add: stored_setting_def after_three_def)

lemma wp_load_thresholds [simp]:
  "wp (load_thresholds v) Q E w = Q () (w\<lparr>w_page := (w_page w)\<lparr>tg_thresholds :=
     (case json_parse (to_str v) of Inr (JArr xs) \<Rightarrow> shown_thresholds xs | _ \<Rightarrow> tg_thresholds (w_page w))\<rparr>\<rparr>)"
  by (simp add: load_thresholds_def split: sum.splits jsval.splits)

lemma member_opt: "member v k = Inr x \<Longrightarrow> opt_member v k = x"
  by (cases v) auto

lemma fetchAll_settings:
  "wp (fetchAll server rd) (\<lambda>_ v. w_toasts v = w_toasts w \<longrightarrow>
     Some (tg_channel (w_page v)) = stored_setting server w ''alert_channel'' \<and>
     Some (tg_target (w_page v)) = stored_setting server w ''alert_target'') (\<lambda>_ _. False) w"
  by (auto simp: fetchAll_def store_all_def store_settings_def stored_setting_def after_three_def
      dest!: member_opt split: sum.splits)

text \<open>
  A refresh discards settings that are being typed. Every load that succeeds, also the one the
  page repeats every minute, replaces the channel and the target by the stored ones, whatever the
  fields held; the handler always returns.
\<close>

theorem refresh_discards_settings:
  "\<exists>v. fetchAll server rd (w\<lparr>w_page := onTarget g (onChannel c (w_page w))\<rparr>) = (Inr (), v) \<and>
     (w_toasts v = w_toasts w \<longrightarrow>
        Some (tg_channel (w_page v)) = stored_setting server w ''alert_channel'' \<and>
        Some (tg_target (w_page v)) = stored_setting server w ''alert_target'')"
  by (rule wp_total) (rule wp_mono [OF fetchAll_settings], simp_all)

definition traffic_load :: "'b server \<Rightarrow> traffic_reads \<Rightarrow> ('b, traffic_page) world \<Rightarrow> ('b, traffic_page) world \<times> bool" where
  "traffic_load server rd w =
     (let w' = snd (fetchAll server rd w) in (w', w_toasts w' = w_toasts w \<or> tg_loading (w_page w)))"

lemmas trafficApi_simps = trafficApi_summary_def trafficApi_history_def trafficApi_alerts_def trafficApi_settings_def

definition traffic_healthy :: "'b server \<Rightarrow> ('b, traffic_page) world \<Rightarrow> bool" where
  "traffic_healthy = healthy [trafficApi_history (Some (num 30)), trafficApi_alerts (Some (num 20))]
     [trafficApi_summary, trafficApi_settings]"

lemma fetchAll_healthy:
  assumes "traffic_healthy server w"
  shows "wp (fetchAll server rd) (\<lambda>_ v. w_toasts v = w_toasts w \<and> length (w_sent v) = length (w_sent w) + 4 \<and>
    w_storage v = w_storage w) (\<lambda>_ _. False) w"
proof -
  let ?h = "trafficApi_history (Some (num 30))" and ?a = "trafficApi_alerts (Some (num 20))"
  have g: "gives server (authHeader (w_storage w)) is_object trafficApi_summary"
    "gives server (authHeader (w_storage w)) is_list ?h" "gives server (authHeader (w_storage w)) is_list ?a"
    "gives server (authHeader (w_storage w)) is_object trafficApi_settings"
    using assms by (simp_all add: traffic_healthy_def healthy_def)
  obtain s ss where s: "answered server trafficApi_summary w = Inr (JObj s)" "prop_of s ''data'' = JObj ss"
    "w_storage (called server trafficApi_summary w) = w_storage w" using answered_object [OF g(1) refl] by blast
  let ?w1 = "called server trafficApi_summary w"
  obtain h hs where h: "answered server ?h ?w1 = Inr (JObj h)" "prop_of h ''data'' = JArr hs"
    "w_storage (called server ?h ?w1) = w_storage w" using answered_list [OF g(2) s(3)] by blast
  let ?w2 = "called server ?h ?w1"
  obtain a as where a: "answered server ?a ?w2 = Inr (JObj a)" "prop_of a ''data'' = JArr as"
    "w_storage (called server ?a ?w2) = w_storage w" using answered_list [OF g(3) h(3)] by blast
  let ?w3 = "called server ?a ?w2"
  obtain t ts where t: "answered server trafficApi_settings ?w3 = Inr (JObj t)" "prop_of t ''data'' = JObj ts"
    "w_storage (called server trafficApi_settings ?w3) = w_storage w" using answered_object [OF g(4) a(3)] by blast
  show ?thesis by (simp add: fetchAll_def store_all_def store_settings_def s h a t)
qed

definition stored :: "unit server" where
  "stored rq header b = (Some \<lparr>rs_status = 200, rs_body = Some (JObj [(js ''data'',
     if rq \<in> {trafficApi_summary, trafficApi_settings}
     then JObj [(js ''alert_channel'', JStr (js ''ntfy'')), (js ''alert_target'', JStr (js ''topic''))] else JArr [])])\<rparr>, b)"

theorem refresh_discards_settings_witness:
  "tg_channel (w_page (snd (fetchAll stored no_reads
     ((fresh initial_traffic_page)\<lparr>w_page := onTarget (js ''typed'') (onChannel (js ''bark'') initial_traffic_page)\<rparr>)))) =
   js ''ntfy''"
proof -
  let ?w = "fresh initial_traffic_page :: (unit, traffic_page) world"
  let ?typed = "?w\<lparr>w_page := onTarget (js ''typed'') (onChannel (js ''bark'') (w_page ?w))\<rparr>"
  obtain v where v: "fetchAll stored no_reads ?typed = (Inr (), v)"
    "w_toasts v = w_toasts ?w \<Longrightarrow> Some (tg_channel (w_page v)) = stored_setting stored ?w ''alert_channel''"
    using refresh_discards_settings [of stored no_reads "js ''typed''" "js ''bark''" ?w] by blast
  have "traffic_healthy stored ?typed"
    by (simp add: traffic_healthy_def healthy_def gives_def stored_def is_list_def is_object_def trafficApi_simps)
  from fetchAll_healthy [OF this, of no_reads] have "w_toasts v = w_toasts ?w"
    unfolding wp_def v(1) by simp
  moreover have "stored_setting stored ?w ''alert_channel'' = Some (js ''ntfy'')"
    by (simp add: stored_setting_def answered_def api_def stored_def)
  ultimately show ?thesis using v by simp
qed

lemma traffic_load_healthy:
  assumes "traffic_healthy server w"
  shows "snd (traffic_load server rd w)" "length (w_sent (fst (traffic_load server rd w))) = length (w_sent w) + 4"
    "traffic_healthy server (fst (traffic_load server rd w))"
  using fetchAll_healthy [OF assms, of rd] assms
  by (auto simp: traffic_load_def wp_def Let_def traffic_healthy_def healthy_def split: prod.splits sum.splits)

interpretation traffic_loop: effect_loop "traffic_load server rd" "\<lambda>w. length (w_sent w)" 4 "traffic_healthy server"
  for server rd
  by unfold_locales (simp_all add: traffic_load_healthy)

text \<open>
  The traffic page never comes to rest while the backend answers. Its load effect depends on
  the translation function, which is new on every render; so each load that succeeds makes the next
  one start at once, four requests at a time, for as long as the page is open.
\<close>

theorem traffic_page_never_rests:
  assumes "healthy [trafficApi_history (Some (num 30)), trafficApi_alerts (Some (num 20))]
    [trafficApi_summary, trafficApi_settings] server w"
  shows "\<not> at_rest (turns (traffic_load server rd) n w) \<and>
    length (w_sent (fst (turns (traffic_load server rd) n w))) = length (w_sent w) + 4 * n"
  by (rule traffic_loop.never_rests) (use assms in \<open>simp add: traffic_healthy_def\<close>)

theorem traffic_page_never_rests_witness:
  "length (w_sent (fst (turns (traffic_load (steady [trafficApi_summary, trafficApi_settings]) no_reads) 1000
     (fresh initial_traffic_page)))) = 4000"
  using traffic_page_never_rests [OF healthy_steady, of no_reads 1000 "fresh initial_traffic_page"]
  by (simp add: trafficApi_simps)

section \<open>The chart stays in its frame\<close>

lemma rnd_between:
  assumes "0 \<le> q" "q \<le> of_int n" "0 < n" "n < 2 ^ 53"
  shows "\<exists>r. rnd q = Fin r \<and> 0 \<le> r \<and> r \<le> of_int n"
proof (cases "q = 0")
  case True
  then show ?thesis using assms(3) by simp
next
  case False
  then have q: "0 < q" using assms(1) by simp
  have n: "pos_double (of_int n)" using pos_doubleI [of n 0] assms(3,4) by (simp add: pow2_def)
  have "of_int n < (of_int (2 ^ 53) :: rat)" using assms(4) by (simp only: of_int_less_iff)
  also have "\<dots> = pow2 53" by (simp add: pow2_def)
  also have "\<dots> \<le> pow2 1024" by simp
  finally have "rnd q = Fin (round_abs q)" by (rule rnd_pos [OF q assms(2) n])
  then show ?thesis using round_abs_le [OF q assms(2) n] round_abs_nonneg [of q] q by auto
qed

text \<open>A day whose byte counts are whole numbers that do not exceed what a double counts exactly.\<close>

definition day_ok :: "daily_usage \<Rightarrow> bool" where
  "day_ok d \<longleftrightarrow> (\<exists>ns u. map snd (du_providers d) = map (\<lambda>n. num (int n)) ns \<and> du_unassigned d = num (int u) \<and>
     sum_list ns + u < 2 ^ 53)"

lemma foldl_add_exact:
  "a + sum_list ns < 2 ^ 53 \<Longrightarrow>
    foldl num_add (num (int a)) (map (\<lambda>n. num (int n)) ns) = num (int (a + sum_list ns))"
proof (induction ns arbitrary: a)
  case (Cons n ns)
  have "num_add (num (int a)) (num (int n)) = num (int (a + n))"
    using rnd_int [of "int (a + n)"] Cons.prems by (simp add: num_def)
  then show ?case using Cons.IH [of "a + n"] Cons.prems by (simp add: add.assoc)
qed simp

lemma day_total_exact:
  assumes "day_ok d"
  shows "\<exists>n. day_total d = num (int n) \<and> n < 2 ^ 53 \<and>
    (\<exists>u. du_unassigned d = num (int u) \<and> u \<le> n) \<and>
    (\<forall>i v. map_of (du_providers d) i = Some v \<longrightarrow> (\<exists>m. v = num (int m) \<and> m \<le> n))"
proof -
  obtain ns u where d: "map snd (du_providers d) = map (\<lambda>n. num (int n)) ns" "du_unassigned d = num (int u)"
    "sum_list ns + u < 2 ^ 53" using assms by (auto simp: day_ok_def)
  have f: "foldl num_add (num 0) (map snd (du_providers d)) = num (int (sum_list ns))"
    using foldl_add_exact [of 0 ns] d(1,3) by simp
  have t: "day_total d = num (int (sum_list ns + u))"
    using rnd_int [of "int (sum_list ns + u)"] d(2,3) unfolding day_total_def f by (simp add: num_def)
  have "\<exists>m. v = num (int m) \<and> m \<le> sum_list ns + u" if "map_of (du_providers d) i = Some v" for i v
  proof -
    have "v \<in> set (map snd (du_providers d))" using map_of_SomeD [OF that] by force
    then obtain m where "m \<in> set ns" "v = num (int m)" unfolding d(1) by auto
    then show ?thesis using member_le_sum_list [of m ns] by auto
  qed
  then show ?thesis using t d(2,3) by (intro exI [of _ "sum_list ns + u"]) auto
qed

lemma foldl_max:
  assumes "list_all (\<lambda>n. n < 2 ^ 53) ns"
  shows "\<exists>m. foldl num_max (num (int a)) (map (\<lambda>n. num (int n)) ns) = num (int m) \<and> a \<le> m \<and> list_all (\<lambda>n. n \<le> m) ns \<and>
    (a < 2 ^ 53 \<longrightarrow> m < 2 ^ 53)"
  using assms
proof (induction ns arbitrary: a)
  case (Cons n ns)
  have "num_max (num (int a)) (num (int n)) = num (int (max a n))" by (auto simp: num_max_def num_def)
  then show ?case using Cons.IH [of "max a n"] Cons.prems by auto
qed simp

lemma chart_max_bounds:
  assumes "list_all day_ok ds"
  shows "\<exists>m. chart_max ds = num (int m) \<and> 1 \<le> m \<and> m < 2 ^ 53 \<and>
    list_all (\<lambda>d. \<exists>n. day_total d = num (int n) \<and> n \<le> m) ds"
proof -
  have "\<exists>ns. map day_total ds = map (\<lambda>n. num (int n)) ns \<and> list_all (\<lambda>n. n < 2 ^ 53) ns"
    using assms
  proof (induction ds)
    case (Cons d ds)
    then obtain ns n where "map day_total ds = map (\<lambda>n. num (int n)) ns" "list_all (\<lambda>n. n < 2 ^ 53) ns"
      "day_total d = num (int n)" "n < 2 ^ 53" using day_total_exact by fastforce
    then show ?case by (intro exI [of _ "n # ns"]) simp
  qed simp
  then obtain ns where ns: "map day_total ds = map (\<lambda>n. num (int n)) ns" "list_all (\<lambda>n. n < 2 ^ 53) ns" by blast
  obtain m where m: "foldl num_max (num (int 1)) (map (\<lambda>n. num (int n)) ns) = num (int m)" "1 \<le> m"
    "list_all (\<lambda>n. n \<le> m) ns" "m < 2 ^ 53" using foldl_max [OF ns(2), of 1] by auto
  have "list_all (\<lambda>d. \<exists>n. day_total d = num (int n) \<and> n \<le> m) ds"
    unfolding list_all_iff
  proof
    fix d assume "d \<in> set ds"
    then have "day_total d \<in> set (map (\<lambda>n. num (int n)) ns)" unfolding ns(1) [symmetric] by simp
    then show "\<exists>n. day_total d = num (int n) \<and> n \<le> m" using m(3) by (auto simp: list_all_iff)
  qed
  then show ?thesis using m ns(1) by (auto simp: chart_max_def)
qed

lemma bar_height_bounds:
  assumes "1 \<le> m" "m < 2 ^ 53" "v \<le> m"
  shows "\<exists>h. bar_height (num (int m)) (num (int v)) = Fin h \<and> 2 \<le> h \<and> h \<le> 152"
proof -
  have "(0 :: rat) \<le> of_int (int v) / of_int (int m)" "of_int (int v) / of_int (int m) \<le> (of_int 1 :: rat)"
    using assms by (simp_all add: divide_le_eq)
  then obtain r where r: "rnd (of_int (int v) / of_int (int m)) = Fin r" "0 \<le> r" "r \<le> 1"
    using rnd_between [of "of_int (int v) / of_int (int m)" 1] by auto
  then have "0 \<le> r * 152" "r * 152 \<le> of_int 152" by simp_all
  then obtain h where "rnd (r * 152) = Fin h" "0 \<le> h" "h \<le> 152" using rnd_between [of "r * 152" 152] by auto
  moreover have "num_div (num (int v)) (num (int m)) = Fin r" using r assms(1) by (simp add: num_def)
  ultimately show ?thesis by (auto simp: bar_height_def num_max_def num_def)
qed

text \<open>
  C22: no bar of the daily chart leaves its frame. For a history of whole byte counts the scale is
  never zero, and every bar of every day, the one for unassigned traffic included, is between 2 and
  152 pixels high in spite of the floating-point division.
\<close>

theorem chart_bars_in_frame:
  assumes "list_all day_ok ds" "d \<in> set ds" "(c, h) \<in> set (day_bars isDark ps (chart_max ds) d)"
  shows "\<exists>x. h = Fin x \<and> 2 \<le> x \<and> x \<le> 152"
proof -
  obtain m where m: "chart_max ds = num (int m)" "1 \<le> m" "m < 2 ^ 53"
    "list_all (\<lambda>d. \<exists>n. day_total d = num (int n) \<and> n \<le> m) ds" using chart_max_bounds [OF assms(1)] by blast
  obtain n where n: "day_total d = num (int n)" "n \<le> m" using m(4) assms(2) by (auto simp: list_all_iff)
  obtain n' u where n': "day_total d = num (int n')" "du_unassigned d = num (int u)" "u \<le> n'"
    "\<forall>i v. map_of (du_providers d) i = Some v \<longrightarrow> (\<exists>k. v = num (int k) \<and> k \<le> n')"
    using day_total_exact [of d] assms(1,2) by (auto simp: list_all_iff)
  have "n' = n" using n(1) n'(1) by simp
  have pv: "\<exists>k. provider_value d p = num (int k) \<and> k \<le> m" for p
  proof (cases "map_of (du_providers d) (tp_id p)")
    case None
    then show ?thesis by (intro exI [of _ 0]) (simp add: provider_value_def num_or_def)
  next
    case (Some v)
    then obtain k where "v = num (int k)" "k \<le> n'" using n'(4) by blast
    then show ?thesis using Some n(2) \<open>n' = n\<close>
      by (intro exI [of _ k]) (auto simp: provider_value_def num_or_def num_def)
  qed
  have "(\<exists>p. h = bar_height (num (int m)) (provider_value d p)) \<or> h = bar_height (num (int m)) (num (int u))"
    using assms(3) n'(2) unfolding m(1) day_bars_def by (auto split: if_splits)
  then have "\<exists>k. h = bar_height (num (int m)) (num (int k)) \<and> k \<le> m"
  proof
    assume "\<exists>p. h = bar_height (num (int m)) (provider_value d p)"
    then show ?thesis using pv by metis
  next
    assume "h = bar_height (num (int m)) (num (int u))"
    then show ?thesis using n'(3) n(2) \<open>n' = n\<close> by auto
  qed
  then show ?thesis using bar_height_bounds [OF m(2,3)] by blast
qed

theorem chart_bars_in_frame_witness:
  "\<exists>x. snd (hd (day_bars False [] (chart_max [\<lparr>du_date = [], du_providers = [], du_unassigned = num 5\<rparr>])
     \<lparr>du_date = [], du_providers = [], du_unassigned = num 5\<rparr>)) = Fin x \<and> 2 \<le> x \<and> x \<le> 152"
proof -
  let ?d = "\<lparr>du_date = [], du_providers = [], du_unassigned = num 5\<rparr> :: daily_usage"
  have ok: "list_all day_ok [?d]" by (auto simp: day_ok_def intro: exI [of _ 5])
  have "day_bars False [] (chart_max [?d]) ?d = [(Some UNASSIGNED_COLOR, bar_height (chart_max [?d]) (num 5))]"
    by (simp add: day_bars_def)
  moreover from this have "\<exists>x. bar_height (chart_max [?d]) (num 5) = Fin x \<and> 2 \<le> x \<and> x \<le> 152"
    by (intro chart_bars_in_frame [OF ok, of ?d "Some UNASSIGNED_COLOR" _ False "[]"]) simp_all
  ultimately show ?thesis by simp
qed

end
