(* ===== verification/Subscriptions_Page.thy ===== *)
theory Subscriptions_Page
  imports Subscription_Form Render_Loop
begin

text \<open>
  \<open>pages/subscriptions.tsx\<close> and \<open>lib/api-error.ts\<close>: loading, saving, deleting and refreshing
  subscriptions, and what the page reports. The lemmas show what an error report can contain, what a
  failed save leaves, and that the page keeps loading itself.
\<close>

section \<open>Errors of the API\<close>

record api_error_info =
  ae_status :: "int option"
  ae_code :: jstring
  ae_message :: jstring
  ae_references :: "jstring list option"

definition readString :: "jsval \<Rightarrow> jstring" where
  "readString v = (case v of JStr s \<Rightarrow> s | _ \<Rightarrow> [])"

definition readReferences :: "jsval \<Rightarrow> jstring list option" where
  "readReferences v = (case v of
     JArr xs \<Rightarrow> Some (concat (map (\<lambda>x. case x of JStr s \<Rightarrow> [s] | _ \<Rightarrow> []) xs)) | _ \<Rightarrow> None)"

definition first_text :: "jstring \<Rightarrow> jstring \<Rightarrow> jstring" where
  "first_text a b = (if a \<noteq> [] then a else b)"

definition readApiError :: "thrown \<Rightarrow> api_error_info" where
  "readApiError e = (case e of
     HTTPError r \<Rightarrow>
       (let rt = or_default (rs_body r) Null; envelope = opt_member rt ''error''; data = opt_member rt ''data''
        in \<lparr>ae_status = Some (rs_status r),
            ae_code = first_text (readString (opt_member envelope ''code'')) (readString (opt_member rt ''code'')),
            ae_message = first_text (readString (opt_member envelope ''message'')) (readString (opt_member rt ''message'')),
            ae_references = nullish (readReferences (opt_member envelope ''references''))
              (nullish (readReferences (opt_member data ''references'')) (readReferences (opt_member rt ''references'')))\<rparr>)
   | _ \<Rightarrow> \<lparr>ae_status = None, ae_code = [], ae_message = [], ae_references = None\<rparr>)"

section \<open>The page\<close>

record subs_page =
  sp_subscriptions :: "subscription list"
  sp_providers :: "discovered_provider list"
  sp_trafficProviders :: "traffic_provider list"
  sp_loading :: bool
  sp_loadError :: bool
  sp_refreshing :: "jstring \<Rightarrow> bool"
  sp_refreshingAll :: bool
  sp_draftNotice :: bool
  sp_formOpen :: bool
  sp_editing :: "subscription option"
  sp_deleting :: "subscription option"

definition initial_subs_page :: subs_page where
  "initial_subs_page = \<lparr>sp_subscriptions = [], sp_providers = [], sp_trafficProviders = [], sp_loading = True,
     sp_loadError = False, sp_refreshing = (\<lambda>_. False), sp_refreshingAll = False, sp_draftNotice = False,
     sp_formOpen = False, sp_editing = None, sp_deleting = None\<rparr>"

text \<open>How the page reads responses as its types.\<close>

record subs_reads =
  as_subscriptions :: "jsval \<Rightarrow> subscription list"
  as_subscription :: "jsval \<Rightarrow> subscription"
  as_discovered :: "jsval \<Rightarrow> discovered_provider list"
  as_traffic :: "jsval \<Rightarrow> traffic_provider list"

definition isAdmin :: "auth_state \<Rightarrow> bool" where
  "isAdmin s \<longleftrightarrow> opt_member (au_user s) ''role'' = JStr (js ''admin'')"

text \<open>\<open>.catch(() => ({ data: [] }))\<close>.\<close>

definition or_no_data :: "thrown + jsval \<Rightarrow> jsval" where
  "or_no_data r = (case r of Inr v \<Rightarrow> v | Inl _ \<Rightarrow> JObj [(js ''data'', JArr [])])"

definition store_subs :: "subs_reads \<Rightarrow> jsval \<Rightarrow> jsval \<Rightarrow> jsval \<Rightarrow> (('b, subs_page) world, unit) io" where
  "store_subs rd subs provs tps =
     io_bind (io_lift (member subs ''data'')) (\<lambda>d.
     io_then (page (\<lambda>p. p\<lparr>sp_subscriptions := as_subscriptions rd (coalesce d (JArr []))\<rparr>))
     (io_bind (io_lift (member provs ''data'')) (\<lambda>d.
     io_then (page (\<lambda>p. p\<lparr>sp_providers := as_discovered rd (coalesce d (JArr []))\<rparr>))
     (io_bind (io_lift (member tps ''data'')) (\<lambda>d.
     page (\<lambda>p. p\<lparr>sp_trafficProviders := as_traffic rd (coalesce d (JArr [])), sp_loadError := False\<rparr>))))))"

definition subs_fetchAll :: "'b server \<Rightarrow> subs_reads \<Rightarrow> (('b, subs_page) world, unit) io" where
  "subs_fetchAll server rd =
     io_finally
       (io_catch
         (io_bind (io_try (api server subscriptionsApi_list)) (\<lambda>subs.
          io_bind (io_try (api server subscriptionsApi_providers)) (\<lambda>provs.
          io_bind (io_try (api server trafficApi_providers)) (\<lambda>tps.
          case subs of
            Inl e \<Rightarrow> io_throw e
          | Inr s \<Rightarrow> store_subs rd s (or_no_data provs) (or_no_data tps)))))
         (\<lambda>_. io_then (page (\<lambda>p. p\<lparr>sp_loadError := True\<rparr>)) (toast (Failure (Key ''subscriptions.loadFailed'' [])))))
       (page (\<lambda>p. p\<lparr>sp_loading := False\<rparr>))"

definition subs_openCreate :: "subs_page \<Rightarrow> subs_page" where
  "subs_openCreate p = p\<lparr>sp_editing := None, sp_formOpen := True\<rparr>"

definition subs_openEdit :: "subscription \<Rightarrow> subs_page \<Rightarrow> subs_page" where
  "subs_openEdit s p = p\<lparr>sp_editing := Some s, sp_formOpen := True\<rparr>"

definition onFormOpen :: "bool \<Rightarrow> subs_page \<Rightarrow> subs_page" where
  "onFormOpen opened p = (if opened then p\<lparr>sp_formOpen := True\<rparr> else p\<lparr>sp_formOpen := False, sp_editing := None\<rparr>)"

definition onRequestDelete :: "subscription \<Rightarrow> subs_page \<Rightarrow> subs_page" where
  "onRequestDelete s p = p\<lparr>sp_formOpen := False, sp_editing := None, sp_deleting := Some s\<rparr>"

definition closeDelete :: "subs_page \<Rightarrow> subs_page" where
  "closeDelete p = p\<lparr>sp_deleting := None\<rparr>"

definition delete_dialog :: "subs_page \<Rightarrow> (string \<times> message) option" where
  "delete_dialog p = (case sp_deleting p of
     None \<Rightarrow> None
   | Some s \<Rightarrow> Some (if sb_source_type s = js ''traffic''
       then (''subscriptions.deleteTitleTraffic'', Key ''subscriptions.deleteConfirmTraffic'' [(''name'', sb_name s)])
       else (''subscriptions.deleteTitle'', Key ''subscriptions.deleteConfirm'' [(''name'', sb_name s)])))"

definition text_or :: "jstring \<Rightarrow> string \<Rightarrow> message" where
  "text_or m k = (if m \<noteq> [] then Raw m else Key k [])"

section \<open>Saving and deleting\<close>

definition save_failure :: "api_error_info \<Rightarrow> message" where
  "save_failure info = (if ae_status info = Some 409 then Key ''subscriptions.saveConflict'' []
     else text_or (ae_message info) ''subscriptions.saveFailed'')"

definition save :: "'b server \<Rightarrow> subs_reads \<Rightarrow> jsval \<Rightarrow> jstring option \<Rightarrow> (('b, subs_page) world, unit) io" where
  "save server rd input i =
     io_catch
       (io_bind (api server (case nonempty i of
          Some x \<Rightarrow> subscriptionsApi_update x input | None \<Rightarrow> subscriptionsApi_create input)) (\<lambda>res.
        io_bind (io_lift (member res ''data'')) (\<lambda>d.
        io_then (if truthy (opt_member d ''draft_changed'') then page (\<lambda>p. p\<lparr>sp_draftNotice := True\<rparr>) else io_return ())
        (io_then (toast (Success (Key (if nonempty i \<noteq> None then ''subscriptions.updated'' else ''subscriptions.created'') [])))
          (subs_fetchAll server rd)))))
       (\<lambda>e. io_then (toast (Failure (save_failure (readApiError e)))) (io_throw (Error_Thrown (js ''save failed''))))"

definition delete_failure :: "api_error_info \<Rightarrow> message" where
  "delete_failure info = (case ae_references info of
     Some (g # gs) \<Rightarrow> Key ''subscriptions.deleteBlocked'' [(''groups'', join (js '', '') (g # gs))]
   | _ \<Rightarrow> text_or (ae_message info)
       (if ae_status info = Some 409 then ''subscriptions.deleteReferencedGeneric'' else ''subscriptions.deleteFailed''))"

definition confirmDelete :: "'b server \<Rightarrow> subs_reads \<Rightarrow> (('b, subs_page) world, unit) io" where
  "confirmDelete server rd = io_read (\<lambda>w.
     case sp_deleting (w_page w) of
       None \<Rightarrow> io_return ()
     | Some s \<Rightarrow>
         io_catch
           (io_bind (api server (subscriptionsApi_remove (sb_id s))) (\<lambda>res.
            io_then (toast (Success (Key ''subscriptions.deleted'' [])))
            (io_bind (io_lift (member res ''data'')) (\<lambda>d.
             io_then (if opt_member d ''draft_changed'' = JBool True
               then page (\<lambda>p. p\<lparr>sp_draftNotice := True\<rparr>) else io_return ())
             (io_then (page closeDelete) (subs_fetchAll server rd))))))
           (\<lambda>e. toast (Failure (delete_failure (readApiError e)))))"

section \<open>Refreshing\<close>

definition replace_sub :: "subscription \<Rightarrow> subscription list \<Rightarrow> subscription list" where
  "replace_sub u = map (\<lambda>s. if sb_id s = sb_id u then u else s)"

definition refresh_report :: "jsval \<Rightarrow> toast" where
  "refresh_report err =
     (if truthy err then Failure
        (if opt_member err ''code'' = JStr (js ''rate_limited'') \<and> truthy (opt_member err ''retry_after_seconds'') then
           Joined (Key ''subscriptions.rateLimited'' [(''seconds'', to_str (opt_member err ''retry_after_seconds''))])
             ([32] @ to_str (opt_member err ''message''))
         else if truthy (opt_member err ''message'') then Raw (to_str (opt_member err ''message''))
         else Key ''subscriptions.refreshFailed'' [])
      else Success (Key ''subscriptions.refreshed'' []))"

definition refreshOne :: "'b server \<Rightarrow> subs_reads \<Rightarrow> subscription \<Rightarrow> (('b, subs_page) world, unit) io" where
  "refreshOne server rd sub = io_read (\<lambda>w.
     if \<not> isAdmin (w_auth w) then io_return ()
     else io_then (page (\<lambda>p. p\<lparr>sp_refreshing := (sp_refreshing p)(sb_id sub := True)\<rparr>))
       (io_finally
         (io_catch
           (io_bind (api server (subscriptionsApi_refresh (sb_id sub))) (\<lambda>res.
            io_bind (io_lift (member res ''data'')) (\<lambda>d.
            io_then (if truthy (opt_member d ''subscription'')
              then page (\<lambda>p. p\<lparr>sp_subscriptions := replace_sub (as_subscription rd (opt_member d ''subscription'')) (sp_subscriptions p)\<rparr>)
              else io_return ())
            (io_then (toast (refresh_report (opt_member d ''error''))) (subs_fetchAll server rd)))))
           (\<lambda>e. toast (Failure (text_or (ae_message (readApiError e)) ''subscriptions.refreshFailed''))))
         (page (\<lambda>p. p\<lparr>sp_refreshing := (sp_refreshing p)(sb_id sub := False)\<rparr>))))"

text \<open>\<open>Promise.allSettled\<close> over the enabled subscriptions.\<close>

fun settle :: "'b server \<Rightarrow> request list \<Rightarrow> (('b, 'p) world, (thrown + jsval) list) io" where
  "settle server [] = io_return []"
| "settle server (rq # rqs) =
     io_bind (io_try (api server rq)) (\<lambda>r. io_bind (settle server rqs) (\<lambda>rs. io_return (r # rs)))"

definition refresh_failed :: "thrown + jsval \<Rightarrow> bool result" where
  "refresh_failed r = (case r of
     Inl _ \<Rightarrow> Inr True | Inr v \<Rightarrow> map_result (\<lambda>d. truthy (opt_member d ''error'')) (member v ''data''))"

fun count_failed :: "(thrown + jsval) list \<Rightarrow> nat result" where
  "count_failed [] = Inr 0"
| "count_failed (r # rs) = (case refresh_failed r of
     Inl e \<Rightarrow> Inl e | Inr b \<Rightarrow> map_result (\<lambda>n. if b then Suc n else n) (count_failed rs))"

definition refresh_requests :: "subs_page \<Rightarrow> request list" where
  "refresh_requests p = map (\<lambda>s. subscriptionsApi_refresh (sb_id s)) (filter sb_enabled (sp_subscriptions p))"

definition refreshAll :: "'b server \<Rightarrow> subs_reads \<Rightarrow> (('b, subs_page) world, unit) io" where
  "refreshAll server rd = io_read (\<lambda>w.
     if \<not> isAdmin (w_auth w) then io_return ()
     else io_then (page (\<lambda>p. p\<lparr>sp_refreshingAll := True\<rparr>))
       (io_bind (settle server (refresh_requests (w_page w))) (\<lambda>results.
        io_bind (io_lift (count_failed results)) (\<lambda>failed.
        io_then (toast (Success (Key ''subscriptions.refreshAllSummary''
          [(''ok'', dec_digits (length results - failed)), (''failed'', dec_digits failed)])))
        (io_then (page (\<lambda>p. p\<lparr>sp_refreshingAll := False\<rparr>)) (subs_fetchAll server rd))))))"

section \<open>What the page shows\<close>

datatype subs_content = Subs_Loading | Subs_Error | Subs_Empty | Cards "(subscription \<times> bool) list"

definition subs_content :: "subs_page \<Rightarrow> subs_content" where
  "subs_content p =
     (if sp_loading p then Subs_Loading else if sp_loadError p then Subs_Error
      else if sp_subscriptions p = [] then Subs_Empty
      else Cards (map (\<lambda>s. (s, sp_refreshing p (sb_id s))) (sp_subscriptions p)))"

definition refresh_all_disabled :: "auth_state \<Rightarrow> subs_page \<Rightarrow> bool" where
  "refresh_all_disabled a p \<longleftrightarrow> \<not> isAdmin a \<or> sp_refreshingAll p \<or> filter sb_enabled (sp_subscriptions p) = []"

section \<open>Saving\<close>

text \<open>What a load leaves alone: everything but the three lists and the two flags of loading.\<close>

definition same_dialogs :: "subs_page \<Rightarrow> subs_page \<Rightarrow> bool" where
  "same_dialogs p q \<longleftrightarrow> sp_refreshing p = sp_refreshing q \<and> sp_refreshingAll p = sp_refreshingAll q \<and>
     sp_draftNotice p = sp_draftNotice q \<and> sp_formOpen p = sp_formOpen q \<and> sp_editing p = sp_editing q \<and>
     sp_deleting p = sp_deleting q"

definition load_failed :: toast where
  "load_failed = Failure (Key ''subscriptions.loadFailed'' [])"

lemma subs_fetchAll_quiet:
  "wp (subs_fetchAll server rd) (\<lambda>_ v. same_dialogs (w_page v) (w_page w) \<and> \<not> sp_loading (w_page v) \<and>
     w_auth v = w_auth w \<and>
     map fst (w_sent v) = map fst (w_sent w) @ [subscriptionsApi_list, subscriptionsApi_providers, trafficApi_providers] \<and>
     w_toasts v = w_toasts w @ (if sp_loadError (w_page v) then [load_failed] else [])) (\<lambda>_ _. False) w"
  by (auto simp: subs_fetchAll_def store_subs_def or_no_data_def same_dialogs_def load_failed_def split: sum.splits)

lemma wp_load:
  assumes "\<And>v. same_dialogs (w_page v) (w_page w) \<Longrightarrow> w_auth v = w_auth w \<Longrightarrow>
      map fst (w_sent v) = map fst (w_sent w) @ [subscriptionsApi_list, subscriptionsApi_providers, trafficApi_providers] \<Longrightarrow>
      w_toasts v = w_toasts w @ (if sp_loadError (w_page v) then [load_failed] else []) \<Longrightarrow> Q () v"
  shows "wp (subs_fetchAll server rd) Q E w"
  by (rule wp_mono [OF subs_fetchAll_quiet]) (use assms in auto)

text \<open>
  C27: a save reports exactly the outcome of its one request, and throws on exactly when that request
  fails. When the backend refuses the request, does not answer or answers nothing readable, the page
  shows one failure, a conflict for status 409 and otherwise the backend's own message if it has one;
  nothing else of the page changes, nothing else is sent and an error reaches the form, which stays
  open. Otherwise the handler returns: one success is shown, which says updated for a subscription
  that has an id and created for a new one, followed by the failure of the reload if the lists cannot
  be loaded, the draft notice appears if the answer says that the draft has changed, and the dialogs
  stay as they are.
\<close>

theorem save_outcome:
  "\<exists>r w'. save server rd input i w = (r, w') \<and>
     (let rq = (case nonempty i of Some x \<Rightarrow> subscriptionsApi_update x input | None \<Rightarrow> subscriptionsApi_create input);
          refused = (\<lambda>e. r = Inl (Error_Thrown (js ''save failed'')) \<and> w_page w' = w_page w \<and>
            map fst (w_sent w') = map fst (w_sent w) @ [rq] \<and>
            w_toasts w' = w_toasts w @ [Failure (save_failure (readApiError e))])
      in case answered server rq w of
           Inl e \<Rightarrow> refused e
         | Inr res \<Rightarrow> (case member res ''data'' of
             Inl e \<Rightarrow> refused (Js e)
           | Inr d \<Rightarrow> r = Inr () \<and>
               map fst (w_sent w') = map fst (w_sent w) @
                 [rq, subscriptionsApi_list, subscriptionsApi_providers, trafficApi_providers] \<and>
               w_toasts w' = w_toasts w @
                 Success (Key (if nonempty i = None then ''subscriptions.created'' else ''subscriptions.updated'') []) #
                 (if sp_loadError (w_page w') then [load_failed] else []) \<and>
               sp_draftNotice (w_page w') = (sp_draftNotice (w_page w) \<or> truthy (opt_member d ''draft_changed'')) \<and>
               sp_formOpen (w_page w') = sp_formOpen (w_page w) \<and> sp_editing (w_page w') = sp_editing (w_page w) \<and>
               sp_deleting (w_page w') = sp_deleting (w_page w)))"
proof -
  define rq where "rq = (case nonempty i of Some x \<Rightarrow> subscriptionsApi_update x input | None \<Rightarrow> subscriptionsApi_create input)"
  define Refused where "Refused e r w' \<longleftrightarrow> r = Inl (Error_Thrown (js ''save failed'')) \<and> w_page w' = w_page w \<and>
      map fst (w_sent w') = map fst (w_sent w) @ [rq] \<and>
      w_toasts w' = w_toasts w @ [Failure (save_failure (readApiError e))]" for e and r :: "thrown + unit" and w' :: "('a, subs_page) world"
  define Saved where "Saved d r w' \<longleftrightarrow> r = Inr () \<and>
      map fst (w_sent w') = map fst (w_sent w) @
        [rq, subscriptionsApi_list, subscriptionsApi_providers, trafficApi_providers] \<and>
      w_toasts w' = w_toasts w @
        Success (Key (if nonempty i = None then ''subscriptions.created'' else ''subscriptions.updated'') []) #
        (if sp_loadError (w_page w') then [load_failed] else []) \<and>
      sp_draftNotice (w_page w') = (sp_draftNotice (w_page w) \<or> truthy (opt_member d ''draft_changed'')) \<and>
      sp_formOpen (w_page w') = sp_formOpen (w_page w) \<and> sp_editing (w_page w') = sp_editing (w_page w) \<and>
      sp_deleting (w_page w') = sp_deleting (w_page w)" for d and r :: "thrown + unit" and w' :: "('a, subs_page) world"
  define Q where "Q r w' \<longleftrightarrow> (case answered server rq w of
      Inl e \<Rightarrow> Refused e r w'
    | Inr res \<Rightarrow> (case member res ''data'' of Inl e \<Rightarrow> Refused (Js e) r w' | Inr d \<Rightarrow> Saved d r w'))" for r w'
  have "wp (save server rd input i) (\<lambda>u. Q (Inr u)) (\<lambda>e. Q (Inl e)) w"
    unfolding save_def rq_def [symmetric]
    by (auto simp: Q_def Refused_def Saved_def same_dialogs_def wp_if split: sum.splits intro!: wp_load)
  then have "\<exists>r w'. save server rd input i w = (r, w') \<and> Q r w'"
    by (auto simp: wp_def split: prod.splits sum.splits)
  then show ?thesis unfolding Q_def Refused_def Saved_def rq_def Let_def .
qed

text \<open>
  Confirming a deletion settles it. Without a subscription to delete nothing happens; otherwise
  the handler returns, and when the backend refuses it shows exactly one failure, which names the
  groups that still refer to the provider if the backend lists them, while the list, the dialogs and
  the draft notice stay as they were.
\<close>

theorem confirmDelete_settles:
  "\<exists>w'. confirmDelete server rd w = (Inr (), w') \<and>
     (case sp_deleting (w_page w) of
        None \<Rightarrow> w' = w
      | Some s \<Rightarrow> (case answered server (subscriptionsApi_remove (sb_id s)) w of
          Inl e \<Rightarrow> w_page w' = w_page w \<and> w_toasts w' = w_toasts w @ [Failure (delete_failure (readApiError e))]
        | Inr v \<Rightarrow> Success (Key ''subscriptions.deleted'' []) \<in> set (w_toasts w')))"
proof (cases "sp_deleting (w_page w)")
  case None
  then show ?thesis by (simp add: confirmDelete_def io_read_def io_return_def)
next
  case (Some s)
  show ?thesis
    by (rule wp_total)
      (auto simp: confirmDelete_def Some wp_if split: sum.splits intro!: wp_load)
qed

text \<open>The answers to requests sent one after the other, each a failure or a value.\<close>

fun answers :: "'b server \<Rightarrow> request list \<Rightarrow> ('b, 'p) world \<Rightarrow> (thrown + jsval) list" where
  "answers server [] w = []"
| "answers server (rq # rqs) w = answered server rq w # answers server rqs (called server rq w)"

lemma length_answers [simp]: "length (answers server rqs w) = length rqs"
  by (induction rqs arbitrary: w) simp_all

lemma wp_settle:
  "wp (settle server rqs) (\<lambda>rs v. rs = answers server rqs w \<and> map fst (w_sent v) = map fst (w_sent w) @ rqs \<and>
     w_page v = w_page w \<and> w_toasts v = w_toasts w \<and> w_auth v = w_auth w) (\<lambda>_ _. False) w"
proof (induction rqs arbitrary: w)
  case (Cons rq rqs)
  let ?Q = "\<lambda>rs v. rs = answers server (rq # rqs) w \<and> map fst (w_sent v) = map fst (w_sent w) @ rq # rqs \<and>
    w_page v = w_page w \<and> w_toasts v = w_toasts w \<and> w_auth v = w_auth w"
  have step: "wp (settle server rqs) (\<lambda>rs. wp (io_return (r # rs)) ?Q (\<lambda>_ _. False)) (\<lambda>_ _. False) (called server rq w)"
    if "answered server rq w = r" for r
    by (rule wp_mono [OF Cons.IH]) (simp_all only: wp_return, simp add: that)
  show ?case
  proof (cases "answered server rq w")
    case (Inl e)
    show ?thesis using step [OF Inl] by (simp only: settle.simps wp_bind wp_try wp_api Inl sum.case)
  next
    case (Inr v)
    show ?thesis using step [OF Inr] by (simp only: settle.simps wp_bind wp_try wp_api Inr sum.case)
  qed
qed simp

lemma count_failed_spec:
  "count_failed rs =
     (if Inr Null \<in> set rs \<or> Inr Undef \<in> set rs then Inl TypeError
      else Inr (length (filter (\<lambda>r. case r of Inl _ \<Rightarrow> True | Inr v \<Rightarrow> truthy (opt_member (opt_member v ''data'') ''error'')) rs)))"
proof (induction rs)
  case (Cons r rs)
  show ?case
  proof (cases r)
    case (Inr v)
    have "member v ''data'' = (if v = Null \<or> v = Undef then Inl TypeError else Inr (opt_member v ''data''))"
      by (cases v) simp_all
    then show ?thesis using Cons Inr by (auto simp: refresh_failed_def map_result_def)
  qed (use Cons in \<open>auto simp: refresh_failed_def map_result_def\<close>)
qed simp

text \<open>
  C28: refreshing all subscriptions. Someone who is not an administrator sends nothing. For an
  administrator the page sends exactly one request for each enabled subscription, in their order, and
  then the three requests of a reload; the summary counts as failed the requests that were refused or
  not answered and those whose answer reports an error, and as successful all the others, so that the
  two numbers add up to the number of enabled subscriptions. Only an answer that is null makes the
  handler throw instead, without a summary and a reload, and with the button still busy.
\<close>

theorem refreshAll_adds_up:
  "\<exists>r w'. refreshAll server rd w = (r, w') \<and>
     (\<not> isAdmin (w_auth w) \<longrightarrow> r = Inr () \<and> w' = w) \<and>
     (isAdmin (w_auth w) \<longrightarrow>
        (let rqs = map (\<lambda>s. subscriptionsApi_refresh (sb_id s)) (filter sb_enabled (sp_subscriptions (w_page w)));
             results = answers server rqs (w\<lparr>w_page := (w_page w)\<lparr>sp_refreshingAll := True\<rparr>\<rparr>);
             bad = length (filter (\<lambda>a. case a of Inl _ \<Rightarrow> True
               | Inr v \<Rightarrow> truthy (opt_member (opt_member v ''data'') ''error'')) results);
             good = length (filter (\<lambda>a. case a of Inl _ \<Rightarrow> False
               | Inr v \<Rightarrow> \<not> truthy (opt_member (opt_member v ''data'') ''error'')) results)
         in good + bad = length (filter sb_enabled (sp_subscriptions (w_page w))) \<and>
            (if Inr Null \<in> set results \<or> Inr Undef \<in> set results
             then r = Inl (Js TypeError) \<and> map fst (w_sent w') = map fst (w_sent w) @ rqs \<and>
               w_toasts w' = w_toasts w \<and> sp_refreshingAll (w_page w')
             else r = Inr () \<and>
               map fst (w_sent w') = map fst (w_sent w) @ rqs @
                 [subscriptionsApi_list, subscriptionsApi_providers, trafficApi_providers] \<and>
               w_toasts w' = w_toasts w @
                 Success (Key ''subscriptions.refreshAllSummary'' [(''ok'', dec_digits good), (''failed'', dec_digits bad)]) #
                 (if sp_loadError (w_page w') then [load_failed] else []) \<and>
               \<not> sp_refreshingAll (w_page w'))))"
proof (cases "isAdmin (w_auth w)")
  case False
  then show ?thesis by (simp add: refreshAll_def io_read_def io_return_def)
next
  case True
  define rqs where "rqs = map (\<lambda>s. subscriptionsApi_refresh (sb_id s)) (filter sb_enabled (sp_subscriptions (w_page w)))"
  define results where "results = answers server rqs (w\<lparr>w_page := (w_page w)\<lparr>sp_refreshingAll := True\<rparr>\<rparr>)"
  define failed where "failed a \<longleftrightarrow> (case a of Inl _ \<Rightarrow> True | Inr v \<Rightarrow> truthy (opt_member (opt_member v ''data'') ''error''))"
    for a :: "thrown + jsval"
  define fine where "fine a \<longleftrightarrow> (case a of Inl _ \<Rightarrow> False | Inr v \<Rightarrow> \<not> truthy (opt_member (opt_member v ''data'') ''error''))"
    for a :: "thrown + jsval"
  have fine: "fine = (\<lambda>a. \<not> failed a)" by (rule ext) (simp add: fine_def failed_def split: sum.splits)
  define bad where "bad = length (filter failed results)"
  define good where "good = length (filter fine results)"
  have n: "length results = length rqs" by (simp add: results_def)
  have add: "good + bad = length rqs" using sum_length_filter_compl [of failed results] n by (simp add: good_def bad_def fine)
  have count: "count_failed results = (if Inr Null \<in> set results \<or> Inr Undef \<in> set results then Inl TypeError else Inr bad)"
    by (simp add: count_failed_spec bad_def failed_def [abs_def])
  define Q where "Q r w' \<longleftrightarrow> (if Inr Null \<in> set results \<or> Inr Undef \<in> set results
      then r = Inl (Js TypeError) \<and> map fst (w_sent w') = map fst (w_sent w) @ rqs \<and>
        w_toasts w' = w_toasts w \<and> sp_refreshingAll (w_page w')
      else r = Inr () \<and>
        map fst (w_sent w') = map fst (w_sent w) @ rqs @
          [subscriptionsApi_list, subscriptionsApi_providers, trafficApi_providers] \<and>
        w_toasts w' = w_toasts w @
          Success (Key ''subscriptions.refreshAllSummary'' [(''ok'', dec_digits good), (''failed'', dec_digits bad)]) #
          (if sp_loadError (w_page w') then [load_failed] else []) \<and>
        \<not> sp_refreshingAll (w_page w'))" for r :: "thrown + unit" and w' :: "('a, subs_page) world"
  have good: "length rqs - bad = good" using add by simp
  have rest: "wp (io_bind (io_lift (count_failed results)) (\<lambda>failed.
        io_then (toast (Success (Key ''subscriptions.refreshAllSummary''
          [(''ok'', dec_digits (length results - failed)), (''failed'', dec_digits failed)])))
        (io_then (page (\<lambda>p. p\<lparr>sp_refreshingAll := False\<rparr>)) (subs_fetchAll server rd))))
      (\<lambda>u. Q (Inr u)) (\<lambda>e. Q (Inl e)) v"
    if "map fst (w_sent v) = map fst (w_sent w) @ rqs" "sp_refreshingAll (w_page v)" "w_toasts v = w_toasts w" for v
    using that by (auto simp: Q_def count n good same_dialogs_def intro!: wp_load)
  have "wp (refreshAll server rd) (\<lambda>u. Q (Inr u)) (\<lambda>e. Q (Inl e)) w"
    unfolding refreshAll_def wp_read refresh_requests_def rqs_def [symmetric] using True
    by (simp del: wp_bind wp_lift add: wp_bind [of "settle server rqs"])
      (rule wp_mono [OF wp_settle], use rest in \<open>auto simp: results_def [symmetric]\<close>)
  then obtain r w' where run: "refreshAll server rd w = (r, w')" and Q: "Q r w'"
    by (auto simp: wp_def split: prod.splits sum.splits)
  have sum: "good + bad = length (filter sb_enabled (sp_subscriptions (w_page w)))"
    using add by (simp add: rqs_def)
  show ?thesis
    unfolding Let_def rqs_def [symmetric] results_def [symmetric] failed_def [abs_def, symmetric]
      fine_def [abs_def, symmetric] bad_def [symmetric] good_def [symmetric]
    using run sum True Q [unfolded Q_def] by (intro exI [of _ r] exI [of _ w'] conjI) simp_all
qed

section \<open>Reloading\<close>







definition no_subs :: subs_reads where
  "no_subs = \<lparr>as_subscriptions = (\<lambda>_. []), as_subscription = (\<lambda>_. sample_sub), as_discovered = (\<lambda>_. []),
     as_traffic = (\<lambda>_. [])\<rparr>"


text \<open>An administrator with one enabled and one disabled subscription.\<close>

definition admin_world :: "(unit, subs_page) world" where
  "admin_world = (fresh (initial_subs_page\<lparr>sp_subscriptions := [sample_sub, sample_sub\<lparr>sb_enabled := False\<rparr>]\<rparr>))
     \<lparr>w_auth := initial_auth\<lparr>au_user := JObj [(js ''role'', JStr (js ''admin''))]\<rparr>\<rparr>"

theorem refreshAll_adds_up_witness:
  "map fst (w_sent (snd (refreshAll (steady [subscriptionsApi_refresh (js ''s1'')]) no_subs admin_world))) =
     [subscriptionsApi_refresh (js ''s1''), subscriptionsApi_list, subscriptionsApi_providers, trafficApi_providers]"
proof -
  have "isAdmin (w_auth admin_world)" by (simp add: isAdmin_def admin_world_def js_def)
  moreover have "answered (steady [subscriptionsApi_refresh (js ''s1'')]) (subscriptionsApi_refresh (js ''s1'')) v =
      Inr (JObj [(js ''data'', JObj [])])" for v :: "(unit, subs_page) world"
    by (simp add: answered_def api_def steady_def)
  ultimately show ?thesis
    using refreshAll_adds_up [of "steady [subscriptionsApi_refresh (js ''s1'')]" no_subs admin_world]
    by (auto simp: admin_world_def sample_sub_def)
qed

end
