(* ===== verification/Page_Actions.thy ===== *)
theory Page_Actions
  imports Client "HOL-Library.Multiset"
begin

text \<open>
  The shapes that the handlers of the configuration pages share: loading a list, saving a dialog and
  deleting an entry. A page whose load returns and complains at most once is an instance of the
  locale \<open>page_reload\<close>, which says what saving and deleting report and what they leave alone.
\<close>

text \<open>\<open>try { res = await api; store(res.data ?? []) } catch { toast } finally { ... }\<close>\<close>

definition loading :: "'b server \<Rightarrow> request \<Rightarrow> ('p \<Rightarrow> 'p) \<Rightarrow> (jsval \<Rightarrow> 'p \<Rightarrow> 'p) \<Rightarrow> toast \<Rightarrow> ('p \<Rightarrow> 'p) \<Rightarrow>
    (('b, 'p) world, unit) io" where
  "loading server rq start store complaint stop =
     io_then (page start)
       (io_finally
         (io_catch
           (io_bind (api server rq) (\<lambda>res. io_bind (io_lift (member res ''data'')) (\<lambda>d. page (store d))))
           (\<lambda>_. toast complaint))
         (page stop))"

text \<open>\<open>try { await api; toast.success; close; again() } catch { toast.error }\<close>\<close>

definition saving :: "'b server \<Rightarrow> request \<Rightarrow> toast \<Rightarrow> ('p \<Rightarrow> 'p) \<Rightarrow> (('b, 'p) world, unit) io \<Rightarrow> toast \<Rightarrow>
    (('b, 'p) world, unit) io" where
  "saving server rq good close again bad =
     io_catch
       (io_then (api server rq) (io_then (toast good) (io_then (page close) again)))
       (\<lambda>_. toast bad)"

text \<open>\<open>try { await api; toast.success; again() } catch { toast.error } finally { reset }\<close>\<close>

definition deleting :: "'b server \<Rightarrow> request \<Rightarrow> toast \<Rightarrow> (('b, 'p) world, unit) io \<Rightarrow> toast \<Rightarrow> ('p \<Rightarrow> 'p) \<Rightarrow>
    (('b, 'p) world, unit) io" where
  "deleting server rq good again bad reset =
     io_finally
       (io_catch (io_then (api server rq) (io_then (toast good) again)) (\<lambda>_. toast bad))
       (page reset)"

lemma loading_spec:
  "wp (loading server rq start store complaint stop) (\<lambda>_ v.
     w_toasts v = w_toasts w \<and> (\<exists>d. w_page v = stop (store d (start (w_page w)))) \<or>
     w_toasts v = w_toasts w @ [complaint] \<and> w_page v = stop (start (w_page w))) (\<lambda>_ _. False) w"
  by (auto simp: loading_def split: sum.splits)

locale page_reload =
  fixes again :: "(('b, 'p) world, unit) io" and complaint :: toast and kept :: "'p \<Rightarrow> 'k"
  assumes reloads: "wp again (\<lambda>_ v. w_toasts v \<in> {w_toasts w, w_toasts w @ [complaint]} \<and>
      kept (w_page v) = kept (w_page w)) (\<lambda>_ _. False) w"
begin

lemma saving_outcome:
  "\<exists>w'. saving server rq good close again bad w = (Inr (), w') \<and>
     (case answered server rq w of
        Inl _ \<Rightarrow> w_toasts w' = w_toasts w @ [bad] \<and> w_page w' = w_page w
      | Inr _ \<Rightarrow> w_toasts w' \<in> {w_toasts w @ [good], w_toasts w @ [good, complaint]} \<and>
          kept (w_page w') = kept (close (w_page w)))"
  by (rule wp_total)
    (auto simp: saving_def split: sum.splits intro!: wp_mono [OF reloads])

lemma deleting_outcome:
  assumes "\<And>p. kept (reset p) = f (kept p)"
  shows "\<exists>w'. deleting server rq good again bad reset w = (Inr (), w') \<and>
     (case answered server rq w of
        Inl _ \<Rightarrow> w_toasts w' = w_toasts w @ [bad] \<and> w_page w' = reset (w_page w)
      | Inr _ \<Rightarrow> w_toasts w' \<in> {w_toasts w @ [good], w_toasts w @ [good, complaint]} \<and>
          kept (w_page w') = f (kept (w_page w)))"
  by (rule wp_total)
    (auto simp: deleting_def assms split: sum.splits intro!: wp_mono [OF reloads])

end

text \<open>A move within a list, as a drag and drop library does it: the element at \<open>i\<close> comes to \<open>j\<close>.\<close>

definition moved :: "'a list \<Rightarrow> nat \<Rightarrow> nat \<Rightarrow> 'a list" where
  "moved xs i j = (let rest = take i xs @ drop (Suc i) xs in take j rest @ xs ! i # drop j rest)"

text \<open>What is relied on of \<open>arrayMove\<close>: inside the list it is this move; outside nothing is assumed.\<close>

definition moves_elements :: "('a list \<Rightarrow> int \<Rightarrow> int \<Rightarrow> 'a list) \<Rightarrow> bool" where
  "moves_elements mv \<longleftrightarrow> (\<forall>xs i j. i < length xs \<longrightarrow> j < length xs \<longrightarrow> mv xs (int i) (int j) = moved xs i j)"

definition plain_move :: "'a list \<Rightarrow> int \<Rightarrow> int \<Rightarrow> 'a list" where
  "plain_move xs i j = moved xs (nat i) (nat j)"

lemma moves_elements_plain: "moves_elements plain_move"
  by (simp add: moves_elements_def plain_move_def)

lemma mset_moved: "i < length xs \<Longrightarrow> mset (moved xs i j) = mset xs"
proof -
  assume i: "i < length xs"
  have "mset (moved xs i j) = add_mset (xs ! i) (mset (take i xs @ drop (Suc i) xs))"
    unfolding moved_def Let_def by (metis append_take_drop_id mset.simps(2) mset_append union_mset_add_mset_right)
  also have "\<dots> = mset xs" using i by (metis Cons_nth_drop_Suc append_take_drop_id mset.simps(2) mset_append union_mset_add_mset_right)
  finally show ?thesis .
qed

lemma moved_append:
  assumes "i < length xs" "j < length xs"
  shows "moved (xs @ ys) i j = moved xs i j @ ys"
  using assms by (simp add: moved_def nth_append)

text \<open>\<open>indexOf\<close> and \<open>findIndex\<close>: \<open>-1\<close> when there is none.\<close>

fun findIndex :: "('a \<Rightarrow> bool) \<Rightarrow> 'a list \<Rightarrow> int" where
  "findIndex P [] = - 1"
| "findIndex P (x # xs) = (if P x then 0 else (let i = findIndex P xs in if i = - 1 then - 1 else i + 1))"

lemma findIndex_bounds: "findIndex P xs = - 1 \<or> 0 \<le> findIndex P xs"
  by (induction xs) (auto simp: Let_def)

lemma findIndex_none: "findIndex P xs = - 1 \<longleftrightarrow> filter P xs = []"
proof (induction xs)
  case (Cons x xs)
  then show ?case using findIndex_bounds [of P xs] by (auto simp: Let_def)
qed simp

lemma findIndex_find:
  assumes "find P xs = Some x"
  shows "\<exists>i. findIndex P xs = int i \<and> i < length xs \<and> xs ! i = x \<and> P x \<and> (\<forall>j < i. \<not> P (xs ! j))"
  using assms
proof (induction xs)
  case (Cons y ys)
  show ?case
  proof (cases "P y")
    case True
    then show ?thesis using Cons.prems by (intro exI [of _ 0]) simp
  next
    case False
    then obtain i where "findIndex P ys = int i" "i < length ys" "ys ! i = x" "P x" "\<forall>j < i. \<not> P (ys ! j)"
      using Cons by auto
    then show ?thesis using False by (intro exI [of _ "Suc i"]) (auto simp: less_Suc_eq_0_disj)
  qed
qed simp

end
