(* ===== verification/Publish_Page.thy ===== *)
theory Publish_Page
  imports Api Page_Actions
begin

text \<open>
  \<open>pages/publish.tsx\<close>, \<open>components/publish/publish-preview.tsx\<close> and \<open>history-list.tsx\<close>: the draft
  status, validating, publishing, discarding and rolling back. The preview panel and the history
  list keep state of their own, which is lost while a spinner takes their place. The lemmas show
  that only a validated draft can be published, what each button reports, and which rows offer to
  roll back.
\<close>

section \<open>Data\<close>

record publish_record =
  hr_id :: jstring
  hr_version :: jsnum
  hr_config_yaml :: jstring
  hr_diff_text :: jstring
  hr_status :: jstring
  hr_error_msg :: jstring
  hr_operator :: jstring
  hr_note :: jstring
  hr_created_at :: jstring

record preview_data =
  pd_yaml :: jstring
  pd_diff :: jstring

record preview_panel =
  vp_validating :: bool
  vp_publishing :: bool
  vp_discarding :: bool
  vp_validation :: jsval
  vp_note :: jstring

definition fresh_panel :: preview_panel where
  "fresh_panel = \<lparr>vp_validating = False, vp_publishing = False, vp_discarding = False, vp_validation = Null, vp_note = []\<rparr>"

record history_list =
  hl_expandedId :: "jstring option"
  hl_rollbackOpen :: bool
  hl_rollingBack :: bool

definition fresh_history :: history_list where
  "fresh_history = \<lparr>hl_expandedId = None, hl_rollbackOpen = False, hl_rollingBack = False\<rparr>"

record publish_page =
  pu_preview :: "preview_data option"
  pu_history :: "publish_record list"
  pu_loadingStatus :: bool
  pu_loadingPreview :: bool
  pu_loadingHistory :: bool
  pu_panel :: preview_panel
  pu_list :: history_list

definition initial_publish_page :: publish_page where
  "initial_publish_page = \<lparr>pu_preview = None, pu_history = [], pu_loadingStatus = True, pu_loadingPreview = False,
     pu_loadingHistory = False, pu_panel = fresh_panel, pu_list = fresh_history\<rparr>"

text \<open>How the page reads a preview and the list of publications.\<close>

record publish_reads =
  as_preview :: "jsval \<Rightarrow> preview_data option"
  as_records :: "jsval \<Rightarrow> publish_record list"

section \<open>Loading\<close>

definition publish_fetchStatus :: "'b server \<Rightarrow> (('b, publish_page) world, unit) io" where
  "publish_fetchStatus server =
     io_finally
       (io_catch
         (io_bind (api server publishApi_status) (\<lambda>res.
          io_bind (io_lift (member res ''data'')) (\<lambda>d.
          io_bind (io_lift (member d ''has_changes'')) (\<lambda>h.
          io_bind (io_lift (member d ''running_version'')) (\<lambda>v. update_draft (setStatus h v))))))
         (\<lambda>_. io_return ()))
       (page (\<lambda>p. p\<lparr>pu_loadingStatus := False\<rparr>))"

text \<open>The spinner takes the place of the panel, so a panel that is shown again starts afresh.\<close>

definition fetchPreview :: "'b server \<Rightarrow> publish_reads \<Rightarrow> (('b, publish_page) world, unit) io" where
  "fetchPreview server rd =
     io_then (page (\<lambda>p. p\<lparr>pu_loadingPreview := True, pu_panel := fresh_panel\<rparr>))
       (io_finally
         (io_catch
           (io_bind (api server publishApi_preview) (\<lambda>res.
            io_bind (io_lift (member res ''data'')) (\<lambda>d. page (\<lambda>p. p\<lparr>pu_preview := as_preview rd d\<rparr>))))
           (\<lambda>_. toast (Failure (Key ''publish.previewFailed'' []))))
         (page (\<lambda>p. p\<lparr>pu_loadingPreview := False\<rparr>)))"

definition fetchHistory :: "'b server \<Rightarrow> publish_reads \<Rightarrow> (('b, publish_page) world, unit) io" where
  "fetchHistory server rd =
     io_then (page (\<lambda>p. p\<lparr>pu_loadingHistory := True, pu_list := fresh_history\<rparr>))
       (io_finally
         (io_catch
           (io_bind (api server (publishApi_history (Some (num 20)))) (\<lambda>res.
            io_bind (io_lift (member res ''data'')) (\<lambda>d.
            page (\<lambda>p. p\<lparr>pu_history := as_records rd (coalesce d (JArr []))\<rparr>))))
           (\<lambda>_. toast (Failure (Key ''publish.historyFailed'' []))))
         (page (\<lambda>p. p\<lparr>pu_loadingHistory := False\<rparr>)))"

text \<open>The effect on \<open>hasChanges\<close>, and a load of the status with the effect that follows when the flag has changed.\<close>

definition preview_effect :: "'b server \<Rightarrow> publish_reads \<Rightarrow> (('b, publish_page) world, unit) io" where
  "preview_effect server rd = io_read (\<lambda>w.
     if truthy (dr_hasChanges (w_draft w)) then fetchPreview server rd
     else page (\<lambda>p. p\<lparr>pu_preview := None, pu_panel := fresh_panel\<rparr>))"

definition reload_status :: "'b server \<Rightarrow> publish_reads \<Rightarrow> (('b, publish_page) world, unit) io" where
  "reload_status server rd = io_read (\<lambda>w.
     io_then (publish_fetchStatus server) (io_read (\<lambda>v.
       if dr_hasChanges (w_draft v) = dr_hasChanges (w_draft w) then io_return () else preview_effect server rd)))"

text \<open>The loads below are started without waiting for them; they are run to their end here.\<close>

definition handlePublished :: "'b server \<Rightarrow> publish_reads \<Rightarrow> (('b, publish_page) world, unit) io" where
  "handlePublished server rd =
     io_then (toast (Success (Key ''publish.publishedSuccess'' [])))
       (io_then (reload_status server rd) (fetchHistory server rd))"

definition handleRolledBack :: "'b server \<Rightarrow> publish_reads \<Rightarrow> (('b, publish_page) world, unit) io" where
  "handleRolledBack server rd = io_then (reload_status server rd) (fetchHistory server rd)"

definition handleDiscarded :: "'b server \<Rightarrow> publish_reads \<Rightarrow> (('b, publish_page) world, unit) io" where
  "handleDiscarded server rd = io_then (reload_status server rd) (fetchPreview server rd)"

section \<open>The preview panel\<close>

definition on_panel :: "(preview_panel \<Rightarrow> preview_panel) \<Rightarrow> (('b, publish_page) world, unit) io" where
  "on_panel f = page (\<lambda>p. p\<lparr>pu_panel := f (pu_panel p)\<rparr>)"

definition validating :: "bool \<Rightarrow> preview_panel \<Rightarrow> preview_panel" where
  "validating b s = s\<lparr>vp_validating := b\<rparr>"

definition publishing :: "bool \<Rightarrow> preview_panel \<Rightarrow> preview_panel" where
  "publishing b s = s\<lparr>vp_publishing := b\<rparr>"

definition discarding :: "bool \<Rightarrow> preview_panel \<Rightarrow> preview_panel" where
  "discarding b s = s\<lparr>vp_discarding := b\<rparr>"

definition setNote :: "jstring \<Rightarrow> preview_panel \<Rightarrow> preview_panel" where
  "setNote n s = s\<lparr>vp_note := n\<rparr>"

definition setValidation :: "jsval \<Rightarrow> preview_panel \<Rightarrow> preview_panel" where
  "setValidation v s = s\<lparr>vp_validation := v\<rparr>"

text \<open>\<open>v.length\<close> as text.\<close>

definition length_text :: "jsval \<Rightarrow> jstring result" where
  "length_text v = (case v of
     JArr xs \<Rightarrow> Inr (dec_digits (length xs)) | JStr s \<Rightarrow> Inr (dec_digits (length s))
   | _ \<Rightarrow> map_result to_str (member v ''length''))"

definition handleValidate :: "'b server \<Rightarrow> (('b, publish_page) world, unit) io" where
  "handleValidate server =
     io_then (on_panel (validating True))
       (io_finally
         (io_catch
           (io_bind (api server publishApi_validate) (\<lambda>res.
            io_bind (io_lift (member res ''data'')) (\<lambda>d.
            io_then (on_panel (setValidation d))
            (io_bind (io_lift (member d ''valid'')) (\<lambda>ok.
             if truthy ok then toast (Success (Key ''publish.configValid'' []))
             else io_bind (io_lift (member d ''errors'')) (\<lambda>errs.
               io_bind (io_lift (length_text errs)) (\<lambda>n.
               toast (Failure (Key ''publish.validationFailed'' [(''count'', n)])))))))))
           (\<lambda>_. toast (Failure (Key ''publish.validationError'' []))))
         (on_panel (validating False)))"

definition canPublish :: "preview_panel \<Rightarrow> bool" where
  "canPublish s \<longleftrightarrow> opt_member (vp_validation s) ''valid'' = JBool True"

definition publish_disabled :: "preview_panel \<Rightarrow> bool" where
  "publish_disabled s \<longleftrightarrow> \<not> canPublish s \<or> vp_publishing s"

definition publish_failure :: "jsval \<Rightarrow> toast" where
  "publish_failure reason = Failure (Joined (Key ''publish.publishFailed'' [])
     (js '': '' @ (if truthy reason then to_str reason else js ''unknown error'')))"

definition handlePublish :: "'b server \<Rightarrow> publish_reads \<Rightarrow> (('b, publish_page) world, unit) io" where
  "handlePublish server rd = io_read (\<lambda>w.
     io_then (on_panel (publishing True))
       (io_finally
         (io_catch
           (io_bind (api server (publishApi_publish (nonempty (Some (vp_note (pu_panel (w_page w))))))) (\<lambda>res.
            io_bind (io_lift (member res ''data'')) (\<lambda>d.
            io_bind (io_lift (member d ''status'')) (\<lambda>status.
            io_then
              (if status = JStr (js ''failed'') then toast (publish_failure (opt_member d ''error_msg''))
               else io_then (toast (Success (Key ''publish.publishSuccess'' [])))
                 (io_then (on_panel (setNote [])) (on_panel (setValidation Null))))
              (handlePublished server rd)))))
           (\<lambda>_. toast (Failure (Key ''publish.publishFailed'' []))))
         (on_panel (publishing False))))"

definition publish_click :: "'b server \<Rightarrow> publish_reads \<Rightarrow> (('b, publish_page) world, unit) io" where
  "publish_click server rd = io_read (\<lambda>w.
     if publish_disabled (pu_panel (w_page w)) then io_return () else handlePublish server rd)"

definition handleDiscard :: "'b server \<Rightarrow> publish_reads \<Rightarrow> (('b, publish_page) world, unit) io" where
  "handleDiscard server rd =
     io_then (on_panel (discarding True))
       (io_finally
         (io_catch
           (io_then (api server publishApi_discard)
             (io_then (toast (Success (Key ''publish.discardSuccess'' []))) (handleDiscarded server rd)))
           (\<lambda>_. toast (Failure (Key ''publish.discardFailed'' []))))
         (on_panel (discarding False)))"

datatype validation_badge = Not_Validated | Valid | Invalid jstring bool

text \<open>\<open>Invalid n s\<close>: the count and whether the plural ending is shown; raises when \<open>errors\<close> is no list.\<close>

definition validationBadge :: "preview_panel \<Rightarrow> validation_badge result" where
  "validationBadge s =
     (let v = vp_validation s
      in if \<not> truthy v then Inr Not_Validated
         else if truthy (opt_member v ''valid'') then Inr Valid
         else map_result (\<lambda>n. Invalid n (n \<noteq> js ''1'')) (length_text (opt_member v ''errors'')))"

datatype diff_line = Added jstring | Removed jstring | Kept jstring

definition diff_line :: "jstring \<Rightarrow> diff_line" where
  "diff_line l =
     (let shown = (if l = [] then [32] else l)
      in if starts_with l (js ''+'') then Added shown else if starts_with l (js ''-'') then Removed shown else Kept shown)"

definition DiffView :: "jstring \<Rightarrow> diff_line list" where
  "DiffView diff = map diff_line (split_units (\<lambda>u. u = 10) diff)"

section \<open>The history\<close>

definition on_list :: "(history_list \<Rightarrow> history_list) \<Rightarrow> (('b, publish_page) world, unit) io" where
  "on_list f = page (\<lambda>p. p\<lparr>pu_list := f (pu_list p)\<rparr>)"

datatype history_badge = Success_Badge | Failed_Badge | Rolled_Back_Badge | Other_Badge jstring

definition StatusBadge :: "jstring \<Rightarrow> history_badge" where
  "StatusBadge status =
     (if status = js ''success'' then Success_Badge else if status = js ''failed'' then Failed_Badge
      else if status = js ''rolled_back'' then Rolled_Back_Badge else Other_Badge status)"

text \<open>\<open>show_date\<close> is \<open>new Date(ts).toLocaleString()\<close>, which does not raise.\<close>

definition formatTime :: "(jstring \<Rightarrow> jstring) \<Rightarrow> jstring \<Rightarrow> jstring" where
  "formatTime show_date ts = (if ts = [] then [8212] else show_date ts)"

definition toggleExpand :: "jstring \<Rightarrow> history_list \<Rightarrow> history_list" where
  "toggleExpand i s = s\<lparr>hl_expandedId := (if hl_expandedId s = Some i then None else Some i)\<rparr>"

definition setRollbackDialogOpen :: "bool \<Rightarrow> history_list \<Rightarrow> history_list" where
  "setRollbackDialogOpen b s = s\<lparr>hl_rollbackOpen := b\<rparr>"

definition handleRollback :: "'b server \<Rightarrow> publish_reads \<Rightarrow> (('b, publish_page) world, unit) io" where
  "handleRollback server rd =
     io_then (on_list (\<lambda>s. s\<lparr>hl_rollingBack := True\<rparr>))
       (io_finally
         (io_catch
           (io_then (api server publishApi_rollback)
             (io_then (toast (Success (Key ''publish.rollbackSuccess'' []))) (handleRolledBack server rd)))
           (\<lambda>_. toast (Failure (Key ''publish.rollbackFailed'' []))))
         (on_list (\<lambda>s. s\<lparr>hl_rollingBack := False\<rparr>)))"

definition succeeded :: "publish_record \<Rightarrow> bool" where
  "succeeded r \<longleftrightarrow> hr_status r = js ''success''"

definition latestSuccessIdx :: "publish_record list \<Rightarrow> int" where
  "latestSuccessIdx = findIndex succeeded"

definition rollback_shown :: "publish_record list \<Rightarrow> nat \<Rightarrow> publish_record \<Rightarrow> bool" where
  "rollback_shown records idx r \<longleftrightarrow> succeeded r \<and> int idx \<noteq> latestSuccessIdx records"

record history_row =
  hw_version :: jstring
  hw_time :: jstring
  hw_operator :: jstring
  hw_status :: history_badge
  hw_note :: jstring
  hw_rollback :: "bool option"
  hw_error :: "jstring option"
  hw_diff :: "diff_line list option"
  hw_config :: "jstring option"

text \<open>A row and, when it is expanded, the three parts below it; \<open>hw_rollback\<close> is whether its button is enabled.\<close>

definition history_row :: "(jstring \<Rightarrow> jstring) \<Rightarrow> publish_page \<Rightarrow> nat \<Rightarrow> publish_record \<Rightarrow> history_row" where
  "history_row show_date p idx r =
     (let dash = (\<lambda>s. if s = [] then [8212] else s); expanded = (hl_expandedId (pu_list p) = Some (hr_id r));
          part = (\<lambda>s. if expanded then nonempty (Some s) else None)
      in \<lparr>hw_version = js ''v'' @ num_str (hr_version r), hw_time = formatTime show_date (hr_created_at r),
          hw_operator = dash (hr_operator r), hw_status = StatusBadge (hr_status r), hw_note = dash (hr_note r),
          hw_rollback = (if rollback_shown (pu_history p) idx r then Some (\<not> hl_rollingBack (pu_list p)) else None),
          hw_error = part (hr_error_msg r), hw_diff = map_option DiffView (part (hr_diff_text r)),
          hw_config = part (hr_config_yaml r)\<rparr>)"

definition history_rows :: "(jstring \<Rightarrow> jstring) \<Rightarrow> publish_page \<Rightarrow> history_row list" where
  "history_rows show_date p = map (\<lambda>(i, r). history_row show_date p i r) (enumerate 0 (pu_history p))"

section \<open>What the page shows\<close>

datatype draft_card = Status_Loading | Draft_Pending | Up_To_Date "message option"

definition draft_card :: "draft_state \<Rightarrow> publish_page \<Rightarrow> draft_card" where
  "draft_card d p =
     (if pu_loadingStatus p then Status_Loading else if truthy (dr_hasChanges d) then Draft_Pending
      else Up_To_Date (case dr_runningVersion d of
        JNum n \<Rightarrow> if num_lt (num 0) n then Some (Key ''publish.runningVersion'' [(''version'', num_str n)]) else None
      | _ \<Rightarrow> None))"

definition panel_shown :: "draft_state \<Rightarrow> publish_page \<Rightarrow> bool" where
  "panel_shown d p \<longleftrightarrow> truthy (dr_hasChanges d) \<and> \<not> pu_loadingPreview p \<and> pu_preview p \<noteq> None"

section \<open>Announcements\<close>

text \<open>What the loads after an action may add: messages about loads that failed.\<close>

definition load_toasts :: "toast list" where
  "load_toasts = [Failure (Key ''publish.previewFailed'' []), Failure (Key ''publish.historyFailed'' [])]"

lemma fetchStatus_quiet:
  "wp (publish_fetchStatus server) (\<lambda>_ v. w_toasts v = w_toasts w \<and> w_page v = (w_page w)\<lparr>pu_loadingStatus := False\<rparr>) (\<lambda>_ _. False) w"
  by (simp add: publish_fetchStatus_def split: sum.splits)

lemma preview_effect_quiet:
  "wp (preview_effect server rd) (\<lambda>_ v. w_toasts v \<in> {w_toasts w, w_toasts w @ [load_toasts ! 0]} \<and>
     pu_panel (w_page v) = fresh_panel \<and> pu_list (w_page v) = pu_list (w_page w)) (\<lambda>_ _. False) w"
  by (auto simp: preview_effect_def fetchPreview_def load_toasts_def wp_if split: sum.splits)

lemma fetchHistory_quiet:
  "wp (fetchHistory server rd) (\<lambda>_ v. w_toasts v \<in> {w_toasts w, w_toasts w @ [load_toasts ! 1]} \<and>
     pu_panel (w_page v) = pu_panel (w_page w)) (\<lambda>_ _. False) w"
  by (auto simp: fetchHistory_def load_toasts_def split: sum.splits)

lemma reload_status_quiet:
  "wp (reload_status server rd) (\<lambda>_ v. w_toasts v \<in> {w_toasts w, w_toasts w @ [load_toasts ! 0]} \<and>
     pu_panel (w_page v) \<in> {pu_panel (w_page w), fresh_panel}) (\<lambda>_ _. False) w"
  unfolding reload_status_def wp_read wp_then
  by (rule wp_mono [OF fetchStatus_quiet]) (auto simp: wp_if intro!: wp_mono [OF preview_effect_quiet])

lemma handleRolledBack_quiet:
  "wp (handleRolledBack server rd) (\<lambda>_ v. (\<exists>rest. w_toasts v = w_toasts w @ rest \<and> set rest \<subseteq> set load_toasts) \<and>
     pu_panel (w_page v) \<in> {pu_panel (w_page w), fresh_panel}) (\<lambda>_ _. False) w"
  unfolding handleRolledBack_def wp_then
  by (rule wp_mono [OF reload_status_quiet], rule wp_mono [OF fetchHistory_quiet])
    (auto simp: load_toasts_def)

lemma handlePublished_quiet:
  "wp (handlePublished server rd) (\<lambda>_ v.
     (\<exists>rest. w_toasts v = w_toasts w @ Success (Key ''publish.publishedSuccess'' []) # rest \<and> set rest \<subseteq> set load_toasts) \<and>
     pu_panel (w_page v) \<in> {pu_panel (w_page w), fresh_panel}) (\<lambda>_ _. False) w"
proof -
  have "handlePublished server rd = io_then (toast (Success (Key ''publish.publishedSuccess'' []))) (handleRolledBack server rd)"
    by (simp add: handlePublished_def handleRolledBack_def)
  then show ?thesis by (simp only: wp_then wp_updates) (rule wp_mono [OF handleRolledBack_quiet], auto)
qed

text \<open>What the backend answers to a publication: the record it made, if the answer holds one.\<close>

definition publication :: "thrown + jsval \<Rightarrow> jsval option" where
  "publication a = (case a of
     Inr res \<Rightarrow> (case member res ''data'' of Inr d \<Rightarrow> if d = Undef \<or> d = Null then None else Some d | Inl _ \<Rightarrow> None)
   | Inl _ \<Rightarrow> None)"

lemma publication_member: "publication a = Some d \<Longrightarrow> \<exists>res. a = Inr res \<and> member res ''data'' = Inr d \<and> d \<noteq> Undef \<and> d \<noteq> Null"
  by (auto simp: publication_def split: sum.splits if_splits)

lemma member_ok: "d \<noteq> Undef \<Longrightarrow> d \<noteq> Null \<Longrightarrow> member d k = Inr (opt_member d k)"
  by (cases d) auto

lemma handlePublish_refused:
  assumes "publication (answered server (publishApi_publish (nonempty (Some (vp_note (pu_panel (w_page w)))))) w) = None"
    and "\<not> vp_publishing (pu_panel (w_page w))"
  shows "wp (handlePublish server rd) (\<lambda>_ v. w_toasts v = w_toasts w @ [Failure (Key ''publish.publishFailed'' [])] \<and>
    w_page v = w_page w) (\<lambda>_ _. False) w"
proof -
  have off: "(w_page w)\<lparr>pu_panel := (pu_panel (w_page w))\<lparr>vp_publishing := False\<rparr>\<rparr> = w_page w"
    using assms(2) by (cases "w_page w", cases "pu_panel (w_page w)") auto
  have "wp (handlePublish server rd) (\<lambda>_ v. w_toasts v = w_toasts w @ [Failure (Key ''publish.publishFailed'' [])] \<and>
      w_page v = (w_page w)\<lparr>pu_panel := (pu_panel (w_page w))\<lparr>vp_publishing := False\<rparr>\<rparr>) (\<lambda>_ _. False) w"
    using assms(1)
    by (auto simp: handlePublish_def on_panel_def publishing_def publication_def member_def split: sum.splits jsval.splits)
  then show ?thesis unfolding off .
qed

lemma handlePublish_recorded:
  assumes "publication (answered server (publishApi_publish (nonempty (Some (vp_note (pu_panel (w_page w)))))) w) = Some d"
  shows "wp (handlePublish server rd) (\<lambda>_ v. \<exists>rest. set rest \<subseteq> set load_toasts \<and>
    (if opt_member d ''status'' = JStr (js ''failed'') then
       w_toasts v = w_toasts w @
         [publish_failure (opt_member d ''error_msg''), Success (Key ''publish.publishedSuccess'' [])] @ rest
     else w_toasts v = w_toasts w @
         [Success (Key ''publish.publishSuccess'' []), Success (Key ''publish.publishedSuccess'' [])] @ rest \<and>
       vp_note (pu_panel (w_page v)) = [] \<and> vp_validation (pu_panel (w_page v)) = Null)) (\<lambda>_ _. False) w"
proof -
  obtain res where r: "answered server (publishApi_publish (nonempty (Some (vp_note (pu_panel (w_page w)))))) w = Inr res"
    "member res ''data'' = Inr d" "d \<noteq> Undef" "d \<noteq> Null"
    using publication_member [OF assms] by blast
  show ?thesis
  proof (cases "opt_member d ''status'' = JStr (js ''failed'')")
    case True
    then show ?thesis
      by (simp add: handlePublish_def on_panel_def publishing_def r member_ok)
        (rule wp_mono [OF handlePublished_quiet], auto)
  next
    case False
    then show ?thesis
      by (simp add: handlePublish_def on_panel_def publishing_def setNote_def setValidation_def r member_ok)
        (rule wp_mono [OF handlePublished_quiet], auto simp: fresh_panel_def)
  qed
qed

text \<open>
  C9: What pressing the publish button reports. A disabled button does nothing. When the request is
  refused, or its answer holds no record, there is one failure and the panel is as before. When the
  record says success, the note and the validation are cleared. And when it says that publishing
  failed, the reason is shown, but the page announces success right after it.
\<close>

theorem publish_click_outcome:
  "\<exists>w' rest. publish_click server rd w = (Inr (), w') \<and> set rest \<subseteq> set load_toasts \<and>
    (if publish_disabled (pu_panel (w_page w)) then w' = w
     else case publication (answered server (publishApi_publish (nonempty (Some (vp_note (pu_panel (w_page w)))))) w) of
       None \<Rightarrow> w_toasts w' = w_toasts w @ [Failure (Key ''publish.publishFailed'' [])] \<and> w_page w' = w_page w
     | Some d \<Rightarrow>
         (if opt_member d ''status'' = JStr (js ''failed'') then
            w_toasts w' = w_toasts w @
              [publish_failure (opt_member d ''error_msg''), Success (Key ''publish.publishedSuccess'' [])] @ rest
          else w_toasts w' = w_toasts w @
              [Success (Key ''publish.publishSuccess'' []), Success (Key ''publish.publishedSuccess'' [])] @ rest \<and>
            vp_note (pu_panel (w_page w')) = [] \<and> vp_validation (pu_panel (w_page w')) = Null))"
proof (cases "publish_disabled (pu_panel (w_page w))")
  case True
  then show ?thesis by (intro exI [of _ w] exI [of _ "[]"]) (simp add: publish_click_def io_read_def io_return_def)
next
  case False
  let ?a = "answered server (publishApi_publish (nonempty (Some (vp_note (pu_panel (w_page w)))))) w"
  have on: "\<not> vp_publishing (pu_panel (w_page w))" and click: "publish_click server rd w = handlePublish server rd w"
    using False by (simp_all add: publish_click_def io_read_def publish_disabled_def)
  show ?thesis
  proof (cases "publication ?a")
    case None
    from wp_total [OF handlePublish_refused [OF None on]] obtain w' where "handlePublish server rd w = (Inr (), w')"
        "w_toasts w' = w_toasts w @ [Failure (Key ''publish.publishFailed'' [])]" "w_page w' = w_page w"
      by blast
    then show ?thesis using None False click by (intro exI [of _ w'] exI [of _ "[]"]) simp
  next
    case (Some d)
    from wp_total [OF handlePublish_recorded [OF Some]] show ?thesis
      unfolding Some option.case click if_not_P [OF False] by blast
  qed
qed

section \<open>Only what was validated is published\<close>

text \<open>
  The panel as a state machine: requests and their answers are steps of their own, so they may
  interleave. \<open>Opened\<close> is a panel that is shown again.
\<close>

datatype panel_event =
    Opened | Noted jstring | Validate_Pressed | Validated "thrown + jsval"
  | Publish_Pressed | Published "thrown + jsval" | Discard_Pressed | Discarded "thrown + jsval"

definition validated :: "thrown + jsval \<Rightarrow> preview_panel \<Rightarrow> preview_panel" where
  "validated a s =
     validating False (case a of
       Inr res \<Rightarrow> (case member res ''data'' of Inr d \<Rightarrow> setValidation d s | Inl _ \<Rightarrow> s) | Inl _ \<Rightarrow> s)"

definition published :: "thrown + jsval \<Rightarrow> preview_panel \<Rightarrow> preview_panel" where
  "published a s =
     publishing False (case publication a of
       Some d \<Rightarrow> if opt_member d ''status'' = JStr (js ''failed'') then s else setValidation Null (setNote [] s)
     | None \<Rightarrow> s)"

fun panel_after :: "panel_event \<Rightarrow> preview_panel \<Rightarrow> preview_panel" where
  "panel_after Opened s = fresh_panel"
| "panel_after (Noted n) s = setNote n s"
| "panel_after Validate_Pressed s = validating True s"
| "panel_after (Validated a) s = validated a s"
| "panel_after Publish_Pressed s = publishing True s"
| "panel_after (Published a) s = published a s"
| "panel_after Discard_Pressed s = discarding True s"
| "panel_after (Discarded a) s = discarding False s"

fun panel_enabled :: "panel_event \<Rightarrow> preview_panel \<Rightarrow> bool" where
  "panel_enabled Validate_Pressed s = (\<not> vp_validating s)"
| "panel_enabled Publish_Pressed s = (\<not> publish_disabled s)"
| "panel_enabled Discard_Pressed s = (\<not> vp_discarding s)"
| "panel_enabled _ s = True"

inductive panel_run :: "panel_event list \<Rightarrow> preview_panel \<Rightarrow> bool" where
  opened: "panel_run [] fresh_panel"
| step: "panel_run es s \<Longrightarrow> panel_enabled e s \<Longrightarrow> panel_run (es @ [e]) (panel_after e s)"

inductive_cases panel_run_snoc: "panel_run (es @ [e]) s"

text \<open>The handlers are made of these steps.\<close>

lemma handleValidate_steps:
  "wp (handleValidate server) (\<lambda>_ v. pu_panel (w_page v) =
     validated (answered server publishApi_validate w) (validating True (pu_panel (w_page w)))) (\<lambda>_ _. False) w"
  by (auto simp: handleValidate_def on_panel_def validated_def validating_def setValidation_def wp_if split: sum.splits)

lemma handlePublish_steps:
  assumes "a = answered server (publishApi_publish (nonempty (Some (vp_note (pu_panel (w_page w)))))) w"
  shows "wp (handlePublish server rd) (\<lambda>_ v. pu_panel (w_page v) \<in>
    {panel_after (Published a) (panel_after Publish_Pressed (pu_panel (w_page w))), fresh_panel}) (\<lambda>_ _. False) w"
proof (cases "publication a")
  case None
  then show ?thesis
    by (auto simp: handlePublish_def on_panel_def published_def publishing_def publication_def member_def assms
        split: sum.splits jsval.splits)
next
  case (Some d)
  then obtain res where r: "a = Inr res" "member res ''data'' = Inr d" "d \<noteq> Undef" "d \<noteq> Null"
    using publication_member by blast
  show ?thesis
    using r Some [unfolded r(1)]
    by (simp add: handlePublish_def on_panel_def published_def publishing_def setNote_def setValidation_def
        member_ok flip: assms)
      (auto simp: fresh_panel_def intro!: wp_mono [OF handlePublished_quiet])
qed

lemma handleDiscard_steps:
  "wp (handleDiscard server rd) (\<lambda>_ v. pu_panel (w_page v) \<in>
    {panel_after (Discarded a) (panel_after Discard_Pressed (pu_panel (w_page w))), fresh_panel}) (\<lambda>_ _. False) w"
proof -
  have "wp (handleDiscarded server rd) (\<lambda>_ v. pu_panel (w_page v) = fresh_panel) (\<lambda>_ _. False) u" for u
    unfolding handleDiscarded_def wp_then
    by (rule wp_mono [OF reload_status_quiet]) (auto simp: fetchPreview_def split: sum.splits)
  note discarded = this
  show ?thesis
    by (auto simp: handleDiscard_def on_panel_def discarding_def fresh_panel_def split: sum.splits
        intro!: wp_mono [OF discarded])
qed

text \<open>Whether an event makes the panel's validation a good one, and whether it may take a good one away.\<close>

definition approves :: "panel_event \<Rightarrow> bool" where
  "approves e \<longleftrightarrow> (case e of
     Validated (Inr res) \<Rightarrow> (case member res ''data'' of Inr d \<Rightarrow> opt_member d ''valid'' = JBool True | Inl _ \<Rightarrow> False)
   | _ \<Rightarrow> False)"

definition withdraws :: "panel_event \<Rightarrow> bool" where
  "withdraws e \<longleftrightarrow> (case e of
     Opened \<Rightarrow> True
   | Validated (Inr res) \<Rightarrow> (case member res ''data'' of Inr d \<Rightarrow> opt_member d ''valid'' \<noteq> JBool True | Inl _ \<Rightarrow> False)
   | Published a \<Rightarrow> (case publication a of Some d \<Rightarrow> opt_member d ''status'' \<noteq> JStr (js ''failed'') | None \<Rightarrow> False)
   | _ \<Rightarrow> False)"

lemma canPublish_after:
  "canPublish (panel_after e s) \<longleftrightarrow> approves e \<or> canPublish s \<and> \<not> withdraws e"
  by (cases e) (auto simp: canPublish_def approves_def withdraws_def fresh_panel_def validated_def published_def
      validating_def publishing_def discarding_def setNote_def setValidation_def split: sum.splits option.splits)

text \<open>The last event that decides is an approval.\<close>

definition approved :: "panel_event list \<Rightarrow> bool" where
  "approved es \<longleftrightarrow> (case filter (\<lambda>e. approves e \<or> withdraws e) (rev es) of e # _ \<Rightarrow> approves e | [] \<Rightarrow> False)"

lemma approved_snoc [simp]:
  "\<not> approved []" "approved (es @ [e]) \<longleftrightarrow> approves e \<or> approved es \<and> \<not> withdraws e"
  by (simp_all add: approved_def)

lemma panel_run_approved: "panel_run es s \<Longrightarrow> canPublish s \<longleftrightarrow> approved es"
proof (induction rule: panel_run.induct)
  case opened
  then show ?case by (simp add: canPublish_def fresh_panel_def)
next
  case (step es s e)
  then show ?case by (simp add: canPublish_after)
qed

lemma approved_split:
  assumes "approved es"
  obtains before a since where "es = before @ Validated a # since" "approves (Validated a)" "list_all (\<lambda>e. \<not> withdraws e) since"
  using assms
proof (induction es arbitrary: thesis rule: rev_induct)
  case (snoc e es)
  show ?case
  proof (cases "approves e")
    case True
    then obtain a where "e = Validated a" by (cases e) (auto simp: approves_def)
    then show ?thesis using snoc.prems(1) [of es a "[]"] True by simp
  next
    case False
    then have "approved es" "\<not> withdraws e" using snoc.prems(2) by auto
    from snoc.IH [OF _ this(1)] obtain before a since where
      "es = before @ Validated a # since" "approves (Validated a)" "list_all (\<lambda>e. \<not> withdraws e) since" by blast
    then show ?thesis using snoc.prems(1) [of "es @ [e]" a "since @ [e]"] snoc.prems(1) [of before a "since @ [e]"]
        \<open>\<not> withdraws e\<close> by simp
  qed
qed simp

text \<open>
  C7: Only a validated draft is published. However requests and answers interleave, when the publish
  button can be pressed the last event that decides was an answer of the backend that the draft is
  valid: since then no validation failed, nothing was published and the panel was not opened again.
\<close>

theorem only_validated_published:
  assumes "panel_run (es @ [Publish_Pressed]) s"
  shows "\<exists>before a since. es = before @ Validated a # since \<and> approves (Validated a) \<and>
    list_all (\<lambda>e. \<not> withdraws e) since"
proof -
  obtain s' where "panel_run es s'" "\<not> publish_disabled s'"
    using assms by (auto elim: panel_run_snoc)
  then have "approved es" using panel_run_approved by (auto simp: publish_disabled_def)
  then show ?thesis by (rule approved_split) blast
qed

theorem only_validated_published_witness:
  "\<exists>before a since. [Validate_Pressed, Validated (Inr (JObj [(js ''data'', JObj [(js ''valid'', JBool True)])])), Noted (js ''n'')] =
     before @ Validated a # since \<and> approves (Validated a) \<and> list_all (\<lambda>e. \<not> withdraws e) since"
proof -
  let ?ok = "Validated (Inr (JObj [(js ''data'', JObj [(js ''valid'', JBool True)])]))"
  have "panel_run ([] @ [Validate_Pressed]) (panel_after Validate_Pressed fresh_panel)"
    by (rule panel_run.step [OF panel_run.opened]) (simp add: fresh_panel_def)
  then have "panel_run ([Validate_Pressed] @ [?ok]) (panel_after ?ok (panel_after Validate_Pressed fresh_panel))"
    by (intro panel_run.step) simp_all
  then have "panel_run ([Validate_Pressed, ?ok] @ [Noted (js ''n'')])
      (panel_after (Noted (js ''n'')) (panel_after ?ok (panel_after Validate_Pressed fresh_panel)))" (is "panel_run _ ?s")
    by (intro panel_run.step) simp_all
  moreover have "panel_enabled Publish_Pressed ?s"
    by (simp add: publish_disabled_def canPublish_def fresh_panel_def validated_def validating_def setValidation_def setNote_def)
  ultimately have "panel_run ([Validate_Pressed, ?ok, Noted (js ''n'')] @ [Publish_Pressed]) (panel_after Publish_Pressed ?s)"
    by (intro panel_run.step) simp_all
  from only_validated_published [OF this] show ?thesis by simp
qed

section \<open>Rolling back\<close>

text \<open>
  The history offers to roll back exactly the earlier successes. Of the publications that
  succeeded, in the order shown, the first, which is the one running, has no button and every other
  has one; no other row has a button.
\<close>

theorem rollback_offered_for_older:
  "map snd (filter (\<lambda>(i, r). rollback_shown rs i r) (enumerate 0 rs)) = tl (filter succeeded rs)"
proof -
  have after: "map snd (filter (\<lambda>(i, r). succeeded r \<and> int i \<noteq> m) (enumerate n xs)) = filter succeeded xs"
    if "m < int n" for m n and xs :: "publish_record list"
    using that by (induction xs arbitrary: n) auto
  have later: "map snd (filter (\<lambda>(i, r). succeeded r \<and> int i \<noteq> int n + findIndex succeeded xs) (enumerate n xs)) =
      tl (filter succeeded xs)" if "filter succeeded xs \<noteq> []" for n and xs :: "publish_record list"
    using that
  proof (induction xs arbitrary: n)
    case (Cons r xs)
    show ?case
    proof (cases "succeeded r")
      case True
      then show ?thesis using after [of "int n" "Suc n" xs] by simp
    next
      case False
      then have ne: "filter succeeded xs \<noteq> []" using Cons.prems by simp
      then have "findIndex succeeded xs \<noteq> - 1" by (simp add: findIndex_none)
      then show ?thesis using Cons.IH [OF ne, of "Suc n"] False by (simp add: Let_def add.commute add.left_commute)
    qed
  qed simp
  show ?thesis
    using after [of "- 1" 0 rs] later [of rs 0] findIndex_none [of succeeded rs]
    by (cases "filter succeeded rs = []") (auto simp: rollback_shown_def latestSuccessIdx_def)
qed

end
