(* ===== verification/Rules_Page.thy ===== *)
theory Rules_Page
  imports Api Page_Actions
begin

text \<open>
  \<open>pages/rules.tsx\<close>, \<open>components/rules/rule-list.tsx\<close> and \<open>rule-form.tsx\<close>: loading and filtering the
  rules, the dialog, deleting and dragging. The order of the rules decides what matches; the lemmas
  show that a drag permutes them and keeps the catch-all rules last, what a saved rule contains,
  and what saving and deleting report.
\<close>

section \<open>Data\<close>

record rule =
  ru_id :: jstring
  ru_type :: jstring
  ru_payload :: "jstring option"
  ru_target :: "jstring option"
  ru_params :: jsval
  ru_sort_order :: jsnum

record rule_form =
  rf_type :: jstring
  rf_payload :: jstring
  rf_target :: jstring
  rf_noResolve :: bool

record rule_list =
  rd_deletingId :: "jstring option"
  rd_confirmOpen :: bool

record rules_page =
  rx_rules :: "rule list"
  rx_loading :: bool
  rx_search :: jstring
  rx_typeFilter :: jstring
  rx_formOpen :: bool
  rx_editing :: "rule option"
  rx_list :: rule_list
  rx_form :: rule_form
  rx_groupNames :: "jstring list"
  rx_proxyNames :: "jstring list"

definition RULE_TYPES :: "string list" where
  "RULE_TYPES = [''DOMAIN'', ''DOMAIN-SUFFIX'', ''DOMAIN-KEYWORD'', ''IP-CIDR'', ''IP-CIDR6'', ''SRC-IP-CIDR'',
     ''DST-PORT'', ''PROCESS-NAME'', ''GEOIP'', ''RULE-SET'', ''MATCH'']"

definition NO_RESOLVE_TYPES :: "string list" where
  "NO_RESOLVE_TYPES = [''IP-CIDR'', ''IP-CIDR6'', ''SRC-IP-CIDR'']"

definition NO_PAYLOAD_TYPES :: "string list" where
  "NO_PAYLOAD_TYPES = [''MATCH'']"

definition STATIC_TARGETS :: "string list" where
  "STATIC_TARGETS = [''DIRECT'', ''REJECT'']"

definition among :: "jstring \<Rightarrow> string list \<Rightarrow> bool" where
  "among s ks \<longleftrightarrow> s \<in> set (map js ks)"

definition isMatch :: "rule \<Rightarrow> bool" where
  "isMatch r \<longleftrightarrow> ru_type r = js ''MATCH''"

definition DEFAULT_RULE :: rule_form where
  "DEFAULT_RULE = \<lparr>rf_type = js ''DOMAIN'', rf_payload = [], rf_target = js ''DIRECT'', rf_noResolve = False\<rparr>"

definition fresh_rule_list :: rule_list where
  "fresh_rule_list = \<lparr>rd_deletingId = None, rd_confirmOpen = False\<rparr>"

definition initial_rules_page :: rules_page where
  "initial_rules_page = \<lparr>rx_rules = [], rx_loading = False, rx_search = [], rx_typeFilter = [], rx_formOpen = False,
     rx_editing = None, rx_list = fresh_rule_list, rx_form = DEFAULT_RULE, rx_groupNames = [], rx_proxyNames = []\<rparr>"

section \<open>Loading\<close>

definition list_params :: "jstring \<Rightarrow> jstring \<Rightarrow> (string \<times> jsval) list" where
  "list_params search typeFilter =
     (if search \<noteq> [] then [(''search'', JStr search)] else []) @
     (if typeFilter \<noteq> [] then [(''type'', JStr typeFilter)] else [])"

text \<open>
  \<open>as_rules\<close> is how a list is read. While the list loads a text takes its place, so the list's own
  state is lost.
\<close>

definition rules_fetch :: "'b server \<Rightarrow> (jsval \<Rightarrow> rule list) \<Rightarrow> (('b, rules_page) world, unit) io" where
  "rules_fetch server as_rules = io_read (\<lambda>w.
     loading server (rulesApi_list (list_params (rx_search (w_page w)) (rx_typeFilter (w_page w))))
       (\<lambda>p. p\<lparr>rx_loading := True, rx_list := fresh_rule_list\<rparr>)
       (\<lambda>d p. p\<lparr>rx_rules := as_rules (coalesce d (JArr []))\<rparr>)
       (Failure (Key ''rules.loadFailed'' []))
       (\<lambda>p. p\<lparr>rx_loading := False\<rparr>))"

text \<open>A change of the search or the filter changes the callback and so runs the effect that loads.\<close>

definition setSearch :: "'b server \<Rightarrow> (jsval \<Rightarrow> rule list) \<Rightarrow> jstring \<Rightarrow> (('b, rules_page) world, unit) io" where
  "setSearch server as_rules s = io_then (page (\<lambda>p. p\<lparr>rx_search := s\<rparr>)) (rules_fetch server as_rules)"

definition onTypeFilter :: "'b server \<Rightarrow> (jsval \<Rightarrow> rule list) \<Rightarrow> jstring option \<Rightarrow> (('b, rules_page) world, unit) io" where
  "onTypeFilter server as_rules v =
     io_then (page (\<lambda>p. p\<lparr>rx_typeFilter := (case nonempty v of
         Some s \<Rightarrow> if s = js ''__all__'' then [] else s | None \<Rightarrow> [])\<rparr>))
       (rules_fetch server as_rules)"

section \<open>The dialog\<close>

definition open_rule_form :: "rule option \<Rightarrow> (jstring option \<times> jstring option) option \<Rightarrow> rule_form" where
  "open_rule_form r initial = (case r of
     Some x \<Rightarrow> \<lparr>rf_type = ru_type x, rf_payload = or_default (ru_payload x) [],
       rf_target = or_default (ru_target x) (js ''DIRECT''),
       rf_noResolve = truthy (opt_member (ru_params x) ''no-resolve'')\<rparr>
   | None \<Rightarrow> (case initial of
       Some (ty, pl) \<Rightarrow> DEFAULT_RULE\<lparr>rf_type := or_default ty (rf_type DEFAULT_RULE),
         rf_payload := or_default pl (rf_payload DEFAULT_RULE)\<rparr>
     | None \<Rightarrow> DEFAULT_RULE))"

definition rules_handleAddClick :: "rules_page \<Rightarrow> rules_page" where
  "rules_handleAddClick p = p\<lparr>rx_editing := None, rx_formOpen := True, rx_form := open_rule_form None None\<rparr>"

definition rules_handleEditClick :: "rule \<Rightarrow> rules_page \<Rightarrow> rules_page" where
  "rules_handleEditClick r p = p\<lparr>rx_editing := Some r, rx_formOpen := True, rx_form := open_rule_form (Some r) None\<rparr>"

definition onRuleFormOpen :: "bool \<Rightarrow> rules_page \<Rightarrow> rules_page" where
  "onRuleFormOpen opened p = (if opened then p\<lparr>rx_formOpen := True\<rparr> else p\<lparr>rx_formOpen := False, rx_editing := None\<rparr>)"

definition onRuleType :: "jstring option \<Rightarrow> rule_form \<Rightarrow> rule_form" where
  "onRuleType v fm = (case nonempty v of Some ty \<Rightarrow> fm\<lparr>rf_type := ty, rf_payload := []\<rparr> | None \<Rightarrow> fm)"

definition onRulePayload :: "jstring \<Rightarrow> rule_form \<Rightarrow> rule_form" where
  "onRulePayload v fm = fm\<lparr>rf_payload := v\<rparr>"

definition onRuleTarget :: "jstring option \<Rightarrow> rule_form \<Rightarrow> rule_form" where
  "onRuleTarget v fm = (case nonempty v of Some g \<Rightarrow> fm\<lparr>rf_target := g\<rparr> | None \<Rightarrow> fm)"

definition onNoResolve :: "bool \<Rightarrow> rule_form \<Rightarrow> rule_form" where
  "onNoResolve b fm = fm\<lparr>rf_noResolve := b\<rparr>"

definition showPayload :: "rule_form \<Rightarrow> bool" where
  "showPayload fm \<longleftrightarrow> \<not> among (rf_type fm) NO_PAYLOAD_TYPES"

definition showNoResolve :: "rule_form \<Rightarrow> bool" where
  "showNoResolve fm \<longleftrightarrow> among (rf_type fm) NO_RESOLVE_TYPES"

text \<open>The browser refuses to submit an empty field that is required.\<close>

definition rule_submittable :: "rule_form \<Rightarrow> bool" where
  "rule_submittable fm \<longleftrightarrow> (showPayload fm \<longrightarrow> rf_payload fm \<noteq> [])"

record rule_data =
  rv_type :: jstring
  rv_payload :: jstring
  rv_target :: jstring
  rv_params :: "(jstring \<times> jsval) list"

definition submitted_rule :: "rule_form \<Rightarrow> rule_data" where
  "submitted_rule fm =
     \<lparr>rv_type = rf_type fm, rv_payload = (if among (rf_type fm) NO_PAYLOAD_TYPES then [] else rf_payload fm),
      rv_target = rf_target fm,
      rv_params = (if among (rf_type fm) NO_RESOLVE_TYPES \<and> rf_noResolve fm then [(js ''no-resolve'', JBool True)] else [])\<rparr>"

definition rule_json :: "rule_data \<Rightarrow> jsval" where
  "rule_json d = JObj [(js ''type'', JStr (rv_type d)), (js ''payload'', JStr (rv_payload d)),
     (js ''target'', JStr (rv_target d)), (js ''params'', JObj (rv_params d))]"

text \<open>The groups of choices for the target, each with the key of its heading.\<close>

definition target_choices :: "rules_page \<Rightarrow> (string option \<times> jstring list) list" where
  "target_choices p =
     (None, map js STATIC_TARGETS) #
     (if rx_groupNames p \<noteq> [] then [(Some ''nav.proxyGroups'', rx_groupNames p)] else []) @
     (if rx_proxyNames p \<noteq> [] then [(Some ''nav.proxies'', rx_proxyNames p)] else [])"

text \<open>\<open>names\<close> is how the names of a list of groups or proxies are read; the second load fails silently.\<close>

definition load_targets :: "'b server \<Rightarrow> (jsval \<Rightarrow> jstring list) \<Rightarrow> (('b, rules_page) world, unit) io" where
  "load_targets server names =
     io_then
       (io_catch
         (io_bind (api server (proxyGroupsApi_list [])) (\<lambda>res. io_bind (io_lift (member res ''data'')) (\<lambda>d.
          page (\<lambda>p. p\<lparr>rx_groupNames := names (coalesce d (JArr []))\<rparr>))))
         (\<lambda>_. toast (Failure (Key ''rules.loadGroupsFailed'' []))))
       (io_catch
         (io_bind (api server (proxiesApi_list [])) (\<lambda>res. io_bind (io_lift (member res ''data'')) (\<lambda>d.
          page (\<lambda>p. p\<lparr>rx_proxyNames := names (coalesce d (JArr []))\<rparr>))))
         (\<lambda>_. io_return ()))"

section \<open>Saving, deleting, dragging\<close>

definition rules_save :: "'b server \<Rightarrow> (jsval \<Rightarrow> rule list) \<Rightarrow> jsval \<Rightarrow> (('b, rules_page) world, unit) io" where
  "rules_save server as_rules data = io_read (\<lambda>w.
     let editing = rx_editing (w_page w)
     in saving server
          (case editing of Some r \<Rightarrow> rulesApi_update (ru_id r) data | None \<Rightarrow> rulesApi_create data)
          (Success (Key (if editing \<noteq> None then ''rules.updated'' else ''rules.created'') []))
          (\<lambda>p. p\<lparr>rx_formOpen := False, rx_editing := None\<rparr>)
          (rules_fetch server as_rules)
          (Failure (Key (if editing \<noteq> None then ''rules.updateFailed'' else ''rules.createFailed'') [])))"

definition submit_rule :: "'b server \<Rightarrow> (jsval \<Rightarrow> rule list) \<Rightarrow> (('b, rules_page) world, unit) io" where
  "submit_rule server as_rules = io_read (\<lambda>w.
     if rule_submittable (rx_form (w_page w))
     then rules_save server as_rules (rule_json (submitted_rule (rx_form (w_page w)))) else io_return ())"

definition rules_handleDeleteClick :: "rule \<Rightarrow> rules_page \<Rightarrow> rules_page" where
  "rules_handleDeleteClick r p = p\<lparr>rx_list := \<lparr>rd_deletingId = Some (ru_id r), rd_confirmOpen = True\<rparr>\<rparr>"

definition rules_handleDeleteConfirm :: "'b server \<Rightarrow> (jsval \<Rightarrow> rule list) \<Rightarrow> (('b, rules_page) world, unit) io" where
  "rules_handleDeleteConfirm server as_rules = io_read (\<lambda>w.
     case nonempty (rd_deletingId (rx_list (w_page w))) of
       None \<Rightarrow> io_return ()
     | Some i \<Rightarrow> deleting server (rulesApi_delete i) (Success (Key ''rules.deleted'' []))
         (rules_fetch server as_rules) (Failure (Key ''rules.deleteFailed'' []))
         (\<lambda>p. p\<lparr>rx_list := (rx_list p)\<lparr>rd_deletingId := None\<rparr>\<rparr>))"

definition handleReorder :: "'b server \<Rightarrow> (jsval \<Rightarrow> rule list) \<Rightarrow> rule list \<Rightarrow> (('b, rules_page) world, unit) io" where
  "handleReorder server as_rules reordered =
     io_then (page (\<lambda>p. p\<lparr>rx_rules := reordered\<rparr>))
       (io_catch
         (io_then (api server (rulesApi_reorder (map ru_id reordered))) (io_return ()))
         (\<lambda>_. io_then (toast (Failure (Key ''rules.orderSaveFailed'' []))) (rules_fetch server as_rules)))"

text \<open>Where a drag of the row \<open>active\<close> over the row \<open>over\<close> leads; \<open>mv\<close> is \<open>arrayMove\<close>.\<close>

definition drag_end :: "(rule list \<Rightarrow> int \<Rightarrow> int \<Rightarrow> rule list) \<Rightarrow> rule list \<Rightarrow> jstring \<Rightarrow> jstring option \<Rightarrow> rule list option" where
  "drag_end mv rules active over = (case over of
     None \<Rightarrow> None
   | Some onto \<Rightarrow>
       if active = onto then None
       else (case (find (\<lambda>r. ru_id r = active) rules, find (\<lambda>r. ru_id r = onto) rules) of
          (Some _, Some overRule) \<Rightarrow>
            if isMatch overRule then None
            else Some (mv rules (findIndex (\<lambda>r. ru_id r = active) rules) (findIndex (\<lambda>r. ru_id r = onto) rules))
        | _ \<Rightarrow> None))"

definition handleDragEnd :: "(rule list \<Rightarrow> int \<Rightarrow> int \<Rightarrow> rule list) \<Rightarrow> 'b server \<Rightarrow> (jsval \<Rightarrow> rule list) \<Rightarrow>
    jstring \<Rightarrow> jstring option \<Rightarrow> (('b, rules_page) world, unit) io" where
  "handleDragEnd mv server as_rules active over = io_read (\<lambda>w.
     case drag_end mv (rx_rules (w_page w)) active over of
       None \<Rightarrow> io_return () | Some reordered \<Rightarrow> handleReorder server as_rules reordered)"

section \<open>What the page shows\<close>

record rule_row =
  rw_number :: nat
  rw_draggable :: bool
  rw_type :: jstring
  rw_payload :: jstring
  rw_target :: "jstring option"
  rw_noResolve :: bool

definition rule_row :: "nat \<Rightarrow> rule \<Rightarrow> rule_row" where
  "rule_row index r = \<lparr>rw_number = index + 1, rw_draggable = (\<not> isMatch r), rw_type = ru_type r,
     rw_payload = (case nonempty (ru_payload r) of Some s \<Rightarrow> s | None \<Rightarrow> [8212]), rw_target = ru_target r,
     rw_noResolve = truthy (opt_member (ru_params r) ''no-resolve'')\<rparr>"

definition sortableIds :: "rule list \<Rightarrow> jstring list" where
  "sortableIds rules = map ru_id (filter (\<lambda>r. \<not> isMatch r) rules)"

definition no_match_warning :: "rules_page \<Rightarrow> bool" where
  "no_match_warning p \<longleftrightarrow> \<not> rx_loading p \<and> rx_rules p \<noteq> [] \<and> \<not> list_ex isMatch (rx_rules p)"

datatype rules_content = Rules_Loading | No_Rules | Rule_Rows "rule_row list"

definition rules_content :: "rules_page \<Rightarrow> rules_content" where
  "rules_content p =
     (if rx_loading p then Rules_Loading else if rx_rules p = [] then No_Rules
      else Rule_Rows (map (\<lambda>(i, r). rule_row i r) (enumerate 0 (rx_rules p))))"

section \<open>What saving and deleting report\<close>

interpretation rules_reload: page_reload "rules_fetch server as_rules" "Failure (Key ''rules.loadFailed'' [])"
    "\<lambda>p. (rx_formOpen p, rx_editing p, rx_form p, rx_search p, rx_typeFilter p)"
  for server as_rules
  by unfold_locales (simp add: rules_fetch_def, rule wp_mono [OF loading_spec], auto)

text \<open>
  Saving a rule reports exactly one outcome. When the backend refuses, there is one failure and
  nothing else changes: the dialog stays open with what was typed. Otherwise one success is
  reported, the dialog is closed, and at most the failure of the reload follows.
\<close>

theorem rules_save_outcome:
  "\<exists>w'. rules_save server as_rules data w = (Inr (), w') \<and>
     (case answered server (case rx_editing (w_page w) of
         Some r \<Rightarrow> rulesApi_update (ru_id r) data | None \<Rightarrow> rulesApi_create data) w of
        Inl _ \<Rightarrow> w_page w' = w_page w \<and> w_toasts w' = w_toasts w @
          [Failure (Key (if rx_editing (w_page w) \<noteq> None then ''rules.updateFailed'' else ''rules.createFailed'') [])]
      | Inr _ \<Rightarrow> \<not> rx_formOpen (w_page w') \<and> rx_editing (w_page w') = None \<and>
          (let good = Success (Key (if rx_editing (w_page w) \<noteq> None then ''rules.updated'' else ''rules.created'') [])
           in w_toasts w' \<in> {w_toasts w @ [good], w_toasts w @ [good, Failure (Key ''rules.loadFailed'' [])]}))"
proof -
  let ?e = "rx_editing (w_page w)"
  let ?rq = "case ?e of Some r \<Rightarrow> rulesApi_update (ru_id r) data | None \<Rightarrow> rulesApi_create data"
  let ?good = "Success (Key (if ?e \<noteq> None then ''rules.updated'' else ''rules.created'') [])"
  let ?bad = "Failure (Key (if ?e \<noteq> None then ''rules.updateFailed'' else ''rules.createFailed'') [])"
  let ?close = "\<lambda>p. p\<lparr>rx_formOpen := False, rx_editing := None\<rparr>"
  have "rules_save server as_rules data w = saving server ?rq ?good ?close (rules_fetch server as_rules) ?bad w"
    by (simp add: rules_save_def io_read_def Let_def)
  with rules_reload.saving_outcome [of server ?rq ?good ?close server as_rules ?bad w]
  show ?thesis by (cases "rx_editing (w_page w)"; fastforce simp: Let_def split: sum.splits)
qed

section \<open>Dragging\<close>

text \<open>
  C8: A drag moves one rule and loses none, and the catch-all rules stay last. The new order is a
  permutation of the rules shown in which the dragged rule takes the place of the one it is dropped
  on; when the \<open>MATCH\<close> rules stood at the end, they stand there still, in their order.
\<close>

theorem drag_keeps_match_last:
  assumes "moves_elements mv" "drag_end mv rules active over = Some rules'"
    and "find (\<lambda>r. ru_id r = active) rules = Some r" "\<not> isMatch r"
  shows "mset rules' = mset rules \<and>
    (\<exists>j. find (\<lambda>x. ru_id x = the over) rules = Some (rules ! j) \<and> j < length rules \<and> rules' ! j = r) \<and>
    (\<forall>xs ys. rules = xs @ ys \<and> list_all (\<lambda>x. \<not> isMatch x) xs \<and> list_all isMatch ys \<longrightarrow>
       (\<exists>xs'. rules' = xs' @ ys \<and> mset xs' = mset xs))"
proof -
  obtain onto q where onto: "over = Some onto" "find (\<lambda>x. ru_id x = onto) rules = Some q" "\<not> isMatch q"
    "rules' = mv rules (findIndex (\<lambda>x. ru_id x = active) rules) (findIndex (\<lambda>x. ru_id x = onto) rules)"
    using assms(2,3) by (auto simp: drag_end_def split: option.splits if_splits)
  obtain i where i: "findIndex (\<lambda>x. ru_id x = active) rules = int i" "i < length rules" "rules ! i = r"
    using findIndex_find [OF assms(3)] by blast
  obtain j where j: "findIndex (\<lambda>x. ru_id x = onto) rules = int j" "j < length rules" "rules ! j = q"
    using findIndex_find [OF onto(2)] by blast
  have r': "rules' = moved rules i j"
    using assms(1) onto(4) i(1,2) j(1,2) by (simp add: moves_elements_def)
  have "\<exists>xs'. rules' = xs' @ ys \<and> mset xs' = mset xs"
    if "rules = xs @ ys" "list_all isMatch ys" for xs ys
  proof -
    have "k < length xs" if "k < length rules" "\<not> isMatch (rules ! k)" for k
      using that \<open>rules = xs @ ys\<close> \<open>list_all isMatch ys\<close> by (cases "k < length xs") (auto simp: nth_append list_all_length)
    then have "i < length xs" "j < length xs" using i j assms(4) onto(3) by auto
    then show ?thesis using r' \<open>rules = xs @ ys\<close> by (auto simp: moved_append mset_moved)
  qed
  moreover have "rules' ! j = r" using i(2,3) j(2) by (auto simp: r' moved_def nth_append Let_def min_def)
  ultimately show ?thesis using r' i(2) j onto(1,2) by (auto simp: mset_moved)
qed

definition some_rule :: "jstring \<Rightarrow> jstring \<Rightarrow> rule" where
  "some_rule i ty = \<lparr>ru_id = i, ru_type = ty, ru_payload = Some (js ''p''), ru_target = Some (js ''DIRECT''),
     ru_params = JObj [], ru_sort_order = num 0\<rparr>"

theorem drag_keeps_match_last_witness:
  "drag_end plain_move [some_rule [1] (js ''DOMAIN''), some_rule [2] (js ''GEOIP''), some_rule [3] (js ''MATCH'')] [1] (Some [2]) =
     Some [some_rule [2] (js ''GEOIP''), some_rule [1] (js ''DOMAIN''), some_rule [3] (js ''MATCH'')] \<and>
   mset [some_rule [2] (js ''GEOIP''), some_rule [1] (js ''DOMAIN''), some_rule [3] (js ''MATCH'')] =
     mset [some_rule [1] (js ''DOMAIN''), some_rule [2] (js ''GEOIP''), some_rule [3] (js ''MATCH'')]"
proof -
  let ?rs = "[some_rule [1] (js ''DOMAIN''), some_rule [2] (js ''GEOIP''), some_rule [3] (js ''MATCH'')]"
  have d: "drag_end plain_move ?rs [1] (Some [2]) =
      Some [some_rule [2] (js ''GEOIP''), some_rule [1] (js ''DOMAIN''), some_rule [3] (js ''MATCH'')]"
    by (simp add: drag_end_def some_rule_def isMatch_def js_def plain_move_def moved_def)
  have f: "find (\<lambda>r. ru_id r = [1]) ?rs = Some (some_rule [1] (js ''DOMAIN''))" "\<not> isMatch (some_rule [1] (js ''DOMAIN''))"
    by (simp_all add: some_rule_def isMatch_def js_def)
  show ?thesis using drag_keeps_match_last [OF moves_elements_plain d f] d by blast
qed

text \<open>
  What a drag leaves behind. Nothing happens unless the rule is dropped on another one that is
  no catch-all. Otherwise the page shows the new order at once and sends the ids of exactly the rules
  it shows, in that order; when the backend refuses, a failure is reported first and the list is
  loaded again.
\<close>

theorem drag_settles:
  "\<exists>w'. handleDragEnd mv server as_rules active over w = (Inr (), w') \<and>
     (case drag_end mv (rx_rules (w_page w)) active over of
        None \<Rightarrow> w' = w
      | Some rules' \<Rightarrow>
          (\<exists>more. map fst (w_sent w') = map fst (w_sent w) @ rulesApi_reorder (map ru_id rules') # more) \<and>
          (case answered server (rulesApi_reorder (map ru_id rules')) w of
             Inr _ \<Rightarrow> w_page w' = (w_page w)\<lparr>rx_rules := rules'\<rparr> \<and> w_toasts w' = w_toasts w
           | Inl _ \<Rightarrow> (\<exists>more. w_toasts w' = w_toasts w @ Failure (Key ''rules.orderSaveFailed'' []) # more)))"
proof (cases "drag_end mv (rx_rules (w_page w)) active over")
  case None
  then show ?thesis by (simp add: handleDragEnd_def io_read_def io_return_def)
next
  case (Some rules')
  have "wp (rules_fetch server as_rules) (\<lambda>_ v. (\<exists>more. w_toasts v = w_toasts u @ more) \<and>
      (\<exists>more. map fst (w_sent v) = map fst (w_sent u) @ more)) (\<lambda>_ _. False) u" for u :: "('a, rules_page) world"
    by (auto simp: rules_fetch_def loading_def split: sum.splits)
  note fetch = this
  show ?thesis
    by (rule wp_total) (auto simp: handleDragEnd_def handleReorder_def Some split: sum.splits intro!: wp_mono [OF fetch])
qed

section \<open>What a saved rule contains\<close>

text \<open>
  Opening a rule and saving it unchanged keeps it exactly when its parameters are no more than
  the dialog knows and a catch-all has no payload: every other parameter is dropped, and so is
  \<open>no-resolve\<close> where the type does not offer it.
\<close>

theorem unchanged_rule_kept:
  "rule_json (submitted_rule (open_rule_form (Some r) None)) =
     JObj [(js ''type'', JStr (ru_type r)), (js ''payload'', JStr (or_default (ru_payload r) [])),
       (js ''target'', JStr (or_default (ru_target r) (js ''DIRECT''))), (js ''params'', ru_params r)] \<longleftrightarrow>
   (isMatch r \<longrightarrow> or_default (ru_payload r) [] = []) \<and>
   ru_params r = JObj (if among (ru_type r) NO_RESOLVE_TYPES \<and> truthy (opt_member (ru_params r) ''no-resolve'')
     then [(js ''no-resolve'', JBool True)] else [])"
  by (auto simp: rule_json_def submitted_rule_def open_rule_form_def isMatch_def among_def NO_PAYLOAD_TYPES_def)

theorem unchanged_rule_kept_witness:
  "rule_json (submitted_rule (open_rule_form (Some ((some_rule [] (js ''DOMAIN''))\<lparr>ru_params := JObj [(js ''src'', JBool True)]\<rparr>)) None)) \<noteq>
     JObj [(js ''type'', JStr (js ''DOMAIN'')), (js ''payload'', JStr (js ''p'')),
       (js ''target'', JStr (js ''DIRECT'')), (js ''params'', JObj [(js ''src'', JBool True)])]"
  using unchanged_rule_kept [of "(some_rule [] (js ''DOMAIN''))\<lparr>ru_params := JObj [(js ''src'', JBool True)]\<rparr>"]
  by (simp add: some_rule_def js_def)

end
