(* ===== verification/Groups_Page.thy ===== *)
theory Groups_Page
  imports Api Page_Actions Json
begin

text \<open>
  \<open>pages/proxy-groups.tsx\<close>, \<open>components/proxy-groups/group-form.tsx\<close> and \<open>group-member-list.tsx\<close>:
  the list of groups, the dialog and the ordered members of a group. The lemmas show that the members
  stay without repetition through dragging, adding and removing, that a group is not offered to
  itself, and what an unchanged group is saved as.
\<close>

section \<open>Data\<close>

record proxy_group =
  gr_id :: jstring
  gr_name :: jstring
  gr_type :: jstring
  gr_config :: "(jstring \<times> jsval) list"
  gr_members :: jsval
  gr_sort_order :: jsnum
  gr_created_at :: jstring
  gr_updated_at :: jstring

record group_form =
  gf_name :: jstring
  gf_type :: jstring
  gf_members :: "jsval list"
  gf_url :: jstring
  gf_interval :: jstring
  gf_strategy :: jstring

record groups_page =
  gx_groups :: "proxy_group list"
  gx_proxyNames :: "jstring list"
  gx_loading :: bool
  gx_search :: jstring
  gx_typeFilter :: jstring
  gx_formOpen :: bool
  gx_editing :: "proxy_group option"
  gx_deletingId :: "jstring option"
  gx_confirmOpen :: bool
  gx_confirmDescription :: message
  gx_form :: group_form

definition GROUP_TYPES :: "string list" where
  "GROUP_TYPES = [''select'', ''fallback'', ''url-test'', ''load-balance'', ''relay'']"

definition GROUP_VARIANT :: "(string \<times> string) list" where
  "GROUP_VARIANT = [(''select'', ''default''), (''fallback'', ''secondary''), (''url-test'', ''default''),
     (''load-balance'', ''secondary''), (''relay'', ''outline'')]"

definition default_url :: jstring where
  "default_url = js ''http://www.gstatic.com/generate_204''"

definition DEFAULT_GROUP :: group_form where
  "DEFAULT_GROUP = \<lparr>gf_name = [], gf_type = js ''select'', gf_members = [], gf_url = default_url,
     gf_interval = js ''300'', gf_strategy = js ''consistent-hashing''\<rparr>"

definition initial_groups_page :: groups_page where
  "initial_groups_page = \<lparr>gx_groups = [], gx_proxyNames = [], gx_loading = False, gx_search = [], gx_typeFilter = [],
     gx_formOpen = False, gx_editing = None, gx_deletingId = None, gx_confirmOpen = False,
     gx_confirmDescription = Raw [], gx_form = DEFAULT_GROUP\<rparr>"

text \<open>The members as the backend stores them: a list, the JSON text of one, or nothing.\<close>

definition parseMembers :: "jsval \<Rightarrow> jsval list" where
  "parseMembers raw =
     (if \<not> truthy raw then []
      else case raw of
        JArr xs \<Rightarrow> xs
      | _ \<Rightarrow> (case json_parse (to_str raw) of Inr (JArr xs) \<Rightarrow> xs | _ \<Rightarrow> []))"

section \<open>Loading\<close>

definition group_params :: "groups_page \<Rightarrow> (string \<times> jsval) list" where
  "group_params p =
     (if gx_search p \<noteq> [] then [(''search'', JStr (gx_search p))] else []) @
     (if gx_typeFilter p \<noteq> [] then [(''type'', JStr (gx_typeFilter p))] else [])"

definition fetchGroups :: "'b server \<Rightarrow> (jsval \<Rightarrow> proxy_group list) \<Rightarrow> (('b, groups_page) world, unit) io" where
  "fetchGroups server as_groups = io_read (\<lambda>w.
     loading server (proxyGroupsApi_list (group_params (w_page w)))
       (\<lambda>p. p\<lparr>gx_loading := True\<rparr>)
       (\<lambda>d p. p\<lparr>gx_groups := as_groups (coalesce d (JArr []))\<rparr>)
       (Failure (Key ''proxyGroups.loadFailed'' []))
       (\<lambda>p. p\<lparr>gx_loading := False\<rparr>))"

text \<open>\<open>names\<close> is how the names of a list of proxies are read.\<close>

definition fetchProxyNames :: "'b server \<Rightarrow> (jsval \<Rightarrow> jstring list) \<Rightarrow> (('b, groups_page) world, unit) io" where
  "fetchProxyNames server names =
     io_catch
       (io_bind (api server (proxiesApi_list [])) (\<lambda>res. io_bind (io_lift (member res ''data'')) (\<lambda>d.
        page (\<lambda>p. p\<lparr>gx_proxyNames := names (coalesce d (JArr []))\<rparr>))))
       (\<lambda>_. io_return ())"

definition groups_setSearch :: "'b server \<Rightarrow> (jsval \<Rightarrow> proxy_group list) \<Rightarrow> jstring \<Rightarrow> (('b, groups_page) world, unit) io" where
  "groups_setSearch server as_groups s = io_then (page (\<lambda>p. p\<lparr>gx_search := s\<rparr>)) (fetchGroups server as_groups)"

definition groups_onTypeFilter :: "'b server \<Rightarrow> (jsval \<Rightarrow> proxy_group list) \<Rightarrow> jstring option \<Rightarrow> (('b, groups_page) world, unit) io" where
  "groups_onTypeFilter server as_groups v =
     io_then (page (\<lambda>p. p\<lparr>gx_typeFilter := (case nonempty v of
         Some s \<Rightarrow> if s = js ''__all__'' then [] else s | None \<Rightarrow> [])\<rparr>))
       (fetchGroups server as_groups)"

section \<open>The dialog\<close>

definition text_default :: "jsval \<Rightarrow> jstring \<Rightarrow> jstring" where
  "text_default v d = (if truthy v then to_str v else d)"

definition open_group_form :: "proxy_group option \<Rightarrow> group_form" where
  "open_group_form g = (case g of
     Some x \<Rightarrow> \<lparr>gf_name = gr_name x, gf_type = gr_type x, gf_members = parseMembers (gr_members x),
       gf_url = text_default (prop_of (gr_config x) ''url'') default_url,
       gf_interval = text_default (prop_of (gr_config x) ''interval'') (js ''300''),
       gf_strategy = text_default (prop_of (gr_config x) ''strategy'') (js ''consistent-hashing'')\<rparr>
   | None \<Rightarrow> DEFAULT_GROUP)"

definition groups_handleAddClick :: "groups_page \<Rightarrow> groups_page" where
  "groups_handleAddClick p = p\<lparr>gx_editing := None, gx_formOpen := True, gx_form := open_group_form None\<rparr>"

definition groups_handleEditClick :: "proxy_group \<Rightarrow> groups_page \<Rightarrow> groups_page" where
  "groups_handleEditClick g p = p\<lparr>gx_editing := Some g, gx_formOpen := True, gx_form := open_group_form (Some g)\<rparr>"

definition onGroupFormOpen :: "bool \<Rightarrow> groups_page \<Rightarrow> groups_page" where
  "onGroupFormOpen opened p = (if opened then p\<lparr>gx_formOpen := True\<rparr> else p\<lparr>gx_formOpen := False, gx_editing := None\<rparr>)"

definition onGroupType :: "jstring option \<Rightarrow> group_form \<Rightarrow> group_form" where
  "onGroupType v fm = (case nonempty v of Some ty \<Rightarrow> fm\<lparr>gf_type := ty\<rparr> | None \<Rightarrow> fm)"

definition onStrategy :: "jstring option \<Rightarrow> group_form \<Rightarrow> group_form" where
  "onStrategy v fm = (case nonempty v of Some s \<Rightarrow> fm\<lparr>gf_strategy := s\<rparr> | None \<Rightarrow> fm)"

definition showHealthCheck :: "group_form \<Rightarrow> bool" where
  "showHealthCheck fm \<longleftrightarrow> gf_type fm = js ''url-test'' \<or> gf_type fm = js ''fallback''"

definition showStrategy :: "group_form \<Rightarrow> bool" where
  "showStrategy fm \<longleftrightarrow> gf_type fm = js ''load-balance''"

record group_data =
  gv_name :: jstring
  gv_type :: jstring
  gv_config :: "(jstring \<times> jsval) list"
  gv_members :: "jsval list"

definition submitted_group :: "group_form \<Rightarrow> group_data" where
  "submitted_group fm =
     \<lparr>gv_name = gf_name fm, gv_type = gf_type fm,
      gv_config =
        (if showHealthCheck fm then
           [(js ''url'', JStr (gf_url fm)),
            (js ''interval'', JNum (if gf_interval fm \<noteq> [] then to_number (gf_interval fm) else num 300))]
         else []) @
        (if showStrategy fm then [(js ''strategy'', JStr (gf_strategy fm))] else []),
      gv_members = gf_members fm\<rparr>"

definition group_json :: "group_data \<Rightarrow> jsval" where
  "group_json d = JObj [(js ''name'', JStr (gv_name d)), (js ''type'', JStr (gv_type d)),
     (js ''config'', JObj (gv_config d)), (js ''members'', JArr (gv_members d))]"

definition availableMembers :: "groups_page \<Rightarrow> jstring list" where
  "availableMembers p = gx_proxyNames p @
     map gr_name (filter (\<lambda>g. map_option gr_id (gx_editing p) \<noteq> Some (gr_id g)) (gx_groups p))"

section \<open>The members of the dialog\<close>

text \<open>The list of the members and the value of the menu that adds one.\<close>

record member_list =
  ml_members :: "jsval list"
  ml_addValue :: jstring

definition indexOf :: "jsval \<Rightarrow> jsval list \<Rightarrow> int" where
  "indexOf x = findIndex (\<lambda>y. y = x)"

definition member_drag_end :: "(jsval list \<Rightarrow> int \<Rightarrow> int \<Rightarrow> jsval list) \<Rightarrow> jstring \<Rightarrow> jstring option \<Rightarrow> member_list \<Rightarrow> member_list" where
  "member_drag_end mv active over s = (case over of
     Some onto \<Rightarrow>
       if active \<noteq> onto
       then s\<lparr>ml_members := mv (ml_members s) (indexOf (JStr active) (ml_members s)) (indexOf (JStr onto) (ml_members s))\<rparr>
       else s
   | None \<Rightarrow> s)"

definition handleAdd :: "jstring option \<Rightarrow> member_list \<Rightarrow> member_list" where
  "handleAdd v s =
     (case nonempty v of
        Some x \<Rightarrow> (if JStr x \<in> set (ml_members s) then s else s\<lparr>ml_members := ml_members s @ [JStr x]\<rparr>)
      | None \<Rightarrow> s)\<lparr>ml_addValue := []\<rparr>"

text \<open>The button beside the menu.\<close>

definition onAddButton :: "member_list \<Rightarrow> member_list" where
  "onAddButton s = (if ml_addValue s \<noteq> [] then handleAdd (Some (ml_addValue s)) s else s)"

definition handleRemove :: "jstring \<Rightarrow> member_list \<Rightarrow> member_list" where
  "handleRemove name s = s\<lparr>ml_members := filter (\<lambda>m. m \<noteq> JStr name) (ml_members s)\<rparr>"

definition unselectedItems :: "jstring list \<Rightarrow> member_list \<Rightarrow> jstring list" where
  "unselectedItems available s = filter (\<lambda>x. JStr x \<notin> set (ml_members s)) available"

text \<open>What a user can do: drag rows that are shown, pick an item the menu offers, press a button.\<close>

inductive member_step :: "(jsval list \<Rightarrow> int \<Rightarrow> int \<Rightarrow> jsval list) \<Rightarrow> jstring list \<Rightarrow> member_list \<Rightarrow> member_list \<Rightarrow> bool"
  for mv available where
  dragged: "JStr active \<in> set (ml_members s) \<Longrightarrow> (\<And>x. over = Some x \<Longrightarrow> JStr x \<in> set (ml_members s)) \<Longrightarrow>
     member_step mv available s (member_drag_end mv active over s)"
| added: "(\<And>x. v = Some x \<Longrightarrow> x \<in> set (unselectedItems available s)) \<Longrightarrow> member_step mv available s (handleAdd v s)"
| button: "member_step mv available s (onAddButton s)"
| removed: "JStr name \<in> set (ml_members s) \<Longrightarrow> member_step mv available s (handleRemove name s)"

inductive edited :: "(jsval list \<Rightarrow> int \<Rightarrow> int \<Rightarrow> jsval list) \<Rightarrow> jstring list \<Rightarrow> jsval list \<Rightarrow> member_list \<Rightarrow> bool"
  for mv available members where
  opened: "edited mv available members \<lparr>ml_members = members, ml_addValue = []\<rparr>"
| step: "edited mv available members s \<Longrightarrow> member_step mv available s t \<Longrightarrow> edited mv available members t"

section \<open>Saving and deleting\<close>

definition groups_save :: "'b server \<Rightarrow> (jsval \<Rightarrow> proxy_group list) \<Rightarrow> jsval \<Rightarrow> (('b, groups_page) world, unit) io" where
  "groups_save server as_groups data = io_read (\<lambda>w.
     let editing = gx_editing (w_page w)
     in saving server
          (case editing of Some g \<Rightarrow> proxyGroupsApi_update (gr_id g) data | None \<Rightarrow> proxyGroupsApi_create data)
          (Success (Key (if editing \<noteq> None then ''proxyGroups.updated'' else ''proxyGroups.created'') []))
          (\<lambda>p. p\<lparr>gx_formOpen := False, gx_editing := None\<rparr>)
          (fetchGroups server as_groups)
          (Failure (Key (if editing \<noteq> None then ''proxyGroups.updateFailed'' else ''proxyGroups.createFailed'') [])))"

text \<open>The browser refuses to submit an empty name.\<close>

definition submit_group :: "'b server \<Rightarrow> (jsval \<Rightarrow> proxy_group list) \<Rightarrow> (('b, groups_page) world, unit) io" where
  "submit_group server as_groups = io_read (\<lambda>w.
     let fm = gx_form (w_page w)
     in if gf_name fm = [] then io_return () else groups_save server as_groups (group_json (submitted_group fm)))"

definition group_question :: "proxy_group \<Rightarrow> message" where
  "group_question g = Key ''proxyGroups.deleteConfirm'' [(''name'', gr_name g)]"

definition group_refs_question :: "proxy_group \<Rightarrow> jsval \<Rightarrow> message result" where
  "group_refs_question g refs = (case refs of
     JArr xs \<Rightarrow> Inr (if xs \<noteq> [] then
         Key ''proxyGroups.deleteWithRefs''
           [(''count'', dec_digits (length xs)),
            (''names'', join (js '', '') (map (\<lambda>x. if x = Undef \<or> x = Null then [] else to_str x) xs))]
       else group_question g)
   | JStr s \<Rightarrow> (if s \<noteq> [] then Inl TypeError else Inr (group_question g))
   | _ \<Rightarrow> Inr (group_question g))"

definition groups_describe :: "message \<Rightarrow> (('b, groups_page) world, unit) io" where
  "groups_describe m = page (\<lambda>p. p\<lparr>gx_confirmDescription := m\<rparr>)"

definition groups_handleDeleteClick :: "'b server \<Rightarrow> proxy_group \<Rightarrow> (('b, groups_page) world, unit) io" where
  "groups_handleDeleteClick server g =
     io_then
       (io_catch
         (io_bind (api server (proxyGroupsApi_refs (gr_id g))) (\<lambda>res.
          io_bind (io_lift (member res ''data'')) (\<lambda>d.
          io_bind (io_lift (group_refs_question g (coalesce d (JArr [])))) groups_describe)))
         (\<lambda>_. groups_describe (group_question g)))
       (page (\<lambda>p. p\<lparr>gx_deletingId := Some (gr_id g), gx_confirmOpen := True\<rparr>))"

definition groups_handleDeleteConfirm :: "'b server \<Rightarrow> (jsval \<Rightarrow> proxy_group list) \<Rightarrow> (('b, groups_page) world, unit) io" where
  "groups_handleDeleteConfirm server as_groups = io_read (\<lambda>w.
     case nonempty (gx_deletingId (w_page w)) of
       None \<Rightarrow> io_return ()
     | Some i \<Rightarrow> deleting server (proxyGroupsApi_delete i) (Success (Key ''proxyGroups.deleted'' []))
         (fetchGroups server as_groups) (Failure (Key ''proxyGroups.deleteFailed'' []))
         (\<lambda>p. p\<lparr>gx_deletingId := None\<rparr>))"

section \<open>What the page shows\<close>

record group_row =
  gw_name :: jstring
  gw_variant :: keyed
  gw_type :: jstring
  gw_count :: nat

definition group_row :: "proxy_group \<Rightarrow> group_row" where
  "group_row g = \<lparr>gw_name = gr_name g,
     gw_variant = (case table_get GROUP_VARIANT (gr_type g) of Some v \<Rightarrow> v | None \<Rightarrow> Own (js ''outline'')),
     gw_type = gr_type g, gw_count = length (parseMembers (gr_members g))\<rparr>"

datatype groups_content = Groups_Loading | No_Groups | Group_Rows "group_row list"

definition groups_content :: "groups_page \<Rightarrow> groups_content" where
  "groups_content p =
     (if gx_loading p then Groups_Loading else if gx_groups p = [] then No_Groups
      else Group_Rows (map group_row (gx_groups p)))"

section \<open>Members\<close>

lemma indexOf_member: "x \<in> set xs \<Longrightarrow> \<exists>i. indexOf x xs = int i \<and> i < length xs \<and> xs ! i = x"
proof -
  assume "x \<in> set xs"
  then have "find (\<lambda>y. y = x) xs = Some x" by (induction xs) auto
  then show ?thesis using findIndex_find unfolding indexOf_def by fastforce
qed

lemma member_drag_mset:
  assumes "moves_elements mv" "JStr active \<in> set (ml_members s)" "\<And>x. over = Some x \<Longrightarrow> JStr x \<in> set (ml_members s)"
  shows "mset (ml_members (member_drag_end mv active over s)) = mset (ml_members s)"
proof (cases "\<exists>onto. over = Some onto \<and> active \<noteq> onto")
  case True
  then obtain onto where o: "over = Some onto" "active \<noteq> onto" by blast
  obtain i where i: "indexOf (JStr active) (ml_members s) = int i" "i < length (ml_members s)"
    using indexOf_member [OF assms(2)] by blast
  obtain j where j: "indexOf (JStr onto) (ml_members s) = int j" "j < length (ml_members s)"
    using indexOf_member [OF assms(3) [OF o(1)]] by blast
  then show ?thesis using assms(1) i o by (simp add: member_drag_end_def moves_elements_def mset_moved)
qed (auto simp: member_drag_end_def split: option.splits)

lemma member_step_keeps:
  assumes "member_step mv available s t" "moves_elements mv" "ml_addValue s = []"
  shows "ml_addValue t = [] \<and> (distinct (ml_members s) \<longrightarrow> distinct (ml_members t)) \<and>
    set (ml_members t) \<subseteq> set (ml_members s) \<union> JStr ` set available"
  using assms
proof (induction rule: member_step.induct)
  case (dragged active s over)
  then have m: "mset (ml_members (member_drag_end mv active over s)) = mset (ml_members s)"
    using member_drag_mset by blast
  then show ?case using dragged.prems(2) mset_eq_imp_distinct_iff [OF m] mset_eq_setD [OF m]
    by (auto simp: member_drag_end_def split: option.splits)
next
  case (added v s)
  then show ?case by (auto simp: handleAdd_def unselectedItems_def split: option.splits)
qed (auto simp: onAddButton_def handleRemove_def)

lemma edited_keeps:
  assumes "edited mv available members s" "moves_elements mv"
  shows "ml_addValue s = [] \<and> (distinct members \<longrightarrow> distinct (ml_members s)) \<and>
    set (ml_members s) \<subseteq> set members \<union> JStr ` set available"
  using assms
proof (induction rule: edited.induct)
  case (step s t)
  then show ?case using member_step_keeps [of mv available s t] by blast
qed simp

text \<open>
  C12: The members of a group stay an ordered list without repetition. Whatever is dragged, added and
  removed in the dialog, a list that had no repetition has none, it holds nothing but members the
  group had and names the page offers, and the button beside the menu never does anything, since the
  menu's value is always empty.
\<close>

theorem members_stay_distinct:
  assumes "moves_elements mv" "edited mv available members s"
  shows "(distinct members \<longrightarrow> distinct (ml_members s)) \<and>
    set (ml_members s) \<subseteq> set members \<union> JStr ` set available \<and> onAddButton s = s"
  using edited_keeps [OF assms(2,1)] by (auto simp: onAddButton_def)

lemma two_edits:
  "edited plain_move [js ''a'', js ''b''] [JStr (js ''c'')]
     (member_drag_end plain_move (js ''b'') (Some (js ''c''))
       (handleAdd (Some (js ''b'')) \<lparr>ml_members = [JStr (js ''c'')], ml_addValue = []\<rparr>))"
  (is "edited _ ?av ?ms (member_drag_end _ _ _ ?s)")
proof -
  have "edited plain_move ?av ?ms ?s"
    by (rule edited.step [OF edited.opened], rule member_step.added) (auto simp: unselectedItems_def js_def)
  moreover have "ml_members ?s = [JStr (js ''c''), JStr (js ''b'')]" by (simp add: handleAdd_def js_def)
  ultimately show ?thesis
    by (elim edited.step) (rule member_step.dragged, auto)
qed

theorem members_stay_distinct_witness:
  "distinct (ml_members (member_drag_end plain_move (js ''b'') (Some (js ''c''))
     (handleAdd (Some (js ''b'')) \<lparr>ml_members = [JStr (js ''c'')], ml_addValue = []\<rparr>)))"
  using members_stay_distinct [OF moves_elements_plain two_edits] by simp

text \<open>
  C26: A group is not offered to itself. While a group is edited, and its name is neither the name of
  a proxy nor of another group, no sequence of steps in the dialog makes the group a member of
  itself unless it was one before.
\<close>

theorem never_member_of_itself:
  assumes "moves_elements mv" "gx_editing p = Some g" "edited mv (availableMembers p) members s"
    and "gr_name g \<notin> set (gx_proxyNames p)" "list_all (\<lambda>h. gr_id h = gr_id g \<or> gr_name h \<noteq> gr_name g) (gx_groups p)"
    and "JStr (gr_name g) \<notin> set members"
  shows "JStr (gr_name g) \<notin> set (ml_members s)"
proof -
  have "gr_name g \<notin> set (availableMembers p)"
    using assms(2,4,5) by (auto simp: availableMembers_def list_all_iff)
  then show ?thesis using edited_keeps [OF assms(3,1)] assms(6) by auto
qed

definition some_group :: proxy_group where
  "some_group = \<lparr>gr_id = js ''1'', gr_name = js ''G'', gr_type = js ''url-test'',
     gr_config = [(js ''url'', JStr (js ''u'')), (js ''interval'', JNum (num 60)), (js ''lazy'', JBool True)],
     gr_members = Null, gr_sort_order = num 0, gr_created_at = [], gr_updated_at = []\<rparr>"

theorem never_member_of_itself_witness:
  "JStr (js ''G'') \<notin> set (ml_members (member_drag_end plain_move (js ''b'') (Some (js ''c''))
     (handleAdd (Some (js ''b'')) \<lparr>ml_members = [JStr (js ''c'')], ml_addValue = []\<rparr>)))"
proof -
  let ?p = "initial_groups_page\<lparr>gx_editing := Some some_group, gx_groups := [some_group],
    gx_proxyNames := [js ''a'', js ''b'']\<rparr>"
  have "availableMembers ?p = [js ''a'', js ''b'']" by (simp add: availableMembers_def)
  then have "edited plain_move (availableMembers ?p) [JStr (js ''c'')] (member_drag_end plain_move (js ''b'') (Some (js ''c''))
      (handleAdd (Some (js ''b'')) \<lparr>ml_members = [JStr (js ''c'')], ml_addValue = []\<rparr>))"
    using two_edits by simp
  from never_member_of_itself [OF moves_elements_plain _ this, of some_group] show ?thesis
    by (simp add: some_group_def js_def)
qed

section \<open>Saving and deleting\<close>

interpretation groups_reload: page_reload "fetchGroups server as_groups" "Failure (Key ''proxyGroups.loadFailed'' [])"
    "\<lambda>p. (gx_formOpen p, gx_editing p, gx_form p, gx_deletingId p, gx_confirmOpen p)"
  for server as_groups
  by unfold_locales (simp add: fetchGroups_def, rule wp_mono [OF loading_spec], auto)

text \<open>
  Confirming the deletion of a group asks for the deletion of the group the dialog was opened
  for, reports exactly one outcome and forgets the group either way; when the backend refuses,
  everything else stays. Without such a group nothing happens.
\<close>

theorem group_deletion_settles:
  "\<exists>w'. groups_handleDeleteConfirm server as_groups w = (Inr (), w') \<and>
     (case gx_deletingId (w_page w) of
        Some (u # i) \<Rightarrow> gx_deletingId (w_page w') = None \<and>
          (case answered server (proxyGroupsApi_delete (u # i)) w of
             Inl _ \<Rightarrow> w_toasts w' = w_toasts w @ [Failure (Key ''proxyGroups.deleteFailed'' [])] \<and>
               w_page w' = (w_page w)\<lparr>gx_deletingId := None\<rparr>
           | Inr _ \<Rightarrow> w_toasts w' \<in> {w_toasts w @ [Success (Key ''proxyGroups.deleted'' [])],
               w_toasts w @ [Success (Key ''proxyGroups.deleted'' []), Failure (Key ''proxyGroups.loadFailed'' [])]})
      | _ \<Rightarrow> w' = w)"
proof (cases "nonempty (gx_deletingId (w_page w))")
  case None
  then show ?thesis by (auto simp: groups_handleDeleteConfirm_def io_read_def io_return_def)
next
  case (Some i)
  have "groups_handleDeleteConfirm server as_groups w =
      deleting server (proxyGroupsApi_delete i) (Success (Key ''proxyGroups.deleted'' [])) (fetchGroups server as_groups)
        (Failure (Key ''proxyGroups.deleteFailed'' [])) (\<lambda>p. p\<lparr>gx_deletingId := None\<rparr>) w"
    unfolding groups_handleDeleteConfirm_def io_read_def Some option.case ..
  with groups_reload.deleting_outcome [of "\<lambda>p. p\<lparr>gx_deletingId := None\<rparr>" "\<lambda>(a, b, c, _, e). (a, b, c, None, e)"
      server "proxyGroupsApi_delete i" "Success (Key ''proxyGroups.deleted'' [])" server as_groups
      "Failure (Key ''proxyGroups.deleteFailed'' [])" w] Some
  show ?thesis by (cases i) (auto split: sum.splits)
qed

section \<open>What a saved group contains\<close>

text \<open>
  What is left of a health-checked group that is opened and saved unchanged. Its name, type and
  members are kept, and so are the URL and a whole interval, which goes through a text field and
  back; every other setting of the group is dropped.
\<close>

theorem unchanged_group_kept:
  assumes "gr_type g \<in> {js ''url-test'', js ''fallback''}" "prop_of (gr_config g) ''url'' = JStr u" "u \<noteq> []"
    and "prop_of (gr_config g) ''interval'' = JNum (num n)" "0 < n" "n < 2 ^ 53"
  shows "submitted_group (open_group_form (Some g)) =
    \<lparr>gv_name = gr_name g, gv_type = gr_type g,
     gv_config = [(js ''url'', JStr u), (js ''interval'', JNum (num n))], gv_members = parseMembers (gr_members g)\<rparr>"
proof -
  have "num_str (num n) = int_str n" using num_str_num [of n] assms(5,6) by simp
  then have "num_str (num n) \<noteq> []" using assms(5) dec_digits_Cons by (metis int_str_def list.distinct(1) not_less_iff_gr_or_eq)
  moreover have "to_number (num_str (num n)) = num n" using assms(5,6) by (intro to_number_num_str) auto
  moreover have "truthy (JNum (num n))" using assms(5) by (simp add: truthy_def num_def)
  ultimately show ?thesis using assms
    by (auto simp: submitted_group_def open_group_form_def text_default_def showHealthCheck_def showStrategy_def js_def)
qed

theorem unchanged_group_kept_witness:
  "gv_config (submitted_group (open_group_form (Some some_group))) =
     [(js ''url'', JStr (js ''u'')), (js ''interval'', JNum (num 60))]"
  using unchanged_group_kept [of some_group "js ''u''" 60] by (simp add: some_group_def js_def)

end
