(* ===== verification/Proxy_Form.thy ===== *)
theory Proxy_Form
  imports Node_Inventory Json
begin

text \<open>
  \<open>components/proxies/proxy-form.tsx\<close>: the dialog that edits a proxy, with fields that depend on
  the protocol. The lemmas show that an unchanged proxy is saved as it was, what a change of the
  protocol keeps, and that the settings of a new proxy are those of its protocol.
\<close>

section \<open>Data\<close>

datatype field_type = Text_Field | Password_Field | Number_Field | Checkbox_Field | Select_Field "string list"

record field_def =
  fd_key :: string
  fd_label :: string
  fd_type :: field_type

definition field :: "string \<Rightarrow> string \<Rightarrow> field_type \<Rightarrow> field_def" where
  "field k l ty = \<lparr>fd_key = k, fd_label = l, fd_type = ty\<rparr>"

definition PROXY_TYPES :: "string list" where
  "PROXY_TYPES = [''ss'', ''trojan'', ''vmess'', ''vless'', ''http'', ''socks5'', ''hysteria2'', ''tuic'']"

definition PROTOCOL_FIELDS :: "(string \<times> field_def list) list" where
  "PROTOCOL_FIELDS =
     [(''ss'', [field ''cipher'' ''proxy.cipher'' (Select_Field [''aes-128-gcm'', ''aes-256-gcm'', ''chacha20-ietf-poly1305'']),
        field ''password'' ''proxy.password'' Password_Field,
        field ''udp'' ''proxy.udp'' Checkbox_Field]),
      (''trojan'', [field ''password'' ''proxy.password'' Password_Field,
        field ''sni'' ''proxy.sni'' Text_Field,
        field ''skip-cert-verify'' ''proxy.skipCertVerify'' Checkbox_Field]),
      (''vmess'', [field ''uuid'' ''proxy.uuid'' Text_Field,
        field ''alterId'' ''proxy.alterId'' Number_Field,
        field ''cipher'' ''proxy.cipher'' (Select_Field [''auto'', ''aes-128-gcm'', ''chacha20-poly1305'', ''none'']),
        field ''tls'' ''proxy.tls'' Checkbox_Field,
        field ''servername'' ''proxy.serverName'' Text_Field,
        field ''network'' ''proxy.network'' (Select_Field [''tcp'', ''ws'', ''h2'', ''grpc''])]),
      (''vless'', [field ''uuid'' ''proxy.uuid'' Text_Field,
        field ''flow'' ''proxy.flow'' (Select_Field ['''', ''xtls-rprx-vision'']),
        field ''tls'' ''proxy.tls'' Checkbox_Field,
        field ''servername'' ''proxy.serverName'' Text_Field,
        field ''network'' ''proxy.network'' (Select_Field [''tcp'', ''ws'', ''h2'', ''grpc''])]),
      (''http'', [field ''username'' ''proxy.username'' Text_Field,
        field ''password'' ''proxy.password'' Password_Field,
        field ''tls'' ''proxy.tls'' Checkbox_Field]),
      (''socks5'', [field ''username'' ''proxy.username'' Text_Field,
        field ''password'' ''proxy.password'' Password_Field,
        field ''tls'' ''proxy.tls'' Checkbox_Field,
        field ''udp'' ''proxy.udp'' Checkbox_Field]),
      (''hysteria2'', [field ''password'' ''proxy.password'' Password_Field,
        field ''obfs'' ''proxy.obfs'' (Select_Field ['''', ''salamander'']),
        field ''obfs-password'' ''proxy.obfsPassword'' Password_Field,
        field ''sni'' ''proxy.sni'' Text_Field,
        field ''skip-cert-verify'' ''proxy.skipCertVerify'' Checkbox_Field]),
      (''tuic'', [field ''uuid'' ''proxy.uuid'' Text_Field,
        field ''password'' ''proxy.password'' Password_Field,
        field ''congestion-controller'' ''proxy.congestionController'' (Select_Field [''cubic'', ''bbr'', ''new_reno'']),
        field ''sni'' ''proxy.sni'' Text_Field,
        field ''skip-cert-verify'' ''proxy.skipCertVerify'' Checkbox_Field])]"

record proxy_form =
  pf_name :: jstring
  pf_type :: jstring
  pf_server :: jstring
  pf_port :: jstring
  pf_config :: "(jstring \<times> jsval) list"

definition DEFAULT_PROXY :: proxy_form where
  "DEFAULT_PROXY = \<lparr>pf_name = [], pf_type = js ''ss'', pf_server = [], pf_port = [], pf_config = []\<rparr>"

text \<open>
  \<open>PROTOCOL_FIELDS[ty] ?? []\<close>, which the code then iterates over: what the table inherits is no list.
\<close>

definition fields_of :: "jstring \<Rightarrow> field_def list result" where
  "fields_of ty = (case map_of (map (\<lambda>(k, fs). (js k, fs)) PROTOCOL_FIELDS) ty of
     Some fs \<Rightarrow> Inr fs | None \<Rightarrow> if ty \<in> set prototype_keys then Inl TypeError else Inr [])"

section \<open>The dialog\<close>

definition open_proxy_form :: "proxy option \<Rightarrow> proxy_form result" where
  "open_proxy_form p = (case p of
     Some px \<Rightarrow> (case px_config px of
         Some c \<Rightarrow> Inr \<lparr>pf_name = px_name px, pf_type = px_type px,
           pf_server = to_str (coalesce (prop_of c ''server'') (JStr [])),
           pf_port = to_str (coalesce (prop_of c ''port'') (JStr [])), pf_config = c\<rparr>
       | None \<Rightarrow> Inl TypeError)
   | None \<Rightarrow> Inr DEFAULT_PROXY)"

definition keep_field :: "(jstring \<times> jsval) list \<Rightarrow> field_def list \<Rightarrow> field_def \<Rightarrow> (jstring \<times> jsval) list \<Rightarrow> (jstring \<times> jsval) list" where
  "keep_field config newFields f acc =
     (if fd_key f \<in> set (map fd_key newFields) \<and> prop_of config (fd_key f) \<noteq> Undef
      then put (js (fd_key f)) (prop_of config (fd_key f)) acc else acc)"

definition preserved :: "(jstring \<times> jsval) list \<Rightarrow> field_def list \<Rightarrow> field_def list \<Rightarrow> (jstring \<times> jsval) list" where
  "preserved config currentFields newFields = fold (keep_field config newFields) currentFields []"

definition handleTypeChange :: "jstring \<Rightarrow> proxy_form \<Rightarrow> proxy_form result" where
  "handleTypeChange newType fm = (case (fields_of (pf_type fm), fields_of newType) of
     (Inr cur, Inr new) \<Rightarrow> Inr (fm\<lparr>pf_type := newType, pf_config := preserved (pf_config fm) cur new\<rparr>)
   | _ \<Rightarrow> Inl TypeError)"

definition setConfigField :: "string \<Rightarrow> jsval \<Rightarrow> proxy_form \<Rightarrow> proxy_form" where
  "setConfigField k v fm = fm\<lparr>pf_config := put (js k) v (pf_config fm)\<rparr>"

record proxy_data =
  pw_name :: jstring
  pw_type :: jstring
  pw_config :: "(jstring \<times> jsval) list"

definition submitted_proxy :: "proxy_form \<Rightarrow> proxy_data" where
  "submitted_proxy fm =
     \<lparr>pw_name = pf_name fm, pw_type = pf_type fm,
      pw_config = put (js ''port'') (if pf_port fm \<noteq> [] then JNum (to_number (pf_port fm)) else Undef)
        (put (js ''server'') (JStr (pf_server fm)) (pf_config fm))\<rparr>"

text \<open>The browser refuses to submit an empty name, server or port.\<close>

definition proxy_submittable :: "proxy_form \<Rightarrow> bool" where
  "proxy_submittable fm \<longleftrightarrow> pf_name fm \<noteq> [] \<and> pf_server fm \<noteq> [] \<and> pf_port fm \<noteq> []"

text \<open>What a field shows, and what it stores when it is edited.\<close>

datatype field_view = Check bool | Choice jstring "string list" | Number_Box jstring | Text_Box jstring bool

definition renderField :: "proxy_form \<Rightarrow> field_def \<Rightarrow> string \<times> field_view" where
  "renderField fm f =
     (let v = prop_of (pf_config fm) (fd_key f); text = (if v \<noteq> Undef then to_str v else [])
      in (fd_label f, case fd_type f of
            Checkbox_Field \<Rightarrow> Check (truthy v) | Select_Field opts \<Rightarrow> Choice text opts
          | Number_Field \<Rightarrow> Number_Box text | Text_Field \<Rightarrow> Text_Box text False | Password_Field \<Rightarrow> Text_Box text True))"

datatype field_edit = Checked bool | Chosen "jstring option" | Typed jstring

definition edited_value :: "field_type \<Rightarrow> field_edit \<Rightarrow> jsval" where
  "edited_value ty e = (case e of
     Checked b \<Rightarrow> JBool b
   | Chosen v \<Rightarrow> JStr (or_default v [])
   | Typed s \<Rightarrow> (if ty = Number_Field then (if s \<noteq> [] then JNum (to_number s) else JStr []) else JStr s))"

text \<open>What can be done in the dialog while it is open.\<close>

inductive form_step :: "proxy_form \<Rightarrow> proxy_form \<Rightarrow> bool" where
  name: "form_step fm (fm\<lparr>pf_name := s\<rparr>)"
| server: "form_step fm (fm\<lparr>pf_server := s\<rparr>)"
| port: "form_step fm (fm\<lparr>pf_port := s\<rparr>)"
| type: "ty \<in> set (map js PROXY_TYPES) \<Longrightarrow> handleTypeChange ty fm = Inr fm' \<Longrightarrow> form_step fm fm'"
| setting: "fields_of (pf_type fm) = Inr fs \<Longrightarrow> f \<in> set fs \<Longrightarrow>
     form_step fm (setConfigField (fd_key f) (edited_value (fd_type f) e) fm)"

inductive form_run :: "proxy_form \<Rightarrow> proxy_form \<Rightarrow> bool" where
  opened: "form_run fm fm"
| step: "form_run fm fm' \<Longrightarrow> form_step fm' fm'' \<Longrightarrow> form_run fm fm''"

section \<open>Saving an unchanged proxy\<close>

text \<open>
  C10: A proxy that is opened and saved unchanged is saved as it was. Its name and type are kept, and
  every setting, also those the dialog does not show, in their order; the port goes through a text
  field and back.
\<close>

theorem unchanged_proxy_kept:
  assumes "px_config p = Some c" "map_of c (js ''server'') = Some (JStr s)"
    and "map_of c (js ''port'') = Some (JNum (num n))" "0 \<le> n" "n < 2 ^ 53"
  shows "\<exists>fm. open_proxy_form (Some p) = Inr fm \<and>
    submitted_proxy fm = \<lparr>pw_name = px_name p, pw_type = px_type p, pw_config = c\<rparr>"
proof -
  have "num_str (num n) = dec_digits (nat n)" using num_str_num [of n] assms(4,5) by (simp add: int_str_def)
  then have "num_str (num n) \<noteq> []" using dec_digits_Cons [of "nat n"] by (metis list.distinct(1))
  moreover have "to_number (num_str (num n)) = num n" using assms(4,5) by (rule to_number_num_str)
  moreover have "prop_of c ''server'' = JStr s" "prop_of c ''port'' = JNum (num n)"
    using assms(2,3) by (simp_all add: prop_of_def)
  ultimately show ?thesis using assms(1)
    by (simp add: open_proxy_form_def submitted_proxy_def put_same [OF assms(2)] put_same [OF assms(3)])
qed

definition ss_proxy :: proxy where
  "ss_proxy = \<lparr>px_id = js ''1'', px_name = js ''n'', px_type = js ''ss'', px_country = None,
     px_config = Some [(js ''port'', JNum (num 443)), (js ''plugin'', JStr (js ''obfs'')), (js ''server'', JStr (js ''h''))],
     px_sort_order = num 0, px_created_at = [], px_updated_at = []\<rparr>"

theorem unchanged_proxy_kept_witness:
  "\<exists>fm. open_proxy_form (Some ss_proxy) = Inr fm \<and>
     pw_config (submitted_proxy fm) =
       [(js ''port'', JNum (num 443)), (js ''plugin'', JStr (js ''obfs'')), (js ''server'', JStr (js ''h''))]"
proof -
  have "px_config ss_proxy = Some [(js ''port'', JNum (num 443)), (js ''plugin'', JStr (js ''obfs'')), (js ''server'', JStr (js ''h''))]"
    by (simp add: ss_proxy_def)
  from unchanged_proxy_kept [OF this, of "js ''h''" 443] show ?thesis by (auto simp: js_def)
qed

section \<open>Changing the protocol\<close>

lemma preserved_lookup:
  "map_of (preserved config cur new) (js k) =
     (if k \<in> set (map fd_key cur) \<and> k \<in> set (map fd_key new) \<and> prop_of config k \<noteq> Undef
      then Some (prop_of config k) else None)"
proof -
  have "map_of (fold (keep_field config new) cur acc) (js k) =
      (if k \<in> set (map fd_key cur) \<and> k \<in> set (map fd_key new) \<and> prop_of config k \<noteq> Undef
       then Some (prop_of config k) else map_of acc (js k))" for acc
    by (induction cur arbitrary: acc) (auto simp: keep_field_def map_of_put)
  from this [of "[]"] show ?thesis by (simp add: preserved_def)
qed

lemma preserved_keys: "fst ` set (preserved config cur new) \<subseteq> js ` set (map fd_key cur) \<inter> js ` set (map fd_key new)"
proof -
  have k: "fst ` set (keep_field config new f acc) \<subseteq> fst ` set acc \<union> ({js (fd_key f)} \<inter> js ` set (map fd_key new))" for f acc
    unfolding keep_field_def by (cases "fd_key f \<in> set (map fd_key new) \<and> prop_of config (fd_key f) \<noteq> Undef")
      (simp_all add: keys_put)
  have "fst ` set (fold (keep_field config new) cur acc) \<subseteq>
      fst ` set acc \<union> (js ` set (map fd_key cur) \<inter> js ` set (map fd_key new))" for acc
  proof (induction cur arbitrary: acc)
    case (Cons f cur)
    show ?case using Cons.IH [of "keep_field config new f acc"] k [of f acc]
      by (simp only: fold_simps list.map list.set image_insert) blast
  qed simp
  from this [of "[]"] show ?thesis by (simp add: preserved_def)
qed

text \<open>
  C30: What a change of the protocol keeps. Exactly the settings that both protocols show keep their
  values, and no other setting is left, so a secret of the old protocol does not travel in a proxy
  of the new one; name, server and port stay.
\<close>

theorem type_change_keeps_shared:
  assumes "fields_of (pf_type fm) = Inr cur" "fields_of ty = Inr new"
  shows "\<exists>c. handleTypeChange ty fm = Inr (fm\<lparr>pf_type := ty, pf_config := c\<rparr>) \<and>
    fst ` set c \<subseteq> js ` set (map fd_key new) \<and>
    (\<forall>k. map_of c (js k) =
       (if k \<in> set (map fd_key cur) \<and> k \<in> set (map fd_key new) \<and> prop_of (pf_config fm) k \<noteq> Undef
        then Some (prop_of (pf_config fm) k) else None))"
  by (intro exI [of _ "preserved (pf_config fm) cur new"] conjI allI)
    (use assms preserved_keys [of "pf_config fm" cur new] in \<open>auto simp: handleTypeChange_def preserved_lookup\<close>)

lemma ss_fields: "fields_of (js ''ss'') = Inr [field ''cipher'' ''proxy.cipher'' (Select_Field [''aes-128-gcm'', ''aes-256-gcm'', ''chacha20-ietf-poly1305'']),
    field ''password'' ''proxy.password'' Password_Field, field ''udp'' ''proxy.udp'' Checkbox_Field]"
  by (simp add: fields_of_def PROTOCOL_FIELDS_def)

lemma vmess_fields: "\<exists>fs. fields_of (js ''vmess'') = Inr fs \<and> set (map fd_key fs) =
    {''uuid'', ''alterId'', ''cipher'', ''tls'', ''servername'', ''network''}"
  by (simp add: fields_of_def PROTOCOL_FIELDS_def field_def)

text \<open>A cipher that the new protocol does not offer is kept too.\<close>

theorem type_change_keeps_shared_witness:
  "\<exists>c. handleTypeChange (js ''vmess'') (DEFAULT_PROXY\<lparr>pf_config := [(js ''cipher'', JStr (js ''aes-256-gcm'')), (js ''password'', JStr (js ''x''))]\<rparr>) =
       Inr (DEFAULT_PROXY\<lparr>pf_type := js ''vmess'', pf_config := c\<rparr>) \<and>
     map_of c (js ''cipher'') = Some (JStr (js ''aes-256-gcm'')) \<and> map_of c (js ''password'') = None"
proof -
  let ?fm = "DEFAULT_PROXY\<lparr>pf_config := [(js ''cipher'', JStr (js ''aes-256-gcm'')), (js ''password'', JStr (js ''x''))]\<rparr>"
  obtain fs where fs: "fields_of (js ''vmess'') = Inr fs"
    "set (map fd_key fs) = {''uuid'', ''alterId'', ''cipher'', ''tls'', ''servername'', ''network''}"
    using vmess_fields by blast
  have "fields_of (pf_type ?fm) = Inr [field ''cipher'' ''proxy.cipher'' (Select_Field [''aes-128-gcm'', ''aes-256-gcm'', ''chacha20-ietf-poly1305'']),
      field ''password'' ''proxy.password'' Password_Field, field ''udp'' ''proxy.udp'' Checkbox_Field]"
    using ss_fields by (simp add: DEFAULT_PROXY_def)
  from type_change_keeps_shared [OF this fs(1)] show ?thesis
    unfolding fs(2) by (elim ex_forward) (auto simp: field_def)
qed

section \<open>The settings of a new proxy\<close>

definition clean :: "proxy_form \<Rightarrow> bool" where
  "clean fm \<longleftrightarrow> (case fields_of (pf_type fm) of
     Inr fs \<Rightarrow> fst ` set (pf_config fm) \<subseteq> js ` set (map fd_key fs) | Inl _ \<Rightarrow> False)"

lemma clean_type:
  assumes "handleTypeChange ty fm = Inr fm'"
  shows "clean fm'"
proof -
  obtain cur new where f: "fields_of ty = Inr new"
    "fm' = fm\<lparr>pf_type := ty, pf_config := preserved (pf_config fm) cur new\<rparr>"
    using assms by (auto simp: handleTypeChange_def split: sum.splits)
  then show ?thesis using preserved_keys [of "pf_config fm" cur new] by (simp add: clean_def)
qed

lemma clean_setting:
  assumes "clean fm" "fields_of (pf_type fm) = Inr fs" "f \<in> set fs"
  shows "clean (setConfigField (fd_key f) v fm)"
  using assms by (simp add: clean_def setConfigField_def keys_put)

lemma clean_other: "clean fm \<Longrightarrow> pf_type fm' = pf_type fm \<Longrightarrow> pf_config fm' = pf_config fm \<Longrightarrow> clean fm'"
  unfolding clean_def by (simp only:)

lemma clean_step: "form_step fm fm' \<Longrightarrow> clean fm \<Longrightarrow> clean fm'"
proof (induction rule: form_step.induct)
  case (type ty fm fm')
  show ?case by (rule clean_type) (rule type.hyps)
next
  case (setting fm fs f e)
  then show ?case by (intro clean_setting)
qed (auto intro: clean_other)

lemma clean_run: "form_run fm fm' \<Longrightarrow> clean fm \<Longrightarrow> clean fm'"
  by (induction rule: form_run.induct) (auto intro: clean_step)

text \<open>No protocol has a setting that the dialog keeps beside the settings.\<close>

lemma fields_beside: "fields_of ty = Inr fs \<Longrightarrow> f \<in> set fs \<Longrightarrow> fd_key f \<noteq> ''server'' \<and> fd_key f \<noteq> ''port''"
  by (auto simp: fields_of_def PROTOCOL_FIELDS_def field_def split: if_splits option.splits)

lemma submitted_lookup:
  "map_of (pw_config (submitted_proxy fm)) k =
     (if k = js ''port'' then Some (if pf_port fm \<noteq> [] then JNum (to_number (pf_port fm)) else Undef)
      else if k = js ''server'' then Some (JStr (pf_server fm)) else map_of (pf_config fm) k)"
  by (simp add: submitted_proxy_def map_of_put)

text \<open>
  C11: A new proxy is saved with its name, its protocol, the server, the port and the settings of its
  protocol, and nothing else. Whatever is typed, chosen and switched in the dialog before: the server
  is the text of its field and the port the number its field reads (an empty port, which the browser
  does not let through, is no value); every setting of the chosen protocol is saved with the value the
  dialog holds for it, which after an entry is the value that entry stores, an entry changes no other
  setting; and every key saved is the server, the port or a setting the chosen protocol shows.
\<close>

theorem new_proxy_settings:
  assumes "form_run DEFAULT_PROXY fm"
  shows "\<exists>fs. fields_of (pf_type fm) = Inr fs \<and>
    pw_name (submitted_proxy fm) = pf_name fm \<and> pw_type (submitted_proxy fm) = pf_type fm \<and>
    map_of (pw_config (submitted_proxy fm)) (js ''server'') = Some (JStr (pf_server fm)) \<and>
    map_of (pw_config (submitted_proxy fm)) (js ''port'') =
      Some (if pf_port fm = [] then Undef else JNum (to_number (pf_port fm))) \<and>
    fst ` set (pw_config (submitted_proxy fm)) \<subseteq> {js ''server'', js ''port''} \<union> js ` set (map fd_key fs) \<and>
    (\<forall>f \<in> set fs. map_of (pw_config (submitted_proxy fm)) (js (fd_key f)) = map_of (pf_config fm) (js (fd_key f)) \<and>
      (\<forall>e k. map_of (pw_config (submitted_proxy (setConfigField (fd_key f) (edited_value (fd_type f) e) fm))) k =
        (if k = js (fd_key f) then Some (edited_value (fd_type f) e) else map_of (pw_config (submitted_proxy fm)) k)))"
proof -
  have "clean DEFAULT_PROXY" by (simp add: clean_def DEFAULT_PROXY_def ss_fields)
  then have "clean fm" using clean_run assms by blast
  then obtain fs where fs: "fields_of (pf_type fm) = Inr fs" "fst ` set (pf_config fm) \<subseteq> js ` set (map fd_key fs)"
    by (auto simp: clean_def split: sum.splits)
  have keys: "fst ` set (pw_config (submitted_proxy fm)) \<subseteq> {js ''server'', js ''port''} \<union> js ` set (map fd_key fs)"
    using fs(2) by (auto simp: submitted_proxy_def keys_put)
  have "js (fd_key f) \<noteq> js ''server'' \<and> js (fd_key f) \<noteq> js ''port''" if "f \<in> set fs" for f
    using fields_beside [OF fs(1) that] by simp
  then show ?thesis using fs(1) keys
    by (intro exI [of _ fs] conjI)
      (auto simp: submitted_lookup setConfigField_def map_of_put, simp_all add: submitted_proxy_def)
qed

theorem new_proxy_settings_witness:
  "fst ` set (pw_config (submitted_proxy (setConfigField ''password'' (JStr (js ''x'')) DEFAULT_PROXY))) \<subseteq>
     {js ''server'', js ''port'', js ''cipher'', js ''password'', js ''udp''}"
proof -
  let ?f = "field ''password'' ''proxy.password'' Password_Field"
  have "form_step DEFAULT_PROXY (setConfigField (fd_key ?f) (edited_value (fd_type ?f) (Typed (js ''x''))) DEFAULT_PROXY)"
    by (rule form_step.setting [OF trans [OF _ ss_fields]]) (simp add: DEFAULT_PROXY_def, simp)
  then have "form_step DEFAULT_PROXY (setConfigField ''password'' (JStr (js ''x'')) DEFAULT_PROXY)"
    by (simp add: field_def edited_value_def)
  from new_proxy_settings [OF form_run.step [OF form_run.opened this]] show ?thesis
    by (simp add: DEFAULT_PROXY_def setConfigField_def ss_fields field_def)
qed

end
