(* ===== verification/Rule_Providers_Page.thy ===== *)
theory Rule_Providers_Page
  imports Api Page_Actions Json
begin

text \<open>
  \<open>pages/rule-providers.tsx\<close>: the list of rule providers, the dialog for one of them, and the editor
  of its content. The lemmas show what an unchanged provider is saved as, which content the editor
  writes to which provider, and that a failed load of the content is not noticed when it is saved.
\<close>

section \<open>Data\<close>

record rule_provider =
  rpv_id :: jstring
  rpv_name :: jstring
  rpv_kind :: jstring
  rpv_behavior :: jstring
  rpv_config :: "(jstring \<times> jsval) list"

record provider_fields =
  ff_name :: jstring
  ff_type :: jstring
  ff_behavior :: jstring
  ff_url :: jstring
  ff_interval :: jstring
  ff_path :: jstring

record content_editor =
  ce_content :: jstring
  ce_loading :: bool
  ce_saving :: bool

record rule_providers_page =
  qx_providers :: "rule_provider list"
  qx_loading :: bool
  qx_formOpen :: bool
  qx_editing :: "rule_provider option"
  qx_deletingId :: "jstring option"
  qx_confirmOpen :: bool
  qx_refreshingId :: "jstring option"
  qx_contentProvider :: "rule_provider option"
  qx_contentOpen :: bool
  qx_fields :: provider_fields
  qx_editor :: content_editor

definition DEFAULT_FORM :: provider_fields where
  "DEFAULT_FORM = \<lparr>ff_name = [], ff_type = js ''http'', ff_behavior = js ''domain'', ff_url = [],
     ff_interval = js ''86400'', ff_path = []\<rparr>"

definition initial_rule_providers :: rule_providers_page where
  "initial_rule_providers = \<lparr>qx_providers = [], qx_loading = False, qx_formOpen = False, qx_editing = None,
     qx_deletingId = None, qx_confirmOpen = False, qx_refreshingId = None, qx_contentProvider = None,
     qx_contentOpen = False, qx_fields = DEFAULT_FORM,
     qx_editor = \<lparr>ce_content = [], ce_loading = False, ce_saving = False\<rparr>\<rparr>"

section \<open>The list\<close>

definition fetchRuleProviders :: "'b server \<Rightarrow> (jsval \<Rightarrow> rule_provider list) \<Rightarrow> (('b, rule_providers_page) world, unit) io" where
  "fetchRuleProviders server as_providers =
     loading server ruleProvidersApi_list
       (\<lambda>p. p\<lparr>qx_loading := True\<rparr>)
       (\<lambda>d p. p\<lparr>qx_providers := as_providers (coalesce d (JArr []))\<rparr>)
       (Failure (Key ''ruleProviders.loadFailed'' []))
       (\<lambda>p. p\<lparr>qx_loading := False\<rparr>)"

definition rp_handleSave :: "'b server \<Rightarrow> (jsval \<Rightarrow> rule_provider list) \<Rightarrow> jsval \<Rightarrow> (('b, rule_providers_page) world, unit) io" where
  "rp_handleSave server as_providers data = io_read (\<lambda>w.
     let editing = qx_editing (w_page w)
     in saving server
          (case editing of Some r \<Rightarrow> ruleProvidersApi_update (rpv_id r) data | None \<Rightarrow> ruleProvidersApi_create data)
          (Success (Key (if editing \<noteq> None then ''ruleProviders.updated'' else ''ruleProviders.created'') []))
          (\<lambda>p. p\<lparr>qx_formOpen := False, qx_editing := None\<rparr>)
          (fetchRuleProviders server as_providers)
          (Failure (Key (if editing \<noteq> None then ''ruleProviders.updateFailed'' else ''ruleProviders.createFailed'') [])))"

definition rp_handleDeleteClick :: "rule_provider \<Rightarrow> rule_providers_page \<Rightarrow> rule_providers_page" where
  "rp_handleDeleteClick r p = p\<lparr>qx_deletingId := Some (rpv_id r), qx_confirmOpen := True\<rparr>"

definition rp_handleDeleteConfirm :: "'b server \<Rightarrow> (jsval \<Rightarrow> rule_provider list) \<Rightarrow> (('b, rule_providers_page) world, unit) io" where
  "rp_handleDeleteConfirm server as_providers = io_read (\<lambda>w.
     case nonempty (qx_deletingId (w_page w)) of
       None \<Rightarrow> io_return ()
     | Some i \<Rightarrow> deleting server (ruleProvidersApi_delete i) (Success (Key ''ruleProviders.deleted'' []))
         (fetchRuleProviders server as_providers) (Failure (Key ''ruleProviders.deleteFailed'' []))
         (\<lambda>p. p\<lparr>qx_deletingId := None\<rparr>))"

definition rp_handleRefresh :: "'b server \<Rightarrow> rule_provider \<Rightarrow> (('b, rule_providers_page) world, unit) io" where
  "rp_handleRefresh server r =
     io_then (page (\<lambda>p. p\<lparr>qx_refreshingId := Some (rpv_id r)\<rparr>))
       (deleting server (ruleProvidersApi_refresh (rpv_id r))
         (Success (Key ''ruleProviders.refreshed'' [(''name'', rpv_name r)])) (io_return ())
         (Failure (Key ''ruleProviders.refreshFailed'' [(''name'', rpv_name r)]))
         (\<lambda>p. p\<lparr>qx_refreshingId := None\<rparr>))"

section \<open>The dialog\<close>

definition text_of :: "jsval \<Rightarrow> jstring \<Rightarrow> jstring" where
  "text_of v d = to_str (coalesce v (JStr d))"

definition providerToForm :: "rule_provider \<Rightarrow> provider_fields" where
  "providerToForm r = \<lparr>ff_name = rpv_name r, ff_type = rpv_kind r, ff_behavior = rpv_behavior r,
     ff_url = text_of (prop_of (rpv_config r) ''url'') [],
     ff_interval = text_of (prop_of (rpv_config r) ''interval'') (js ''86400''),
     ff_path = text_of (prop_of (rpv_config r) ''path'') []\<rparr>"

definition openForm :: "rule_provider option \<Rightarrow> rule_providers_page \<Rightarrow> rule_providers_page" where
  "openForm r p = p\<lparr>qx_editing := r, qx_formOpen := True,
     qx_fields := (case r of Some x \<Rightarrow> providerToForm x | None \<Rightarrow> DEFAULT_FORM)\<rparr>"

definition onProviderForm :: "bool \<Rightarrow> rule_providers_page \<Rightarrow> rule_providers_page" where
  "onProviderForm opened p = (if opened then p\<lparr>qx_formOpen := True\<rparr> else p\<lparr>qx_formOpen := False, qx_editing := None\<rparr>)"

definition onProviderType :: "jstring option \<Rightarrow> provider_fields \<Rightarrow> provider_fields" where
  "onProviderType v fm = (case nonempty v of Some ty \<Rightarrow> fm\<lparr>ff_type := ty\<rparr> | None \<Rightarrow> fm)"

definition onBehavior :: "jstring option \<Rightarrow> provider_fields \<Rightarrow> provider_fields" where
  "onBehavior v fm = (case nonempty v of Some b \<Rightarrow> fm\<lparr>ff_behavior := b\<rparr> | None \<Rightarrow> fm)"

record provider_fields_data =
  sd_name :: jstring
  sd_type :: jstring
  sd_behavior :: jstring
  sd_config :: "(jstring \<times> jsval) list"

definition submitted_provider :: "provider_fields \<Rightarrow> provider_fields_data" where
  "submitted_provider fm =
     \<lparr>sd_name = ff_name fm, sd_type = ff_type fm, sd_behavior = ff_behavior fm,
      sd_config = (js ''path'', JStr (ff_path fm)) #
        (if ff_type fm = js ''http'' then
           [(js ''url'', JStr (ff_url fm)),
            (js ''interval'', JNum (if ff_interval fm \<noteq> [] then to_number (ff_interval fm) else num 86400))]
         else [])\<rparr>"

text \<open>What the browser asks of the fields before it submits; \<open>is_url\<close> is its check of a URL field.\<close>

definition provider_submittable :: "(jstring \<Rightarrow> bool) \<Rightarrow> provider_fields \<Rightarrow> bool" where
  "provider_submittable is_url fm \<longleftrightarrow> ff_name fm \<noteq> [] \<and>
     (ff_type fm = js ''http'' \<longrightarrow> ff_url fm \<noteq> [] \<and> is_url (ff_url fm)) \<and>
     (ff_type fm = js ''file'' \<longrightarrow> ff_path fm \<noteq> [])"

section \<open>The editor of the content\<close>

definition on_editor :: "(content_editor \<Rightarrow> content_editor) \<Rightarrow> rule_providers_page \<Rightarrow> rule_providers_page" where
  "on_editor f p = p\<lparr>qx_editor := f (qx_editor p)\<rparr>"

definition openContent :: "rule_provider \<Rightarrow> rule_providers_page \<Rightarrow> rule_providers_page" where
  "openContent r p = p\<lparr>qx_contentProvider := Some r, qx_contentOpen := True\<rparr>"

definition onContentOpen :: "bool \<Rightarrow> rule_providers_page \<Rightarrow> rule_providers_page" where
  "onContentOpen opened p =
     (if opened then p\<lparr>qx_contentOpen := True\<rparr> else p\<lparr>qx_contentOpen := False, qx_contentProvider := None\<rparr>)"

text \<open>The effect of opening: the load, whose answer is stored whatever is open by then.\<close>

definition load_content :: "'b server \<Rightarrow> rule_provider \<Rightarrow> (('b, rule_providers_page) world, unit) io" where
  "load_content server r =
     io_then (page (on_editor (\<lambda>e. e\<lparr>ce_loading := True\<rparr>)))
       (io_finally
         (io_catch
           (io_bind (api server (ruleProvidersApi_getContent (rpv_id r))) (\<lambda>res.
            io_bind (io_lift (member res ''data'')) (\<lambda>d.
            page (on_editor (\<lambda>e. e\<lparr>ce_content := to_str (coalesce (opt_member d ''content'') (JStr []))\<rparr>)))))
           (\<lambda>_. toast (Failure (Key ''ruleProviders.loadContentFailed'' []))))
         (page (on_editor (\<lambda>e. e\<lparr>ce_loading := False\<rparr>))))"

definition open_content :: "'b server \<Rightarrow> rule_provider \<Rightarrow> (('b, rule_providers_page) world, unit) io" where
  "open_content server r = io_then (page (openContent r)) (load_content server r)"

definition setContent :: "jstring \<Rightarrow> rule_providers_page \<Rightarrow> rule_providers_page" where
  "setContent s = on_editor (\<lambda>e. e\<lparr>ce_content := s\<rparr>)"

definition content_save_disabled :: "rule_providers_page \<Rightarrow> bool" where
  "content_save_disabled p \<longleftrightarrow> ce_loading (qx_editor p) \<or> ce_saving (qx_editor p)"

definition handleSaveContent :: "'b server \<Rightarrow> (('b, rule_providers_page) world, unit) io" where
  "handleSaveContent server = io_read (\<lambda>w. case qx_contentProvider (w_page w) of
     None \<Rightarrow> io_return ()
   | Some r \<Rightarrow>
       io_then (page (on_editor (\<lambda>e. e\<lparr>ce_saving := True\<rparr>)))
         (io_finally
           (io_catch
             (io_then (api server (ruleProvidersApi_updateContent (rpv_id r) (ce_content (qx_editor (w_page w)))))
               (io_then (toast (Success (Key ''ruleProviders.contentSaved'' []))) (page (onContentOpen False))))
             (\<lambda>_. toast (Failure (Key ''ruleProviders.contentSaveFailed'' []))))
           (page (on_editor (\<lambda>e. e\<lparr>ce_saving := False\<rparr>)))))"

definition click_save_content :: "'b server \<Rightarrow> (('b, rule_providers_page) world, unit) io" where
  "click_save_content server = io_read (\<lambda>w. if content_save_disabled (w_page w) then io_return () else handleSaveContent server)"

section \<open>What the page shows\<close>

record rule_provider_view =
  qw_name :: jstring
  qw_type :: jstring
  qw_behavior :: jstring
  qw_refresh :: "bool option"

definition rule_provider_row :: "rule_providers_page \<Rightarrow> rule_provider \<Rightarrow> rule_provider_view" where
  "rule_provider_row p r = \<lparr>qw_name = rpv_name r, qw_type = rpv_kind r, qw_behavior = rpv_behavior r,
     qw_refresh = (if rpv_kind r = js ''http'' then Some (qx_refreshingId p = Some (rpv_id r)) else None)\<rparr>"

datatype providers_content = Providers_Loading | No_Providers | Provider_Rows "rule_provider_view list"

definition providers_content :: "rule_providers_page \<Rightarrow> providers_content" where
  "providers_content p =
     (if qx_loading p then Providers_Loading else if qx_providers p = [] then No_Providers
      else Provider_Rows (map (rule_provider_row p) (qx_providers p)))"

section \<open>Saving and deleting\<close>

interpretation rule_providers_reload: page_reload "fetchRuleProviders server as_providers"
    "Failure (Key ''ruleProviders.loadFailed'' [])"
    "\<lambda>p. (qx_formOpen p, qx_editing p, qx_fields p, qx_deletingId p, qx_editor p)"
  for server as_providers
  by unfold_locales (simp add: fetchRuleProviders_def, rule wp_mono [OF loading_spec], auto)

lemma rp_handleSave_outcome:
  "\<exists>w'. rp_handleSave server as_providers data w = (Inr (), w') \<and>
     (case answered server (case qx_editing (w_page w) of
         Some r \<Rightarrow> ruleProvidersApi_update (rpv_id r) data | None \<Rightarrow> ruleProvidersApi_create data) w of
        Inl _ \<Rightarrow> w_page w' = w_page w
      | Inr _ \<Rightarrow> \<not> qx_formOpen (w_page w') \<and> qx_editing (w_page w') = None)"
proof -
  let ?e = "qx_editing (w_page w)"
  let ?rq = "case ?e of Some r \<Rightarrow> ruleProvidersApi_update (rpv_id r) data | None \<Rightarrow> ruleProvidersApi_create data"
  let ?good = "Success (Key (if ?e \<noteq> None then ''ruleProviders.updated'' else ''ruleProviders.created'') [])"
  let ?bad = "Failure (Key (if ?e \<noteq> None then ''ruleProviders.updateFailed'' else ''ruleProviders.createFailed'') [])"
  let ?close = "\<lambda>p. p\<lparr>qx_formOpen := False, qx_editing := None\<rparr>"
  have "rp_handleSave server as_providers data w = saving server ?rq ?good ?close (fetchRuleProviders server as_providers) ?bad w"
    by (simp add: rp_handleSave_def io_read_def Let_def)
  with rule_providers_reload.saving_outcome [of server ?rq ?good ?close server as_providers ?bad w]
  show ?thesis by (cases "qx_editing (w_page w)"; fastforce split: sum.splits)
qed

text \<open>
  A provider over HTTP that is opened and saved unchanged keeps its name, type, behaviour, path,
  URL and a whole interval, which goes through a text field and back; every other setting of it is
  dropped.
\<close>

theorem unchanged_rule_provider_kept:
  assumes "rpv_kind r = js ''http''" "prop_of (rpv_config r) ''url'' = JStr u" "prop_of (rpv_config r) ''path'' = JStr q"
    and "prop_of (rpv_config r) ''interval'' = JNum (num n)" "0 \<le> n" "n < 2 ^ 53"
  shows "submitted_provider (providerToForm r) =
    \<lparr>sd_name = rpv_name r, sd_type = rpv_kind r, sd_behavior = rpv_behavior r,
     sd_config = [(js ''path'', JStr q), (js ''url'', JStr u), (js ''interval'', JNum (num n))]\<rparr>"
proof -
  have "num_str (num n) = dec_digits (nat n)" using num_str_num [of n] assms(5,6) by (simp add: int_str_def)
  then have "num_str (num n) \<noteq> []" using dec_digits_Cons [of "nat n"] by (metis list.distinct(1))
  moreover have "to_number (num_str (num n)) = num n" using assms(5,6) by (rule to_number_num_str)
  ultimately show ?thesis using assms(1-4) by (simp add: submitted_provider_def providerToForm_def text_of_def)
qed

definition some_provider :: "jstring \<Rightarrow> rule_provider" where
  "some_provider i = \<lparr>rpv_id = i, rpv_name = js ''n'', rpv_kind = js ''http'', rpv_behavior = js ''domain'',
     rpv_config = [(js ''url'', JStr (js ''u'')), (js ''path'', JStr []), (js ''interval'', JNum (num 3600)),
       (js ''format'', JStr (js ''mrs''))]\<rparr>"

theorem unchanged_rule_provider_kept_witness:
  "sd_config (submitted_provider (providerToForm (some_provider []))) =
     [(js ''path'', JStr []), (js ''url'', JStr (js ''u'')), (js ''interval'', JNum (num 3600))]"
  using unchanged_rule_provider_kept [of "some_provider []" "js ''u''" "[]" 3600] by (simp add: some_provider_def js_def)

section \<open>Editing the content\<close>

text \<open>
  What the editor saves. It sends the text it shows to the provider it is open for, and reports
  exactly one outcome; when the backend refuses, it stays open with that text, and otherwise it
  closes.
\<close>

theorem content_save_outcome:
  "\<exists>w'. handleSaveContent server w = (Inr (), w') \<and>
     (case qx_contentProvider (w_page w) of
        None \<Rightarrow> w' = w
      | Some r \<Rightarrow>
          (let rq = ruleProvidersApi_updateContent (rpv_id r) (ce_content (qx_editor (w_page w)))
           in map fst (w_sent w') = map fst (w_sent w) @ [rq] \<and>
              ce_content (qx_editor (w_page w')) = ce_content (qx_editor (w_page w)) \<and>
              (case answered server rq w of
                 Inl _ \<Rightarrow> w_toasts w' = w_toasts w @ [Failure (Key ''ruleProviders.contentSaveFailed'' [])] \<and>
                   qx_contentOpen (w_page w') = qx_contentOpen (w_page w) \<and> qx_contentProvider (w_page w') = Some r
               | Inr _ \<Rightarrow> w_toasts w' = w_toasts w @ [Success (Key ''ruleProviders.contentSaved'' [])] \<and>
                   \<not> qx_contentOpen (w_page w') \<and> qx_contentProvider (w_page w') = None)))"
proof (cases "qx_contentProvider (w_page w)")
  case None
  then show ?thesis by (simp add: handleSaveContent_def io_read_def io_return_def)
next
  case (Some r)
  show ?thesis
    by (rule wp_total) (auto simp: handleSaveContent_def Some on_editor_def onContentOpen_def split: sum.splits)
qed

text \<open>
  C25: A failed load of the content goes unnoticed by the editor. When the content of a provider
  cannot be loaded, the text of the provider edited before is still shown, saving is possible, and
  it overwrites the content of the one with that of the other.
\<close>

theorem failed_load_overwrites:
  assumes "answered server (ruleProvidersApi_getContent (rpv_id r)) w = Inl err" "\<not> ce_saving (qx_editor (w_page w))"
  shows "\<exists>w'. io_then (open_content server r) (click_save_content server) w = (Inr (), w') \<and>
    map fst (w_sent w') = map fst (w_sent w) @ [ruleProvidersApi_getContent (rpv_id r),
      ruleProvidersApi_updateContent (rpv_id r) (ce_content (qx_editor (w_page w)))]"
  by (rule wp_total)
    (auto simp: open_content_def load_content_def click_save_content_def handleSaveContent_def content_save_disabled_def
      openContent_def onContentOpen_def on_editor_def assms split: sum.splits)

theorem failed_load_overwrites_witness:
  "map fst (w_sent (snd (io_then (open_content silent (some_provider (js ''b''))) (click_save_content silent)
     ((fresh initial_rule_providers)\<lparr>w_page := setContent (js ''of a'') initial_rule_providers\<rparr>)))) =
   [ruleProvidersApi_getContent (js ''b''), ruleProvidersApi_updateContent (js ''b'') (js ''of a'')]"
  using failed_load_overwrites [of silent "some_provider (js ''b'')"
      "(fresh initial_rule_providers)\<lparr>w_page := setContent (js ''of a'') initial_rule_providers\<rparr>" Unreachable]
  by (auto simp: some_provider_def setContent_def on_editor_def initial_rule_providers_def)

end
