(* ===== verification/System_Config_Page.thy ===== *)
theory System_Config_Page
  imports Api Page_Actions
begin

text \<open>
  \<open>pages/system-config.tsx\<close>: the editor of the general configuration, whose fields read and write a
  nested object through dotted paths. The lemmas show that reading and writing a path are a lens,
  that the fields do not disturb each other, what saving reports, and that a line break typed at the
  end of a list of servers is lost.
\<close>

section \<open>Nested values\<close>

text \<open>The own properties \<open>{ ...v }\<close> copies: those of an object, the elements of a list, the characters of a text.\<close>

definition spread :: "jsval \<Rightarrow> (jstring \<times> jsval) list" where
  "spread v = (case v of
     JObj kvs \<Rightarrow> kvs
   | JArr xs \<Rightarrow> map (\<lambda>(i, x). (dec_digits i, x)) (enumerate 0 xs)
   | JStr s \<Rightarrow> map (\<lambda>(i, u). (dec_digits i, JStr [u])) (enumerate 0 s)
   | _ \<Rightarrow> [])"

text \<open>
  \<open>cur[p]\<close> along the parts of the path, undefined from a null value on. Only own properties are
  read: the parts used are no property that a text, a list or an object inherits.
\<close>

fun getNested :: "jsval \<Rightarrow> jstring list \<Rightarrow> jsval" where
  "getNested cur [] = cur"
| "getNested cur (p # ps) = getNested (own_prop (spread cur) p) ps"

fun setNested :: "(jstring \<times> jsval) list \<Rightarrow> jstring list \<Rightarrow> jsval \<Rightarrow> (jstring \<times> jsval) list" where
  "setNested obj [] v = obj"
| "setNested obj [p] v = put p v obj"
| "setNested obj (p # q # ps) v =
     put p (JObj (setNested (let c = own_prop obj p in if truthy c then spread c else []) (q # ps) v)) obj"

definition path_parts :: "jstring \<Rightarrow> jstring list" where
  "path_parts = split_units (\<lambda>u. u = 46)"

definition getNestedValue :: "(jstring \<times> jsval) list \<Rightarrow> jstring \<Rightarrow> jsval" where
  "getNestedValue obj path = getNested (JObj obj) (path_parts path)"

definition setNestedValue :: "(jstring \<times> jsval) list \<Rightarrow> jstring \<Rightarrow> jsval \<Rightarrow> (jstring \<times> jsval) list" where
  "setNestedValue obj path v = setNested obj (path_parts path) v"

section \<open>The page\<close>

record config_page =
  sy_config :: "(jstring \<times> jsval) list"
  sy_loading :: bool
  sy_saving :: bool

definition initial_config_page :: config_page where
  "initial_config_page = \<lparr>sy_config = [], sy_loading = False, sy_saving = False\<rparr>"

text \<open>The answer is an object or null; of any other value \<open>spread\<close> keeps the own properties.\<close>

definition fetchConfig :: "'b server \<Rightarrow> (('b, config_page) world, unit) io" where
  "fetchConfig server =
     loading server systemConfigApi_get
       (\<lambda>p. p\<lparr>sy_loading := True\<rparr>)
       (\<lambda>d p. p\<lparr>sy_config := spread (coalesce d (JObj []))\<rparr>)
       (Failure (Key ''systemConfig.loadFailed'' []))
       (\<lambda>p. p\<lparr>sy_loading := False\<rparr>)"

definition handleSaveConfig :: "'b server \<Rightarrow> (('b, config_page) world, unit) io" where
  "handleSaveConfig server = io_read (\<lambda>w.
     io_then (page (\<lambda>p. p\<lparr>sy_saving := True\<rparr>))
       (deleting server (systemConfigApi_update (JObj (sy_config (w_page w))))
         (Success (Key ''systemConfig.saved'' [])) (io_return ()) (Failure (Key ''systemConfig.saveFailed'' []))
         (\<lambda>p. p\<lparr>sy_saving := False\<rparr>)))"

text \<open>The fields: a path and how its value is shown and edited.\<close>

datatype field_kind = Number_Kind | Check_Kind | Text_Kind | Select_Kind "string list" | Comma_Kind | Line_Kind

definition GENERAL_FIELDS :: "(string \<times> field_kind) list" where
  "GENERAL_FIELDS =
     [(''mixed-port'', Number_Kind), (''port'', Number_Kind), (''socks-port'', Number_Kind), (''allow-lan'', Check_Kind),
      (''bind-address'', Text_Kind), (''mode'', Select_Kind [''rule'', ''global'', ''direct'']),
      (''log-level'', Select_Kind [''silent'', ''error'', ''warning'', ''info'', ''debug'']), (''ipv6'', Check_Kind)]"

definition CONTROLLER_FIELDS :: "(string \<times> field_kind) list" where
  "CONTROLLER_FIELDS = [(''external-controller'', Text_Kind), (''secret'', Text_Kind)]"

definition TUN_FIELDS :: "(string \<times> field_kind) list" where
  "TUN_FIELDS =
     [(''tun.enable'', Check_Kind), (''tun.stack'', Select_Kind [''system'', ''gvisor'', ''mixed'']),
      (''tun.dns-hijack'', Comma_Kind), (''tun.auto-route'', Check_Kind)]"

definition DNS_FIELDS :: "(string \<times> field_kind) list" where
  "DNS_FIELDS =
     [(''dns.enable'', Check_Kind), (''dns.listen'', Text_Kind),
      (''dns.enhanced-mode'', Select_Kind [''fake-ip'', ''redir-host'']), (''dns.nameserver'', Line_Kind),
      (''dns.fallback'', Line_Kind)]"

definition CONFIG_FIELDS :: "(string \<times> field_kind) list" where
  "CONFIG_FIELDS = GENERAL_FIELDS @ CONTROLLER_FIELDS @ TUN_FIELDS @ DNS_FIELDS"

text \<open>\<open>xs.join(sep)\<close>: null and undefined read as empty.\<close>

definition join_vals :: "jstring \<Rightarrow> jsval list \<Rightarrow> jstring" where
  "join_vals sep xs = join sep (map (\<lambda>x. if x = Undef \<or> x = Null then [] else to_str x) xs)"

datatype shown = Shown_Text jstring | Shown_Check bool

definition shown_value :: "field_kind \<Rightarrow> jsval \<Rightarrow> shown" where
  "shown_value k v = (case k of
     Check_Kind \<Rightarrow> Shown_Check (truthy v)
   | Comma_Kind \<Rightarrow> Shown_Text (case v of JArr xs \<Rightarrow> join_vals (js '', '') xs | _ \<Rightarrow> to_str (coalesce v (JStr [])))
   | Line_Kind \<Rightarrow> Shown_Text (case v of JArr xs \<Rightarrow> join_vals [10] xs | _ \<Rightarrow> to_str (coalesce v (JStr [])))
   | _ \<Rightarrow> Shown_Text (to_str (coalesce v (JStr []))))"

definition shown_field :: "(jstring \<times> jsval) list \<Rightarrow> string \<times> field_kind \<Rightarrow> shown" where
  "shown_field config f = shown_value (snd f) (getNestedValue config (js (fst f)))"

datatype config_edit = Enter jstring | Tick bool | Select "jstring option"

definition stored_value :: "field_kind \<Rightarrow> config_edit \<Rightarrow> jsval" where
  "stored_value k e = (case e of
     Tick b \<Rightarrow> JBool b
   | Select v \<Rightarrow> (case v of Some s \<Rightarrow> JStr s | None \<Rightarrow> Null)
   | Enter s \<Rightarrow> (case k of
       Number_Kind \<Rightarrow> if s \<noteq> [] then JNum (to_number s) else Undef
     | Comma_Kind \<Rightarrow> JArr (if s \<noteq> [] then map (\<lambda>x. JStr (trim x)) (split_units (\<lambda>u. u = 44) s) else [])
     | Line_Kind \<Rightarrow> JArr (if s \<noteq> [] then map JStr (filter (\<lambda>x. x \<noteq> []) (map trim (split_units (\<lambda>u. u = 10) s))) else [])
     | _ \<Rightarrow> JStr s))"

definition edit_field :: "string \<times> field_kind \<Rightarrow> config_edit \<Rightarrow> (jstring \<times> jsval) list \<Rightarrow> (jstring \<times> jsval) list" where
  "edit_field f e config = setNestedValue config (js (fst f)) (stored_value (snd f) e)"

section \<open>Paths are lenses\<close>

lemma spread_obj [simp]: "spread (JObj kvs) = kvs" "spread Undef = []" "spread Null = []"
  by (simp_all add: spread_def)

lemma spread_falsy: "\<not> truthy v \<Longrightarrow> spread v = []"
  by (cases v) (auto simp: spread_def truthy_def)

lemma spread_or_empty: "(if truthy v then spread v else []) = spread v"
  by (simp add: spread_falsy)

lemma getNested_setNested: "getNested (JObj (setNested obj (p # ps) v)) (p # ps) = v"
  by (induction ps arbitrary: p obj) (simp_all add: Let_def)

text \<open>Two paths part when neither leads through the other.\<close>

fun parted :: "'a list \<Rightarrow> 'a list \<Rightarrow> bool" where
  "parted (p # ps) (q # qs) \<longleftrightarrow> p \<noteq> q \<or> parted ps qs"
| "parted _ _ \<longleftrightarrow> False"

lemma setNested_other:
  "parted ps qs \<Longrightarrow> getNested (JObj (setNested obj ps v)) qs = getNested (JObj obj) qs"
proof (induction ps qs arbitrary: obj rule: parted.induct)
  case (1 p ps q qs)
  then show ?case by (cases ps; cases qs) (auto simp: Let_def spread_or_empty)
qed simp_all

lemma path_parts_not_Nil [simp]: "path_parts p \<noteq> []"
  by (simp add: path_parts_def)

lemma get_set_nested: "getNestedValue (setNestedValue obj p v) p = v"
proof (cases "path_parts p")
  case (Cons x xs)
  then show ?thesis by (simp only: getNestedValue_def setNestedValue_def getNested_setNested)
qed simp

lemma get_set_other:
  "parted (path_parts p) (path_parts q) \<Longrightarrow> getNestedValue (setNestedValue obj p v) q = getNestedValue obj q"
  by (simp add: getNestedValue_def setNestedValue_def setNested_other)

text \<open>The parts of a path that is a literal.\<close>

fun literal_parts :: "string \<Rightarrow> string list" where
  "literal_parts [] = [[]]"
| "literal_parts (c # s) =
     (if c = CHR ''.'' then [] # literal_parts s
      else (case literal_parts s of [] \<Rightarrow> [[c]] | x # xs \<Rightarrow> (c # x) # xs))"

lemma path_parts_js: "path_parts (js s) = map js (literal_parts s)"
proof (induction s)
  case (Cons c s)
  have "of_char c = (46::nat) \<longleftrightarrow> c = CHR ''.''"
    using of_char_eq_iff [of c "CHR ''.''", where ?'a = nat] by simp
  then show ?case using Cons by (simp add: path_parts_def js_Cons split: list.splits)
qed (simp add: path_parts_def)

lemma parted_js: "parted (map js ps) (map js qs) = parted ps qs"
  by (induction ps qs rule: parted.induct) simp_all

text \<open>The fields of the page have parted paths.\<close>

definition independent :: "(string \<times> field_kind) list \<Rightarrow> bool" where
  "independent fs \<longleftrightarrow> list_all (\<lambda>f. list_all (\<lambda>g. f = g \<or> parted (literal_parts (fst f)) (literal_parts (fst g))) fs) fs"

lemma independent_fields: "independent CONFIG_FIELDS"
  by (simp add: independent_def CONFIG_FIELDS_def GENERAL_FIELDS_def CONTROLLER_FIELDS_def TUN_FIELDS_def DNS_FIELDS_def)

lemma fields_parted:
  assumes "f \<in> set CONFIG_FIELDS" "g \<in> set CONFIG_FIELDS" "f \<noteq> g"
  shows "parted (path_parts (js (fst f))) (path_parts (js (fst g)))"
  using independent_fields assms by (auto simp: independent_def list_all_iff path_parts_js parted_js)

lemma edit_field_other:
  "parted (path_parts (js (fst f))) (path_parts q) \<Longrightarrow> getNestedValue (edit_field f e config) q = getNestedValue config q"
  by (simp add: edit_field_def get_set_other)

section \<open>Editing\<close>

text \<open>A sequence of edits, the last of a field, and what the configuration becomes.\<close>

definition edited_config :: "((string \<times> field_kind) \<times> config_edit) list \<Rightarrow> (jstring \<times> jsval) list \<Rightarrow> (jstring \<times> jsval) list" where
  "edited_config es config = fold (\<lambda>(f, e). edit_field f e) es config"

definition last_edit :: "string \<times> field_kind \<Rightarrow> ((string \<times> field_kind) \<times> config_edit) list \<Rightarrow> config_edit option" where
  "last_edit f es = map_of (rev es) f"

text \<open>
  What a field shows after an entry, written without the value it stores: a text, a choice and a
  switch show the entry itself, a number the number that was read, and a list its trimmed entries,
  in a field of lines without the blank ones. A field gets only the entries of its kind.
\<close>

definition line_entry :: "jstring \<Rightarrow> jstring" where
  "line_entry s = join [10] (filter (\<lambda>x. x \<noteq> []) (map trim (split_units (\<lambda>u. u = 10) s)))"

lemma shown_line: "shown_value Line_Kind (stored_value Line_Kind (Enter s)) = Shown_Text (line_entry s)"
  by (simp add: shown_value_def stored_value_def line_entry_def join_vals_def comp_def)

definition comma_entry :: "jstring \<Rightarrow> jstring" where
  "comma_entry s = join (js '', '') (map trim (split_units (\<lambda>u. u = 44) s))"

lemma shown_comma: "shown_value Comma_Kind (stored_value Comma_Kind (Enter s)) = Shown_Text (comma_entry s)"
  by (simp add: shown_value_def stored_value_def comma_entry_def join_vals_def comp_def)

fun entry_shown :: "field_kind \<Rightarrow> config_edit \<Rightarrow> shown option" where
  "entry_shown Text_Kind (Enter s) = Some (Shown_Text s)"
| "entry_shown Number_Kind (Enter s) = Some (Shown_Text (if s = [] then [] else num_str (to_number s)))"
| "entry_shown Comma_Kind (Enter s) = Some (Shown_Text (comma_entry s))"
| "entry_shown Line_Kind (Enter s) = Some (Shown_Text (line_entry s))"
| "entry_shown Check_Kind (Tick b) = Some (Shown_Check b)"
| "entry_shown (Select_Kind ks) (Select v) = Some (Shown_Text (case v of Some s \<Rightarrow> s | None \<Rightarrow> []))"
| "entry_shown _ _ = None"

lemma entry_shown_value: "entry_shown k e = Some x \<Longrightarrow> shown_value k (stored_value k e) = x"
  by (induction k e rule: entry_shown.induct)
    (auto simp: shown_line shown_comma, auto simp: shown_value_def stored_value_def split: option.splits)

lemma stored_edit_field:
  assumes "f \<in> set CONFIG_FIELDS" "g \<in> set CONFIG_FIELDS"
  shows "getNestedValue (edit_field f e config) (js (fst g)) =
    (if f = g then stored_value (snd f) e else getNestedValue config (js (fst g)))"
  using fields_parted [OF assms] by (auto simp: edit_field_def get_set_nested get_set_other)

text \<open>
  C13: The fields of the configuration are independent. After any sequence of edits every field holds
  the value that the last entry in it stores and shows that entry as its kind normalises it: a text, a
  choice or a switch as it was entered, a number as the number it was read as, a list with its entries
  trimmed and, where it has a line each, without the blank lines. A field that was not edited holds
  and shows what was loaded, and a setting the page has no field for is the loaded one.
\<close>

theorem config_fields_independent:
  assumes "fst ` set es \<subseteq> set CONFIG_FIELDS"
  shows "(g \<in> set CONFIG_FIELDS \<longrightarrow>
      getNestedValue (edited_config es config) (js (fst g)) =
        (case last_edit g es of None \<Rightarrow> getNestedValue config (js (fst g)) | Some e \<Rightarrow> stored_value (snd g) e) \<and>
      shown_field (edited_config es config) g =
        (case last_edit g es of
           None \<Rightarrow> shown_field config g | Some e \<Rightarrow> shown_value (snd g) (stored_value (snd g) e)) \<and>
      (\<forall>e x. last_edit g es = Some e \<and> entry_shown (snd g) e = Some x \<longrightarrow> shown_field (edited_config es config) g = x)) \<and>
    ((\<forall>f \<in> set CONFIG_FIELDS. parted (path_parts (js (fst f))) (path_parts q)) \<longrightarrow>
      getNestedValue (edited_config es config) q = getNestedValue config q)"
proof -
  have "(g \<in> set CONFIG_FIELDS \<longrightarrow>
      getNestedValue (edited_config es config) (js (fst g)) =
        (case last_edit g es of None \<Rightarrow> getNestedValue config (js (fst g)) | Some e \<Rightarrow> stored_value (snd g) e)) \<and>
    ((\<forall>f \<in> set CONFIG_FIELDS. parted (path_parts (js (fst f))) (path_parts q)) \<longrightarrow>
      getNestedValue (edited_config es config) q = getNestedValue config q)"
    using assms
  proof (induction es rule: rev_induct)
    case Nil
    then show ?case by (simp add: edited_config_def last_edit_def)
  next
    case (snoc fe es)
    obtain f e where fe: "fe = (f, e)" by (cases fe)
    then have f: "f \<in> set CONFIG_FIELDS" and es: "fst ` set es \<subseteq> set CONFIG_FIELDS" using snoc.prems by auto
    have step: "edited_config (es @ [(f, e)]) config = edit_field f e (edited_config es config)"
      by (simp add: edited_config_def)
    show ?case using snoc.IH [OF es] f unfolding fe step
      by (simp add: last_edit_def stored_edit_field edit_field_other)
  qed
  then show ?thesis by (auto simp: shown_field_def entry_shown_value split: option.splits)
qed

theorem config_fields_independent_witness:
  "shown_field (edited_config [((''dns.enable'', Check_Kind), Tick True), ((''port'', Number_Kind), Enter (js ''80''))]
     [(js ''dns'', JStr (js ''x''))]) (''dns.enable'', Check_Kind) = Shown_Check True"
  using config_fields_independent [of "[((''dns.enable'', Check_Kind), Tick True), ((''port'', Number_Kind), Enter (js ''80''))]"
      "(''dns.enable'', Check_Kind)" "[(js ''dns'', JStr (js ''x''))]" "[]"]
  by (simp add: CONFIG_FIELDS_def GENERAL_FIELDS_def DNS_FIELDS_def last_edit_def shown_value_def stored_value_def)

text \<open>What a key typed at the end of a field of text does.\<close>

definition type_key :: "string \<times> field_kind \<Rightarrow> nat \<Rightarrow> (jstring \<times> jsval) list \<Rightarrow> (jstring \<times> jsval) list" where
  "type_key f c config = (case shown_field config f of
     Shown_Text s \<Rightarrow> edit_field f (Enter (s @ [c])) config | Shown_Check b \<Rightarrow> config)"

lemma line_entry_append:
  assumes "10 \<notin> set s"
  shows "10 \<notin> set (line_entry (s @ [c]))"
proof -
  have "split_units (\<lambda>u. u = 10) (s @ [c]) = (if c = 10 then [s, []] else [s @ [c]])"
    using assms split_units_append_sep [of s "\<lambda>u. u = 10" c "[]"] split_units_none [of "s @ [c]" "\<lambda>u. u = 10"] by auto
  moreover have "10 \<notin> set (trim s)" "c \<noteq> 10 \<Longrightarrow> 10 \<notin> set (trim (s @ [c]))"
    using assms set_trim [of s] set_trim [of "s @ [c]"] by auto
  ultimately show ?thesis by (simp add: line_entry_def)
qed

text \<open>
  The lists of servers lose the line break that would start their next entry. Whatever is typed
  key by key at the end of such a field that shows at most one line, line breaks included, it never
  shows a second line.
\<close>

theorem typed_line_break_lost:
  assumes "shown_field config (p, Line_Kind) = Shown_Text s" "10 \<notin> set s"
  shows "\<exists>t. shown_field (fold (type_key (p, Line_Kind)) keys config) (p, Line_Kind) = Shown_Text t \<and> 10 \<notin> set t"
  using assms
proof (induction keys arbitrary: config s)
  case (Cons c keys)
  let ?f = "(p, Line_Kind)"
  have "type_key ?f c config = edit_field ?f (Enter (s @ [c])) config" using Cons.prems by (simp add: type_key_def)
  moreover have "shown_field (edit_field ?f (Enter (s @ [c])) config) ?f = Shown_Text (line_entry (s @ [c]))"
    by (simp add: shown_field_def edit_field_def get_set_nested shown_line)
  ultimately show ?case using Cons.IH [of "type_key ?f c config"] line_entry_append [OF Cons.prems(2)] by auto
qed auto

theorem typed_line_break_lost_witness:
  "\<exists>t. shown_field (fold (type_key (''dns.nameserver'', Line_Kind)) (js ''8.8.8.8'' @ [10] @ js ''1.1.1.1'') [])
     (''dns.nameserver'', Line_Kind) = Shown_Text t \<and> 10 \<notin> set t"
  by (rule typed_line_break_lost [of "[]" _ "[]"])
    (simp_all add: shown_field_def getNestedValue_def shown_value_def path_parts_def js_def own_prop_def)

section \<open>Loading and saving\<close>

text \<open>What the page shows: nothing while it loads, otherwise the fields and whether saving is disabled.\<close>

definition config_content :: "config_page \<Rightarrow> (bool \<times> shown list) option" where
  "config_content p = (if sy_loading p then None else Some (sy_saving p, map (shown_field (sy_config p)) CONFIG_FIELDS))"

text \<open>
  Saving sends the configuration as it stands, reports exactly one outcome and leaves the
  fields as they are, whatever the backend answers.
\<close>

theorem config_save_outcome:
  "\<exists>w'. handleSaveConfig server w = (Inr (), w') \<and>
     w_page w' = (w_page w)\<lparr>sy_saving := False\<rparr> \<and>
     map fst (w_sent w') = map fst (w_sent w) @ [systemConfigApi_update (JObj (sy_config (w_page w)))] \<and>
     w_toasts w' = w_toasts w @
       [case answered server (systemConfigApi_update (JObj (sy_config (w_page w)))) w of
          Inl _ \<Rightarrow> Failure (Key ''systemConfig.saveFailed'' []) | Inr _ \<Rightarrow> Success (Key ''systemConfig.saved'' [])]"
  by (rule wp_total) (auto simp: handleSaveConfig_def deleting_def split: sum.splits)

text \<open>
  A failed load can be saved. When the configuration cannot be loaded, the page shows its form
  with empty fields and saving possible, and the request replaces the configuration by an empty one.
\<close>

theorem failed_config_load_saved:
  assumes "answered server systemConfigApi_get w = Inl err" "w_page w = initial_config_page"
  shows "\<exists>w1 w2. fetchConfig server w = (Inr (), w1) \<and>
    config_content (w_page w1) = Some (False, map (shown_field []) CONFIG_FIELDS) \<and>
    handleSaveConfig server w1 = (Inr (), w2) \<and>
    map fst (w_sent w2) = map fst (w_sent w) @ [systemConfigApi_get, systemConfigApi_update (JObj [])]"
proof -
  have "\<exists>w1. fetchConfig server w = (Inr (), w1) \<and> w_page w1 = initial_config_page \<and>
      map fst (w_sent w1) = map fst (w_sent w) @ [systemConfigApi_get]"
    by (rule wp_total) (auto simp: fetchConfig_def loading_def assms initial_config_page_def)
  moreover have "\<exists>w2. handleSaveConfig server w1 = (Inr (), w2) \<and>
      map fst (w_sent w2) = map fst (w_sent w1) @ [systemConfigApi_update (JObj (sy_config (w_page w1)))]" for w1
    by (rule wp_total) (auto simp: handleSaveConfig_def deleting_def split: sum.splits)
  ultimately show ?thesis by (fastforce simp: config_content_def initial_config_page_def)
qed

theorem failed_config_load_saved_witness:
  "\<exists>w1 w2. fetchConfig silent (fresh initial_config_page) = (Inr (), w1) \<and>
    config_content (w_page w1) = Some (False, map (shown_field []) CONFIG_FIELDS) \<and>
    handleSaveConfig silent w1 = (Inr (), w2) \<and>
    map fst (w_sent w2) = [systemConfigApi_get, systemConfigApi_update (JObj [])]"
  using failed_config_load_saved [of silent "fresh initial_config_page" Unreachable] by simp

end
