(* ===== verification/Settings_Page.thy ===== *)
theory Settings_Page
  imports Api Page_Actions
begin

text \<open>
  \<open>pages/settings.tsx\<close>: three cards, each with a state of its own. The application's settings, whose
  form is shown not to reach a single setting the backend has; the users, whose dialog and deletions
  are described, the signed-in one's being refused; and the draft of the raw configuration.
\<close>

section \<open>The application's settings\<close>

text \<open>The settings are the object that was loaded, under the form's edits; the answer is an object or null.\<close>

record app_settings_card =
  ac_settings :: "(jstring \<times> jsval) list"
  ac_loading :: bool
  ac_saving :: bool

definition initial_app_settings :: app_settings_card where
  "initial_app_settings = \<lparr>ac_settings = [], ac_loading = True, ac_saving = False\<rparr>"

definition APP_SETTINGS :: "string list" where
  "APP_SETTINGS = [''mihomo_config_path'', ''mihomo_working_dir'', ''mihomo_binary_path'',
     ''external_controller_url'', ''external_controller_secret'']"

definition as_object :: "jsval \<Rightarrow> (jstring \<times> jsval) list" where
  "as_object v = (case v of JObj kvs \<Rightarrow> kvs | _ \<Rightarrow> [])"

definition fetchSettings :: "'b server \<Rightarrow> (('b, app_settings_card) world, unit) io" where
  "fetchSettings server =
     io_finally
       (io_catch
         (io_bind (api server settingsApi_get) (\<lambda>res. io_bind (io_lift (member res ''data'')) (\<lambda>d.
          page (\<lambda>p. p\<lparr>ac_settings := as_object (coalesce d (JObj []))\<rparr>))))
         (\<lambda>_. io_return ()))
       (page (\<lambda>p. p\<lparr>ac_loading := False\<rparr>))"

definition handleChange :: "string \<Rightarrow> jstring \<Rightarrow> app_settings_card \<Rightarrow> app_settings_card" where
  "handleChange k v p = p\<lparr>ac_settings := put (js k) (JStr v) (ac_settings p)\<rparr>"

definition settings_handleSave :: "'b server \<Rightarrow> (('b, app_settings_card) world, unit) io" where
  "settings_handleSave server = io_read (\<lambda>w.
     io_then (page (\<lambda>p. p\<lparr>ac_saving := True\<rparr>))
       (deleting server (settingsApi_update (JObj (ac_settings (w_page w))))
         (Success (Key ''settings.saved'' [])) (io_return ()) (Failure (Key ''settings.saveFailed'' []))
         (\<lambda>p. p\<lparr>ac_saving := False\<rparr>)))"

definition app_settings_field :: "app_settings_card \<Rightarrow> string \<Rightarrow> jstring" where
  "app_settings_field p k = to_str (coalesce (prop_of (ac_settings p) k) (JStr []))"

text \<open>What the card shows: nothing while it loads, otherwise the fields and whether saving is disabled.\<close>

definition AppSettingsCard :: "app_settings_card \<Rightarrow> (bool \<times> jstring list) option" where
  "AppSettingsCard p =
     (if ac_loading p then None else Some (ac_saving p, map (app_settings_field p) APP_SETTINGS))"

section \<open>The users\<close>

record user_account =
  ua_id :: jstring
  ua_username :: jstring
  ua_role :: jstring

record user_dialog =
  ud_username :: jstring
  ud_password :: jstring
  ud_role :: jstring
  ud_saving :: bool

record users_card =
  uc_users :: "user_account list"
  uc_loading :: bool
  uc_dialogOpen :: bool
  uc_editingUser :: "user_account option"
  uc_deletingId :: "jstring option"
  uc_confirmOpen :: bool
  uc_dialog :: user_dialog

definition initial_users_card :: users_card where
  "initial_users_card = \<lparr>uc_users = [], uc_loading = True, uc_dialogOpen = False, uc_editingUser = None,
     uc_deletingId = None, uc_confirmOpen = False,
     uc_dialog = \<lparr>ud_username = [], ud_password = [], ud_role = js ''readonly'', ud_saving = False\<rparr>\<rparr>"

text \<open>\<open>as_users\<close> is how the answer is read as a list of users.\<close>

definition fetchUsers :: "'b server \<Rightarrow> (jsval \<Rightarrow> user_account list) \<Rightarrow> (('b, users_card) world, unit) io" where
  "fetchUsers server as_users =
     io_finally
       (io_catch
         (io_bind (api server settingsApi_listUsers) (\<lambda>res. io_bind (io_lift (member res ''data'')) (\<lambda>d.
          page (\<lambda>p. p\<lparr>uc_users := as_users (coalesce d (JArr []))\<rparr>))))
         (\<lambda>_. page (\<lambda>p. p\<lparr>uc_users := []\<rparr>)))
       (page (\<lambda>p. p\<lparr>uc_loading := False\<rparr>))"

text \<open>The dialog's fields are set when it opens, or when the edited user changes while it is open.\<close>

definition dialog_effect :: "users_card \<Rightarrow> users_card" where
  "dialog_effect p = (if uc_dialogOpen p then p\<lparr>uc_dialog := (uc_dialog p)\<lparr>
       ud_username := (case uc_editingUser p of Some u \<Rightarrow> ua_username u | None \<Rightarrow> []),
       ud_password := [],
       ud_role := (case uc_editingUser p of Some u \<Rightarrow> ua_role u | None \<Rightarrow> js ''readonly'')\<rparr>\<rparr> else p)"

definition users_handleAddClick :: "users_card \<Rightarrow> users_card" where
  "users_handleAddClick p = dialog_effect (p\<lparr>uc_editingUser := None, uc_dialogOpen := True\<rparr>)"

definition users_handleEditClick :: "user_account \<Rightarrow> users_card \<Rightarrow> users_card" where
  "users_handleEditClick u p = dialog_effect (p\<lparr>uc_editingUser := Some u, uc_dialogOpen := True\<rparr>)"

definition onUserDialogOpen :: "bool \<Rightarrow> users_card \<Rightarrow> users_card" where
  "onUserDialogOpen opened p =
     (let p' = p\<lparr>uc_dialogOpen := opened\<rparr> in if opened then p' else p'\<lparr>uc_editingUser := None\<rparr>)"

definition on_dialog :: "(user_dialog \<Rightarrow> user_dialog) \<Rightarrow> users_card \<Rightarrow> users_card" where
  "on_dialog f p = p\<lparr>uc_dialog := f (uc_dialog p)\<rparr>"

definition onRole :: "jstring option \<Rightarrow> user_dialog \<Rightarrow> user_dialog" where
  "onRole v d = (case nonempty v of Some r \<Rightarrow> d\<lparr>ud_role := r\<rparr> | None \<Rightarrow> d)"

definition user_complaint :: "users_card \<Rightarrow> string option" where
  "user_complaint p =
     (if uc_editingUser p = None \<and> trim (ud_username (uc_dialog p)) = [] then Some ''settings.usernameRequired''
      else if uc_editingUser p = None \<and> trim (ud_password (uc_dialog p)) = [] then Some ''settings.passwordRequired''
      else None)"

definition user_request :: "users_card \<Rightarrow> request" where
  "user_request p = (let d = uc_dialog p in case uc_editingUser p of
     Some u \<Rightarrow> settingsApi_updateUser (ua_id u) (JObj ((js ''role'', JStr (ud_role d)) #
       (if trim (ud_password d) \<noteq> [] then [(js ''password'', JStr (ud_password d))] else [])))
   | None \<Rightarrow> settingsApi_createUser (JObj [(js ''username'', JStr (trim (ud_username d))),
       (js ''password'', JStr (ud_password d)), (js ''role'', JStr (ud_role d))]))"

definition users_handleSave :: "'b server \<Rightarrow> (jsval \<Rightarrow> user_account list) \<Rightarrow> (('b, users_card) world, unit) io" where
  "users_handleSave server as_users = io_read (\<lambda>w.
     let editing = uc_editingUser (w_page w) \<noteq> None
     in case user_complaint (w_page w) of
          Some k \<Rightarrow> toast (Failure (Key k []))
        | None \<Rightarrow>
            io_then (page (on_dialog (\<lambda>d. d\<lparr>ud_saving := True\<rparr>)))
              (io_finally
                (io_catch
                  (io_then (api server (user_request (w_page w)))
                    (io_then (toast (Success (Key (if editing then ''settings.userUpdated'' else ''settings.userCreated'') [])))
                      (io_then (fetchUsers server as_users) (page (onUserDialogOpen False)))))
                  (\<lambda>_. toast (Failure (Key (if editing then ''settings.userUpdateFailed'' else ''settings.userCreateFailed'') []))))
                (page (on_dialog (\<lambda>d. d\<lparr>ud_saving := False\<rparr>)))))"

text \<open>The id of the signed-in user, undefined when there is none.\<close>

definition own_id :: "('b, 'p) world \<Rightarrow> jsval" where
  "own_id w = opt_member (au_user (w_auth w)) ''id''"

definition users_handleDeleteClick :: "user_account \<Rightarrow> (('b, users_card) world, unit) io" where
  "users_handleDeleteClick u = io_read (\<lambda>w.
     if JStr (ua_id u) = own_id w then toast (Failure (Key ''settings.cannotDeleteSelf'' []))
     else page (\<lambda>p. p\<lparr>uc_deletingId := Some (ua_id u), uc_confirmOpen := True\<rparr>))"

definition users_handleDeleteConfirm :: "'b server \<Rightarrow> (jsval \<Rightarrow> user_account list) \<Rightarrow> (('b, users_card) world, unit) io" where
  "users_handleDeleteConfirm server as_users = io_read (\<lambda>w.
     case nonempty (uc_deletingId (w_page w)) of
       None \<Rightarrow> io_return ()
     | Some i \<Rightarrow> deleting server (settingsApi_deleteUser i) (Success (Key ''settings.userDeleted'' []))
         (fetchUsers server as_users) (Failure (Key ''settings.userDeleteFailed'' []))
         (\<lambda>p. p\<lparr>uc_deletingId := None\<rparr>))"

definition users_isAdmin :: "('b, 'p) world \<Rightarrow> bool" where
  "users_isAdmin w \<longleftrightarrow> opt_member (au_user (w_auth w)) ''role'' = JStr (js ''admin'')"

text \<open>A row: the name, whether it is one's own, the role, whether its badge is the administrator's, whether deleting is disabled.\<close>

datatype users_content = Users_Loading | No_Users | User_Rows "(jstring \<times> bool \<times> jstring \<times> bool \<times> bool) list"

definition user_row :: "('b, users_card) world \<Rightarrow> user_account \<Rightarrow> jstring \<times> bool \<times> jstring \<times> bool \<times> bool" where
  "user_row w u = (let own = JStr (ua_id u) = own_id w
     in (ua_username u, own, ua_role u, ua_role u = js ''admin'', own))"

definition UserManagementCard :: "('b, users_card) world \<Rightarrow> users_content option" where
  "UserManagementCard w =
     (if \<not> users_isAdmin w then None
      else Some (if uc_loading (w_page w) then Users_Loading
        else if uc_users (w_page w) = [] then No_Users
        else User_Rows (map (user_row w) (uc_users (w_page w)))))"

section \<open>The draft of the raw configuration\<close>

record config_editor =
  cx_content :: jstring
  cx_source :: jsval
  cx_loading :: bool
  cx_saving :: bool
  cx_clearing :: bool

definition initial_config_editor :: config_editor where
  "initial_config_editor = \<lparr>cx_content = [], cx_source = JStr (js ''file''), cx_loading = True, cx_saving = False,
     cx_clearing = False\<rparr>"

definition fetchConfigYaml :: "'b server \<Rightarrow> (('b, config_editor) world, unit) io" where
  "fetchConfigYaml server =
     io_finally
       (io_catch
         (io_bind (api server settingsApi_getConfigYaml) (\<lambda>res.
          io_bind (io_lift (member res ''data'')) (\<lambda>d.
          io_bind (io_lift (member d ''content'')) (\<lambda>c.
          io_then (page (\<lambda>p. p\<lparr>cx_content := to_str (coalesce c (JStr []))\<rparr>))
            (io_bind (io_lift (member d ''source'')) (\<lambda>s. page (\<lambda>p. p\<lparr>cx_source := s\<rparr>)))))))
         (\<lambda>_. toast (Failure (Key ''settings.configLoadFailed'' []))))
       (page (\<lambda>p. p\<lparr>cx_loading := False\<rparr>))"

definition handleSaveDraft :: "'b server \<Rightarrow> (('b, config_editor) world, unit) io" where
  "handleSaveDraft server = io_read (\<lambda>w.
     io_then (page (\<lambda>p. p\<lparr>cx_saving := True\<rparr>))
       (io_finally
         (io_catch
           (io_then (api server (settingsApi_updateConfigYaml (cx_content (w_page w))))
             (io_then (page (\<lambda>p. p\<lparr>cx_source := JStr (js ''draft'')\<rparr>))
               (toast (Success (Key ''settings.configSaved'' [])))))
           (\<lambda>_. toast (Failure (Key ''settings.configSaveFailed'' []))))
         (page (\<lambda>p. p\<lparr>cx_saving := False\<rparr>))))"

definition handleClearDraft :: "'b server \<Rightarrow> (('b, config_editor) world, unit) io" where
  "handleClearDraft server =
     io_then (page (\<lambda>p. p\<lparr>cx_clearing := True\<rparr>))
       (deleting server settingsApi_deleteConfigYaml (Success (Key ''settings.configDraftCleared'' []))
         (fetchConfigYaml server) (Failure (Key ''settings.configClearFailed'' []))
         (\<lambda>p. p\<lparr>cx_clearing := False\<rparr>))"

text \<open>Whether the badge says draft, and, once loaded: the text, whether saving is disabled, and the clear button, if any, with whether it is disabled.\<close>

definition ConfigEditorCard :: "config_editor \<Rightarrow> bool \<times> (jstring \<times> bool \<times> bool option) option" where
  "ConfigEditorCard p = (let draft = cx_source p = JStr (js ''draft'')
     in (draft, if cx_loading p then None
        else Some (cx_content p, cx_saving p, if draft then Some (cx_clearing p) else None)))"

section \<open>The form and the backend's settings\<close>

text \<open>The names by which the backend's \<open>AppSettings\<close> is encoded.\<close>

definition BACKEND_SETTINGS :: "string list" where
  "BACKEND_SETTINGS = [''id'', ''mihomo_config'', ''mihomo_dir'', ''mihomo_binary'', ''ext_controller'', ''ext_secret'',
     ''raw_config_draft'', ''isolation_interface'', ''isolation_dns'', ''updated_at'']"

lemma names_differ: "set APP_SETTINGS \<inter> set BACKEND_SETTINGS = {}"
  by (simp add: APP_SETTINGS_def BACKEND_SETTINGS_def)

lemma edits_keep_backend:
  assumes "fst ` set edits \<subseteq> set APP_SETTINGS" "k \<in> set BACKEND_SETTINGS"
  shows "prop_of (ac_settings (fold (\<lambda>(x, v). handleChange x v) edits p)) k = prop_of (ac_settings p) k"
  using assms
proof (induction edits arbitrary: p)
  case (Cons e edits)
  obtain x v where e: "e = (x, v)" by (cases e)
  then have "x \<noteq> k" using Cons.prems names_differ by auto
  then have "prop_of (ac_settings (handleChange x v p)) k = prop_of (ac_settings p) k"
    by (simp add: handleChange_def flip: own_prop_js)
  then show ?case using Cons by (simp add: e)
qed simp

lemma settings_handleSave_sends:
  "\<exists>w'. settings_handleSave server w = (Inr (), w') \<and>
     map fst (w_sent w') = map fst (w_sent w) @ [settingsApi_update (JObj (ac_settings (w_page w)))] \<and>
     w_page w' = (w_page w)\<lparr>ac_saving := False\<rparr>"
  by (rule wp_total) (auto simp: settings_handleSave_def deleting_def split: sum.splits)

text \<open>
  C24: The settings form does not reach the backend's settings. When the loaded object has only the
  backend's names, every field is shown empty; and whatever is entered in the form, the request that
  saves it has, under each name the backend reads, what was loaded.
\<close>

theorem settings_form_without_effect:
  assumes "fst ` set edits \<subseteq> set APP_SETTINGS" "fst ` set (ac_settings p) \<subseteq> js ` set BACKEND_SETTINGS"
    and "w_page w = fold (\<lambda>(x, v). handleChange x v) edits p"
  shows "(\<forall>k \<in> set APP_SETTINGS. app_settings_field p k = []) \<and>
    (\<exists>w' kvs. settings_handleSave server w = (Inr (), w') \<and>
      map fst (w_sent w') = map fst (w_sent w) @ [settingsApi_update (JObj kvs)] \<and>
      (\<forall>k \<in> set BACKEND_SETTINGS. prop_of kvs k = prop_of (ac_settings p) k))"
proof -
  have "prop_of (ac_settings p) k = Undef" if "k \<in> set APP_SETTINGS" for k
  proof -
    have "js k \<notin> js ` set BACKEND_SETTINGS" using that names_differ by auto
    then have "js k \<notin> fst ` set (ac_settings p)" using assms(2) by blast
    then have "map_of (ac_settings p) (js k) = None" by (simp add: map_of_eq_None_iff)
    then show ?thesis by (simp add: prop_of_def)
  qed
  then show ?thesis using settings_handleSave_sends [of server w] edits_keep_backend [OF assms(1), of _ p]
    by (force simp: app_settings_field_def assms(3))
qed

theorem settings_form_without_effect_witness:
  "\<exists>w' kvs. settings_handleSave silent (fresh (handleChange ''mihomo_binary_path'' (js ''/b'')
       (initial_app_settings\<lparr>ac_settings := [(js ''mihomo_binary'', JStr (js ''/a''))]\<rparr>))) = (Inr (), w') \<and>
     map fst (w_sent w') = [settingsApi_update (JObj kvs)] \<and> prop_of kvs ''mihomo_binary'' = JStr (js ''/a'')"
  using settings_form_without_effect [of "[(''mihomo_binary_path'', js ''/b'')]"
      "initial_app_settings\<lparr>ac_settings := [(js ''mihomo_binary'', JStr (js ''/a''))]\<rparr>"
      "fresh (handleChange ''mihomo_binary_path'' (js ''/b'')
       (initial_app_settings\<lparr>ac_settings := [(js ''mihomo_binary'', JStr (js ''/a''))]\<rparr>))" silent]
  by (force simp: APP_SETTINGS_def BACKEND_SETTINGS_def)

section \<open>Saving and deleting users\<close>

lemma fetchUsers_spec:
  "wp (fetchUsers server as_users) (\<lambda>_ v. w_toasts v = w_toasts w \<and> w_auth v = w_auth w \<and>
     map fst (w_sent v) = map fst (w_sent w) @ [settingsApi_listUsers] \<and>
     (\<exists>us. w_page v = (w_page w)\<lparr>uc_users := us, uc_loading := False\<rparr>)) (\<lambda>_ _. False) w"
  by (auto simp: fetchUsers_def split: sum.splits)

text \<open>
  What saving the user dialog does. A new user without a name or a password is refused without a
  request. Otherwise one outcome is reported: a refusal leaves the dialog open with its fields, a
  success closes it and loads the users again.
\<close>

theorem user_save_outcome:
  "\<exists>w'. users_handleSave server as_users w = (Inr (), w') \<and>
     (case user_complaint (w_page w) of
        Some k \<Rightarrow> w' = w\<lparr>w_toasts := w_toasts w @ [Failure (Key k [])]\<rparr>
      | None \<Rightarrow>
          (case answered server (user_request (w_page w)) w of
             Inl _ \<Rightarrow> map fst (w_sent w') = map fst (w_sent w) @ [user_request (w_page w)] \<and>
               w_page w' = on_dialog (\<lambda>d. d\<lparr>ud_saving := False\<rparr>) (w_page w) \<and>
               w_toasts w' = w_toasts w @ [Failure (Key (if uc_editingUser (w_page w) \<noteq> None
                 then ''settings.userUpdateFailed'' else ''settings.userCreateFailed'') [])]
           | Inr _ \<Rightarrow> map fst (w_sent w') = map fst (w_sent w) @ [user_request (w_page w), settingsApi_listUsers] \<and>
               \<not> uc_dialogOpen (w_page w') \<and> uc_editingUser (w_page w') = None \<and>
               w_toasts w' = w_toasts w @ [Success (Key (if uc_editingUser (w_page w) \<noteq> None
                 then ''settings.userUpdated'' else ''settings.userCreated'') [])]))"
proof (cases "user_complaint (w_page w)")
  case None
  show ?thesis
    by (rule wp_total)
      (auto simp: users_handleSave_def None Let_def on_dialog_def onUserDialogOpen_def split: sum.splits
        intro!: wp_mono [OF fetchUsers_spec])
next
  case (Some k)
  show ?thesis by (rule wp_total) (simp add: users_handleSave_def Some Let_def)
qed

text \<open>What can happen on the card; \<open>users_run\<close> is a sequence of such steps.\<close>

inductive users_step :: "'b server \<Rightarrow> (jsval \<Rightarrow> user_account list) \<Rightarrow> ('b, users_card) world \<Rightarrow> ('b, users_card) world \<Rightarrow> bool"
  for server as_users where
  add: "users_step server as_users w (w\<lparr>w_page := users_handleAddClick (w_page w)\<rparr>)"
| edit: "users_step server as_users w (w\<lparr>w_page := users_handleEditClick u (w_page w)\<rparr>)"
| dialog: "users_step server as_users w (w\<lparr>w_page := onUserDialogOpen b (w_page w)\<rparr>)"
| type_in: "users_step server as_users w (w\<lparr>w_page := on_dialog f (w_page w)\<rparr>)"
| confirm_dialog: "users_step server as_users w (w\<lparr>w_page := (w_page w)\<lparr>uc_confirmOpen := b\<rparr>\<rparr>)"
| load: "fetchUsers server as_users w = (r, w') \<Longrightarrow> users_step server as_users w w'"
| save: "users_handleSave server as_users w = (r, w') \<Longrightarrow> users_step server as_users w w'"
| delete_click: "users_handleDeleteClick u w = (r, w') \<Longrightarrow> users_step server as_users w w'"
| delete_confirm: "users_handleDeleteConfirm server as_users w = (r, w') \<Longrightarrow> users_step server as_users w w'"

inductive users_run :: "'b server \<Rightarrow> (jsval \<Rightarrow> user_account list) \<Rightarrow> ('b, users_card) world \<Rightarrow> ('b, users_card) world \<Rightarrow> bool"
  for server as_users where
  start: "users_run server as_users w w"
| step: "users_run server as_users w w' \<Longrightarrow> users_step server as_users w' w'' \<Longrightarrow> users_run server as_users w w''"

definition spares :: "jstring \<Rightarrow> ('b, users_card) world \<Rightarrow> bool" where
  "spares me w \<longleftrightarrow> own_id w = JStr me \<and> uc_deletingId (w_page w) \<noteq> Some me \<and>
     settingsApi_deleteUser me \<notin> set (map fst (w_sent w))"

lemma spares_wp:
  "m w = (r, w') \<Longrightarrow> wp m (\<lambda>_. spares me) (\<lambda>_. spares me) w \<Longrightarrow> spares me w'"
  by (cases r) (simp_all add: wp_def)

lemma request_kinds [simp]:
  "settingsApi_deleteUser me \<noteq> settingsApi_listUsers" "settingsApi_deleteUser me \<noteq> user_request p"
  "settingsApi_deleteUser me = settingsApi_deleteUser i \<longleftrightarrow> me = i"
  by (auto simp: settingsApi_deleteUser_def settingsApi_listUsers_def user_request_def settingsApi_updateUser_def
      settingsApi_createUser_def Let_def split: option.splits)

lemma spares_fetchUsers:
  assumes "spares me w"
  shows "wp (fetchUsers server as_users) (\<lambda>_. spares me) (\<lambda>_. spares me) w"
  using assms
  by (intro wp_mono [OF fetchUsers_spec]) (auto simp: spares_def own_id_def simp flip: set_map)

lemma spares_step:
  assumes "users_step server as_users w w'" "spares me w"
  shows "spares me w'"
  using assms
proof cases
  case (save r)
  show ?thesis
    by (rule spares_wp [of "users_handleSave server as_users" w, OF save])
      (use assms(2) in \<open>auto simp: users_handleSave_def Let_def spares_def own_id_def on_dialog_def onUserDialogOpen_def
        split: option.splits sum.splits intro!: wp_mono [OF fetchUsers_spec] simp flip: set_map\<close>)
next
  case (delete_confirm r)
  show ?thesis
    by (rule spares_wp [of "users_handleDeleteConfirm server as_users" w, OF delete_confirm])
      (use assms(2) in \<open>auto simp: users_handleDeleteConfirm_def deleting_def spares_def own_id_def
        split: option.splits sum.splits intro!: wp_mono [OF fetchUsers_spec] simp flip: set_map\<close>)
next
  case (delete_click u r)
  show ?thesis
    by (rule spares_wp [of "users_handleDeleteClick u" w, OF delete_click])
      (use assms(2) in \<open>auto simp: users_handleDeleteClick_def spares_def own_id_def\<close>)
next
  case (load r)
  show ?thesis by (rule spares_wp [of "fetchUsers server as_users" w, OF load spares_fetchUsers [OF assms(2)]])
qed (auto simp: spares_def own_id_def users_handleAddClick_def users_handleEditClick_def dialog_effect_def
    onUserDialogOpen_def on_dialog_def Let_def)

text \<open>
  C14: The signed-in user is never deleted from the card. Whatever is clicked, entered and answered,
  in any order, no request deletes the user whose session it is.
\<close>

theorem own_account_not_deleted:
  assumes "users_run server as_users w w'" "own_id w = JStr me" "uc_deletingId (w_page w) = None" "w_sent w = []"
  shows "settingsApi_deleteUser me \<notin> set (map fst (w_sent w'))"
proof -
  have "spares me w'" using assms
  proof (induction rule: users_run.induct)
    case (step w w' w'')
    then show ?case by (blast intro: spares_step)
  qed (simp add: spares_def)
  then show ?thesis by (simp add: spares_def)
qed

text \<open>A session of the user \<open>1\<close>, whose card asks for the deletion of the user \<open>2\<close> and confirms it.\<close>

definition signed_in_one :: "(unit, users_card) world" where
  "signed_in_one = (fresh initial_users_card)\<lparr>w_auth := initial_auth\<lparr>au_user := JObj [(js ''id'', JStr (js ''1''))]\<rparr>\<rparr>"

definition deletes_two :: "(unit, users_card) world" where
  "deletes_two = snd (users_handleDeleteConfirm silent (\<lambda>_. [])
     (snd (users_handleDeleteClick \<lparr>ua_id = js ''2'', ua_username = [], ua_role = []\<rparr> signed_in_one)))"

lemma deletes_two_run: "users_run silent (\<lambda>_. []) signed_in_one deletes_two"
  unfolding deletes_two_def by (rule users_run.step [OF users_run.step [OF users_run.start delete_click] delete_confirm])
    (rule prod.collapse [symmetric])+

theorem own_account_not_deleted_witness:
  "settingsApi_deleteUser (js ''2'') \<in> set (map fst (w_sent deletes_two)) \<and>
   settingsApi_deleteUser (js ''1'') \<notin> set (map fst (w_sent deletes_two))"
proof
  show "settingsApi_deleteUser (js ''1'') \<notin> set (map fst (w_sent deletes_two))"
    by (rule own_account_not_deleted [OF deletes_two_run])
      (simp_all add: signed_in_one_def own_id_def initial_users_card_def)
  show "settingsApi_deleteUser (js ''2'') \<in> set (map fst (w_sent deletes_two))"
    by (simp add: deletes_two_def users_handleDeleteConfirm_def users_handleDeleteClick_def io_read_def signed_in_one_def
        own_id_def page_def io_update_def deleting_def io_finally_def io_catch_def io_then_def io_bind_def api_def silent_def
        toast_def initial_users_card_def fresh_def)
qed

section \<open>The draft\<close>

text \<open>Messages take no part in a call.\<close>

lemma api_toasts: "api server rq (w\<lparr>w_toasts := t\<rparr>) = (case api server rq w of (r, v) \<Rightarrow> (r, v\<lparr>w_toasts := t\<rparr>))"
  by (auto simp: api_def afterResponse_def Let_def split: prod.splits option.splits)

lemma answered_toasts [simp]: "answered server rq (w\<lparr>w_toasts := t\<rparr>) = answered server rq w"
  by (simp add: answered_def api_toasts split: prod.splits)

lemma draft_saved:
  "\<exists>w'. handleSaveDraft server w = (Inr (), w') \<and>
     (case answered server (settingsApi_updateConfigYaml (cx_content (w_page w))) w of
        Inl _ \<Rightarrow> w_page w' = (w_page w)\<lparr>cx_saving := False\<rparr> \<and>
          w_toasts w' = w_toasts w @ [Failure (Key ''settings.configSaveFailed'' [])]
      | Inr _ \<Rightarrow> w_page w' = (w_page w)\<lparr>cx_saving := False, cx_source := JStr (js ''draft'')\<rparr> \<and>
          w_toasts w' = w_toasts w @ [Success (Key ''settings.configSaved'' [])])"
  by (rule wp_total) (auto simp: handleSaveDraft_def split: sum.splits)

text \<open>
  What clearing the draft of the raw configuration reports. A refusal is one failure and leaves
  the draft; otherwise the clearing is announced and the file's text is loaded, and when that fails
  a failure follows the announcement and the editor keeps the text and the mark of the cleared draft.
\<close>

theorem clear_draft_outcome:
  "\<exists>w'. handleClearDraft server w = (Inr (), w') \<and>
     (case answered server settingsApi_deleteConfigYaml w of
        Inl _ \<Rightarrow> w_toasts w' = w_toasts w @ [Failure (Key ''settings.configClearFailed'' [])] \<and>
          w_page w' = (w_page w)\<lparr>cx_clearing := False\<rparr>
      | Inr _ \<Rightarrow>
          (case answered server settingsApi_getConfigYaml (called server settingsApi_deleteConfigYaml w) of
             Inl _ \<Rightarrow> w_toasts w' = w_toasts w @ [Success (Key ''settings.configDraftCleared'' []),
                 Failure (Key ''settings.configLoadFailed'' [])] \<and>
               w_page w' = (w_page w)\<lparr>cx_clearing := False, cx_loading := False\<rparr>
           | Inr res \<Rightarrow> (\<forall>kvs t s. res = JObj [(js ''data'', JObj kvs)] \<and> prop_of kvs ''content'' = JStr t \<and>
                 prop_of kvs ''source'' = s \<longrightarrow>
               w_toasts w' = w_toasts w @ [Success (Key ''settings.configDraftCleared'' [])] \<and>
               w_page w' = (w_page w)\<lparr>cx_clearing := False, cx_loading := False, cx_content := t, cx_source := s\<rparr>)))"
  by (rule wp_total) (auto simp: handleClearDraft_def deleting_def fetchConfigYaml_def split: sum.splits)

theorem clear_draft_outcome_witness:
  "\<exists>w'. handleClearDraft silent (fresh initial_config_editor) = (Inr (), w') \<and>
     w_toasts w' = [Failure (Key ''settings.configClearFailed'' [])]"
  using clear_draft_outcome [of silent "fresh initial_config_editor"] by auto

text \<open>
  A failed load can be saved: the editor then shows an empty text, saving is possible, and the draft
  it sends is empty.
\<close>

lemma failed_yaml_load_saved:
  assumes "answered server settingsApi_getConfigYaml w = Inl err" "w_page w = initial_config_editor"
  shows "\<exists>w1 w2. fetchConfigYaml server w = (Inr (), w1) \<and>
    ConfigEditorCard (w_page w1) = (False, Some ([], False, None)) \<and>
    handleSaveDraft server w1 = (Inr (), w2) \<and>
    map fst (w_sent w2) = map fst (w_sent w) @ [settingsApi_getConfigYaml, settingsApi_updateConfigYaml []]"
proof -
  have "\<exists>w1. fetchConfigYaml server w = (Inr (), w1) \<and> w_page w1 = initial_config_editor\<lparr>cx_loading := False\<rparr> \<and>
      map fst (w_sent w1) = map fst (w_sent w) @ [settingsApi_getConfigYaml]"
    by (rule wp_total) (auto simp: fetchConfigYaml_def assms)
  moreover have "\<exists>w2. handleSaveDraft server w1 = (Inr (), w2) \<and>
      map fst (w_sent w2) = map fst (w_sent w1) @ [settingsApi_updateConfigYaml (cx_content (w_page w1))]" for w1
    by (rule wp_total) (auto simp: handleSaveDraft_def split: sum.splits)
  ultimately show ?thesis by (fastforce simp: ConfigEditorCard_def initial_config_editor_def)
qed

end
