(* ===== verification/Scores_Page.thy ===== *)
theory Scores_Page
  imports Score_View Subscriptions_Page
begin

text \<open>
  \<open>pages/node-scores.tsx\<close>: loading the scores, filtering, selecting and refreshing them, and what
  the table shows. The lemmas show what a batch asks for and reports, how a selection behaves, that
  the page never comes to rest, and where the badge of a status contradicts the filter.
\<close>

section \<open>The page\<close>

text \<open>\<open>sc_selected\<close> is a \<open>Set\<close>, in the order of its insertions.\<close>

record scores_page =
  sc_rows :: "node_score list"
  sc_loading :: bool
  sc_loadError :: bool
  sc_search :: jstring
  sc_kindFilter :: jstring
  sc_statusFilter :: jstring
  sc_selected :: "jstring list"
  sc_refreshing :: "jstring \<Rightarrow> bool"
  sc_batchBusy :: bool
  sc_detailId :: "jstring option"

definition initial_scores_page :: scores_page where
  "initial_scores_page = \<lparr>sc_rows = [], sc_loading = True, sc_loadError = False, sc_search = [],
     sc_kindFilter = js ''all'', sc_statusFilter = js ''all'', sc_selected = [], sc_refreshing = (\<lambda>_. False),
     sc_batchBusy = False, sc_detailId = None\<rparr>"

text \<open>\<open>as_rows\<close> is how the answer is read as a list of rows.\<close>

definition fetchScores :: "'b server \<Rightarrow> (jsval \<Rightarrow> node_score list) \<Rightarrow> (('b, scores_page) world, unit) io" where
  "fetchScores server as_rows =
     io_finally
       (io_catch
         (io_bind (api server nodeScoresApi_list) (\<lambda>res. io_bind (io_lift (member res ''data'')) (\<lambda>d.
          page (\<lambda>p. p\<lparr>sc_rows := as_rows (coalesce d (JArr [])), sc_loadError := False\<rparr>))))
         (\<lambda>_. io_then (page (\<lambda>p. p\<lparr>sc_loadError := True\<rparr>)) (toast (Failure (Key ''nodeScores.loadFailed'' [])))))
       (page (\<lambda>p. p\<lparr>sc_loading := False\<rparr>))"

definition hasActive :: "node_score list \<Rightarrow> bool" where
  "hasActive rows \<longleftrightarrow> list_ex (\<lambda>r. ns_status r \<in> {js ''pending'', js ''checking'', js ''testing''}) rows"

definition poll_interval :: "node_score list \<Rightarrow> nat" where
  "poll_interval rows = (if hasActive rows then 10000 else 60000)"

section \<open>Filtering\<close>

definition status_text :: "score_status \<Rightarrow> string" where
  "status_text s = (case s of Pending \<Rightarrow> ''pending'' | Checking \<Rightarrow> ''checking'' | Ok \<Rightarrow> ''ok'' | Failed \<Rightarrow> ''error''
     | Skipped \<Rightarrow> ''skipped'')"

definition row_text :: "node_score \<Rightarrow> jstring" where
  "row_text r = join [32]
     [ns_node_name r, or_default (ns_provider_name r) [], ns_exit_ip r, or_default (ns_country r) [],
      or_default (ns_asn_org r) [], (case ns_asn r of Some n \<Rightarrow> num_str n | None \<Rightarrow> [])]"

definition score_row_matches :: "date_env \<Rightarrow> (jstring \<Rightarrow> jstring) \<Rightarrow> scores_page \<Rightarrow> node_score \<Rightarrow> bool" where
  "score_row_matches env lower p r \<longleftrightarrow>
     (let needle = lower (trim (sc_search p))
      in if sc_kindFilter p \<noteq> js ''all'' \<and> ns_node_kind r \<noteq> sc_kindFilter p then False
         else if sc_statusFilter p \<noteq> js ''all'' \<and>
             js (status_text (v_status (toNodeScoreView env r))) \<noteq> sc_statusFilter p then False
         else if needle = [] then True
         else str_includes (lower (row_text r)) needle)"

definition filtered :: "date_env \<Rightarrow> (jstring \<Rightarrow> jstring) \<Rightarrow> scores_page \<Rightarrow> node_score list" where
  "filtered env lower p = filter (score_row_matches env lower p) (sc_rows p)"

definition detailRow :: "scores_page \<Rightarrow> node_score option" where
  "detailRow p = (case nonempty (sc_detailId p) of Some i \<Rightarrow> find (\<lambda>r. ns_id r = i) (sc_rows p) | None \<Rightarrow> None)"

text \<open>The search field and the two choices above the table.\<close>

definition scores_setSearch :: "jstring \<Rightarrow> scores_page \<Rightarrow> scores_page" where
  "scores_setSearch s p = p\<lparr>sc_search := s\<rparr>"

definition scores_setKindFilter :: "jstring \<Rightarrow> scores_page \<Rightarrow> scores_page" where
  "scores_setKindFilter k p = p\<lparr>sc_kindFilter := k\<rparr>"

definition scores_setStatusFilter :: "jstring \<Rightarrow> scores_page \<Rightarrow> scores_page" where
  "scores_setStatusFilter k p = p\<lparr>sc_statusFilter := k\<rparr>"

section \<open>Selecting\<close>

definition toggleAll :: "date_env \<Rightarrow> (jstring \<Rightarrow> jstring) \<Rightarrow> bool \<Rightarrow> scores_page \<Rightarrow> scores_page" where
  "toggleAll env lower checked p =
     p\<lparr>sc_selected := (if checked then set_of_list (map ns_id (filtered env lower p)) else [])\<rparr>"

definition toggleOne :: "jstring \<Rightarrow> bool \<Rightarrow> scores_page \<Rightarrow> scores_page" where
  "toggleOne i checked p =
     p\<lparr>sc_selected := (if checked then set_add i (sc_selected p) else removeAll i (sc_selected p))\<rparr>"

definition allFilteredSelected :: "date_env \<Rightarrow> (jstring \<Rightarrow> jstring) \<Rightarrow> scores_page \<Rightarrow> bool" where
  "allFilteredSelected env lower p \<longleftrightarrow>
     filtered env lower p \<noteq> [] \<and> list_all (\<lambda>r. ns_id r \<in> set (sc_selected p)) (filtered env lower p)"

section \<open>Refreshing\<close>

definition queued_toast :: "jsval \<Rightarrow> int \<Rightarrow> toast result" where
  "queued_toast res d = map_result (\<lambda>v. Success (Key ''nodeScores.batchQueued''
     [(''count'', to_str (coalesce (opt_member v ''queued'') (JNum (num d))))])) (member res ''data'')"

definition scores_refreshOne :: "'b server \<Rightarrow> (jsval \<Rightarrow> node_score list) \<Rightarrow> jstring \<Rightarrow> (('b, scores_page) world, unit) io" where
  "scores_refreshOne server as_rows i = io_read (\<lambda>w.
     if \<not> isAdmin (w_auth w) then io_return ()
     else io_then (page (\<lambda>p. p\<lparr>sc_refreshing := (sc_refreshing p)(i := True)\<rparr>))
       (io_finally
         (io_catch
           (io_bind (io_lift (nodeScoresApi_refresh i)) (\<lambda>rq.
            io_bind (api server rq) (\<lambda>res.
            io_bind (io_lift (queued_toast res 1)) (\<lambda>m. io_then (toast m) (fetchScores server as_rows)))))
           (\<lambda>e. toast (Failure (text_or (ae_message (readApiError e)) ''nodeScores.refreshFailed''))))
         (page (\<lambda>p. p\<lparr>sc_refreshing := (sc_refreshing p)(i := False)\<rparr>))))"

definition refreshBatch :: "'b server \<Rightarrow> (jsval \<Rightarrow> node_score list) \<Rightarrow> jstring list option \<Rightarrow> (('b, scores_page) world, unit) io" where
  "refreshBatch server as_rows ids = io_read (\<lambda>w.
     if \<not> isAdmin (w_auth w) then io_return ()
     else io_then (page (\<lambda>p. p\<lparr>sc_batchBusy := True\<rparr>))
       (io_finally
         (io_catch
           (io_bind (api server (nodeScoresApi_refreshBatch ids)) (\<lambda>res.
            io_bind (io_lift (queued_toast res 0)) (\<lambda>m.
            io_then (toast m) (io_then (page (\<lambda>p. p\<lparr>sc_selected := []\<rparr>)) (fetchScores server as_rows)))))
           (\<lambda>_. toast (Failure (Key ''nodeScores.batchFailed'' []))))
         (page (\<lambda>p. p\<lparr>sc_batchBusy := False\<rparr>))))"

text \<open>The two buttons of the head; the first is shown only when something is selected.\<close>

definition refresh_selected :: "'b server \<Rightarrow> (jsval \<Rightarrow> node_score list) \<Rightarrow> (('b, scores_page) world, unit) io" where
  "refresh_selected server as_rows = io_read (\<lambda>w.
     if sc_selected (w_page w) = [] \<or> \<not> isAdmin (w_auth w) \<or> sc_batchBusy (w_page w) then io_return ()
     else refreshBatch server as_rows (Some (sc_selected (w_page w))))"

definition refresh_everything :: "'b server \<Rightarrow> (jsval \<Rightarrow> node_score list) \<Rightarrow> (('b, scores_page) world, unit) io" where
  "refresh_everything server as_rows = io_read (\<lambda>w.
     if \<not> isAdmin (w_auth w) \<or> sc_batchBusy (w_page w) \<or> sc_rows (w_page w) = [] then io_return ()
     else refreshBatch server as_rows None)"

section \<open>What the table shows\<close>

definition BAND_KEY :: "score_band \<Rightarrow> string" where
  "BAND_KEY b = (case b of High \<Rightarrow> ''nodeScores.scoreHigh'' | Medium \<Rightarrow> ''nodeScores.scoreMedium''
     | Low \<Rightarrow> ''nodeScores.scoreLow'' | VeryLow \<Rightarrow> ''nodeScores.scoreVeryLow'')"

definition SCORE_STATUS_KEY :: "(string \<times> string) list" where
  "SCORE_STATUS_KEY = [(''pending'', ''nodeScores.statusPending''), (''checking'', ''nodeScores.statusTesting''),
     (''ok'', ''nodeScores.statusOk''), (''error'', ''nodeScores.statusFailed''), (''skipped'', ''nodeScores.statusSkipped'')]"

text \<open>\<open>STATUS_KEY[status] ?? 'nodeScores.statusPending'\<close>.\<close>

definition status_key :: "jstring \<Rightarrow> keyed" where
  "status_key s = (case table_get SCORE_STATUS_KEY s of Some k \<Rightarrow> k | None \<Rightarrow> Own (js ''nodeScores.statusPending''))"

datatype badge_variant = Default_Badge | Secondary_Badge | Outline_Badge | Destructive_Badge

definition statusVariant :: "jstring \<Rightarrow> badge_variant" where
  "statusVariant s = (if s = js ''ok'' then Outline_Badge else if s = js ''error'' then Destructive_Badge
     else if s = js ''checking'' then Default_Badge else Secondary_Badge)"

datatype colour = Emerald | Amber | Red | Muted

definition scoreColor :: "jsnum option \<Rightarrow> colour" where
  "scoreColor s = (case scoreBand s of Some High \<Rightarrow> Emerald | Some Medium \<Rightarrow> Amber | Some _ \<Rightarrow> Red | None \<Rightarrow> Muted)"

datatype type_badges = No_Flags | Unknown_Flags | Flags "string list"

definition TypeBadges :: "node_score \<Rightarrow> type_badges" where
  "TypeBadges r =
     (let flags = [(ns_is_residential r, ''nodeScores.residential''), (ns_is_datacenter r, ''nodeScores.datacenter''),
            (ns_is_vpn r, ''nodeScores.vpn''), (ns_is_proxy r, ''nodeScores.proxy''), (ns_is_tor r, ''nodeScores.tor'')];
          shown = filter (\<lambda>(v, k). v = Some True) flags
      in if shown = [] then (if list_all (\<lambda>(v, k). v \<noteq> None) flags then No_Flags else Unknown_Flags)
         else Flags (map snd shown))"

record score_row =
  sr_checked :: bool
  sr_name :: jstring
  sr_provider :: "jstring option"
  sr_exitIp :: "jstring option"
  sr_cidr :: "jstring option"
  sr_score :: "jsnum option"
  sr_colour :: colour
  sr_band :: "string option"
  sr_rangeBadge :: bool
  sr_mismatchBadge :: bool
  sr_types :: type_badges
  sr_country :: jstring
  sr_asn :: jstring
  sr_variant :: badge_variant
  sr_status :: keyed
  sr_checkedAt :: "jstring option"
  sr_nextDue :: "jstring option"
  sr_refresh :: bool
  sr_spinner :: bool

text \<open>A number is truthy when it is neither zero nor not a number.\<close>

definition row_asn :: "node_score \<Rightarrow> jstring" where
  "row_asn r = (case ns_asn r of Some n \<Rightarrow> if truthy (JNum n) then js ''AS'' @ num_str n else [8212] | None \<Rightarrow> [8212]) @
     (case nonempty (ns_asn_org r) of Some s \<Rightarrow> [32, 183, 32] @ s | None \<Rightarrow> [])"

definition row_country :: "node_score \<Rightarrow> jstring" where
  "row_country r =
     (let s = trim (join [32] [or_default (ns_country r) [],
            (case nonempty (ns_country_code r) of Some c \<Rightarrow> js ''('' @ c @ js '')'' | None \<Rightarrow> [])])
      in if s \<noteq> [] then s else [8212])"

text \<open>
  \<open>sr_provider\<close> is the provider's name of a provider node, empty when unknown; \<open>sr_refresh\<close> whether
  the row's refresh button is enabled. An absent text is replaced by the page with a fixed one.
\<close>

definition score_row :: "date_env \<Rightarrow> jstring \<Rightarrow> auth_state \<Rightarrow> scores_page \<Rightarrow> node_score \<Rightarrow> score_row" where
  "score_row env locale_tag a p r =
     (let view = toNodeScoreView env r
      in \<lparr>sr_checked = (ns_id r \<in> set (sc_selected p)), sr_name = ns_node_name r,
          sr_provider = (if v_kind view = Provider then Some (v_providerName view) else None),
          sr_exitIp = v_exitIp view, sr_cidr = nonempty (v_exitIpCidr view), sr_score = v_score view,
          sr_colour = scoreColor (v_score view), sr_band = map_option BAND_KEY (scoreBand (v_score view)),
          sr_rangeBadge = v_rangeOnly view, sr_mismatchBadge = v_ipMismatch view, sr_types = TypeBadges r,
          sr_country = row_country r, sr_asn = row_asn r, sr_variant = statusVariant (ns_status r),
          sr_status = status_key (ns_status r),
          sr_checkedAt = formatDateTime env (v_checkedAt view) locale_tag None,
          sr_nextDue = formatDateTime env (v_nextDue view) locale_tag None,
          sr_refresh = (isAdmin a \<and> \<not> sc_refreshing p (ns_id r)), sr_spinner = sc_refreshing p (ns_id r)\<rparr>)"

datatype scores_content = Scores_Loading | Scores_Error | Scores_Empty | Score_Rows bool "score_row list"

definition scores_content :: "date_env \<Rightarrow> (jstring \<Rightarrow> jstring) \<Rightarrow> jstring \<Rightarrow> auth_state \<Rightarrow> scores_page \<Rightarrow> scores_content" where
  "scores_content env lower locale_tag a p =
     (if sc_loading p then Scores_Loading else if sc_loadError p then Scores_Error
      else if filtered env lower p = [] then Scores_Empty
      else Score_Rows (allFilteredSelected env lower p) (map (score_row env locale_tag a p) (filtered env lower p)))"

text \<open>The detail dialog: the row, and whether its refresh is running.\<close>

definition setDetailId :: "jstring \<Rightarrow> scores_page \<Rightarrow> scores_page" where
  "setDetailId i p = p\<lparr>sc_detailId := Some i\<rparr>"

definition onDetailOpen :: "bool \<Rightarrow> scores_page \<Rightarrow> scores_page" where
  "onDetailOpen opened p = (if opened then p else p\<lparr>sc_detailId := None\<rparr>)"

definition detail_shown :: "scores_page \<Rightarrow> (node_score \<times> bool) option" where
  "detail_shown p = map_option (\<lambda>r. (r, sc_refreshing p (ns_id r))) (detailRow p)"

section \<open>Refreshing settles\<close>

lemma fetchScores_quiet:
  "wp (fetchScores server as_rows) (\<lambda>_ v. w_auth v = w_auth w \<and>
     w_toasts v \<in> {w_toasts w, w_toasts w @ [Failure (Key ''nodeScores.loadFailed'' [])]} \<and>
     map fst (w_sent v) = map fst (w_sent w) @ [nodeScoresApi_list] \<and>
     (\<exists>rows e. w_page v = (w_page w)\<lparr>sc_rows := rows, sc_loadError := e, sc_loading := False\<rparr>)) (\<lambda>_ _. False) w"
  by (auto simp: fetchScores_def split: sum.splits) (metis scores_page.surjective scores_page.update_convs(1))+

text \<open>
  Refreshing a batch of scores settles. Someone who is not an administrator sends nothing. For
  an administrator the page sends one request for exactly the batch; a refusal reports one failure
  and keeps the selection for another try, and an accepted batch reports how many were queued, drops
  the selection and loads the scores again. Either way the buttons are free again.
\<close>

theorem batch_settles:
  "\<exists>w'. refreshBatch server as_rows ids w = (Inr (), w') \<and>
     (if \<not> isAdmin (w_auth w) then w' = w
      else \<not> sc_batchBusy (w_page w') \<and>
        (case answered server (nodeScoresApi_refreshBatch ids) w of
           Inl _ \<Rightarrow> map fst (w_sent w') = map fst (w_sent w) @ [nodeScoresApi_refreshBatch ids] \<and>
             sc_selected (w_page w') = sc_selected (w_page w) \<and>
             w_toasts w' = w_toasts w @ [Failure (Key ''nodeScores.batchFailed'' [])]
         | Inr res \<Rightarrow> (case queued_toast res 0 of
             Inl _ \<Rightarrow> sc_selected (w_page w') = sc_selected (w_page w) \<and>
               w_toasts w' = w_toasts w @ [Failure (Key ''nodeScores.batchFailed'' [])]
           | Inr m \<Rightarrow> sc_selected (w_page w') = [] \<and>
               map fst (w_sent w') = map fst (w_sent w) @ [nodeScoresApi_refreshBatch ids, nodeScoresApi_list] \<and>
               w_toasts w' \<in> {w_toasts w @ [m], w_toasts w @ [m, Failure (Key ''nodeScores.loadFailed'' [])]})))"
proof (cases "isAdmin (w_auth w)")
  case False
  then show ?thesis by (simp add: refreshBatch_def io_read_def io_return_def)
next
  case True
  show ?thesis
    by (rule wp_total) (auto simp: refreshBatch_def True wp_if split: sum.splits intro!: wp_mono [OF fetchScores_quiet])
qed

lemma refreshOne_flags:
  "\<exists>w'. scores_refreshOne server as_rows i w = (Inr (), w') \<and>
     (isAdmin (w_auth w) \<longrightarrow> sc_refreshing (w_page w') = (sc_refreshing (w_page w))(i := False)) \<and>
     sc_selected (w_page w') = sc_selected (w_page w)"
proof (cases "isAdmin (w_auth w)")
  case False
  then show ?thesis by (simp add: scores_refreshOne_def io_read_def io_return_def)
next
  case True
  show ?thesis
    by (rule wp_total) (auto simp: scores_refreshOne_def True wp_if split: sum.splits intro!: wp_mono [OF fetchScores_quiet])
qed

section \<open>A selection\<close>

lemma filtered_selection [simp]: "filtered env lower (p\<lparr>sc_selected := ids\<rparr>) = filtered env lower p"
proof -
  have "score_row_matches env lower (p\<lparr>sc_selected := ids\<rparr>) = score_row_matches env lower p"
    by (rule ext) (simp add: score_row_matches_def)
  then show ?thesis by (simp add: filtered_def)
qed

text \<open>
  What can happen on the page, from any page without a selection: a box of a row or of the head is
  ticked or cleared, the scores are loaded, the search or a filter changes, a row's detail opens or
  closes, and a row, the selection or everything is refreshed. \<open>seen\<close> are the ids of the rows shown
  when a box was clicked.
\<close>

definition on_page :: "('p \<Rightarrow> 'p) \<Rightarrow> ('b, 'p) world \<Rightarrow> ('b, 'p) world" where
  "on_page f w = w\<lparr>w_page := f (w_page w)\<rparr>"

lemma on_page_fields [simp]:
  "w_page (on_page f w) = f (w_page w)" "w_auth (on_page f w) = w_auth w" "w_sent (on_page f w) = w_sent w"
  by (simp_all add: on_page_def)

inductive selecting :: "date_env \<Rightarrow> (jstring \<Rightarrow> jstring) \<Rightarrow> 'b server \<Rightarrow> (jsval \<Rightarrow> node_score list) \<Rightarrow>
    jstring set \<Rightarrow> ('b, scores_page) world \<Rightarrow> bool" for env lower server as_rows where
  fresh: "sc_selected (w_page w) = [] \<Longrightarrow> selecting env lower server as_rows {} w"
| all: "selecting env lower server as_rows seen w \<Longrightarrow>
     selecting env lower server as_rows (seen \<union> ns_id ` set (filtered env lower (w_page w)))
       (on_page (toggleAll env lower b) w)"
| one: "selecting env lower server as_rows seen w \<Longrightarrow> r \<in> set (filtered env lower (w_page w)) \<Longrightarrow>
     selecting env lower server as_rows (insert (ns_id r) seen) (on_page (toggleOne (ns_id r) b) w)"
| load: "selecting env lower server as_rows seen w \<Longrightarrow>
     selecting env lower server as_rows seen (snd (fetchScores server as_rows w))"
| search: "selecting env lower server as_rows seen w \<Longrightarrow>
     selecting env lower server as_rows seen (on_page (scores_setSearch s) w)"
| kind: "selecting env lower server as_rows seen w \<Longrightarrow>
     selecting env lower server as_rows seen (on_page (scores_setKindFilter s) w)"
| status: "selecting env lower server as_rows seen w \<Longrightarrow>
     selecting env lower server as_rows seen (on_page (scores_setStatusFilter s) w)"
| detail: "selecting env lower server as_rows seen w \<Longrightarrow> r \<in> set (filtered env lower (w_page w)) \<Longrightarrow>
     selecting env lower server as_rows seen (on_page (setDetailId (ns_id r)) w)"
| detail_open: "selecting env lower server as_rows seen w \<Longrightarrow>
     selecting env lower server as_rows seen (on_page (onDetailOpen b) w)"
| refresh: "selecting env lower server as_rows seen w \<Longrightarrow>
     selecting env lower server as_rows seen (snd (scores_refreshOne server as_rows i w))"
| refresh_selection: "selecting env lower server as_rows seen w \<Longrightarrow>
     selecting env lower server as_rows seen (snd (refresh_selected server as_rows w))"
| refresh_all: "selecting env lower server as_rows seen w \<Longrightarrow>
     selecting env lower server as_rows seen (snd (refresh_everything server as_rows w))"

lemma fetchScores_run:
  "\<exists>w'. fetchScores server as_rows w = (Inr (), w') \<and> w_auth w' = w_auth w \<and>
     map fst (w_sent w') = map fst (w_sent w) @ [nodeScoresApi_list] \<and>
     sc_selected (w_page w') = sc_selected (w_page w) \<and> sc_batchBusy (w_page w') = sc_batchBusy (w_page w)"
  by (rule wp_total) (rule wp_mono [OF fetchScores_quiet], auto)

lemma refreshBatch_selection:
  "\<exists>w'. refreshBatch server as_rows ids w = (Inr (), w') \<and> sc_selected (w_page w') \<in> {sc_selected (w_page w), []} \<and>
     (isAdmin (w_auth w) \<longrightarrow> map fst (w_sent w') = map fst (w_sent w) @ nodeScoresApi_refreshBatch ids #
        (case answered server (nodeScoresApi_refreshBatch ids) w of
           Inl _ \<Rightarrow> [] | Inr res \<Rightarrow> (case queued_toast res 0 of Inl _ \<Rightarrow> [] | Inr _ \<Rightarrow> [nodeScoresApi_list])))"
proof (cases "isAdmin (w_auth w)")
  case False
  then show ?thesis by (simp add: refreshBatch_def io_read_def io_return_def)
next
  case True
  show ?thesis
    by (rule wp_total) (auto simp: refreshBatch_def True wp_if split: sum.splits intro!: wp_mono [OF fetchScores_quiet])
qed

lemma selecting_seen:
  "selecting env lower server as_rows seen w \<Longrightarrow> distinct (sc_selected (w_page w)) \<and> set (sc_selected (w_page w)) \<subseteq> seen"
proof (induction rule: selecting.induct)
  case (load seen w)
  then show ?case using fetchScores_run [of server as_rows w] by auto
next
  case (refresh seen w i)
  then show ?case using refreshOne_flags [of server as_rows i w] by auto
next
  case (refresh_selection seen w)
  then show ?case using refreshBatch_selection [of server as_rows "Some (sc_selected (w_page w))" w]
    by (auto simp: refresh_selected_def io_read_def io_return_def)
next
  case (refresh_all seen w)
  then show ?case using refreshBatch_selection [of server as_rows None w]
    by (auto simp: refresh_everything_def io_read_def io_return_def)
qed (auto simp: toggleAll_def toggleOne_def set_of_list_def distinct_removeAll scores_setSearch_def
    scores_setKindFilter_def scores_setStatusFilter_def setDetailId_def onDetailOpen_def intro: distinct_fold_set_add)

text \<open>
  C31: Refreshing the selection asks for exactly the ids that are ticked, each once, and each of them
  was the id of a row shown when a box was clicked. The button sends this one request, followed by a
  load of the scores exactly when the backend accepts it. What a later load removes or a filter hides
  stays selected and is asked for too: after any change of the search and the filters and any load the
  same ids are sent. Ticking the box of the head selects exactly the rows shown, also dropping those
  that a filter hides.
\<close>

theorem selection_sent:
  assumes "selecting env lower server as_rows seen w" "isAdmin (w_auth w)" "sc_selected (w_page w) \<noteq> []" "\<not> sc_batchBusy (w_page w)"
  shows "distinct (sc_selected (w_page w)) \<and> set (sc_selected (w_page w)) \<subseteq> seen \<and>
    (let rq = nodeScoresApi_refreshBatch (Some (sc_selected (w_page w)));
         reload = (\<lambda>v. case answered server rq v of
           Inl _ \<Rightarrow> [] | Inr res \<Rightarrow> (case queued_toast res 0 of Inl _ \<Rightarrow> [] | Inr _ \<Rightarrow> [nodeScoresApi_list]))
     in (\<exists>w'. refresh_selected server as_rows w = (Inr (), w') \<and>
          map fst (w_sent w') = map fst (w_sent w) @ rq # reload w) \<and>
        (\<forall>s k f. let v = snd (fetchScores server as_rows
             (on_page (scores_setStatusFilter f) (on_page (scores_setKindFilter k) (on_page (scores_setSearch s) w))))
           in sc_selected (w_page v) = sc_selected (w_page w) \<and>
              (\<exists>v'. refresh_selected server as_rows v = (Inr (), v') \<and>
                 map fst (w_sent v') = map fst (w_sent w) @ nodeScoresApi_list # rq # reload v))) \<and>
    set (sc_selected (toggleAll env lower True (w_page w))) = ns_id ` set (filtered env lower (w_page w)) \<and>
    (filtered env lower (w_page w) \<noteq> [] \<longrightarrow> allFilteredSelected env lower (toggleAll env lower True (w_page w)))"
proof -
  define ids where "ids = sc_selected (w_page w)"
  define rq where "rq = nodeScoresApi_refreshBatch (Some ids)"
  define reload where "reload v = (case answered server rq v of
      Inl _ \<Rightarrow> [] | Inr res \<Rightarrow> (case queued_toast res 0 of Inl _ \<Rightarrow> [] | Inr _ \<Rightarrow> [nodeScoresApi_list]))"
    for v :: "('a, scores_page) world"
  have send: "\<exists>v'. refresh_selected server as_rows v = (Inr (), v') \<and> map fst (w_sent v') = map fst (w_sent v) @ rq # reload v"
    if "sc_selected (w_page v) = ids" "isAdmin (w_auth v)" "\<not> sc_batchBusy (w_page v)" for v
    using refreshBatch_selection [of server as_rows "Some ids" v] that assms(3)
    by (auto simp: refresh_selected_def io_read_def ids_def [symmetric] rq_def reload_def)
  have later: "let v = snd (fetchScores server as_rows
       (on_page (scores_setStatusFilter f) (on_page (scores_setKindFilter k) (on_page (scores_setSearch s) w))))
     in sc_selected (w_page v) = ids \<and> (\<exists>v'. refresh_selected server as_rows v = (Inr (), v') \<and>
          map fst (w_sent v') = map fst (w_sent w) @ nodeScoresApi_list # rq # reload v)" for s k f
  proof -
    let ?u = "on_page (scores_setStatusFilter f) (on_page (scores_setKindFilter k) (on_page (scores_setSearch s) w))"
    obtain v where v: "fetchScores server as_rows ?u = (Inr (), v)" "w_auth v = w_auth w"
      "map fst (w_sent v) = map fst (w_sent w) @ [nodeScoresApi_list]" "sc_selected (w_page v) = ids"
      "sc_batchBusy (w_page v) = sc_batchBusy (w_page w)"
      using fetchScores_run [of server as_rows ?u]
      by (auto simp: scores_setSearch_def scores_setKindFilter_def scores_setStatusFilter_def ids_def)
    then show ?thesis using send [of v] assms(2,4) by (simp add: Let_def)
  qed
  have "set (sc_selected (toggleAll env lower True (w_page w))) = ns_id ` set (filtered env lower (w_page w))"
    "filtered env lower (w_page w) \<noteq> [] \<longrightarrow> allFilteredSelected env lower (toggleAll env lower True (w_page w))"
    by (auto simp: toggleAll_def allFilteredSelected_def list_all_iff)
  then show ?thesis using selecting_seen [OF assms(1)] send [of w] later assms(2,4)
    unfolding Let_def ids_def [symmetric] rq_def [symmetric] reload_def [symmetric] by blast
qed

text \<open>An administrator's page with one row, whose box is ticked before a load takes the row away.\<close>

definition ticked :: "(unit, scores_page) world" where
  "ticked = snd (fetchScores (steady []) (\<lambda>_. []) (on_page (toggleOne (ns_id sample_row) True)
     ((fresh (initial_scores_page\<lparr>sc_rows := [sample_row]\<rparr>))\<lparr>w_auth := w_auth admin_world\<rparr>)))"

lemma ticked_selecting:
  "selecting (sample_env None) lower_ascii (steady []) (\<lambda>_. []) {ns_id sample_row} ticked"
proof -
  let ?w = "(fresh (initial_scores_page\<lparr>sc_rows := [sample_row]\<rparr>))\<lparr>w_auth := w_auth admin_world\<rparr> :: (unit, scores_page) world"
  have "selecting (sample_env None) lower_ascii (steady []) (\<lambda>_. []) {} ?w"
    by (rule selecting.fresh) (simp add: initial_scores_page_def)
  moreover have "sample_row \<in> set (filtered (sample_env None) lower_ascii (w_page ?w))"
    by (simp add: filtered_def score_row_matches_def initial_scores_page_def lower_ascii_def)
  ultimately show ?thesis unfolding ticked_def by (intro selecting.load selecting.one)
qed

lemma ticked_page:
  "sc_rows (w_page ticked) = [] \<and> sc_selected (w_page ticked) = [js ''n1''] \<and> \<not> sc_batchBusy (w_page ticked) \<and>
   isAdmin (w_auth ticked)"
proof -
  let ?w = "on_page (toggleOne (ns_id sample_row) True)
    ((fresh (initial_scores_page\<lparr>sc_rows := [sample_row]\<rparr>))\<lparr>w_auth := w_auth admin_world\<rparr>) :: (unit, scores_page) world"
  have "answered (steady []) nodeScoresApi_list ?w = Inr (JObj [(js ''data'', JArr [])])"
    by (simp add: answered_def api_def steady_def)
  then have "wp (fetchScores (steady []) (\<lambda>_. [])) (\<lambda>_ v. sc_rows (w_page v) = [] \<and> sc_selected (w_page v) = [js ''n1''] \<and>
      \<not> sc_batchBusy (w_page v) \<and> isAdmin (w_auth v)) (\<lambda>_ _. False) ?w"
    by (simp add: fetchScores_def isAdmin_def admin_world_def js_def toggleOne_def initial_scores_page_def set_add_def sample_row_def)
  then show ?thesis unfolding ticked_def by (auto simp: wp_def split: prod.splits sum.splits)
qed

theorem selection_sent_witness:
  "sc_rows (w_page ticked) = [] \<and>
   (\<exists>w' more. refresh_selected (steady []) (\<lambda>_. []) ticked = (Inr (), w') \<and>
     map fst (w_sent w') = map fst (w_sent ticked) @ nodeScoresApi_refreshBatch (Some [js ''n1'']) # more)"
  using selection_sent [OF ticked_selecting] ticked_page by (auto simp: Let_def)

section \<open>Badges and filters\<close>

text \<open>
  Where the badge of a row contradicts the filter. The filter and the detail dialog read a row's
  status through \<open>normalizeScoreStatus\<close>, the badge reads it as it is; they agree exactly when the
  status is neither \<open>testing\<close> nor \<open>failed\<close> nor a name every object inherits. A row that is being
  tested is listed under \<open>checking\<close> with a badge that says it is pending.
\<close>

theorem status_badge_agrees:
  "status_key (ns_status r) = status_key (js (status_text (v_status (toNodeScoreView env r)))) \<longleftrightarrow>
   ns_status r \<notin> insert (js ''testing'') (insert (js ''failed'') (set prototype_keys))"
proof (cases "ns_status r \<in> js ` {''testing'', ''failed'', ''checking'', ''ok'', ''error'', ''skipped'', ''pending''}")
  case True
  then show ?thesis
    by (auto simp: status_key_def table_get_js SCORE_STATUS_KEY_def toNodeScoreView_def normalizeScoreStatus_def
        status_text_def prototype_keys_def)
next
  case False
  then have "status_key (ns_status r) = (if ns_status r \<in> set prototype_keys then Inherited (ns_status r)
      else Own (js ''nodeScores.statusPending''))"
    by (simp add: status_key_def table_get_def SCORE_STATUS_KEY_def)
  moreover have "v_status (toNodeScoreView env r) = Pending" using False by (simp add: toNodeScoreView_def normalizeScoreStatus_def)
  moreover have "status_key (js (status_text Pending)) = Own (js ''nodeScores.statusPending'')"
    by (simp add: status_key_def table_get_js SCORE_STATUS_KEY_def status_text_def)
  ultimately show ?thesis using False by auto
qed

section \<open>Reloading\<close>

text \<open>A load that fails again after a failed one changes nothing, so only the others make React render again.\<close>

definition scores_load :: "'b server \<Rightarrow> (jsval \<Rightarrow> node_score list) \<Rightarrow> ('b, scores_page) world \<Rightarrow> ('b, scores_page) world \<times> bool" where
  "scores_load server as_rows w =
     (let w' = snd (fetchScores server as_rows w)
      in (w', w_toasts w' = w_toasts w \<or> sc_loading (w_page w) \<or> \<not> sc_loadError (w_page w)))"

lemma fetchScores_healthy:
  assumes "healthy [nodeScoresApi_list] [] server w"
  shows "wp (fetchScores server as_rows) (\<lambda>_ v. w_toasts v = w_toasts w \<and> length (w_sent v) = length (w_sent w) + 1 \<and>
    w_storage v = w_storage w) (\<lambda>_ _. False) w"
proof -
  have "gives server (authHeader (w_storage w)) is_list nodeScoresApi_list" using assms by (simp add: healthy_def)
  then obtain kvs xs where "answered server nodeScoresApi_list w = Inr (JObj kvs)" "prop_of kvs ''data'' = JArr xs"
    "w_storage (called server nodeScoresApi_list w) = w_storage w" using answered_list by blast
  then show ?thesis by (simp add: fetchScores_def)
qed

lemma scores_load_healthy:
  assumes "healthy [nodeScoresApi_list] [] server w"
  shows "snd (scores_load server as_rows w)" "length (w_sent (fst (scores_load server as_rows w))) = length (w_sent w) + 1"
    "healthy [nodeScoresApi_list] [] server (fst (scores_load server as_rows w))"
  using fetchScores_healthy [OF assms, of as_rows] assms
  by (auto simp: scores_load_def wp_def Let_def healthy_def split: prod.splits sum.splits)

interpretation scores_loop: effect_loop "scores_load server as_rows" "\<lambda>w. length (w_sent w)" 1
    "healthy [nodeScoresApi_list] [] server"
  for server as_rows
  by unfold_locales (simp_all add: scores_load_healthy)

text \<open>The node-score page never comes to rest either while the backend answers: its callback depends on \<open>t\<close>.\<close>

lemma scores_page_never_rests:
  "healthy [nodeScoresApi_list] [] server w \<Longrightarrow> \<not> at_rest (turns (scores_load server as_rows) n w) \<and>
    length (w_sent (fst (turns (scores_load server as_rows) n w))) = length (w_sent w) + 1 * n"
  by (rule scores_loop.never_rests)

end
