(* ===== verification/Score_Detail.thy ===== *)
theory Score_Detail
  imports Scores_Page
begin

text \<open>
  \<open>components/node-scores/node-score-detail.tsx\<close>: the dialog that shows one score with the facts of
  its two sources. The lemmas show that the two cards never mix their sources, that a missing score
  is never a number, and when building the dialog raises.
\<close>

section \<open>Texts\<close>

definition MATCH_KEY :: "ip_match \<Rightarrow> string" where
  "MATCH_KEY m = (case m of Exact \<Rightarrow> ''nodeScores.matchExact'' | Cidr \<Rightarrow> ''nodeScores.matchCidr''
     | Mismatch \<Rightarrow> ''nodeScores.matchMismatch'' | UnknownMatch \<Rightarrow> ''nodeScores.matchUnknown'')"

definition VIEW_STATUS_KEY :: "score_status \<Rightarrow> string" where
  "VIEW_STATUS_KEY s = (case s of Pending \<Rightarrow> ''nodeScores.statusPending'' | Checking \<Rightarrow> ''nodeScores.statusTesting''
     | Ok \<Rightarrow> ''nodeScores.statusOk'' | Failed \<Rightarrow> ''nodeScores.statusFailed'' | Skipped \<Rightarrow> ''nodeScores.statusSkipped'')"

definition EXIT_SOURCE_KEY :: "(string \<times> string) list" where
  "EXIT_SOURCE_KEY = [(''claude-trace'', ''nodeScores.exitSourceClaude''),
     (''cloudflare-trace'', ''nodeScores.exitSourceCloudflare'')]"

definition matchClass :: "ip_match \<Rightarrow> colour" where
  "matchClass m = (case m of Exact \<Rightarrow> Emerald | Cidr \<Rightarrow> Amber | Mismatch \<Rightarrow> Red | UnknownMatch \<Rightarrow> Muted)"

definition scoreClass :: "jsnum option \<Rightarrow> score_band option \<Rightarrow> colour" where
  "scoreClass score band = (case score of
     None \<Rightarrow> Muted
   | Some _ \<Rightarrow> if band = Some High then Emerald else if band = Some Medium then Amber else Red)"

definition boolText :: "bool option \<Rightarrow> message" where
  "boolText v = (case v of None \<Rightarrow> Key ''common.unknown'' []
     | Some b \<Rightarrow> if b then Key ''common.yes'' [] else Key ''common.no'' [])"

definition fact :: "jsval \<Rightarrow> jstring" where
  "fact v = (if v = Null \<or> v = JStr [] then [8212] else to_str v)"

text \<open>The facts of a source: a label and its text.\<close>

definition IntelFacts :: "ip_intel \<Rightarrow> (string \<times> message) list" where
  "IntelFacts i =
     [(''nodeScores.country'', Raw (fact (js_str_opt (ii_country i)) @
         (case nonempty (ii_countryCode i) of Some c \<Rightarrow> js '' ('' @ c @ js '')'' | None \<Rightarrow> []))),
      (''nodeScores.asn'', Raw (fact (js_num_opt (ii_asn i)))),
      (''nodeScores.asnOrg'', Raw (fact (js_str_opt (ii_asnOrg i)))),
      (''nodeScores.companyType'', Raw (fact (js_str_opt (ii_companyType i)))),
      (''nodeScores.residential'', boolText (ii_isResidential i)),
      (''nodeScores.datacenter'', boolText (ii_isDatacenter i)),
      (''nodeScores.vpn'', boolText (ii_isVpn i)),
      (''nodeScores.proxy'', boolText (ii_isProxy i)),
      (''nodeScores.tor'', boolText (ii_isTor i))] @
     (if ii_isMobile i \<noteq> None then [(''nodeScores.mobile'', boolText (ii_isMobile i))] else []) @
     (if ii_isCrawler i \<noteq> None then [(''nodeScores.crawler'', boolText (ii_isCrawler i))] else []) @
     (case nonempty (ii_abuserScore i) of Some s \<Rightarrow> [(''nodeScores.abuserScore'', Raw s)] | None \<Rightarrow> [])"

section \<open>The cards\<close>

record source_header =
  sh_title :: string
  sh_score :: message
  sh_colour :: colour
  sh_band :: "string option"
  sh_match :: string
  sh_matchColour :: colour
  sh_link :: "jstring option"

definition score_text :: "jsnum option \<Rightarrow> message" where
  "score_text s = (case s of None \<Rightarrow> Key ''nodeScores.scoreMissing'' [] | Some n \<Rightarrow> Raw (num_str n))"

definition SourceHeader :: "string \<Rightarrow> jsnum option \<Rightarrow> ip_match \<Rightarrow> jstring option \<Rightarrow> source_header" where
  "SourceHeader title score match sourceUrl =
     \<lparr>sh_title = title, sh_score = score_text score, sh_colour = scoreClass score (scoreBand score),
      sh_band = map_option BAND_KEY (scoreBand score), sh_match = MATCH_KEY match, sh_matchColour = matchClass match,
      sh_link = nonempty sourceUrl\<rparr>"

record source_card =
  cd_header :: source_header
  cd_query :: jstring
  cd_answer :: jstring
  cd_cidr :: "jstring option"
  cd_hint :: "string option"
  cd_verdict :: "(jstring \<times> jstring option) option"
  cd_facts :: "(string \<times> message) list option"
  cd_sources :: "jstring option"

text \<open>Without \<open>cd_facts\<close> the card says that the source is idle; without a lookup source there is only a header.\<close>

datatype lookup_card = Stored source_card | Not_Stored source_header

definition source_names :: "ip_intel \<Rightarrow> jstring option" where
  "source_names i = (if ii_sources i \<noteq> [] then Some (join (js '', '') (ii_sources i)) else None)"

definition claude_score :: "node_score_view \<Rightarrow> jsnum option" where
  "claude_score v = nullish (v_score v) (Option.bind (source_of Claude (v_sources v)) si_trustScore)"

definition ClaudeSource :: "node_score_view \<Rightarrow> source_card" where
  "ClaudeSource v =
     (let source = source_of Claude (v_sources v); intel = map_option si_intel source
      in \<lparr>cd_header = SourceHeader ''nodeScores.claudeSource'' (claude_score v) (v_ipMatch v) None,
          cd_query = fact (js_str_opt (v_queriedIp v)),
          cd_answer = fact (js_str_opt (nullish (v_matchedIp v) (Option.bind source si_responseIp))),
          cd_cidr = nonempty (Option.bind source si_cidr),
          cd_hint = (if v_ipMismatch v then Some ''nodeScores.ipMismatchHint''
            else if v_rangeOnly v then Some ''nodeScores.cidrHint'' else None),
          cd_verdict = None, cd_facts = map_option IntelFacts intel, cd_sources = Option.bind intel source_names\<rparr>)"

definition LookupSource :: "node_score_view \<Rightarrow> lookup_card" where
  "LookupSource v = (case source_of Lookup (v_sources v) of
     None \<Rightarrow> Not_Stored (SourceHeader ''nodeScores.lookupSource'' None UnknownMatch None)
   | Some s \<Rightarrow> Stored
       \<lparr>cd_header = SourceHeader ''nodeScores.lookupSource'' (si_trustScore s) (si_ipMatch s) None,
        cd_query = fact (js_str_opt (si_queryIp s)), cd_answer = fact (js_str_opt (si_responseIp s)),
        cd_cidr = nonempty (si_cidr s),
        cd_hint = (if si_ipMatch s = Mismatch then Some ''nodeScores.ipMismatchHint''
          else if si_ipMatch s = Cidr then Some ''nodeScores.cidrHint'' else None),
        cd_verdict = map_option (\<lambda>l. (l, nonempty (ii_aiVerdictReason (si_intel s)))) (nonempty (ii_aiVerdictLabel (si_intel s))),
        cd_facts = Some (IntelFacts (si_intel s)), cd_sources = source_names (si_intel s)\<rparr>)"

section \<open>The dialog\<close>

datatype exit_source = Known_Source keyed | Other_Source jstring | No_Source

record score_detail =
  dt_match :: string
  dt_matchColour :: colour
  dt_status :: string
  dt_nodeName :: jstring
  dt_provider :: "jstring option"
  dt_sources :: "jstring option"
  dt_exitIp :: "jstring option"
  dt_exitIpCidr :: "jstring option"
  dt_exitSource :: exit_source
  dt_claude :: source_card
  dt_lookup :: lookup_card
  dt_checkedAt :: "jstring option"
  dt_lastSuccess :: "jstring option"
  dt_nextRefresh :: "jstring option"
  dt_error :: "(jstring \<times> jstring option) option"
  dt_scoreUrl :: jstring
  dt_detailUrl :: "jstring option"
  dt_refresh :: bool
  dt_refreshing :: bool

definition exit_source :: "node_score \<Rightarrow> exit_source" where
  "exit_source r =
     (if ns_exit_ip_source r = [] then No_Source
      else case table_get EXIT_SOURCE_KEY (ns_exit_ip_source r) of
        Some k \<Rightarrow> Known_Source k | None \<Rightarrow> Other_Source (ns_exit_ip_source r))"

definition detail_url :: "node_score \<Rightarrow> jstring option \<Rightarrow> jstring result" where
  "detail_url r exitIp =
     (if ns_detail_url r \<noteq> [] then Inr (ns_detail_url r)
      else case exitIp of
        Some ip \<Rightarrow> map_result (\<lambda>e. js ''https://ip.net.coffee/ip/'' @ e) (encode_uri_component ip) | None \<Rightarrow> Inr [])"

definition NodeScoreDetail :: "date_env \<Rightarrow> jstring \<Rightarrow> bool \<Rightarrow> bool \<Rightarrow> node_score \<Rightarrow> score_detail result" where
  "NodeScoreDetail env locale_tag admin refreshing r =
     (let v = toNodeScoreView env r in
      map_result (\<lambda>url.
        \<lparr>dt_match = MATCH_KEY (v_ipMatch v), dt_matchColour = matchClass (v_ipMatch v),
         dt_status = VIEW_STATUS_KEY (v_status v), dt_nodeName = v_nodeName v,
         dt_provider = (if v_kind v = Provider then Some (v_providerName v) else None),
         dt_sources = (case ns_sources r of Some (x # xs) \<Rightarrow> Some (join (js '', '') (x # xs)) | _ \<Rightarrow> None),
         dt_exitIp = v_exitIp v, dt_exitIpCidr = nonempty (v_exitIpCidr v), dt_exitSource = exit_source r,
         dt_claude = ClaudeSource v, dt_lookup = LookupSource v,
         dt_checkedAt = formatApiDateTime env (v_checkedAt v) locale_tag None,
         dt_lastSuccess = formatApiDateTime env (v_lastSuccessAt v) locale_tag None,
         dt_nextRefresh = formatApiDateTime env (v_nextDue v) locale_tag None,
         dt_error = (if v_error v \<noteq> [] then Some (v_error v, nonempty (Some (v_errorCode v))) else None),
         dt_scoreUrl = (if ns_score_url r \<noteq> [] then ns_score_url r else js ''https://ip.net.coffee/claude/''),
         dt_detailUrl = nonempty (Some url), dt_refresh = (admin \<and> \<not> refreshing), dt_refreshing = refreshing\<rparr>)
      (detail_url r (v_exitIp v)))"

section \<open>What the cards show\<close>

lemma source_of_source: "source_of k xs = Some s \<Longrightarrow> si_source s = k"
  by (induction xs) (auto split: if_splits)

lemma source_of_map:
  "(\<And>s. si_source (f s) = si_source s) \<Longrightarrow> source_of k (map f xs) = map_option f (source_of k xs)"
  by (induction xs) auto

definition payload :: "node_score \<Rightarrow> source_intel list" where
  "payload r = parseScoreSources (ns_ip_info r) (if ns_range_only r then JStr (js ''cidr'') else Undef)"

lemma claude_of_view:
  "source_of Claude (view_sources r) = Some
     (case source_of Claude (payload r) of
        Some s \<Rightarrow> s\<lparr>si_intel := mergeRowIntel (si_intel s) r\<rparr>
      | None \<Rightarrow> syntheticClaudeSource r (map_option si_ipMatch (source_of Lookup (payload r))))"
  using source_of_source [of Claude "payload r"]
  by (auto simp: view_sources_def payload_def Let_def source_of_map split: option.splits)

lemma lookup_of_view: "source_of Lookup (view_sources r) = source_of Lookup (payload r)"
proof -
  have "source_of Lookup (map (\<lambda>s. if si_source s = Claude then s\<lparr>si_intel := mergeRowIntel (si_intel s) r\<rparr> else s) xs) =
      source_of Lookup xs" for xs
    by (induction xs) auto
  then show ?thesis by (simp add: view_sources_def payload_def Let_def split: option.splits)
qed

lemma synthetic_score: "si_trustScore (syntheticClaudeSource r m) = finite_score (ns_trust_score r)"
  by (simp add: syntheticClaudeSource_def Let_def)

lemma view_fields [simp]:
  "v_sources (toNodeScoreView env r) = view_sources r" "v_score (toNodeScoreView env r) = finite_score (ns_trust_score r)"
  by (simp_all add: toNodeScoreView_def)

text \<open>
  The two cards of the dialog never mix their sources. The Claude card always has facts, so the
  text for an idle source is never shown; its score is the row's own and only without one that of
  the payload's Claude source. The lookup card shows the payload's lookup source with that source's
  score and match, and without one it says so, with no score; a missing score is never a number.
\<close>

theorem detail_cards:
  "cd_facts (ClaudeSource (toNodeScoreView env r)) \<noteq> None \<and>
   sh_score (cd_header (ClaudeSource (toNodeScoreView env r))) = score_text
     (nullish (finite_score (ns_trust_score r)) (Option.bind (source_of Claude (payload r)) si_trustScore)) \<and>
   (case source_of Lookup (payload r) of
      None \<Rightarrow> (\<exists>h. LookupSource (toNodeScoreView env r) = Not_Stored h \<and> sh_score h = Key ''nodeScores.scoreMissing'' [])
    | Some s \<Rightarrow> (\<exists>c. LookupSource (toNodeScoreView env r) = Stored c \<and> cd_facts c = Some (IntelFacts (si_intel s)) \<and>
        sh_score (cd_header c) = score_text (si_trustScore s) \<and> sh_match (cd_header c) = MATCH_KEY (si_ipMatch s)))"
  by (auto simp: ClaudeSource_def LookupSource_def SourceHeader_def claude_score_def claude_of_view lookup_of_view
      synthetic_score Let_def score_text_def split: option.splits)

text \<open>
  When building the dialog raises. It raises a \<open>URIError\<close> exactly when the row has no detail
  address of its own and its exit address has a lone surrogate; otherwise it shows the row, and the
  link it offers is the row's own or one whose last segment decodes to the exit address.
\<close>

theorem detail_raises:
  assumes "wf_js (ns_exit_ip r)"
  shows "(\<forall>e. NodeScoreDetail env tag admin busy r = Inl e \<longleftrightarrow>
      e = URIError \<and> ns_detail_url r = [] \<and> code_points (ns_exit_ip r) = None) \<and>
   (\<forall>d. NodeScoreDetail env tag admin busy r = Inr d \<longrightarrow> dt_nodeName d = ns_node_name r \<and>
      (if ns_detail_url r \<noteq> [] then dt_detailUrl d = Some (ns_detail_url r)
       else if ns_exit_ip r = [] then dt_detailUrl d = None
       else \<exists>seg. dt_detailUrl d = Some (js ''https://ip.net.coffee/ip/'' @ seg) \<and>
         decode_uri_component seg = Inr (ns_exit_ip r)))"
proof -
  have ip: "v_exitIp (toNodeScoreView env r) = nonempty (Some (ns_exit_ip r))"
    and name: "v_nodeName (toNodeScoreView env r) = ns_node_name r"
    by (simp_all add: toNodeScoreView_def)
  have url: "detail_url r (nonempty (Some (ns_exit_ip r))) = Inl e \<longleftrightarrow>
      e = URIError \<and> ns_detail_url r = [] \<and> code_points (ns_exit_ip r) = None" for e
    by (cases "ns_exit_ip r = []") (auto simp: detail_url_def encode_error_iff)
  have decodes: "encode_uri_component (ns_exit_ip r) = Inr e \<Longrightarrow> decode_uri_component e = Inr (ns_exit_ip r)" for e
    using decode_encode assms by blast
  show ?thesis
    by (simp add: NodeScoreDetail_def Let_def ip url name)
      (auto simp: detail_url_def name dest: decodes split: if_splits option.splits)
qed

theorem detail_raises_witness:
  "NodeScoreDetail (sample_env None) [] True False (sample_row\<lparr>ns_exit_ip := [55296]\<rparr>) = Inl URIError"
  using detail_raises [of "sample_row\<lparr>ns_exit_ip := [55296]\<rparr>" "sample_env None" "[]" True False]
  by (simp add: sample_row_def wf_js_def is_high_def is_low_def)

end
