(* ===== verification/Subscription_Card.thy ===== *)
theory Subscription_Card
  imports Subscriptions_Page Json
begin

text \<open>
  \<open>components/subscriptions/subscription-card.tsx\<close>: what the card of one subscription shows. The
  lemmas show that its meter stays in its frame and is full and red exactly when the quota is used
  up, which hints appear together, and that the reset time reads back.
\<close>

section \<open>Tables and colours\<close>

definition CARD_STATUS_KEY :: "(string \<times> string) list" where
  "CARD_STATUS_KEY = [(''ok'', ''subscriptions.statusOk''), (''stale'', ''subscriptions.statusStale''),
     (''error'', ''subscriptions.statusError''), (''disabled'', ''subscriptions.statusDisabled''),
     (''local'', ''subscriptions.statusLocal'')]"

definition SOURCE_KEY :: "(string \<times> string) list" where
  "SOURCE_KEY = [(''vendor'', ''subscriptions.sourceVendor''), (''local'', ''subscriptions.sourceLocal''),
     (''manual'', ''subscriptions.sourceManual''), (''none'', ''subscriptions.sourceNone'')]"

definition EXPIRY_SOURCE_KEY :: "(string \<times> string) list" where
  "EXPIRY_SOURCE_KEY = [(''vendor'', ''subscriptions.expirySourceVendor''),
     (''manual'', ''subscriptions.expirySourceManual''), (''unknown'', ''subscriptions.expirySourceUnknown'')]"

definition key_or :: "(string \<times> string) list \<Rightarrow> jstring \<Rightarrow> string \<Rightarrow> keyed" where
  "key_or table k d = (case table_get table k of Some x \<Rightarrow> x | None \<Rightarrow> Own (js d))"

datatype status_class = Green_Status | Amber_Status | Red_Status | Muted_Status

definition statusClass :: "jstring \<Rightarrow> status_class" where
  "statusClass s = (if s = js ''ok'' then Green_Status else if s = js ''stale'' then Amber_Status
     else if s = js ''error'' then Red_Status else Muted_Status)"

datatype meter_color = Grey_Meter | Red_Meter | Yellow_Meter | Blue_Meter

definition card_meterColor :: "jsnum option \<Rightarrow> meter_color" where
  "card_meterColor percent = (case percent of
     None \<Rightarrow> Grey_Meter
   | Some p \<Rightarrow> if num_le (num 95) p then Red_Meter else if num_le (num 80) p then Yellow_Meter else Blue_Meter)"

section \<open>The card\<close>

text \<open>\<open>STATUS_KEY[s.status]\<close> has no default; \<open>None\<close> is undefined.\<close>

definition card_status :: "subscription \<Rightarrow> keyed option" where
  "card_status s =
     (if sb_status s = js ''stale'' \<and> nonempty (sb_last_success_at s) = None then Some (Own (js ''subscriptions.statusPending''))
      else table_get CARD_STATUS_KEY (sb_status s))"

definition pad2 :: "jsnum \<Rightarrow> jstring" where
  "pad2 n = (let s = num_str n in replicate (2 - length s) 48 @ s)"

definition timezone_text :: "subscription \<Rightarrow> message" where
  "timezone_text s = (case nonempty (sb_timezone s) of Some z \<Rightarrow> Raw z | None \<Rightarrow> Key ''subscriptions.serverTimezone'' [])"

text \<open>The parts that are joined by a dot.\<close>

definition schedule :: "subscription \<Rightarrow> message list" where
  "schedule s =
     (if num_le (num 1) (sb_reset_day s) then
        [Joined (Key ''subscriptions.resetDay'' []) ([32] @ num_str (sb_reset_day s)),
         Raw (pad2 (sb_reset_hour s) @ [58] @ pad2 (sb_reset_minute s)), timezone_text s]
      else [Key ''subscriptions.resetNone'' []])"

definition or_unknown :: "jstring option \<Rightarrow> message" where
  "or_unknown v = (case v of Some s \<Rightarrow> Raw s | None \<Rightarrow> Key ''common.unknown'' [])"

definition or_never :: "jstring option \<Rightarrow> message" where
  "or_never v = (case v of Some s \<Rightarrow> Raw s | None \<Rightarrow> Key ''subscriptions.neverRefreshed'' [])"

definition is_traffic :: "subscription \<Rightarrow> bool" where
  "is_traffic s \<longleftrightarrow> sb_source_type s = js ''traffic''"

text \<open>The parts of the line that names the provider.\<close>

definition provider_text :: "subscription \<Rightarrow> message list" where
  "provider_text s =
     (if is_traffic s then [Joined (Key ''subscriptions.trafficSource'' []) (js '': ''),
        or_unknown (nonempty (Some (sb_traffic_provider_name s)))]
      else if sb_provider_name s \<noteq> [] then [Raw (sb_provider_name s)] else [Key ''subscriptions.providerNone'' []])"

definition source_badges :: "subscription \<Rightarrow> string list" where
  "source_badges s =
     (if is_traffic s then [''subscriptions.sourceTypeTrafficBadge''] else []) @
     (if \<not> is_traffic s \<and> sb_provider_source s = js ''created'' then [''subscriptions.providerSourceCreated''] else []) @
     (if \<not> is_traffic s \<and> sb_provider_source s = js ''linked'' then [''subscriptions.providerSourceLinked''] else [])"

text \<open>The lines under the next reset that depend on the subscription.\<close>

definition reset_notes :: "subscription \<Rightarrow> message list" where
  "reset_notes s =
     (case sb_supplier_reset_day s of
        Some d \<Rightarrow> if is_traffic s then [Key ''subscriptions.supplierResetDayNotice'' [(''day'', num_str d)]] else []
      | None \<Rightarrow> []) @
     (if is_traffic s \<and> num_le (num 1) (sb_reset_day s) then [Key ''subscriptions.scheduleConfiguredHint'' []] else [])"

definition never_fetched :: "subscription \<Rightarrow> bool" where
  "never_fetched s \<longleftrightarrow> nonempty (sb_userinfo_fetched_at s) = None \<and> nonempty (sb_last_success_at s) = None"

text \<open>The hints below the facts, in their order.\<close>

definition card_hints :: "subscription \<Rightarrow> message list" where
  "card_hints s =
     (if \<not> sb_enabled s then
        [Key (if is_traffic s then ''subscriptions.pausedUsageHintTraffic'' else ''subscriptions.pausedUsageHint'') []] else []) @
     (if sb_status s = js ''local'' \<and> sb_enabled s then [Key ''subscriptions.localOnlyHint'' []] else []) @
     (if sb_stale s \<and> sb_enabled s then
        [Key (if never_fetched s then ''subscriptions.neverFetchedHint'' else ''subscriptions.staleHint'') []] else []) @
     (if sb_last_error s \<noteq> [] then [Joined (Key ''subscriptions.lastError'' []) (js '': '' @ sb_last_error s)] else []) @
     (if sb_draft_changed s = Some True then [Key ''subscriptions.draftPendingHint'' []] else [])"

record card_env =
  ce_dates :: date_env
  ce_url :: "jstring \<Rightarrow> (jstring \<times> jstring) option"
  ce_log :: "rat \<Rightarrow> int"
  ce_locale :: jstring
  ce_now :: int

record subscription_card =
  sk_name :: jstring
  sk_status :: "keyed option"
  sk_statusClass :: status_class
  sk_provider :: "message list"
  sk_badges :: "string list"
  sk_nodeCount :: "string \<times> message"
  sk_refresh :: bool
  sk_refreshing :: bool
  sk_edit :: bool
  sk_url :: "jstring option"
  sk_missing :: bool
  sk_remaining :: message
  sk_meter :: "(jsnum \<times> meter_color) option"
  sk_used :: message
  sk_quota :: message
  sk_local :: "message option"
  sk_expires :: message
  sk_expirySource :: keyed
  sk_nextReset :: message
  sk_resetIn :: "message option"
  sk_schedule :: "message list"
  sk_resetNotes :: "message list"
  sk_usageSource :: keyed
  sk_usageUpdated :: message
  sk_lastSuccess :: message
  sk_lastRefresh :: message
  sk_cycleEnd :: "message option"
  sk_hints :: "message list"

definition SubscriptionCard :: "card_env \<Rightarrow> bool \<Rightarrow> bool \<Rightarrow> subscription \<Rightarrow> subscription_card" where
  "SubscriptionCard ce refreshing admin s =
     (let env = ce_dates ce; loc = ce_locale ce; zone = sb_timezone s;
          bytes = formatBytesExact (ce_log ce);
          percent = formatPercent (sb_used_bytes s) (sb_quota_bytes s)
      in \<lparr>sk_name = sb_name s, sk_status = card_status s, sk_statusClass = statusClass (sb_status s), sk_provider = provider_text s,
          sk_badges = source_badges s,
          sk_nodeCount = (if is_traffic s then ''subscriptions.nodeCountMatched'' else ''subscriptions.nodeCount'',
            or_unknown (map_option num_str (sb_node_count s))),
          sk_refresh = (admin \<and> \<not> refreshing \<and> sb_enabled s), sk_refreshing = refreshing, sk_edit = admin,
          sk_url = nonempty (displayMaskedUrl (ce_url ce) (Some (sb_url_masked s)) None),
          sk_missing = (\<not> is_traffic s \<and> \<not> sb_provider_exists s \<and> sb_provider_name s \<noteq> []),
          sk_remaining = or_unknown (bytes (sb_remaining_bytes s)),
          sk_meter = map_option (\<lambda>p. (p, card_meterColor (Some p))) percent,
          sk_used = or_unknown (bytes (sb_used_bytes s)), sk_quota = or_unknown (bytes (sb_quota_bytes s)),
          sk_local = map_option (\<lambda>b. or_unknown (bytes (Some b))) (sb_local_used_bytes s),
          sk_expires = (case formatApiDateTime env (sb_expires_at s) loc zone of
            Some x \<Rightarrow> Raw x | None \<Rightarrow> Key ''subscriptions.expiryUnknown'' []),
          sk_expirySource = key_or EXPIRY_SOURCE_KEY (sb_expires_source s) ''subscriptions.expirySourceUnknown'',
          sk_nextReset = (case formatApiDateTime env (sb_next_reset s) loc zone of
            Some x \<Rightarrow> Raw x
          | None \<Rightarrow> if num_le (num 1) (sb_reset_day s) then Key ''common.unknown'' [] else Key ''subscriptions.resetNone'' []),
          sk_resetIn = map_option (\<lambda>d. Key ''subscriptions.resetInDays'' [(''days'', num_str d)])
            (daysUntil env (sb_next_reset s) (ce_now ce)),
          sk_schedule = schedule s, sk_resetNotes = reset_notes s,
          sk_usageSource = key_or SOURCE_KEY (sb_usage_source s) ''subscriptions.sourceNone'',
          sk_usageUpdated = or_never (formatDateTime env (sb_userinfo_fetched_at s) loc None),
          sk_lastSuccess = or_never (formatDateTime env (sb_last_success_at s) loc None),
          sk_lastRefresh = or_never (formatDateTime env (sb_last_refresh_at s) loc None),
          sk_cycleEnd = map_option (\<lambda>x. Key ''subscriptions.cycleEnds'' [(''time'', x)])
            (nonempty (formatApiDateTime env (sb_cycle_end s) loc zone)),
          sk_hints = card_hints s\<rparr>)"

section \<open>The meter\<close>

lemma percent_range:
  assumes "formatPercent u t = Some p"
  shows "\<exists>q. p = Fin q \<and> 0 \<le> q \<and> q \<le> 100"
proof -
  obtain x y where "u = Some (Fin x)" "t = Some (Fin y)" "\<not> num_le (Fin y) (num 0)"
    using assms by (auto simp: formatPercent_def is_finite_iff split: option.splits if_splits)
  then show ?thesis using assms formatPercent_spec [of x y] by (auto simp: num_def)
qed

text \<open>
  C32: The meter of a card stays in its frame. It is shown exactly for a known usage and a positive
  known quota, it is between 0 and 100 percent wide, red from 95 and yellow from 80 percent on; it
  is empty when nothing is used, and full and red as soon as the quota is used up.
\<close>

theorem card_meter:
  "(case sk_meter (SubscriptionCard ce refreshing admin s) of
      Some (p, c) \<Rightarrow> \<exists>q. p = Fin q \<and> 0 \<le> q \<and> q \<le> 100 \<and>
        c = (if 95 \<le> q then Red_Meter else if 80 \<le> q then Yellow_Meter else Blue_Meter)
    | None \<Rightarrow> formatPercent (sb_used_bytes s) (sb_quota_bytes s) = None) \<and>
   (\<forall>u t. sb_used_bytes s = Some (Fin u) \<and> sb_quota_bytes s = Some (Fin t) \<longrightarrow>
      (sk_meter (SubscriptionCard ce refreshing admin s) = None \<longleftrightarrow> t \<le> 0) \<and>
      (0 < t \<and> u \<le> 0 \<longrightarrow> sk_meter (SubscriptionCard ce refreshing admin s) = Some (Fin 0, Blue_Meter)) \<and>
      (0 < t \<and> t \<le> u \<longrightarrow> sk_meter (SubscriptionCard ce refreshing admin s) = Some (Fin 100, Red_Meter)))"
proof -
  have m: "sk_meter (SubscriptionCard ce refreshing admin s) =
      map_option (\<lambda>p. (p, card_meterColor (Some p))) (formatPercent (sb_used_bytes s) (sb_quota_bytes s))"
    by (simp add: SubscriptionCard_def Let_def)
  have "sk_meter (SubscriptionCard ce refreshing admin s) = None \<longleftrightarrow> t \<le> 0"
    "0 < t \<Longrightarrow> u \<le> 0 \<Longrightarrow> sk_meter (SubscriptionCard ce refreshing admin s) = Some (Fin 0, Blue_Meter)"
    "0 < t \<Longrightarrow> t \<le> u \<Longrightarrow> sk_meter (SubscriptionCard ce refreshing admin s) = Some (Fin 100, Red_Meter)"
    if "sb_used_bytes s = Some (Fin u)" "sb_quota_bytes s = Some (Fin t)" for u t
    using formatPercent_spec [of u t] that by (auto simp: m card_meterColor_def num_def)
  then show ?thesis
    by (auto simp: m card_meterColor_def num_def dest!: percent_range split: option.splits)
qed

definition plain_card :: card_env where
  "plain_card = \<lparr>ce_dates = sample_env None, ce_url = (\<lambda>_. None), ce_log = (\<lambda>_. 0), ce_locale = js ''en-GB'', ce_now = 0\<rparr>"

theorem card_meter_witness:
  "sk_meter (SubscriptionCard plain_card False True (sample_sub\<lparr>sb_used_bytes := Some (num 2000000)\<rparr>)) = Some (Fin 100, Red_Meter)"
  using card_meter [of "sample_sub\<lparr>sb_used_bytes := Some (num 2000000)\<rparr>" plain_card False True]
  by (auto simp: sample_sub_def num_def)

section \<open>Hints\<close>

text \<open>A subscription that is switched off shows the hint of a pause, and no hint about its freshness.\<close>

lemma paused_hint_alone:
  "(\<exists>k \<in> {''subscriptions.pausedUsageHintTraffic'', ''subscriptions.pausedUsageHint''}. Key k [] \<in> set (card_hints s)) \<longleftrightarrow> \<not> sb_enabled s"
  "(\<exists>k \<in> {''subscriptions.localOnlyHint'', ''subscriptions.neverFetchedHint'', ''subscriptions.staleHint''}.
      Key k [] \<in> set (card_hints s)) \<longrightarrow> sb_enabled s \<and> (sb_status s = js ''local'' \<or> sb_stale s)"
  by (auto simp: card_hints_def split: if_splits)

section \<open>The reset time\<close>

lemma pad2_reads_back:
  assumes "n < 100"
  shows "length (pad2 (num (int n))) = 2 \<and> to_number (pad2 (num (int n))) = num (int n)"
proof -
  have str: "num_str (num (int n)) = dec_digits n" using assms by (simp add: num_str_small)
  have digits: "dec_digits n = (if n < 10 then [48 + n] else [48 + n div 10, 48 + n mod 10])"
    using assms dec_digits_eval [of n] dec_digits_eval(1) [of "n div 10"] by auto
  have p: "pad2 (num (int n)) = [48 + n div 10, 48 + n mod 10]"
  proof (cases "n < 10")
    case True
    then have "pad2 (num (int n)) = replicate 1 48 @ [48 + n]" by (simp add: pad2_def str digits)
    then show ?thesis using True by simp
  next
    case False
    then show ?thesis by (simp add: pad2_def str digits)
  qed
  have "\<forall>u \<in> set [48 + n div 10, 48 + n mod 10]. is_digit u" using assms by (auto simp: is_digit_def)
  moreover have "digits_val 0 [48 + n div 10, 48 + n mod 10] = n" by simp
  ultimately have "to_number (pad2 (num (int n))) = rnd (of_nat n)"
    using to_number_digits [of "[48 + n div 10, 48 + n mod 10]"] by (simp add: p)
  then show ?thesis using p rnd_int [of "int n"] assms by (simp add: num_def)
qed

text \<open>
  The reset time of a card reads back: for an hour and a minute in their ranges the second part of
  the schedule is five characters, two digits that read as the hour, a colon, and two that read as
  the minute.
\<close>

lemma reset_time_reads_back:
  assumes "num_le (num 1) (sb_reset_day s)" "sb_reset_hour s = num (int h)" "sb_reset_minute s = num (int m)" "h < 24" "m < 60"
  shows "\<exists>a b. schedule s ! 1 = Raw (a @ [58] @ b) \<and> length a = 2 \<and> length b = 2 \<and>
    to_number a = num (int h) \<and> to_number b = num (int m)"
  using pad2_reads_back [of h] pad2_reads_back [of m] assms
  by (intro exI [of _ "pad2 (num (int h))"] exI [of _ "pad2 (num (int m))"]) (simp add: schedule_def)

end
