(* ===== verification/Form_View.thy ===== *)
theory Form_View
  imports Subscription_Form
begin

text \<open>
  What the dialog of \<open>components/subscriptions/subscription-form.tsx\<close> shows, and every sequence of
  entries a user can make in it. The lemmas show which entries decide what is sent, that the hint
  about an ignored URL is true, and where a value that is shown is not sent.
\<close>

section \<open>What the dialog shows\<close>

datatype source_fields =
    Traffic_Fields jstring "(jstring \<times> jstring) list" "jstring option"
  | Native_Fields jstring "(jstring \<times> string option) list" bool jstring string string bool

record form_view =
  fv_title :: string
  fv_sourceType :: "source_type option"
  fv_name :: jstring
  fv_source :: source_fields
  fv_enabled :: bool
  fv_quota :: jstring
  fv_quotaPlaceholder :: jstring
  fv_effectiveQuota :: "jstring option"
  fv_resetConfigured :: bool
  fv_resetNoneHint :: bool
  fv_resetDisabled :: bool
  fv_resetDay :: jstring
  fv_resetHour :: jstring
  fv_resetMinute :: jstring
  fv_timezone :: jstring
  fv_timezones :: "jstring list"
  fv_localProvider :: "(jstring \<times> (jstring \<times> jstring) list) option"
  fv_expiry :: jstring
  fv_expiryZone :: jstring
  fv_expiryZones :: "jstring list"
  fv_vendorExpiry :: "jstring option"
  fv_error :: "string option"
  fv_delete :: bool
  fv_saveDisabled :: bool
  fv_save :: string

definition traffic_options :: "traffic_provider list \<Rightarrow> (jstring \<times> jstring) list" where
  "traffic_options tps = map (\<lambda>p. (tp_id p, tp_name p)) tps"

definition provider_options :: "discovered_provider list \<Rightarrow> (jstring \<times> string option) list" where
  "provider_options ps =
     map (\<lambda>p. (dp_name p, if dp_linked p then Some ''subscriptions.providerSourceLinked'' else None)) ps"

definition url_ignored_hint :: "discovered_provider list \<Rightarrow> subscription option \<Rightarrow> form \<Rightarrow> bool" where
  "url_ignored_hint ps sub fm \<longleftrightarrow> existingProvider ps fm \<noteq> None \<and>
     (case sub of None \<Rightarrow> True | Some s \<Rightarrow> trim (fm_providerName fm) \<noteq> sb_provider_name s)"

text \<open>
  The native fields are the provider with its suggestions, whether the conflict is shown, the URL
  with its placeholder and hint, and whether the URL is said to be ignored.
\<close>

definition source_view ::
    "discovered_provider list \<Rightarrow> traffic_provider list \<Rightarrow> subscription option \<Rightarrow> form \<Rightarrow> source_fields" where
  "source_view ps tps sub fm = (case fm_sourceType fm of
     TrafficSource \<Rightarrow> Traffic_Fields (fm_trafficProviderID fm) (traffic_options tps)
       (Option.bind sub (\<lambda>s. nonempty (Some (sb_url_masked s))))
   | Native \<Rightarrow> Native_Fields (fm_providerName fm) (provider_options ps) (linkedElsewhere ps sub fm) (fm_url fm)
       (if sub \<noteq> None then ''subscriptions.urlKeepHint'' else ''subscriptions.urlPlaceholder'')
       (if sub \<noteq> None then ''subscriptions.urlKeepHint'' else ''subscriptions.urlMaskedHint'')
       (url_ignored_hint ps sub fm))"

definition SubscriptionForm ::
    "date_env \<Rightarrow> zone_env \<Rightarrow> (rat \<Rightarrow> int) \<Rightarrow> jstring \<Rightarrow> discovered_provider list \<Rightarrow> traffic_provider list \<Rightarrow>
     subscription option \<Rightarrow> form \<Rightarrow> form_view" where
  "SubscriptionForm env z lg locale_tag ps tps sub fm =
     \<lparr>fv_title = (if sub \<noteq> None then ''subscriptions.edit'' else ''subscriptions.add''),
      fv_sourceType = (if sub = None then Some (fm_sourceType fm) else None), fv_name = fm_name fm,
      fv_source = source_view ps tps sub fm, fv_enabled = fm_enabled fm, fv_quota = fm_quotaGB fm,
      fv_quotaPlaceholder = or_default (effectiveQuota lg sub) [],
      fv_effectiveQuota = nonempty (effectiveQuota lg sub), fv_resetConfigured = fm_resetConfigured fm,
      fv_resetNoneHint = (\<not> fm_resetConfigured fm), fv_resetDisabled = (\<not> fm_resetConfigured fm),
      fv_resetDay = fm_resetDay fm, fv_resetHour = fm_resetHour fm, fv_resetMinute = fm_resetMinute fm,
      fv_timezone = fm_timezone fm, fv_timezones = timezone_choices z,
      fv_localProvider = (if fm_sourceType fm = Native then Some (fm_trafficProviderID fm, traffic_options tps) else None),
      fv_expiry = fm_manualExpiry fm, fv_expiryZone = fm_expiryTimezone fm,
      fv_expiryZones = expiry_timezone_choices z fm, fv_vendorExpiry = nonempty (vendorExpiry env locale_tag sub),
      fv_error = fm_formError fm, fv_delete = (sub \<noteq> None), fv_saveDisabled = save_disabled ps sub fm,
      fv_save = (if fm_saving fm then ''common.saving'' else ''common.save'')\<rparr>"

section \<open>Entries\<close>

datatype entry =
    Choose_Type source_type | Enter_Name jstring | Choose_Traffic_Source jstring | Enter_Provider jstring
  | Enter_Url jstring | Tick_Enabled bool | Enter_Quota jstring | Tick_Schedule bool | Enter_Day jstring
  | Enter_Hour jstring | Enter_Minute jstring | Enter_Zone jstring | Choose_Local_Provider jstring
  | Enter_Expiry jstring | Enter_Expiry_Zone jstring

text \<open>What the dialog offers: the controls it shows that are not disabled.\<close>

fun offered :: "subscription option \<Rightarrow> form \<Rightarrow> entry \<Rightarrow> bool" where
  "offered sub fm (Choose_Type _) \<longleftrightarrow> sub = None"
| "offered sub fm (Choose_Traffic_Source _) \<longleftrightarrow> fm_sourceType fm = TrafficSource"
| "offered sub fm (Enter_Provider _) \<longleftrightarrow> fm_sourceType fm = Native"
| "offered sub fm (Enter_Url _) \<longleftrightarrow> fm_sourceType fm = Native"
| "offered sub fm (Choose_Local_Provider _) \<longleftrightarrow> fm_sourceType fm = Native"
| "offered sub fm (Enter_Day _) \<longleftrightarrow> fm_resetConfigured fm"
| "offered sub fm (Enter_Hour _) \<longleftrightarrow> fm_resetConfigured fm"
| "offered sub fm (Enter_Minute _) \<longleftrightarrow> fm_resetConfigured fm"
| "offered sub fm (Enter_Zone _) \<longleftrightarrow> fm_resetConfigured fm"
| "offered sub fm _ \<longleftrightarrow> True"

fun enter :: "subscription option \<Rightarrow> traffic_provider list \<Rightarrow> entry \<Rightarrow> form \<Rightarrow> form" where
  "enter sub tps (Choose_Type s) = onSourceType s"
| "enter sub tps (Enter_Name v) = handleNameChange sub v"
| "enter sub tps (Choose_Traffic_Source v) = handleTrafficProviderChange sub tps v"
| "enter sub tps (Enter_Provider v) = onProviderName v"
| "enter sub tps (Enter_Url v) = onUrl v"
| "enter sub tps (Tick_Enabled b) = onEnabled b"
| "enter sub tps (Enter_Quota v) = onQuota v"
| "enter sub tps (Tick_Schedule b) = onResetConfigured b"
| "enter sub tps (Enter_Day v) = onResetDay v"
| "enter sub tps (Enter_Hour v) = onResetHour v"
| "enter sub tps (Enter_Minute v) = onResetMinute v"
| "enter sub tps (Enter_Zone v) = handleTimezoneChange v"
| "enter sub tps (Choose_Local_Provider v) = onNativeTrafficProvider v"
| "enter sub tps (Enter_Expiry v) = onManualExpiry v"
| "enter sub tps (Enter_Expiry_Zone v) = onExpiryTimezone v"

text \<open>\<open>entries sub tps fm es fm'\<close>: the entries \<open>es\<close>, each of them offered, turn \<open>fm\<close> into \<open>fm'\<close>.\<close>

inductive entries :: "subscription option \<Rightarrow> traffic_provider list \<Rightarrow> form \<Rightarrow> entry list \<Rightarrow> form \<Rightarrow> bool"
    for sub tps fm where
  none: "entries sub tps fm [] fm"
| more: "entries sub tps fm es fm' \<Longrightarrow> offered sub fm' e \<Longrightarrow> entries sub tps fm (es @ [e]) (enter sub tps e fm')"

section \<open>What is sent\<close>

text \<open>
  Whether the entries touch the quota, the schedule, the expiry. Choosing a known traffic source for
  a new subscription replaces the quota and the schedule and counts as untouched.
\<close>

definition inherits :: "subscription option \<Rightarrow> traffic_provider list \<Rightarrow> jstring \<Rightarrow> bool" where
  "inherits sub tps v \<longleftrightarrow> sub = None \<and> v \<in> set (map tp_id tps)"

fun touch_quota :: "subscription option \<Rightarrow> traffic_provider list \<Rightarrow> entry \<Rightarrow> bool \<Rightarrow> bool" where
  "touch_quota sub tps (Enter_Quota _) b \<longleftrightarrow> True"
| "touch_quota sub tps (Choose_Traffic_Source v) b \<longleftrightarrow> b \<and> \<not> inherits sub tps v"
| "touch_quota sub tps _ b \<longleftrightarrow> b"

fun touch_schedule :: "subscription option \<Rightarrow> traffic_provider list \<Rightarrow> entry \<Rightarrow> bool \<Rightarrow> bool" where
  "touch_schedule sub tps (Tick_Schedule _) b \<longleftrightarrow> True"
| "touch_schedule sub tps (Enter_Day _) b \<longleftrightarrow> True"
| "touch_schedule sub tps (Enter_Hour _) b \<longleftrightarrow> True"
| "touch_schedule sub tps (Enter_Minute _) b \<longleftrightarrow> True"
| "touch_schedule sub tps (Enter_Zone _) b \<longleftrightarrow> True"
| "touch_schedule sub tps (Choose_Traffic_Source v) b \<longleftrightarrow> b \<and> \<not> inherits sub tps v"
| "touch_schedule sub tps _ b \<longleftrightarrow> b"

fun touches_expiry :: "entry \<Rightarrow> bool" where
  "touches_expiry (Enter_Expiry _) \<longleftrightarrow> True"
| "touches_expiry (Enter_Expiry_Zone _) \<longleftrightarrow> True"
| "touches_expiry _ \<longleftrightarrow> False"

lemma traffic_source_chosen:
  "fm_quotaDirty (handleTrafficProviderChange sub tps v fm) \<longleftrightarrow> fm_quotaDirty fm \<and> \<not> inherits sub tps v"
  "fm_resetDirty (handleTrafficProviderChange sub tps v fm) \<longleftrightarrow> fm_resetDirty fm \<and> \<not> inherits sub tps v"
  "fm_expiryDirty (handleTrafficProviderChange sub tps v fm) = fm_expiryDirty fm"
  "fm_sourceType (handleTrafficProviderChange sub tps v fm) = fm_sourceType fm"
  by (auto simp: handleTrafficProviderChange_def inherits_def Let_def find_None_iff find_Some_iff split: option.splits)

lemmas handler_defs =
  onSourceType_def handleNameChange_def onProviderName_def onUrl_def onEnabled_def onQuota_def
  onResetConfigured_def onResetDay_def onResetHour_def onResetMinute_def handleTimezoneChange_def
  onNativeTrafficProvider_def onManualExpiry_def onExpiryTimezone_def

lemma enter_flags:
  "fm_quotaDirty (enter sub tps e fm) = touch_quota sub tps e (fm_quotaDirty fm)"
  "fm_resetDirty (enter sub tps e fm) = touch_schedule sub tps e (fm_resetDirty fm)"
  "fm_expiryDirty (enter sub tps e fm) \<longleftrightarrow> fm_expiryDirty fm \<or> touches_expiry e"
  by (cases e; simp add: traffic_source_chosen; simp add: handler_defs Let_def)+

lemma enter_type: "offered sub fm e \<Longrightarrow> sub \<noteq> None \<Longrightarrow> fm_sourceType (enter sub tps e fm) = fm_sourceType fm"
  by (cases e; simp add: traffic_source_chosen; simp add: handler_defs Let_def)

lemma entries_flags:
  assumes "entries sub tps fm es fm'"
  shows "fm_quotaDirty fm' = fold (touch_quota sub tps) es (fm_quotaDirty fm)"
    "fm_resetDirty fm' = fold (touch_schedule sub tps) es (fm_resetDirty fm)"
    "fm_expiryDirty fm' \<longleftrightarrow> fm_expiryDirty fm \<or> list_ex touches_expiry es"
    "sub \<noteq> None \<Longrightarrow> fm_sourceType fm' = fm_sourceType fm"
  using assms by (induction rule: entries.induct) (auto simp: enter_flags enter_type)

text \<open>
  C33: what is sent depends on what was touched, whatever is entered in the dialog and in whatever
  order. After it opened, the quota is sent exactly when it was entered, and not replaced since by
  that of a traffic source chosen for a new subscription; the expiry exactly when its time or its
  zone was entered; the schedule always for a native source and otherwise exactly when it was
  touched. The kind of an existing subscription never changes.
\<close>

theorem sent_iff_touched:
  assumes "entries sub tps (open_effect env z True sub fm) es fm'"
  shows "(si_quota_bytes (build_input z ps sub fm') \<noteq> None \<longleftrightarrow> fold (touch_quota sub tps) es False) \<and>
    (si_manual_expire (build_input z ps sub fm') \<noteq> None \<longleftrightarrow> list_ex touches_expiry es) \<and>
    (si_reset_day (build_input z ps sub fm') \<noteq> None \<longleftrightarrow>
       fm_sourceType fm' = Native \<or> fold (touch_schedule sub tps) es False) \<and>
    (\<forall>s. sub = Some s \<longrightarrow> (fm_sourceType fm' = TrafficSource \<longleftrightarrow> sb_source_type s = js ''traffic''))"
  using entries_flags [OF assms]
  by (cases sub) (auto simp: open_effect_def open_edit_def open_create_def Let_def)

lemma one_entry: "offered sub fm e \<Longrightarrow> entries sub tps fm [e] (enter sub tps e fm)"
  using entries.more [OF entries.none] by fastforce

theorem sent_iff_touched_witness:
  "si_quota_bytes (build_input shanghai [] (Some sample_sub)
     (onQuota (js ''5'') (open_effect (sample_env None) shanghai True (Some sample_sub) blank_form))) \<noteq> None"
  using sent_iff_touched [of "Some sample_sub" "[]" "sample_env None" shanghai blank_form "[Enter_Quota (js ''5'')]", OF one_entry]
  by simp

section \<open>The URL\<close>

text \<open>
  C36: the hint about the URL is true. As long as no provider has an empty name, the dialog says for
  a native source that the URL is ignored exactly when no URL that is entered is sent.
\<close>

theorem url_hint_true:
  assumes "fm_sourceType fm = Native" "\<forall>p \<in> set ps. dp_name p \<noteq> []"
  shows "(\<exists>v os c u i h. fv_source (SubscriptionForm env z lg tag ps tps sub fm) = Native_Fields v os c u i h True) \<longleftrightarrow>
    (\<forall>u. si_url (build_input z ps sub (onUrl u fm)) = None)"
proof -
  have x: "trim (js ''x'') = js ''x''" by (rule trim_no_ws) (auto simp: js_def is_ws_def)
  have same: "existingProvider ps (onUrl u fm) = existingProvider ps fm" "trimmedProvider (onUrl u fm) = trimmedProvider fm"
    "mayUpdateProviderURL ps sub (onUrl u fm) = mayUpdateProviderURL ps sub fm" for u
    by (simp_all add: onUrl_def existingProvider_def trimmedProvider_def mayUpdateProviderURL_def split: option.splits)
  have "(\<forall>u. si_url (build_input z ps sub (onUrl u fm)) = None) \<longleftrightarrow> \<not> mayUpdateProviderURL ps sub fm"
    using x assms(1) by (auto simp: same) (auto simp: onUrl_def dest!: spec [of _ "js ''x''"])
  moreover have "url_ignored_hint ps sub fm \<longleftrightarrow> \<not> mayUpdateProviderURL ps sub fm"
  proof (cases "existingProvider ps fm")
    case (Some p)
    then have "trim (fm_providerName fm) \<noteq> []" using assms(2) by (auto simp: existingProvider_def find_Some_iff)
    then show ?thesis using Some
      by (auto simp: url_ignored_hint_def mayUpdateProviderURL_def trimmedProvider_def str_or_text_def nonempty_def split: option.splits)
  qed (simp add: url_ignored_hint_def mayUpdateProviderURL_def)
  ultimately show ?thesis using assms(1) by (auto simp: SubscriptionForm_def source_view_def)
qed

definition linked_provider :: discovered_provider where
  "linked_provider = \<lparr>dp_name = js ''n'', dp_type = js ''http'', dp_node_count = None, dp_linked_subscription_id = None, dp_linked = False\<rparr>"

theorem url_hint_true_witness:
  "si_url (build_input shanghai [linked_provider] None (onUrl (js ''u'') (blank_form\<lparr>fm_providerName := js ''n''\<rparr>))) = None"
proof -
  let ?fm = "blank_form\<lparr>fm_providerName := js ''n''\<rparr>"
  have "url_ignored_hint [linked_provider] None ?fm"
    by (simp add: url_ignored_hint_def existingProvider_def linked_provider_def trim_n)
  then show ?thesis
    using url_hint_true [of ?fm "[linked_provider]" "sample_env None" shanghai "\<lambda>_. 0" "[]" "[]" None]
    by (simp add: SubscriptionForm_def source_view_def blank_form_def linked_provider_def js_def)
qed

section \<open>Shown and not sent\<close>

text \<open>
  A value that is shown and not sent: choosing a traffic source for a new subscription and going
  back to a native source leaves the quota of the traffic source in the field, but the subscription
  is saved without it, and with the traffic source as its local provider.
\<close>

lemma shown_quota_not_sent:
  assumes "tp \<in> set tps" "distinct (map tp_id tps)" "num_lt (num 0) (tp_quota_bytes tp)"
    and "fm = onSourceType Native (handleTrafficProviderChange None tps (tp_id tp) (onSourceType TrafficSource (open_create z f)))"
  shows "entries None tps (open_create z f) [Choose_Type TrafficSource, Choose_Traffic_Source (tp_id tp), Choose_Type Native] fm"
    "fm_quotaGB fm = quota_text (tp_quota_bytes tp)" "si_quota_bytes (build_input z ps None fm) = None"
    "si_traffic_provider_id (build_input z ps None fm) = Some (tp_id tp)"
proof -
  obtain tp' where "find (\<lambda>p. tp_id p = tp_id tp) tps = Some tp'"
    using assms(1) by (cases "find (\<lambda>p. tp_id p = tp_id tp) tps") (auto simp: find_None_iff)
  moreover from this have "tp' = tp" using assms(1,2)
    by (auto simp: find_Some_iff distinct_conv_nth in_set_conv_nth)
  ultimately have found: "find (\<lambda>p. tp_id p = tp_id tp) tps = Some tp" by simp
  show "fm_quotaGB fm = quota_text (tp_quota_bytes tp)" "si_quota_bytes (build_input z ps None fm) = None"
    "si_traffic_provider_id (build_input z ps None fm) = Some (tp_id tp)"
    unfolding assms(4) by (simp_all add: handleTrafficProviderChange_def onSourceType_def Let_def found assms(3))
  let ?one = "onSourceType TrafficSource (open_create z f)"
  have "entries None tps (open_create z f) [Choose_Type TrafficSource] ?one"
    using one_entry [of None "open_create z f" "Choose_Type TrafficSource" tps] by simp
  then have "entries None tps (open_create z f) [Choose_Type TrafficSource, Choose_Traffic_Source (tp_id tp)]
      (handleTrafficProviderChange None tps (tp_id tp) ?one)"
    using entries.more [of None tps "open_create z f" "[Choose_Type TrafficSource]" ?one "Choose_Traffic_Source (tp_id tp)"]
    by (simp add: onSourceType_def)
  then show "entries None tps (open_create z f) [Choose_Type TrafficSource, Choose_Traffic_Source (tp_id tp), Choose_Type Native] fm"
    using entries.more [of None tps "open_create z f" "[Choose_Type TrafficSource, Choose_Traffic_Source (tp_id tp)]"
        "handleTrafficProviderChange None tps (tp_id tp) ?one" "Choose_Type Native"]
    by (simp add: assms(4))
qed

end
