(* ===== verification/Shell.thy ===== *)
theory Shell
  imports Session I18n
begin

text \<open>
  The frame around the pages: \<open>main.tsx\<close>, \<open>App.tsx\<close>, \<open>components/layout/app-layout.tsx\<close>, the
  markup of \<open>pages/login.tsx\<close>, \<open>components/layout/header.tsx\<close> and
  \<open>components/layout/sidebar.tsx\<close>. The lemmas show that the theme survives a page load, what
  becomes of passwords typed in the header's dialog, and that the menu marks the page shown.
\<close>

section \<open>The theme\<close>

text \<open>What \<open>main.tsx\<close> makes of the stored theme and the preference of the system.\<close>

definition initial_dark :: "storage \<Rightarrow> bool \<Rightarrow> bool" where
  "initial_dark st prefers = (case st ''theme'' of
     Some (Text s) \<Rightarrow> s = js ''dark'' \<or> s = [] \<and> prefers
   | Some (Json _) \<Rightarrow> False
   | None \<Rightarrow> prefers)"

text \<open>The header starts from the class of the document.\<close>

definition open_header :: "bool \<Rightarrow> header_state" where
  "open_header dark = \<lparr>hd_pwDialogOpen = False, hd_currentPw = [], hd_newPw = [], hd_saving = False,
     hd_dark = dark, hd_document_dark = dark\<rparr>"

section \<open>The header\<close>

text \<open>The menu entry and the cancel button set the flag alone; the dialog's own closing clears the fields.\<close>

definition setPwDialogOpen :: "bool \<Rightarrow> (('b, header_state) world, unit) io" where
  "setPwDialogOpen b = page (\<lambda>p. p\<lparr>hd_pwDialogOpen := b\<rparr>)"

definition setCurrentPw :: "jstring \<Rightarrow> (('b, header_state) world, unit) io" where
  "setCurrentPw v = page (\<lambda>p. p\<lparr>hd_currentPw := v\<rparr>)"

definition setNewPw :: "jstring \<Rightarrow> (('b, header_state) world, unit) io" where
  "setNewPw v = page (\<lambda>p. p\<lparr>hd_newPw := v\<rparr>)"

definition next_locale :: "Locale \<Rightarrow> Locale" where
  "next_locale l = setLocale (if l = En then Zh else En) l"

record password_dialog =
  pd_current :: jstring
  pd_new :: jstring
  pd_disabled :: bool
  pd_label :: string

text \<open>\<open>hv_account\<close> is null or undefined where the header shows the word for an account.\<close>

record header_view =
  hv_pending :: bool
  hv_account :: jsval
  hv_role :: jsval
  hv_language :: jstring
  hv_theme :: string
  hv_dialog :: "password_dialog option"

definition Header :: "Locale \<Rightarrow> auth_state \<Rightarrow> draft_state \<Rightarrow> header_state \<Rightarrow> header_view" where
  "Header l a d s =
     \<lparr>hv_pending = truthy (dr_hasChanges d), hv_account = opt_member (au_user a) ''username'',
      hv_role = opt_member (au_user a) ''role'', hv_language = (if l = En then js ''English'' else [20013, 25991]),
      hv_theme = (if hd_dark s then ''header.lightMode'' else ''header.darkMode''),
      hv_dialog = (if hd_pwDialogOpen s
        then Some \<lparr>pd_current = hd_currentPw s, pd_new = hd_newPw s, pd_disabled = hd_saving s,
          pd_label = (if hd_saving s then ''common.saving'' else ''header.changePassword'')\<rparr>
        else None)\<rparr>"

text \<open>What can happen in the header; \<open>Close_Password\<close> is the dialog's cross, the escape key or a click beside it.\<close>

datatype header_event =
    Toggle_Theme | Ask_Password | Close_Password | Cancel_Password | Type_Current jstring | Type_New jstring
  | Change_Password | Poll_Status

definition in_dialog :: "(('b, header_state) world, unit) io \<Rightarrow> (('b, header_state) world, unit) io" where
  "in_dialog m = io_read (\<lambda>w. if hd_pwDialogOpen (w_page w) then m else io_return ())"

fun on_header :: "'b server \<Rightarrow> header_event \<Rightarrow> (('b, header_state) world, unit) io" where
  "on_header server Toggle_Theme = toggleTheme"
| "on_header server Ask_Password = setPwDialogOpen True"
| "on_header server Close_Password = in_dialog (onPasswordDialog False)"
| "on_header server Cancel_Password = in_dialog (setPwDialogOpen False)"
| "on_header server (Type_Current v) = in_dialog (setCurrentPw v)"
| "on_header server (Type_New v) = in_dialog (setNewPw v)"
| "on_header server Change_Password =
     in_dialog (io_read (\<lambda>w. if hd_saving (w_page w) then io_return () else handleChangePassword server))"
| "on_header server Poll_Status = fetchStatus server"

definition header_after :: "'b server \<Rightarrow> header_event list \<Rightarrow> ('b, header_state) world \<Rightarrow> ('b, header_state) world" where
  "header_after server es w = fold (\<lambda>e w. snd (on_header server e w)) es w"

lemma header_after_snoc:
  "header_after server (es @ [e]) w = snd (on_header server e (header_after server es w))"
  by (simp add: header_after_def)

lemma header_after_Nil [simp]: "header_after server [] w = w"
  by (simp add: header_after_def)

text \<open>An action that always returns leaves a state its weakest precondition holds for.\<close>

lemma wp_snd: "wp m (\<lambda>_ v. P v) (\<lambda>_ v. P v) w \<longleftrightarrow> P (snd (m w))"
  by (simp add: wp_def split: prod.splits sum.splits)

lemma toggleTheme_eq:
  "snd (toggleTheme w) = w\<lparr>w_page := (w_page w)\<lparr>hd_document_dark := \<not> hd_dark (w_page w), hd_dark := \<not> hd_dark (w_page w)\<rparr>,
     w_storage := (w_storage w)(''theme'' \<mapsto> Text (if \<not> hd_dark (w_page w) then js ''dark'' else js ''light''))\<rparr>"
  by (simp add: toggleTheme_def io_update_def Let_def)

lemma fetchStatus_page: "w_page (snd (fetchStatus server w)) = w_page w"
proof -
  have "wp (fetchStatus server) (\<lambda>_ v. w_page v = w_page w) (\<lambda>_ v. w_page v = w_page w) w"
    by (auto simp: fetchStatus_def simp del: members.simps split: sum.splits)
  then show ?thesis by (simp add: wp_snd)
qed

lemma called_theme: "w_storage (called server rq w) ''theme'' = w_storage w ''theme''"
  using called_storage [of server rq w] by (auto simp: erase_session_def)

lemma fetchStatus_theme: "w_storage (snd (fetchStatus server w)) ''theme'' = w_storage w ''theme''"
proof -
  let ?P = "\<lambda>v. w_storage v ''theme'' = w_storage w ''theme''"
  have "wp (fetchStatus server) (\<lambda>_. ?P) (\<lambda>_. ?P) w"
    by (auto simp: fetchStatus_def called_theme simp del: members.simps split: sum.splits)
  then show ?thesis by (simp add: wp_snd)
qed

lemma changed_password:
  fixes w :: "('b, header_state) world" and server :: "'b server"
  defines "w' \<equiv> snd (handleChangePassword server w)"
  shows "w_storage w' ''theme'' = w_storage w ''theme''" "hd_dark (w_page w') = hd_dark (w_page w)"
    "hd_document_dark (w_page w') = hd_document_dark (w_page w)"
    "if hd_currentPw (w_page w) = [] \<or> hd_newPw (w_page w) = [] then w_page w' = w_page w
     else w_page w' = (w_page w)\<lparr>hd_saving := False\<rparr> \<or>
       w_page w' = (w_page w)\<lparr>hd_pwDialogOpen := False, hd_currentPw := [], hd_newPw := [], hd_saving := False\<rparr>"
proof -
  let ?P = "\<lambda>v. w_storage v ''theme'' = w_storage w ''theme'' \<and> hd_dark (w_page v) = hd_dark (w_page w) \<and>
    hd_document_dark (w_page v) = hd_document_dark (w_page w) \<and>
    (if hd_currentPw (w_page w) = [] \<or> hd_newPw (w_page w) = [] then w_page v = w_page w
     else w_page v = (w_page w)\<lparr>hd_saving := False\<rparr> \<or>
       w_page v = (w_page w)\<lparr>hd_pwDialogOpen := False, hd_currentPw := [], hd_newPw := [], hd_saving := False\<rparr>)"
  have "wp (handleChangePassword server) (\<lambda>_. ?P) (\<lambda>_. ?P) w"
    by (auto simp: handleChangePassword_def Let_def wp_if called_theme split: sum.splits)
  then have "?P w'" unfolding w'_def using wp_snd [of "handleChangePassword server" ?P w] by blast
  then show "w_storage w' ''theme'' = w_storage w ''theme''" "hd_dark (w_page w') = hd_dark (w_page w)"
    "hd_document_dark (w_page w') = hd_document_dark (w_page w)"
    "if hd_currentPw (w_page w) = [] \<or> hd_newPw (w_page w) = [] then w_page w' = w_page w
     else w_page w' = (w_page w)\<lparr>hd_saving := False\<rparr> \<or>
       w_page w' = (w_page w)\<lparr>hd_pwDialogOpen := False, hd_currentPw := [], hd_newPw := [], hd_saving := False\<rparr>"
    by simp_all
qed

lemmas header_updates =
  in_dialog_def setPwDialogOpen_def setCurrentPw_def setNewPw_def onPasswordDialog_def io_read_def
  io_return_def page_def io_update_def

lemma header_theme:
  fixes w :: "('b, header_state) world" and server :: "'b server" and e :: header_event
  assumes "hd_document_dark (w_page w) = hd_dark (w_page w)"
  defines "w' \<equiv> snd (on_header server e w)"
  shows "hd_document_dark (w_page w') = hd_dark (w_page w')"
    "hd_dark (w_page w') \<longleftrightarrow> hd_dark (w_page w) \<noteq> (e = Toggle_Theme)"
    "w_storage w' ''theme'' = (if e = Toggle_Theme
       then Some (Text (if hd_dark (w_page w') then js ''dark'' else js ''light'')) else w_storage w ''theme'')"
  using assms(1) unfolding w'_def
  by (cases e; simp add: toggleTheme_eq fetchStatus_page fetchStatus_theme changed_password header_updates)+

text \<open>
  C35: the theme survives. After any events in the header the document is dark exactly when the
  header says so, which is the theme the page started with, turned once for every click. Once it
  was turned, the next page load shows the same theme whatever the system prefers; as long as it
  was not, the page goes on following the system.
\<close>

theorem theme_survives:
  fixes w :: "('b, header_state) world" and server :: "'b server"
  assumes "w_page w = open_header (initial_dark (w_storage w) prefers)"
  shows "let w' = header_after server es w
    in hd_document_dark (w_page w') = hd_dark (w_page w') \<and>
      (hd_dark (w_page w') \<longleftrightarrow> initial_dark (w_storage w) prefers \<noteq> odd (count_list es Toggle_Theme)) \<and>
      initial_dark (w_storage w') now =
        (if Toggle_Theme \<in> set es then hd_document_dark (w_page w') else initial_dark (w_storage w) now)"
proof -
  define w' where "w' = header_after server es w"
  have "hd_document_dark (w_page w') = hd_dark (w_page w') \<and>
    (hd_dark (w_page w') \<longleftrightarrow> initial_dark (w_storage w) prefers \<noteq> odd (count_list es Toggle_Theme)) \<and>
    w_storage w' ''theme'' = (if Toggle_Theme \<in> set es
      then Some (Text (if hd_dark (w_page w') then js ''dark'' else js ''light'')) else w_storage w ''theme'')"
    unfolding w'_def
  proof (induction es rule: rev_induct)
    case Nil
    show ?case using assms(1) by (simp add: open_header_def)
  next
    case (snoc e es)
    then show ?case
      using header_theme [of "header_after server es w" server e] by (auto simp: header_after_snoc)
  qed
  then show ?thesis by (auto simp: initial_dark_def w'_def [symmetric] Let_def)
qed

theorem theme_survives_witness:
  "initial_dark (w_storage (header_after silent [Toggle_Theme, Poll_Status] (fresh (open_header False)))) True = True"
  using theme_survives [of "fresh (open_header False)" False silent "[Toggle_Theme, Poll_Status]" True]
  by (simp add: fresh_def initial_dark_def Let_def)

section \<open>Typed passwords\<close>

lemma header_fields:
  fixes w :: "('b, header_state) world" and server :: "'b server" and e :: header_event
  defines "p \<equiv> w_page w" and "p' \<equiv> w_page (snd (on_header server e w))"
  shows "\<not> hd_pwDialogOpen p' \<Longrightarrow> hd_currentPw p' \<noteq> [] \<or> hd_newPw p' \<noteq> [] \<Longrightarrow>
     (\<not> hd_pwDialogOpen p \<and> (hd_currentPw p \<noteq> [] \<or> hd_newPw p \<noteq> []) \<and> e \<noteq> Ask_Password) \<or>
     (hd_pwDialogOpen p \<and> e = Cancel_Password)"
  using changed_password(4) [of w server] unfolding p_def p'_def
  by (cases e) (auto simp: toggleTheme_eq fetchStatus_page header_updates split: if_splits)

text \<open>
  C34: typed passwords stay behind the cancel button. Whatever happens in the header, while the
  dialog is closed its fields are empty, unless it was closed by the cancel button and not asked for
  since; then they still hold what was typed, and asking for the dialog again shows it.
\<close>

theorem passwords_left_by_cancel:
  fixes w :: "('b, header_state) world" and server :: "'b server"
  assumes "w_page w = open_header dark"
  shows "let p = w_page (header_after server es w)
    in (\<not> hd_pwDialogOpen p \<and> (hd_currentPw p \<noteq> [] \<or> hd_newPw p \<noteq> []) \<longrightarrow>
      (\<exists>es1 es2. es = es1 @ Cancel_Password # es2 \<and> Ask_Password \<notin> set es2)) \<and>
    (hd_pwDialogOpen p \<longrightarrow>
      map_option (\<lambda>d. (pd_current d, pd_new d)) (hv_dialog (Header l a d (w_page (header_after server (es @ [Cancel_Password, Ask_Password]) w))))
        = Some (hd_currentPw p, hd_newPw p)) \<and>
    (hd_pwDialogOpen p \<longrightarrow>
      map_option (\<lambda>d. (pd_current d, pd_new d)) (hv_dialog (Header l a d (w_page (header_after server (es @ [Close_Password, Ask_Password]) w))))
        = Some ([], []))"
proof -
  define p where "p = w_page (header_after server es w)"
  have "\<not> hd_pwDialogOpen p \<Longrightarrow> hd_currentPw p \<noteq> [] \<or> hd_newPw p \<noteq> [] \<Longrightarrow>
      \<exists>es1 es2. es = es1 @ Cancel_Password # es2 \<and> Ask_Password \<notin> set es2"
    unfolding p_def
  proof (induction es rule: rev_induct)
    case Nil
    then show ?case using assms(1) by (simp add: open_header_def)
  next
    case (snoc e es)
    from header_fields [OF snoc.prems [unfolded header_after_snoc]] show ?case
    proof (elim disjE conjE)
      assume "\<not> hd_pwDialogOpen (w_page (header_after server es w))"
        "hd_currentPw (w_page (header_after server es w)) \<noteq> []" "e \<noteq> Ask_Password"
      then show ?thesis using snoc.IH by fastforce
    next
      assume "\<not> hd_pwDialogOpen (w_page (header_after server es w))"
        "hd_newPw (w_page (header_after server es w)) \<noteq> []" "e \<noteq> Ask_Password"
      then show ?thesis using snoc.IH by fastforce
    next
      assume "e = Cancel_Password"
      then show ?thesis by fastforce
    qed
  qed
  moreover have "header_after server (es @ [x, Ask_Password]) w =
      snd (on_header server Ask_Password (snd (on_header server x (header_after server es w))))" for x
    by (simp add: header_after_def)
  ultimately show ?thesis
    unfolding p_def by (auto simp: header_updates Header_def Let_def)
qed

theorem passwords_left_by_cancel_witness:
  "hd_currentPw (w_page (header_after silent [Ask_Password, Type_Current (js ''old''), Cancel_Password]
     (fresh (open_header False)))) = js ''old''"
  using passwords_left_by_cancel [of "fresh (open_header False)" False silent "[Ask_Password, Type_Current (js ''old'')]"
      En initial_auth initial_draft]
  by (simp add: header_after_def header_updates open_header_def)

section \<open>The login page\<close>

definition initial_login_page :: login_page where
  "initial_login_page = \<lparr>lg_username = [], lg_password = [], lg_loading = False\<rparr>"

definition setUsername :: "jstring \<Rightarrow> login_page \<Rightarrow> login_page" where
  "setUsername v p = p\<lparr>lg_username := v\<rparr>"

definition setPassword :: "jstring \<Rightarrow> login_page \<Rightarrow> login_page" where
  "setPassword v p = p\<lparr>lg_password := v\<rparr>"

record login_view =
  lv_username :: jstring
  lv_password :: jstring
  lv_disabled :: bool
  lv_label :: string

definition LoginPage :: "login_page \<Rightarrow> login_view" where
  "LoginPage p = \<lparr>lv_username = lg_username p, lv_password = lg_password p, lv_disabled = lg_loading p,
     lv_label = (if lg_loading p then ''login.signingIn'' else ''login.signIn'')\<rparr>"

section \<open>The menu and the layout\<close>

text \<open>\<open>end\<close> of a menu entry.\<close>

definition nav_end :: "string \<Rightarrow> bool" where
  "nav_end path \<longleftrightarrow> path = ''/''"

text \<open>
  \<open>active entry only path\<close> is whether the router's link marks an entry: on its own path, and without
  \<open>end\<close> also on the paths below it.
\<close>

definition link_law :: "(string \<Rightarrow> bool \<Rightarrow> string \<Rightarrow> bool) \<Rightarrow> bool" where
  "link_law active \<longleftrightarrow> (\<forall>entry only path. active entry only path \<longleftrightarrow>
     path = entry \<or> \<not> only \<and> take (length entry + 1) path = entry @ ''/'')"

definition Sidebar :: "(string \<Rightarrow> bool \<Rightarrow> string \<Rightarrow> bool) \<Rightarrow> string \<Rightarrow> (string \<times> string \<times> bool) list" where
  "Sidebar active path = map (\<lambda>(entry, label). (entry, label, active entry (nav_end entry) path)) navItems"

record app_view =
  av_header :: header_view
  av_sidebar :: "(string \<times> string \<times> bool) list"
  av_screen :: screen

definition AppLayout ::
    "(string \<Rightarrow> bool \<Rightarrow> string \<Rightarrow> bool) \<Rightarrow> string \<Rightarrow> header_view \<Rightarrow> screen \<Rightarrow> app_view" where
  "AppLayout active path h s = \<lparr>av_header = h, av_sidebar = Sidebar active path, av_screen = s\<rparr>"

text \<open>The law determines the links.\<close>

definition plain_link :: "string \<Rightarrow> bool \<Rightarrow> string \<Rightarrow> bool" where
  "plain_link entry only path \<longleftrightarrow> path = entry \<or> \<not> only \<and> take (length entry + 1) path = entry @ ''/''"

lemma link_law_unique: "link_law active \<longleftrightarrow> active = plain_link"
  by (auto simp: link_law_def plain_link_def fun_eq_iff)

lemma one_entry_marked:
  "\<forall>item \<in> set navItems. \<exists>label.
     filter (\<lambda>(e, l, marked). marked) (Sidebar plain_link (fst item)) = [(fst item, label, True)]"
  by (simp add: navItems_def Sidebar_def plain_link_def nav_end_def)

lemma nav_children: "map fst navItems = map (\<lambda>c. CHR ''/'' # fst c) children"
  by (simp add: navItems_def children_def)

lemma children_distinct: "distinct (map fst children)" "distinct (map snd children)"
  by (simp_all add: children_def)

lemma router_child:
  "isAuthenticated s \<Longrightarrow> (rest, screen) \<in> set children \<Longrightarrow> router s (CHR ''/'' # rest) = Show screen"
proof -
  assume child: "(rest, screen) \<in> set children" and auth: "isAuthenticated s"
  have "map_of children rest = Some screen" using children_distinct(1) child by (rule map_of_is_SomeI)
  moreover have "\<forall>c \<in> set children. fst c \<noteq> ''login''" by (simp add: children_def)
  then have "rest \<noteq> ''login''" using child by force
  ultimately show ?thesis using auth by (simp add: router_def ProtectedRoute_def)
qed

text \<open>
  The menu marks the page that is shown. Whenever the router shows a page to someone signed in,
  exactly one entry of the menu is marked, and it is the one that leads to this page.
\<close>

theorem menu_marks_page:
  assumes "link_law active" "router s path = Show screen" "screen \<noteq> Login"
  shows "isAuthenticated s \<and>
    (\<exists>label. filter (\<lambda>(e, l, marked). marked) (av_sidebar (AppLayout active path h screen)) = [(path, label, True)]) \<and>
    (\<forall>item \<in> set navItems. router s (fst item) = Show screen \<longleftrightarrow> fst item = path)"
proof -
  have auth: "isAuthenticated s"
    using assms(2,3) by (auto simp: router_def ProtectedRoute_def split: if_splits list.splits option.splits)
  obtain rest where path: "path = CHR ''/'' # rest" "(rest, screen) \<in> set children"
    using assms(2,3)
    by (auto simp: router_def ProtectedRoute_def dest!: map_of_SomeD split: if_splits list.splits option.splits)
  then have "path \<in> fst ` set navItems"
    using nav_children by (metis (no_types, lifting) fst_conv imageI image_set)
  then have "\<exists>label. filter (\<lambda>(e, l, marked). marked) (Sidebar active path) = [(path, label, True)]"
    using one_entry_marked assms(1) by (auto simp: link_law_unique)
  moreover have "router s (fst item) = Show screen \<longleftrightarrow> fst item = path" if "item \<in> set navItems" for item
  proof -
    have "fst item \<in> set (map fst navItems)" using that by simp
    then obtain rest' screen' where other: "fst item = CHR ''/'' # rest'" "(rest', screen') \<in> set children"
      unfolding nav_children by auto
    then have "router s (fst item) = Show screen'" using router_child auth by simp
    moreover have "screen' = screen \<longleftrightarrow> rest' = rest"
      using other(2) path(2) children_distinct eq_key_imp_eq_value [of children rest screen' screen]
        inj_onD [of snd "set children" "(rest', screen)" "(rest, screen)"] by (auto simp: distinct_map)
    ultimately show ?thesis using other(1) path(1) by auto
  qed
  ultimately show ?thesis using auth by (simp add: AppLayout_def)
qed

theorem menu_marks_page_witness:
  "\<exists>label. filter (\<lambda>(e, l, marked). marked) (Sidebar plain_link ''/proxies'') = [(''/proxies'', label, True)]"
proof -
  have "link_law plain_link" by (simp add: link_law_def plain_link_def)
  moreover have "router (initial_auth\<lparr>au_accessToken := JStr (js ''t'')\<rparr>) ''/proxies'' = Show Proxies"
    by (simp add: router_def ProtectedRoute_def isAuthenticated_def children_def js_def)
  ultimately show ?thesis
    using menu_marks_page [of plain_link "initial_auth\<lparr>au_accessToken := JStr (js ''t'')\<rparr>" "''/proxies''" Proxies
        "Header En initial_auth initial_draft (open_header False)"]
    by (simp add: AppLayout_def)
qed

section \<open>The language\<close>

text \<open>The menu's language entry alternates the two languages, and the choice survives a page load.\<close>

lemma next_locale_alternates:
  "next_locale (next_locale l) = l" "next_locale l \<noteq> l"
  "rehydrate_locale (persist_locale (next_locale l) st) = locale_value (next_locale l)"
  by (cases l; simp add: next_locale_def setLocale_def rehydrate_persist_locale)+

end
