(* ===== verification/Proxies_View.thy ===== *)
theory Proxies_View
  imports Proxy_List
begin

text \<open>
  What \<open>pages/proxies.tsx\<close> shows around its list, and how the page and the list share the test of
  all nodes: the page counts the clicks, the list remembers the last one it has answered, and the
  list is taken off the page while an empty inventory is loading. The lemmas show that the button is
  always freed again, and that a list put back on the page repeats the last test by itself.
\<close>

section \<open>The page\<close>

record proxies_view =
  xv_testDisabled :: bool
  xv_testLabel :: string
  xv_retry :: "bool option"
  xv_search :: jstring
  xv_source :: "jstring \<times> label"
  xv_sources :: "(jstring \<times> label) list"
  xv_protocol :: jstring
  xv_protocols :: "(keyed \<times> keyed) list"
  xv_country :: jstring
  xv_countries :: "jstring list"
  xv_badges :: "(jstring \<times> bool \<times> jsnum option) list"
  xv_content :: content
  xv_form :: "proxy option option"

text \<open>A badge: the provider, whether its inventory could be read, and its number of nodes if it is known.\<close>

definition provider_badges :: "proxy_provider list \<Rightarrow> (jstring \<times> bool \<times> jsnum option) list" where
  "provider_badges prs = map (\<lambda>s. (ps_name s, ps_status s = StOk, ps_nodeCount s)) (providerSummaries prs)"

text \<open>
  \<open>xv_retry\<close> is the alert about providers that could not be loaded, with whether its button is
  disabled; the menus of protocols and countries start with an entry for all of them.
\<close>

definition ProxiesPage :: "(jstring \<Rightarrow> jstring) \<Rightarrow> proxies_page \<Rightarrow> proxies_view" where
  "ProxiesPage lower p =
     \<lparr>xv_testDisabled = pg_testingAll p,
      xv_testLabel = (if pg_testingAll p then ''proxies.testing'' else ''proxies.testAllDelay''),
      xv_retry = (if pg_providersError p then Some (pg_providersLoading p) else None),
      xv_search = pg_search p, xv_source = (pg_sourceFilter p, sourceLabel p), xv_sources = source_items p,
      xv_protocol = pg_protocolFilter p, xv_protocols = map (\<lambda>k. (k, protocol_text k)) (protocolOptions (allRows lower p)),
      xv_country = pg_countryFilter p, xv_countries = countryOptions (allRows lower p),
      xv_badges = provider_badges (pg_providers p), xv_content = content lower p,
      xv_form = (if pg_formOpen p then Some (pg_editingProxy p) else None)\<rparr>"

section \<open>The list on the page\<close>

definition list_mounted :: "(jstring \<Rightarrow> jstring) \<Rightarrow> proxies_page \<Rightarrow> bool" where
  "list_mounted lower p \<longleftrightarrow> \<not> (pg_loading p \<and> allRows lower p = [])"

text \<open>A list that is taken off the page loses its state; put back it starts from its first one.\<close>

definition fresh_list :: "proxies_page \<Rightarrow> proxies_page" where
  "fresh_list p = p\<lparr>pl_deletingId := None, pl_confirmOpen := False, pl_confirmDescription := Raw [],
     pl_delays := (\<lambda>_. None), pl_detailsRow := None, pl_testAllRef := 0\<rparr>"

definition rendered :: "(jstring \<Rightarrow> jstring) \<Rightarrow> proxies_page \<Rightarrow> proxies_page" where
  "rendered lower p = (if list_mounted lower p then p else fresh_list p)"

text \<open>
  The page with the number of tests of all nodes that are running. Any other change of the page, a
  load, a filter, a single test, leaves the clicks and the answered one alone.
\<close>

inductive testing_step :: "(jstring \<Rightarrow> jstring) \<Rightarrow> proxies_page \<times> nat \<Rightarrow> proxies_page \<times> nat \<Rightarrow> bool" for lower where
  click: "\<not> xv_testDisabled (ProxiesPage lower p) \<Longrightarrow> testing_step lower (p, n) (rendered lower (onTestAll p), n)"
| change: "pg_testingAll q = pg_testingAll p \<Longrightarrow> pg_testAllTrigger q = pg_testAllTrigger p \<Longrightarrow>
     pl_testAllRef q = pl_testAllRef p \<Longrightarrow> testing_step lower (p, n) (rendered lower q, n)"
| started: "list_mounted lower p \<Longrightarrow> test_all_effect lower p = (Some rows, q) \<Longrightarrow> testing_step lower (p, n) (q, Suc n)"
| ended: "testing_step lower (p, Suc n) (rendered lower (onTestAllDone p), n)"

inductive testing_reach :: "(jstring \<Rightarrow> jstring) \<Rightarrow> proxies_page \<times> nat \<Rightarrow> bool" for lower where
  opened: "testing_reach lower (initial_proxies_page, 0)"
| step: "testing_reach lower s \<Longrightarrow> testing_step lower s s' \<Longrightarrow> testing_reach lower s'"

inductive_cases testing_stepE: "testing_step lower s s'"

definition pending :: "proxies_page \<Rightarrow> bool" where
  "pending p \<longleftrightarrow> pg_testAllTrigger p \<noteq> 0 \<and> pg_testAllTrigger p \<noteq> pl_testAllRef p"

lemma rendered_fields [simp]:
  "pg_testingAll (rendered lower p) = pg_testingAll p" "pg_testAllTrigger (rendered lower p) = pg_testAllTrigger p"
  "pl_testAllRef (rendered lower p) = (if list_mounted lower p then pl_testAllRef p else 0)"
  "pg_loading (rendered lower p) = pg_loading p" "allRows lower (rendered lower p) = allRows lower p"
  by (simp_all add: rendered_def fresh_list_def allRows_def)

lemma effect_pending:
  "test_all_effect lower p = (if pending p
     then (Some (shown_rows lower p), p\<lparr>pl_testAllRef := pg_testAllTrigger p\<rparr>) else (None, p))"
  by (simp add: test_all_effect_def pending_def)

definition testing_inv :: "proxies_page \<times> nat \<Rightarrow> bool" where
  "testing_inv s \<longleftrightarrow> pl_testAllRef (fst s) \<le> pg_testAllTrigger (fst s) \<and>
     (pg_testingAll (fst s) \<longrightarrow> 0 < snd s \<or> pending (fst s))"

lemma testing_inv_step: "testing_step lower s s' \<Longrightarrow> testing_inv s \<Longrightarrow> testing_inv s'"
  by (induction rule: testing_step.induct)
     (auto simp: testing_inv_def pending_def onTestAll_def onTestAllDone_def effect_pending ProxiesPage_def split: if_splits)

lemma testing_reach_inv: "testing_reach lower s \<Longrightarrow> testing_inv s"
  by (induction rule: testing_reach.induct)
     (auto simp: testing_inv_def initial_proxies_page_def dest: testing_inv_step)

text \<open>
  C37: the button that tests all nodes is freed again. In every state of the page in which the button
  is disabled, either a test is running, and its end frees the button, or one is due: once the list
  is on the page the next thing it does is start it.
\<close>

theorem test_button_freed:
  assumes "testing_reach lower (p, n)" "xv_testDisabled (ProxiesPage lower p)"
  shows "(\<exists>m q. n = Suc m \<and> testing_step lower (p, n) (q, m) \<and> \<not> xv_testDisabled (ProxiesPage lower q)) \<or>
    (\<exists>rows q. list_mounted lower (p\<lparr>pg_loading := False\<rparr>) \<and>
       test_all_effect lower (p\<lparr>pg_loading := False\<rparr>) = (Some rows, q) \<and>
       testing_step lower (p\<lparr>pg_loading := False\<rparr>, n) (q, Suc n) \<and>
       (\<exists>r. testing_step lower (q, Suc n) (r, n) \<and> \<not> xv_testDisabled (ProxiesPage lower r)))"
proof -
  have freed: "testing_step lower (q, Suc m) (rendered lower (onTestAllDone q), m) \<and>
      \<not> xv_testDisabled (ProxiesPage lower (rendered lower (onTestAllDone q)))" for q m
    using testing_step.ended by (simp add: ProxiesPage_def) (simp add: onTestAllDone_def)
  have "0 < n \<or> pending p"
    using testing_reach_inv [OF assms(1)] assms(2) by (simp add: testing_inv_def ProxiesPage_def)
  then show ?thesis
  proof
    assume "0 < n"
    then obtain m where "n = Suc m" by (cases n) auto
    then show ?thesis using freed by blast
  next
    assume "pending p"
    let ?p = "p\<lparr>pg_loading := False\<rparr>"
    have m: "list_mounted lower ?p" by (simp add: list_mounted_def)
    have "pending ?p" using \<open>pending p\<close> by (simp add: pending_def)
    then have e: "test_all_effect lower ?p = (Some (shown_rows lower ?p), ?p\<lparr>pl_testAllRef := pg_testAllTrigger ?p\<rparr>)"
      by (simp add: effect_pending)
    show ?thesis using m e testing_step.started [OF m e] freed by blast
  qed
qed

theorem test_button_freed_witness:
  "\<exists>rows q. test_all_effect lower_ascii (onTestAll initial_proxies_page) = (Some rows, q)"
proof -
  have m: "rendered lower_ascii (onTestAll initial_proxies_page) = onTestAll initial_proxies_page"
    by (simp add: rendered_def list_mounted_def onTestAll_def initial_proxies_page_def)
  have "testing_step lower_ascii (initial_proxies_page, 0) (onTestAll initial_proxies_page, 0)"
    using testing_step.click [of lower_ascii initial_proxies_page 0]
    by (simp add: m ProxiesPage_def) (simp add: initial_proxies_page_def)
  then have "testing_reach lower_ascii (onTestAll initial_proxies_page, 0)"
    by (rule testing_reach.step [OF testing_reach.opened])
  moreover have "xv_testDisabled (ProxiesPage lower_ascii (onTestAll initial_proxies_page))"
    "(onTestAll initial_proxies_page)\<lparr>pg_loading := False\<rparr> = onTestAll initial_proxies_page"
    by (simp_all add: ProxiesPage_def onTestAll_def initial_proxies_page_def)
  ultimately show ?thesis using test_button_freed [of lower_ascii "onTestAll initial_proxies_page" 0] by auto
qed

text \<open>
  A list that comes back tests all nodes without a click. After every click was answered, a
  load of the proxies takes the list off the page exactly when there are no rows; when the load has
  ended the list then starts a test of all rows shown, although nobody asked for it. With rows
  before the load it starts none.
\<close>

theorem retest_on_remount:
  assumes "pg_testAllTrigger p \<noteq> 0" "\<not> pending p"
    and "loading = rendered lower (p\<lparr>pg_loading := True\<rparr>)"
    and "loaded = rendered lower (loading\<lparr>pg_proxies := ps, pg_staticError := False, pg_loading := False\<rparr>)"
  shows "fst (test_all_effect lower loaded) = (if allRows lower p = [] then Some (shown_rows lower loaded) else None) \<and>
    pg_testingAll loaded = pg_testingAll p \<and> pg_testAllTrigger loaded = pg_testAllTrigger p"
proof -
  have "allRows lower (p\<lparr>pg_loading := True\<rparr>) = allRows lower p" by (simp add: allRows_def)
  then have "list_mounted lower (p\<lparr>pg_loading := True\<rparr>) \<longleftrightarrow> allRows lower p \<noteq> []" by (simp add: list_mounted_def)
  moreover have "list_mounted lower (loading\<lparr>pg_proxies := ps, pg_staticError := False, pg_loading := False\<rparr>)"
    by (simp add: list_mounted_def)
  ultimately show ?thesis using assms(1,2)
    by (auto simp: assms(3,4) effect_pending pending_def)
qed

theorem retest_on_remount_witness:
  "let p = initial_proxies_page\<lparr>pg_testAllTrigger := 1, pl_testAllRef := 1\<rparr>;
       loaded = rendered lower_ascii ((rendered lower_ascii (p\<lparr>pg_loading := True\<rparr>))
         \<lparr>pg_proxies := [sample_proxy], pg_staticError := False, pg_loading := False\<rparr>)
   in fst (test_all_effect lower_ascii loaded) = Some (shown_rows lower_ascii loaded)"
  using retest_on_remount [of "initial_proxies_page\<lparr>pg_testAllTrigger := 1, pl_testAllRef := 1\<rparr>" _ lower_ascii _ "[sample_proxy]", OF _ _ refl refl]
  by (simp add: pending_def allRows_def buildNodeRows_def raw_rows_def initial_proxies_page_def Let_def)

end
