(* ===== verification/Runtime_View.thy ===== *)
theory Runtime_View
  imports Overview Rules_Page Runtime_Page
begin

text \<open>
  What \<open>pages/overview.tsx\<close>, \<open>pages/runtime.tsx\<close> and \<open>components/runtime/connection-table.tsx\<close> show,
  and the way from a connection to a rule: the button of a row, the dialog of
  \<open>components/rules/rule-form.tsx\<close> and the request. The lemmas show what is saved that way, and when
  drawing a tab raises.
\<close>

section \<open>The connection table\<close>

text \<open>A list whose elements are computed in order; the first that raises ends it.\<close>

fun results :: "'a result list \<Rightarrow> 'a list result" where
  "results [] = Inr []"
| "results (r # rs) = (case r of Inl e \<Rightarrow> Inl e | Inr x \<Rightarrow> map_result (\<lambda>xs. x # xs) (results rs))"

lemma results_map:
  "(\<exists>xs. results (map f cs) = Inr xs) \<longleftrightarrow> (\<forall>c \<in> set cs. \<exists>x. f c = Inr x)"
  by (induction cs) (auto simp: map_result_def split: sum.splits)

lemma results_length: "results rs = Inr xs \<Longrightarrow> length xs = length rs"
  by (induction rs arbitrary: xs) (auto simp: map_result_def split: sum.splits)

lemma ct_row_metadata: "(\<exists>r. ct_row env now c = Inr r) \<longleftrightarrow> cn_metadata c \<noteq> None"
  by (simp add: ct_row_def split: option.splits)

datatype conn_table = Table_Loading | Connections "ct_row_view list"

definition ConnectionTable ::
    "date_env \<Rightarrow> int \<Rightarrow> (jstring \<Rightarrow> jstring) \<Rightarrow> jstring \<Rightarrow> 'e conns_scheme \<Rightarrow> conn_table result" where
  "ConnectionTable env now lower search p = (case ct_filtered lower search (co_connections p) of
     Inl e \<Rightarrow> Inl e
   | Inr cs \<Rightarrow> if co_loading p then Inr Table_Loading else map_result Connections (results (map (ct_row env now) cs)))"

text \<open>
  When drawing the connection table raises. It draws exactly when every connection has metadata;
  without a search also while it is loading. Then it shows one row for each connection that matches.
\<close>

theorem connection_table_raises:
  "((\<exists>t. ConnectionTable env now lower search p = Inr t) \<longleftrightarrow>
     (search = [] \<and> co_loading p) \<or> (\<forall>c \<in> set (co_connections p). cn_metadata c \<noteq> None)) \<and>
   (\<forall>rows. ConnectionTable env now lower search p = Inr (Connections rows) \<longrightarrow>
      length rows = length (filter (\<lambda>c. ct_matches lower search c = Inr True) (co_connections p)))"
proof -
  let ?cs = "co_connections p"
  have all: "ct_filtered lower [] cs = Inr cs" for cs
    by (induction cs) (simp_all add: ct_matches_def map_result_def)
  have drawn: "(\<exists>t. map_result Connections (results (map (ct_row env now) cs)) = Inr t) \<longleftrightarrow>
      (\<forall>c \<in> set cs. cn_metadata c \<noteq> None)" for cs
    using results_map [of "ct_row env now" cs] by (auto simp: map_result_def ct_row_metadata split: sum.splits)
  have meta: "\<forall>c \<in> set ?cs. cn_metadata c \<noteq> None \<Longrightarrow> \<forall>c \<in> set (filter P ?cs). cn_metadata c \<noteq> None" for P
    by simp
  have draws: "(\<exists>t. ConnectionTable env now lower search p = Inr t) \<longleftrightarrow>
     (search = [] \<and> co_loading p) \<or> (\<forall>c \<in> set ?cs. cn_metadata c \<noteq> None)"
  proof (cases "search = []")
    case True
    then show ?thesis using drawn [of ?cs] by (simp add: ConnectionTable_def all)
  next
    case False
    show ?thesis
    proof (cases "\<forall>c \<in> set ?cs. cn_metadata c \<noteq> None")
      case True
      then show ?thesis using drawn [THEN iffD2, OF meta [OF True]]
        by (simp add: ConnectionTable_def ct_filtered_total)
    next
      case no: False
      then show ?thesis using ct_filtered_raises [OF False, of lower ?cs] False
        by (auto simp: ConnectionTable_def split: sum.splits)
    qed
  qed
  have "length rows = length (filter (\<lambda>c. ct_matches lower search c = Inr True) ?cs)"
    if shown: "ConnectionTable env now lower search p = Inr (Connections rows)" for rows
  proof -
    obtain cs where found: "ct_filtered lower search ?cs = Inr cs"
      using shown by (cases "ct_filtered lower search ?cs") (auto simp: ConnectionTable_def)
    then have drawn_rows: "results (map (ct_row env now) cs) = Inr rows"
      using shown by (auto simp: ConnectionTable_def map_result_def split: sum.splits if_splits)
    note cs = found drawn_rows
    have "cs = filter (\<lambda>c. ct_matches lower search c = Inr True) ?cs"
    proof (cases "search = []")
      case True
      then show ?thesis using cs(1) by (simp add: all ct_matches_def)
    next
      case False
      then show ?thesis using cs(1) ct_filtered_raises [OF False, of lower ?cs] ct_filtered_total [of ?cs lower search] by auto
    qed
    then show ?thesis using results_length [OF cs(2)] by simp
  qed
  then show ?thesis using draws by blast
qed

section \<open>The tabs of the runtime page\<close>

text \<open>The list of connections comes from its own component; each tab draws its own content.\<close>

datatype proxies_content = Proxies_Loading | No_Groups | Groups "(jstring \<times> jstring \<times> jstring option \<times> member_row list) list"

definition ProxiesTab :: "proxies_tab \<Rightarrow> proxies_content" where
  "ProxiesTab p =
     (if rt_loading p then Proxies_Loading
      else if proxy_groups_shown p = [] then No_Groups
      else Groups (map (\<lambda>g. (pi_name g, pi_type g, nonempty (pi_now g), member_rows p g)) (proxy_groups_shown p)))"

datatype rules_drawn = Rules_Tab_Loading | No_Runtime_Rules | Runtime_Rules "(jsval \<times> jsval \<times> jsval) list"

definition runtime_rule :: "jsval \<Rightarrow> (jsval \<times> jsval \<times> jsval) result" where
  "runtime_rule r = (case member r ''type'' of
     Inl e \<Rightarrow> Inl e
   | Inr ty \<Rightarrow> (let pl = opt_member r ''payload''
       in Inr (ty, if truthy pl then pl else JStr em_dash, opt_member r ''proxy'')))"

text \<open>A value that is not an array has no \<open>map\<close>; it is never an empty text.\<close>

definition RulesTab :: "rules_tab \<Rightarrow> rules_drawn result" where
  "RulesTab p =
     (if rl_loading p then Inr Rules_Tab_Loading
      else case rl_rules p of
        JArr rs \<Rightarrow> if rs = [] then Inr No_Runtime_Rules else map_result Runtime_Rules (results (map runtime_rule rs))
      | _ \<Rightarrow> Inl TypeError)"

record provider_line =
  pl_name :: jsval
  pl_type :: jsval
  pl_vehicle :: jsval
  pl_count :: "message option"
  pl_updated :: "jstring option"
  pl_disabled :: bool

definition provider_line :: "(jsval \<Rightarrow> jstring) \<Rightarrow> providers_tab \<Rightarrow> jsval \<Rightarrow> provider_line result" where
  "provider_line show_date p v = map_result (\<lambda>name.
     \<lparr>pl_name = name, pl_type = opt_member v ''type'', pl_vehicle = opt_member v ''vehicleType'',
      pl_count = provider_count v,
      pl_updated = (let u = opt_member v ''updatedAt'' in if truthy u then Some (show_date u) else None),
      pl_disabled = pt_refreshing p (to_str name)\<rparr>) (member v ''name'')"

datatype providers_drawn = Providers_Tab_Loading | No_Runtime_Providers | Runtime_Providers "provider_line list"

definition ProvidersTab :: "(jsval \<Rightarrow> jstring) \<Rightarrow> providers_tab \<Rightarrow> providers_drawn result" where
  "ProvidersTab show_date p =
     (if pt_loading p then Inr Providers_Tab_Loading
      else if pt_providers p = [] then Inr No_Runtime_Providers
      else map_result Runtime_Providers (results (map (\<lambda>(k, v). provider_line show_date p v) (pt_providers p))))"

section \<open>The overview\<close>

record overview_view =
  oz_status :: status_badge
  oz_connections :: "conn_row list"
  oz_refreshDisabled :: bool
  oz_proxies :: "proxy_row list"
  oz_testDisabled :: bool
  oz_testLabel :: string
  oz_ruleForm :: "rule_guess option option"

definition OverviewPage :: "date_env \<Rightarrow> int \<Rightarrow> overview_page \<Rightarrow> overview_view" where
  "OverviewPage env now p =
     \<lparr>oz_status = ov_status p, oz_connections = map (ov_row env now) (co_connections p),
      oz_refreshDisabled = co_loading p, oz_proxies = map (ov_proxy_row p) (ov_dbProxies p),
      oz_testDisabled = ov_testingAll p,
      oz_testLabel = (if ov_testingAll p then ''proxies.testing'' else ''proxies.testAllDelay''),
      oz_ruleForm = (if co_ruleFormOpen p then Some (co_ruleInitial p) else None)\<rparr>"

section \<open>From a connection to a rule\<close>

text \<open>The dialog opened with a guess.\<close>

definition guessed_form :: "rule_guess option \<Rightarrow> rule_form" where
  "guessed_form g = open_rule_form None (map_option (\<lambda>x. (Some (js (rg_type x)), Some (rg_payload x))) g)"

text \<open>Pressing the button of a row, choosing a target in the dialog and pressing save.\<close>

definition add_rule_from ::
    "'b server \<Rightarrow> date_env \<Rightarrow> int \<Rightarrow> connection \<Rightarrow> jstring option \<Rightarrow> (('b, 'e conns_scheme) world, unit) io" where
  "add_rule_from server env now c tgt = (case cr_addRule (ov_row env now c) of
     None \<Rightarrow> io_return ()
   | Some host \<Rightarrow> io_then (page (ov_handleAddRule host)) (io_read (\<lambda>w.
       let fm = onRuleTarget tgt (guessed_form (co_ruleInitial (w_page w)))
       in if rule_submittable fm then ov_handleRuleSave server (rule_json (submitted_rule fm)) else io_return ())))"

lemma guess_form:
  assumes "host \<noteq> []"
  shows "rule_submittable (onRuleTarget tgt (guessed_form (Some (guessRuleType host))))"
    "submitted_rule (onRuleTarget tgt (guessed_form (Some (guessRuleType host)))) =
       \<lparr>rv_type = js (rg_type (guessRuleType host)), rv_payload = rg_payload (guessRuleType host),
        rv_target = or_default (nonempty tgt) (js ''DIRECT''), rv_params = []\<rparr>"
  using assms
  by (auto simp: guessed_form_def open_rule_form_def onRuleTarget_def rule_submittable_def submitted_rule_def
      showPayload_def among_def NO_PAYLOAD_TYPES_def NO_RESOLVE_TYPES_def guessRuleType_def DEFAULT_RULE_def
      js_def split: option.splits)

text \<open>
  C38: a rule added from a connection is the one its host suggests. For a connection with a host, the
  button, a target and the save button send exactly one request: a new rule of the guessed type and
  payload for the chosen target, without parameters. On success it is reported and the dialog
  closes; a refusal is reported and leaves the dialog open. A connection without a host offers no
  button and sends nothing.
\<close>

theorem rule_from_connection:
  "\<exists>w'. add_rule_from server env now c tgt w = (Inr (), w') \<and>
    (case Option.bind (cn_metadata c) cm_host of
       Some (u # host) \<Rightarrow>
         let g = guessRuleType (u # host);
             rq = rulesApi_create (rule_json \<lparr>rv_type = js (rg_type g), rv_payload = rg_payload g,
               rv_target = or_default (nonempty tgt) (js ''DIRECT''), rv_params = []\<rparr>)
         in map fst (w_sent w') = map fst (w_sent w) @ [rq] \<and> co_ruleInitial (w_page w') = Some g \<and>
           rg_type g \<in> set RULE_TYPES \<and> rg_payload g \<noteq> [] \<and>
           (case answered server rq w of
              Inr _ \<Rightarrow> w_toasts w' = w_toasts w @ [Success (Key ''rules.created'' [])] \<and> \<not> co_ruleFormOpen (w_page w')
            | Inl _ \<Rightarrow> w_toasts w' = w_toasts w @ [Failure (Key ''rules.createFailed'' [])] \<and> co_ruleFormOpen (w_page w'))
     | _ \<Rightarrow> w' = w)"
proof -
  have none: "Option.bind (cn_metadata c) cm_host \<in> {None, Some []} \<Longrightarrow> cr_addRule (ov_row env now c) = None"
    by (auto simp: ov_row_def Let_def nonempty_def)
  have some: "Option.bind (cn_metadata c) cm_host = Some (u # h) \<Longrightarrow> cr_addRule (ov_row env now c) = Some (u # h)" for u h
    by (simp add: ov_row_def Let_def nonempty_def)
  have g: "rg_type (guessRuleType (u # h)) \<in> set RULE_TYPES" "rg_payload (guessRuleType (u # h)) \<noteq> []" for u h
    by (simp_all add: guessRuleType_def RULE_TYPES_def)
  show ?thesis
  proof (cases "Option.bind (cn_metadata c) cm_host")
    case None
    then show ?thesis using none by (simp add: add_rule_from_def io_return_def)
  next
    case (Some host)
    show ?thesis
    proof (cases host)
      case Nil
      then show ?thesis using none Some by (simp add: add_rule_from_def io_return_def)
    next
      case (Cons u h)
      then have s: "Option.bind (cn_metadata c) cm_host = Some (u # h)" using Some by simp
      show ?thesis unfolding s add_rule_from_def some [OF s] option.case list.case
        by (rule wp_total) (simp add: ov_handleAddRule_def ov_handleRuleSave_def save_rule_def Let_def guess_form g wp_if split: sum.split)
    qed
  qed
qed

end
