(* ===== verification/Number_Text.thy ===== *)
theory Number_Text
  imports Js_Number
begin

text \<open>
  The texts of numbers that are not integers. The lemmas show that \<open>parseFloat\<close> reads the text that
  \<open>String\<close> makes of a double back as that double, when some number of digits up to 17 suffices, and
  that a number of hundredths, rounded to a double, is such a number.
\<close>

section \<open>Powers of ten and digits\<close>

lemma pow10_pos [simp]: "0 < pow10 e" "pow10 e \<noteq> 0"
  by (simp_all add: pow10_def)

lemma pow10_add: "pow10 (a + b) = pow10 a * pow10 b"
proof -
  have p: "pow10 e = (10 :: rat) powi e" for e
    by (simp add: pow10_def power_int_def field_simps)
  show ?thesis by (simp add: p power_int_add)
qed

lemma pow10_nat [simp]: "pow10 (int k) = 10 ^ k"
  by (simp add: pow10_def)

lemma pow10_minus: "pow10 (- int k) = 1 / 10 ^ k"
  by (simp add: pow10_def)

lemma pow10_diff: "pow10 (a - b) * pow10 b = pow10 a"
  using pow10_add [of "a - b" b] by simp

lemma pow10_lessD: "pow10 a < pow10 b \<Longrightarrow> a < b"
proof (rule ccontr)
  assume a: "pow10 a < pow10 b" "\<not> a < b"
  then obtain m where m: "a = b + int m" using zle_iff_zadd by (metis not_le)
  have "pow10 b * 1 \<le> pow10 b * 10 ^ m" by (intro mult_left_mono) (simp_all add: less_imp_le)
  then have "pow10 b \<le> pow10 a" by (simp add: m pow10_add)
  then show False using a(1) by simp
qed

lemma dec_digits_bounds: "m < 10 ^ length (dec_digits m) \<and> (0 < m \<longrightarrow> 10 ^ (length (dec_digits m) - 1) \<le> m)"
proof (induction m rule: dec_digits.induct)
  case (1 m)
  show ?case
  proof (cases "m < 10")
    case True
    then show ?thesis by (simp add: dec_digits_eval)
  next
    case False
    let ?l = "length (dec_digits (m div 10))"
    have l: "length (dec_digits m) = Suc ?l" using False by (simp add: dec_digits_eval)
    have IH: "m div 10 < 10 ^ ?l" "10 ^ (?l - 1) \<le> m div 10" using 1 [OF False] False by auto
    have "0 < ?l" by simp
    then have "10 ^ ?l = 10 * (10 :: nat) ^ (?l - 1)" by (metis Suc_diff_1 power_Suc)
    then have "10 ^ ?l \<le> m" using IH(2) by linarith
    moreover have "m < 10 * 10 ^ ?l" using IH(1) by linarith
    ultimately show ?thesis by (simp add: l)
  qed
qed

lemma length_dec_digits:
  assumes "10 ^ (k - 1) \<le> m" "m < 10 ^ k" "1 \<le> k"
  shows "length (dec_digits m) = k"
proof -
  let ?l = "length (dec_digits m)"
  have m: "0 < m" using assms(1) by (metis gr0I le_zero_eq power_not_zero zero_neq_numeral)
  have b: "m < 10 ^ ?l" "10 ^ (?l - 1) \<le> m" using dec_digits_bounds [of m] m by auto
  have "(10 :: nat) ^ (k - 1) < 10 ^ ?l" "(10 :: nat) ^ (?l - 1) < 10 ^ k" using assms b by linarith+
  then have "k - 1 < ?l" "?l - 1 < k" by simp_all
  then show ?thesis using assms(3) by linarith
qed

text \<open>The decimal exponent places a number between two powers of ten.\<close>

lemma dec_exp_bounds:
  assumes "pow10 (- 300) \<le> q"
  shows "pow10 (dec_exp q - 1) \<le> q" "q < pow10 (dec_exp q)"
proof -
  have "pow10 (dec_exp q - 1) \<le> q \<and> q < pow10 (dec_exp q)"
  proof (cases "1 \<le> q")
    case True
    define m where "m = nat \<lfloor>q\<rfloor>"
    let ?l = "length (dec_digits m)"
    have f: "1 \<le> \<lfloor>q\<rfloor>" "of_int \<lfloor>q\<rfloor> \<le> q" "q < of_int \<lfloor>q\<rfloor> + 1" using True by linarith+
    then have m: "0 < m" "(of_nat m :: rat) = of_int \<lfloor>q\<rfloor>" by (simp_all add: m_def)
    have b: "m < 10 ^ ?l" "10 ^ (?l - 1) \<le> m" using dec_digits_bounds [of m] m(1) by auto
    have e: "dec_exp q = int ?l" using True by (simp add: dec_exp_def m_def)
    have "0 < ?l" by simp
    then have e1: "dec_exp q - 1 = int (?l - 1)" using e by linarith
    have "(of_nat (10 ^ (?l - 1)) :: rat) \<le> of_nat m" using b(2) by (simp only: of_nat_le_iff)
    then have "(10 :: rat) ^ (?l - 1) \<le> of_nat m" by (simp only: of_nat_power of_nat_numeral)
    then have "pow10 (dec_exp q - 1) \<le> q" unfolding e1 pow10_nat using m(2) f(2) by linarith
    moreover have "Suc m \<le> 10 ^ ?l" using b(1) by linarith
    then have "(of_nat (Suc m) :: rat) \<le> of_nat (10 ^ ?l)" by (simp only: of_nat_le_iff)
    then have "(of_nat m :: rat) + 1 \<le> 10 ^ ?l" by (simp only: of_nat_Suc of_nat_power of_nat_numeral add.commute)
    then have "q < pow10 (dec_exp q)" unfolding e pow10_nat using m(2) f(3) by linarith
    ultimately show ?thesis by simp
  next
    case False
    define l where "l = length (takeWhile (\<lambda>j. q * 10 ^ j < 1) [0..<400])"
    have ex: "1 \<le> q * 10 ^ 300"
      using assms pow10_minus [of 300] by (simp add: field_simps)
    have l: "l \<le> 300"
    proof (rule ccontr)
      assume "\<not> l \<le> 300"
      then have "300 < length (takeWhile (\<lambda>j. q * 10 ^ j < 1) [0..<400])" by (simp add: l_def)
      moreover have "([0..<400] :: nat list) ! 300 = 300" by simp
      ultimately have "q * 10 ^ 300 < 1"
        using nth_mem [of 300 "takeWhile (\<lambda>j. q * 10 ^ j < 1) [0..<400]"] set_takeWhileD takeWhile_nth by metis
      then show False using ex by simp
    qed
    have "l < length [0..<(400 :: nat)]" using l by simp
    then have "\<not> q * 10 ^ ([0..<400] ! l) < 1" unfolding l_def by (rule nth_length_takeWhile)
    moreover have "([0..<400] :: nat list) ! l = l" using l by simp
    ultimately have lo: "1 \<le> q * 10 ^ l" by simp
    have l0: "0 < l" using lo False by (cases l) simp_all
    have "l - 1 < length (takeWhile (\<lambda>j. q * 10 ^ j < 1) [0..<400])" using l0 by (simp add: l_def)
    then have "takeWhile (\<lambda>j. q * 10 ^ j < 1) [0..<400] ! (l - 1) \<in> set (takeWhile (\<lambda>j. q * 10 ^ j < 1) [0..<400])"
      "takeWhile (\<lambda>j. q * 10 ^ j < 1) [0..<400] ! (l - 1) = [0..<400] ! (l - 1)"
      by (rule nth_mem, rule takeWhile_nth)
    then have hi: "q * 10 ^ (l - 1) < 1" using l by (auto dest!: set_takeWhileD)
    have e: "dec_exp q = 1 - int l" using False by (simp add: dec_exp_def l_def)
    have "dec_exp q - 1 = - int l" "dec_exp q = - int (l - 1)" using e l0 by simp_all
    then have p: "pow10 (dec_exp q - 1) = 1 / 10 ^ l" "pow10 (dec_exp q) = 1 / 10 ^ (l - 1)"
      by (simp_all only: pow10_minus)
    show ?thesis unfolding p using lo hi by (simp add: divide_le_eq less_divide_eq)
  qed
  then show "pow10 (dec_exp q - 1) \<le> q" "q < pow10 (dec_exp q)" by simp_all
qed

section \<open>The digits of the shortest text\<close>

lemma try_digits_Some:
  assumes "try_digits q k = Some (s, n)" "pow10 (- 300) \<le> q" "1 \<le> k"
  shows "length (dec_digits (nat s)) = k" "0 < s" "rnd (of_int s * pow10 (n - int k)) = Fin q"
    "n = dec_exp q \<or> n = dec_exp q + 1"
proof -
  define t where "t = \<lfloor>q * pow10 (int k - dec_exp q) + 1 / 2\<rfloor>"
  have sn: "(s, n) = (if t = 10 ^ k then (t div 10, dec_exp q + 1) else (t, dec_exp q))"
    "rnd (of_int s * pow10 (n - int k)) = Fin q"
    using assms(1) by (auto simp: try_digits_def t_def Let_def split: if_splits)
  let ?u = "q * pow10 (int k - dec_exp q)"
  have "pow10 (dec_exp q - 1) * pow10 (int k - dec_exp q) \<le> ?u"
    using dec_exp_bounds(1) [OF assms(2)] by (intro mult_right_mono) (simp_all add: less_imp_le)
  moreover have "pow10 (dec_exp q - 1) * pow10 (int k - dec_exp q) = pow10 (int (k - 1))"
    using assms(3) by (simp only: pow10_add [symmetric]) (simp add: of_nat_diff)
  ultimately have lo: "10 ^ (k - 1) \<le> ?u" by simp
  have "?u < pow10 (dec_exp q) * pow10 (int k - dec_exp q)"
    using dec_exp_bounds(2) [OF assms(2)] by (intro mult_strict_right_mono) simp_all
  also have "\<dots> = pow10 (int k)" by (simp only: pow10_add [symmetric]) simp
  finally have hi: "?u < 10 ^ k" by simp
  have t: "10 ^ (k - 1) \<le> t" "t \<le> 10 ^ k"
  proof -
    have "(of_int (10 ^ (k - 1)) :: rat) \<le> ?u + 1 / 2" using lo by simp
    then show "10 ^ (k - 1) \<le> t" unfolding t_def le_floor_iff .
    have "?u + 1 / 2 < of_int (10 ^ k + 1)" using hi by simp
    then show "t \<le> 10 ^ k" unfolding t_def by (simp only: floor_less_iff [symmetric])
  qed
  have k: "(10 :: int) ^ k = 10 * 10 ^ (k - 1)" using assms(3) by (metis Suc_diff_1 less_le_trans power_Suc zero_less_one)
  have s: "10 ^ (k - 1) \<le> s" "s < 10 ^ k"
    using sn(1) t k by (auto split: if_splits)
  then have "nat (10 ^ (k - 1)) \<le> nat s" "nat s < nat (10 ^ k)" by (simp_all only: nat_le_iff nat_less_eq_zless) auto
  then show "length (dec_digits (nat s)) = k" using assms(3) by (intro length_dec_digits) (simp_all add: nat_power_eq)
  show "0 < s" using s(1) by (smt (verit) zero_less_power)
  show "rnd (of_int s * pow10 (n - int k)) = Fin q" by (rule sn(2))
  show "n = dec_exp q \<or> n = dec_exp q + 1" using sn(1) by (auto split: if_splits)
qed

lemma shortest_Some:
  "k \<in> set ks \<Longrightarrow> try_digits q k \<noteq> None \<Longrightarrow>
     \<exists>j s n. shortest q ks = (j, s, n) \<and> j \<in> set ks \<and> try_digits q j = Some (s, n)"
proof (induction ks)
  case (Cons j ks)
  show ?case
  proof (cases "try_digits q j")
    case None
    then have "k \<in> set ks" using Cons.prems by auto
    then show ?thesis using Cons.IH Cons.prems(2) None by auto
  next
    case (Some sn)
    then show ?thesis by (cases sn) auto
  qed
qed simp

section \<open>Reading the text\<close>

lemma digits_val_zeros: "digits_val a (replicate m 48 @ s) = digits_val (a * 10 ^ m) s"
  by (induction m arbitrary: a) (simp_all add: mult.assoc mult.commute)

lemma digits_val_trailing: "digits_val a (s @ replicate m 48) = digits_val a s * 10 ^ m"
  using digits_val_zeros [of "digits_val a s" m "[]"] by (simp add: digits_val_append)

lemma parse_float_fraction:
  assumes "\<forall>u \<in> set ip. is_digit u" "\<forall>u \<in> set fp. is_digit u" "ip \<noteq> []"
  shows "parse_float (ip @ 46 # fp) = rnd (of_nat (digits_val 0 (ip @ fp)) * pow10 (- int (length fp)))"
    "parse_float ip = rnd (of_nat (digits_val 0 ip))"
proof -
  obtain c t where c: "ip = c # t" "is_digit c" using assms(1,3) by (cases ip) auto
  have dot: "\<not> is_digit 46" by (simp add: is_digit_def)
  have ts: "trim_start (ip @ r) = ip @ r" "split_sign (ip @ r) = (False, ip @ r)"
    "\<not> starts_with (ip @ r) (js ''Infinity'')" for r
    using c digit_facts [of c] by (simp_all add: trim_start_def split_sign_def starts_with_def js_def)
  have tw: "takeWhile is_digit (ip @ 46 # fp) = ip" "dropWhile is_digit (ip @ 46 # fp) = 46 # fp"
    "takeWhile is_digit fp = fp" "dropWhile is_digit fp = []"
    "takeWhile is_digit ip = ip" "dropWhile is_digit ip = []"
    using assms dot by (simp_all add: takeWhile_append2 dropWhile_append2 takeWhile_eq_all_conv)
  have "dec_literal (ip @ 46 # fp) = Some (of_nat (digits_val 0 (ip @ fp)) * pow10 (- int (length fp)), [])"
    unfolding dec_literal_def Let_def tw using assms(3) by (simp add: tw exp_part_def)
  then show "parse_float (ip @ 46 # fp) = rnd (of_nat (digits_val 0 (ip @ fp)) * pow10 (- int (length fp)))"
    by (simp add: parse_float_def ts)
  have "dec_literal ip = Some (of_nat (digits_val 0 ip), [])"
    unfolding dec_literal_def Let_def tw using assms(3) by (simp add: exp_part_def pow10_def)
  then show "parse_float ip = rnd (of_nat (digits_val 0 ip))"
    using ts [of "[]"] by (simp add: parse_float_def)
qed

text \<open>
  A positive double between a millionth and \<open>10 ^ 20\<close> that some decimal of at most 17 digits reads
  back to is read back from its text.
\<close>

lemma parse_float_pos_str:
  assumes "k \<in> set [1..<18]" "try_digits q k \<noteq> None" "pow10 (- 6) \<le> q" "q < pow10 20"
  shows "parse_float (pos_str q) = Fin q"
proof -
  obtain j s n where js: "shortest q [1..<18] = (j, s, n)" "j \<in> set [1..<18]" "try_digits q j = Some (s, n)"
    using shortest_Some [OF assms(1,2)] by blast
  have j: "1 \<le> j" using js(2) by simp
  have small: "pow10 (- 300) \<le> q"
  proof -
    have "pow10 (- 300) \<le> pow10 (- 6)" using pow10_minus [of 300] pow10_minus [of 6] by simp
    then show ?thesis using assms(3) by linarith
  qed
  note d = try_digits_Some [OF js(3) small j]
  define ds where "ds = dec_digits (nat s)"
  have l: "length ds = j" "ds \<noteq> []" and v: "digits_val 0 ds = nat s" using d(1) by (simp_all add: ds_def)
  have dig: "\<forall>u \<in> set ds. is_digit u" using dec_digits_digit by (auto simp: ds_def)
  have z: "is_digit 48" by (simp add: is_digit_def)
  have val: "rnd (of_nat (nat s) * pow10 (n - int j)) = Fin q" using d(2,3) by simp
  have n: "- 6 < n" "n \<le> 21"
  proof -
    have "pow10 (- 6) < pow10 (dec_exp q)" "pow10 (dec_exp q - 1) < pow10 20"
      using dec_exp_bounds [OF small] assms(3,4) by linarith+
    then show "- 6 < n" "n \<le> 21" using pow10_lessD d(4) by force+
  qed
  show ?thesis
  proof (cases "int j \<le> n")
    case True
    have "pos_str q = ds @ replicate (nat (n - int j)) 48" using True n js(1) by (simp add: pos_str_def Let_def ds_def)
    moreover have "parse_float (ds @ replicate (nat (n - int j)) 48) = rnd (of_nat (nat s * 10 ^ nat (n - int j)))"
      using parse_float_fraction(2) [of "ds @ replicate (nat (n - int j)) 48" "[]"] dig z l(2)
      by (simp add: ball_Un digits_val_trailing v)
    ultimately show ?thesis using val True by (simp add: pow10_def)
  next
    case False
    show ?thesis
    proof (cases "0 < n")
      case True
      have "pos_str q = take (nat n) ds @ 46 # drop (nat n) ds"
        using False True n js(1) by (simp add: pos_str_def Let_def ds_def)
      moreover have "take (nat n) ds \<noteq> []" using True l(2) by simp
      then have "parse_float (take (nat n) ds @ 46 # drop (nat n) ds) = rnd (of_nat (nat s) * pow10 (- int (j - nat n)))"
        using dig by (subst parse_float_fraction(1)) (auto simp: v l(1) dest: in_set_takeD in_set_dropD)
      moreover have "- int (j - nat n) = n - int j" using True False by simp
      ultimately show ?thesis using val True by simp
    next
      case np: False
      have "pos_str q = [48] @ 46 # (replicate (nat (- n)) 48 @ ds)"
        using False np n js(1) by (simp add: pos_str_def Let_def ds_def)
      moreover have "parse_float ([48] @ 46 # (replicate (nat (- n)) 48 @ ds)) =
          rnd (of_nat (nat s) * pow10 (- int (nat (- n) + j)))"
        using dig digits_val_zeros [of 0 "Suc (nat (- n))" ds]
        by (subst parse_float_fraction(1)) (auto simp: v l(1) is_digit_def)
      moreover have "- int (nat (- n) + j) = n - int j" using np by simp
      ultimately show ?thesis using val by simp
    qed
  qed
qed

section \<open>Hundredths\<close>

text \<open>A number of hundredths up to 65536, divided by 100: the double is near, and read back from its text.\<close>

lemma one_hundredth: "1 / 100 \<le> round_abs (1 / 100)"
  by code_simp

lemma hundredths_double:
  assumes "1 \<le> h" "h \<le> 100 * 2 ^ 16"
  shows "rnd (of_int h / 100) = Fin (round_abs (of_int h / 100))"
    "\<bar>round_abs (of_int h / 100) - of_int h / 100\<bar> \<le> 1 / 2 ^ 37" "1 / 100 \<le> round_abs (of_int h / 100)"
proof -
  let ?q = "of_int h / 100 :: rat"
  have h: "(of_int h :: rat) \<le> 100 * 2 ^ 16" "(1 :: rat) \<le> of_int h"
    using assms by (metis of_int_le_iff of_int_mult of_int_numeral of_int_power, simp)
  then have q: "0 < ?q" "?q \<le> pow2 16" by (simp_all add: pow2_def)
  have "pos_double (of_int 1 * pow2 16)" by (rule pos_doubleI) simp_all
  then show "rnd ?q = Fin (round_abs ?q)" using q by (intro rnd_pos [of _ "pow2 16"]) simp_all
  have "pow2 (ilog2 ?q) \<le> pow2 16" using ilog2_bounds(1) [OF q(1)] q(2) by linarith
  then have "dexp ?q \<le> - 36" by (simp add: dexp_def)
  then have "pow2 (dexp ?q) \<le> pow2 (- 36)" by simp
  then have "pow2 (dexp ?q) / 2 \<le> 1 / 2 ^ 37" by (simp add: pow2_def [of "- 36"])
  then show e: "\<bar>round_abs ?q - ?q\<bar> \<le> 1 / 2 ^ 37" using round_abs_error [of ?q] by linarith
  show "1 / 100 \<le> round_abs ?q"
  proof (cases "h = 1")
    case True
    then show ?thesis using one_hundredth by simp
  next
    case False
    then have "2 / 100 \<le> ?q" using assms(1) by simp
    moreover have "(1 :: rat) / 2 ^ 37 \<le> 1 / 100" by simp
    ultimately show ?thesis using e unfolding abs_le_iff by linarith
  qed
qed

lemma hundredths_text:
  assumes "1 \<le> h" "h \<le> 100 * 2 ^ 16" "rnd (of_int h / 100) = Fin x"
  shows "parse_float (num_str (Fin x)) = Fin x"
proof -
  have x: "\<bar>x - of_int h / 100\<bar> \<le> 1 / 2 ^ 37" "1 / 100 \<le> x"
    using hundredths_double [OF assms(1,2)] assms(3) by simp_all
  have h: "(of_int h :: rat) \<le> 100 * 2 ^ 16" using assms(2) by (metis of_int_le_iff of_int_mult of_int_numeral of_int_power)
  have up: "x < 10 ^ 5"
  proof -
    have "x \<le> of_int h / 100 + 1 / 2 ^ 37" using x(1) unfolding abs_le_iff by linarith
    also have "\<dots> \<le> 2 ^ 16 + 1" using h by simp
    finally show ?thesis by simp
  qed
  show ?thesis
  proof (cases "is_int_rat x")
    case True
    then obtain m where m: "x = of_int m" by (rule is_int_ratE)
    have "(0 :: rat) < of_int m" "(of_int m :: rat) < of_int (10 ^ 5)" using x(2) up m by simp_all
    then have "0 < m" "m < 10 ^ 5" by (simp_all only: of_int_0_less_iff of_int_less_iff)
    moreover from this have "num_str (Fin x) = dec_digits (nat m)"
      using num_str_num [of m] by (simp add: num_def m int_str_def)
    moreover have "\<forall>u \<in> set (dec_digits (nat m)). is_digit u" using dec_digits_digit by blast
    ultimately show ?thesis using parse_float_fraction(2) [of "dec_digits (nat m)" "[]"] rnd_int [of m]
      by (simp add: m num_def)
  next
    case False
    define n where "n = dec_exp x"
    have small: "pow10 (- 300) \<le> x"
    proof -
      have "pow10 (- 300) \<le> 1 / 100" using pow10_minus [of 300] by simp
      then show ?thesis using x(2) by linarith
    qed
    note b = dec_exp_bounds [OF small, folded n_def]
    have "pow10 (- 2) < pow10 n" using b(2) x(2) by (simp add: pow10_def [of "- 2"])
    then have n1: "- 1 \<le> n" using pow10_lessD by fastforce
    have "pow10 (n - 1) < pow10 5" using b(1) up by (simp add: pow10_def [of 5])
    then have n2: "n \<le> 5" using pow10_lessD by fastforce
    define k where "k = nat (n + 2)"
    have k: "int k = n + 2" "k \<in> set [1..<18]" using n1 n2 by (auto simp: k_def)
    have s: "\<lfloor>x * pow10 (int k - n) + 1 / 2\<rfloor> = h"
    proof (rule floor_unique)
      have e: "x * pow10 (int k - n) = 100 * x" by (simp add: k(1) pow10_def)
      have "100 / 2 ^ 37 < (1 / 2 :: rat)" by simp
      then show "of_int h \<le> x * pow10 (int k - n) + 1 / 2" "x * pow10 (int k - n) + 1 / 2 < of_int h + 1"
        unfolding e using x(1) unfolding abs_le_iff by linarith+
    qed
    have "try_digits x k \<noteq> None"
    proof (cases "h = 10 ^ k")
      case True
      have "0 < k" using k(2) by simp
      then obtain j where j: "k = Suc j" using gr0_implies_Suc by blast
      have e: "n + 1 - int k = - 1" using k(1) by simp
      have "of_int (h div 10) * pow10 (n + 1 - int k) = (of_int h / 100 :: rat)"
        using True j unfolding e by (simp add: pow10_def)
      then have "rnd (of_int (h div 10) * pow10 (n + 1 - int k)) = Fin x" using assms(3) by (simp only:)
      then show ?thesis using True unfolding try_digits_def Let_def n_def [symmetric] s by simp
    next
      case False
      have e: "n - int k = - 2" using k(1) by simp
      have "of_int h * pow10 (n - int k) = (of_int h / 100 :: rat)" unfolding e by (simp add: pow10_def)
      then have "rnd (of_int h * pow10 (n - int k)) = Fin x" using assms(3) by (simp only:)
      then show ?thesis using False unfolding try_digits_def Let_def n_def [symmetric] s by simp
    qed
    moreover have "pow10 (- 6) \<le> x" "x < pow10 20" using x(2) up by (simp_all add: pow10_def)
    ultimately have "parse_float (pos_str x) = Fin x" using k(2) by (intro parse_float_pos_str)
    moreover have "num_str (Fin x) = pos_str x" using False x(2) by (simp add: num_str_def)
    ultimately show ?thesis by simp
  qed
qed

end
