(* ===== verification/Traffic_View.thy ===== *)
theory Traffic_View
  imports Traffic_Page Number_Text
begin

text \<open>
  What \<open>pages/traffic.tsx\<close> shows: the cards, the chart, the alert settings and the provider dialog.
  The lemmas show what remains of a provider that is opened and saved without an edit.
\<close>

section \<open>The chart\<close>

record chart_day =
  cd_date :: jstring
  cd_bars :: "(string option \<times> jsnum) list"
  cd_box :: "(message \<times> jstring) list"

record chart_view =
  cv_legend :: "(string option \<times> message) list"
  cv_days :: "chart_day list"
  cv_axis :: "jstring option list"

definition DailyChart :: "(rat \<Rightarrow> int) \<Rightarrow> bool \<Rightarrow> daily_usage list \<Rightarrow> traffic_provider list \<Rightarrow> chart_view" where
  "DailyChart lg isDark history ps =
     \<lparr>cv_legend = legend isDark ps history,
      cv_days = map (\<lambda>d. \<lparr>cd_date = du_date d, cd_bars = day_bars isDark ps (chart_max history) d,
        cd_box = day_box lg ps d\<rparr>) history,
      cv_axis = map (axis_label history) [0..<length history]\<rparr>"

section \<open>The page\<close>

text \<open>The settings: the text for a target that is not entered yet, absent without a channel, and whether the test button is disabled.\<close>

record settings_view =
  sv_channel :: jstring
  sv_channels :: "(jstring \<times> message) list"
  sv_target :: "(jstring \<times> string) option"
  sv_thresholds :: jstring
  sv_test_disabled :: bool
  sv_hint :: bool

definition alert_settings_view :: "traffic_page \<Rightarrow> settings_view" where
  "alert_settings_view p =
     \<lparr>sv_channel = tg_channel p,
      sv_channels = [([], Key ''traffic.channelNone'' []), (js ''bark'', Raw (js ''Bark'')), (js ''ntfy'', Raw (js ''ntfy'')),
        (js ''webhook'', Raw (js ''Webhook (JSON POST)''))],
      sv_target = map_option (\<lambda>hint. (tg_target p, hint)) (target_placeholder (tg_channel p)),
      sv_thresholds = tg_thresholds p, sv_test_disabled = test_disabled p, sv_hint = truthy (tg_settings p)\<rparr>"

record dialog_view =
  dv_title :: string
  dv_form :: provider_form
  dv_delete :: bool
  dv_save :: "string \<times> bool"

definition dialog_view :: "traffic_page \<Rightarrow> dialog_view option" where
  "dialog_view p =
     (if tg_dialogOpen p then Some
        \<lparr>dv_title = (if tg_editing p \<noteq> None then ''traffic.editProvider'' else ''traffic.addProvider''),
         dv_form = tg_form p, dv_delete = (tg_editing p \<noteq> None),
         dv_save = (if tg_saving p then ''common.saving'' else ''common.save'', tg_saving p)\<rparr>
      else None)"

record traffic_view =
  tv_empty :: bool
  tv_cards :: "provider_card list"
  tv_chart :: chart_view
  tv_unassigned :: "(jstring \<times> jstring \<times> jstring \<times> jstring) list"
  tv_settings :: settings_view
  tv_alerts :: "(string \<times> jstring \<times> jstring \<times> jstring \<times> string option) list option"
  tv_dialog :: "dialog_view option"

text \<open>\<open>None\<close> is the line shown while the page loads for the first time; \<open>tv_alerts\<close> is absent when there are none.\<close>

definition TrafficPage :: "(rat \<Rightarrow> int) \<Rightarrow> (jstring \<Rightarrow> jstring) \<Rightarrow> bool \<Rightarrow> traffic_page \<Rightarrow> traffic_view option" where
  "TrafficPage lg show_date isDark p =
     (if tg_loading p then None
      else Some
        \<lparr>tv_empty = (case tg_summary p of Some s \<Rightarrow> ts_providers s = [] | None \<Rightarrow> False),
         tv_cards = (case tg_summary p of Some s \<Rightarrow> map (provider_card lg) (ts_providers s) | None \<Rightarrow> []),
         tv_chart = DailyChart lg isDark (tg_history p) (providers_of p),
         tv_unassigned = unassigned_rows lg (tg_summary p), tv_settings = alert_settings_view p,
         tv_alerts = (if tg_alerts p = [] then None else Some (map (alert_row show_date p) (tg_alerts p))),
         tv_dialog = dialog_view p\<rparr>)"

section \<open>A provider saved without an edit\<close>

lemma parse_int_num_str: "0 \<le> n \<Longrightarrow> n < 2 ^ 53 \<Longrightarrow> parse_int (num_str (num n)) = num n"
proof -
  assume n: "0 \<le> n" "n < 2 ^ 53"
  have "trim (dec_digits (nat n)) = dec_digits (nat n)"
    by (rule trim_no_ws) (use dec_digits_digit digit_facts in blast)
  then show ?thesis using n parse_int_digits [of "nat n"] num_str_num [of n] by (simp add: int_str_def)
qed

text \<open>
  The quota in hundredths of a gigabyte, as the field shows it, and the bytes a number of hundredths
  stands for.
\<close>

definition quota_hundredths :: "int \<Rightarrow> int" where
  "quota_hundredths n = \<lfloor>of_int n / 2 ^ 30 * 100 + (1 / 2 :: rat)\<rfloor>"

definition hundredths_bytes :: "int \<Rightarrow> int" where
  "hundredths_bytes h = \<lfloor>of_int h / 100 * 2 ^ 30 + (1 / 2 :: rat)\<rfloor>"

lemma quota_hundredths_bounds:
  "\<bar>of_int (quota_hundredths n) - of_int n / 2 ^ 30 * 100\<bar> \<le> (1 / 2 :: rat)"
  unfolding quota_hundredths_def abs_le_iff by (intro conjI; linarith)

lemma hundredths_bytes_bounds:
  "\<bar>of_int (hundredths_bytes h) - of_int h / 100 * 2 ^ 30\<bar> \<le> (1 / 2 :: rat)"
  unfolding hundredths_bytes_def abs_le_iff by (intro conjI; linarith)

lemma quota_hundredths_range: "0 \<le> n \<Longrightarrow> n < 2 ^ 46 \<Longrightarrow> 0 \<le> quota_hundredths n \<and> quota_hundredths n \<le> 100 * 2 ^ 16"
proof -
  assume n: "0 \<le> n" "n < 2 ^ 46"
  have "(0 :: rat) \<le> of_int n" "(of_int n :: rat) < of_int (2 ^ 46)" using n by (simp_all only: of_int_0_le_iff of_int_less_iff)
  then have "\<not> of_int n / 2 ^ 30 * 100 + (1 / 2 :: rat) < of_int 0"
    "of_int n / 2 ^ 30 * 100 + (1 / 2 :: rat) < of_int (100 * 2 ^ 16 + 1)" by simp_all
  then show ?thesis unfolding quota_hundredths_def floor_less_iff [symmetric] by simp
qed

text \<open>A byte count is near the hundredths it is rounded to, and kept when it is one rounded to bytes.\<close>

lemma hundredths_near: "\<bar>hundredths_bytes (quota_hundredths n) - n\<bar> \<le> 5368709"
proof -
  let ?h = "quota_hundredths n"
  have "\<bar>(of_int ?h - of_int n / 2 ^ 30 * 100) * (2 ^ 30 / 100)\<bar> \<le> (1 / 2 :: rat) * (2 ^ 30 / 100)"
    unfolding abs_mult using quota_hundredths_bounds [of n] by (intro mult_mono) simp_all
  then have "\<bar>of_int ?h / 100 * 2 ^ 30 - of_int n\<bar> \<le> (2 ^ 30 / 200 :: rat)" by (simp add: algebra_simps)
  then have "\<bar>of_int (hundredths_bytes ?h) - of_int n\<bar> \<le> (2 ^ 30 / 200 + 1 / 2 :: rat)"
    using hundredths_bytes_bounds [of ?h] unfolding abs_le_iff by linarith
  then have "(of_int \<bar>hundredths_bytes ?h - n\<bar> :: rat) < of_int 5368710" by simp
  then show ?thesis by (simp only: of_int_less_iff)
qed

lemma hundredths_kept: "hundredths_bytes (quota_hundredths n) = n \<longleftrightarrow> (\<exists>h. n = hundredths_bytes h)"
proof
  assume "\<exists>h. n = hundredths_bytes h"
  then obtain h where h: "n = hundredths_bytes h" by blast
  have "\<bar>(of_int n - of_int h / 100 * 2 ^ 30) * (100 / 2 ^ 30)\<bar> \<le> (1 / 2 :: rat) * (100 / 2 ^ 30)"
    unfolding abs_mult h using hundredths_bytes_bounds [of h] by (intro mult_mono) simp_all
  then have "\<bar>of_int n / 2 ^ 30 * 100 - of_int h\<bar> < (1 / 2 :: rat)" by (simp add: algebra_simps)
  then have "quota_hundredths n = h"
    unfolding quota_hundredths_def abs_less_iff by (intro floor_unique) linarith+
  then show "hundredths_bytes (quota_hundredths n) = n" using h by simp
qed metis

text \<open>The field shows the hundredths, and what it shows is read back and sent in bytes.\<close>

lemma quota_shown:
  assumes "0 \<le> n" "n < 2 ^ 46"
  shows "quota_text (num n) = num_str (rnd (of_int (quota_hundredths n) / 100))"
proof -
  have n: "\<bar>n\<bar> < 2 ^ 53" "\<bar>n * 100\<bar> < 2 ^ 53" using assms by simp_all
  have "num_div (num n) GB = rnd (of_int n * pow2 (- 30))"
    by (simp add: num_def GB_def pow2_def)
  also have "\<dots> = Fin (of_int n * pow2 (- 30))" using n(1) by (intro rnd_exact) auto
  finally have gb: "num_div (num n) GB = Fin (of_int n * pow2 (- 30))" .
  have "num_mul (Fin (of_int n * pow2 (- 30))) (num 100) = rnd (of_int (n * 100) * pow2 (- 30))"
    by (simp add: num_def algebra_simps)
  also have "\<dots> = Fin (of_int (n * 100) * pow2 (- 30))" using n(2) by (intro rnd_exact) auto
  finally have hundred: "num_mul (Fin (of_int n * pow2 (- 30))) (num 100) = Fin (of_int (n * 100) * pow2 (- 30))" .
  have "of_int (n * 100) * pow2 (- 30) = of_int n / 2 ^ 30 * 100" by (simp add: pow2_def)
  then have "num_round (Fin (of_int (n * 100) * pow2 (- 30))) = num (quota_hundredths n)"
    by (simp only: num_round_def jsnum.case quota_hundredths_def num_def)
  then show ?thesis unfolding quota_text_def gb hundred by (simp add: num_def)
qed

lemma quota_sent:
  assumes "0 \<le> h" "h \<le> 100 * 2 ^ 16"
  shows "\<exists>x. 0 \<le> x \<and> parse_float (num_str (rnd (of_int h / 100))) = Fin x \<and>
    num_round (num_mul (Fin x) GB) = num (hundredths_bytes h)"
proof (cases "h = 0")
  case True
  have "num_str (rnd 0) = [48]" using num_str_num [of 0] by (simp add: num_def int_str_def dec_digits_eval)
  moreover have "parse_float [48] = Fin 0"
    using parse_float_fraction(2) [of "[48]" "[]"] by (simp add: is_digit_def)
  moreover have f: "\<lfloor>1 / 2 :: rat\<rfloor> = 0" by (rule floor_unique) simp_all
  moreover have "num_round (Fin 0) = num 0" by (simp add: num_round_def num_def f)
  ultimately show ?thesis using True by (intro exI [of _ 0]) (simp add: GB_def num_def hundredths_bytes_def)
next
  case False
  then have h: "1 \<le> h" using assms(1) by simp
  define x where "x = round_abs (of_int h / 100)"
  note hd = hundredths_double [OF h assms(2), folded x_def]
  have shown: "parse_float (num_str (rnd (of_int h / 100))) = Fin x"
    using hundredths_text [OF h assms(2) hd(1)] hd(1) by simp
  let ?b = "of_int h / 100 * 2 ^ 30 :: rat"
  have near: "\<bar>x * 2 ^ 30 - ?b\<bar> \<le> 1 / 2 ^ 7"
  proof -
    have "\<bar>(x - of_int h / 100) * 2 ^ 30\<bar> \<le> 1 / 2 ^ 37 * 2 ^ 30"
      unfolding abs_mult using hd(2) by (intro mult_mono) simp_all
    then show ?thesis by (simp add: algebra_simps)
  qed
  have top: "(of_int h :: rat) \<le> 100 * 2 ^ 16" using assms(2) by (metis of_int_le_iff of_int_mult of_int_numeral of_int_power)
  have x: "0 < x * 2 ^ 30" "x * 2 ^ 30 \<le> pow2 46 + 1"
    using hd(3) near top unfolding abs_le_iff by (simp_all add: pow2_def)
  have "pow2 46 + 1 \<le> pow2 47" by (simp add: pow2_def)
  then have x47: "x * 2 ^ 30 \<le> pow2 47" using x(2) by linarith
  have "pos_double (of_int 1 * pow2 47)" by (rule pos_doubleI) simp_all
  then have r: "rnd (x * 2 ^ 30) = Fin (round_abs (x * 2 ^ 30))" using x(1) x47 by (intro rnd_pos [of _ "pow2 47"]) simp_all
  have "pow2 46 + 1 < pow2 47" by (simp add: pow2_def)
  then have "pow2 (ilog2 (x * 2 ^ 30)) < pow2 47" using ilog2_bounds(1) [OF x(1)] x(2) by linarith
  then have "dexp (x * 2 ^ 30) \<le> - 6" by (simp add: dexp_def)
  then have "pow2 (dexp (x * 2 ^ 30)) \<le> pow2 (- 6)" by simp
  then have "pow2 (dexp (x * 2 ^ 30)) / 2 \<le> 1 / 2 ^ 7" by (simp add: pow2_def [of "- 6"])
  then have err: "\<bar>round_abs (x * 2 ^ 30) - ?b\<bar> \<le> 1 / 2 ^ 6"
    using round_abs_error [of "x * 2 ^ 30"] near unfolding abs_le_iff by (intro conjI; simp; linarith)
  define N where "N = h * 2 ^ 29 + 25"
  have N: "?b + 1 / 2 = of_int N / of_int 50" by (simp add: N_def)
  have b: "hundredths_bytes h = N div 50" unfolding hundredths_bytes_def N by (rule floor_divide_of_int_eq)
  have odd: "odd N" by (simp add: N_def)
  have m: "1 \<le> N mod 50" "N mod 50 \<le> 49"
  proof -
    have "odd (N mod 50)" using odd by (simp add: dvd_mod_iff)
    then have "N mod 50 \<noteq> 0" by (metis even_zero)
    moreover have "0 \<le> N mod 50" "N mod 50 < 50" by simp_all
    ultimately show "1 \<le> N mod 50" "N mod 50 \<le> 49" by linarith+
  qed
  have "50 * (N div 50) + N mod 50 = N" by (rule mult_div_mod_eq)
  then have "50 * (N div 50) + 1 \<le> N" "N \<le> 50 * (N div 50) + 49" using m by linarith+
  then have "(of_int (50 * (N div 50) + 1) :: rat) \<le> of_int N" "(of_int N :: rat) \<le> of_int (50 * (N div 50) + 49)"
    by (simp_all only: of_int_le_iff)
  then have "of_int (hundredths_bytes h) + 1 / 50 \<le> ?b + 1 / 2" "?b + 1 / 2 \<le> of_int (hundredths_bytes h) + 49 / 50"
    unfolding N b by simp_all
  moreover have "(1 :: rat) / 2 ^ 6 < 1 / 50" by simp
  ultimately have "\<lfloor>round_abs (x * 2 ^ 30) + 1 / 2\<rfloor> = hundredths_bytes h"
    using err unfolding abs_le_iff by (intro floor_unique) linarith+
  then have "num_round (num_mul (Fin x) GB) = num (hundredths_bytes h)"
    using r by (simp add: GB_def num_def num_round_def)
  then show ?thesis using shown hd(3) by (intro exI [of _ x]) simp
qed

text \<open>Patterns are shown with a comma and a blank between them.\<close>

lemma split_shown_patterns:
  assumes "xs \<noteq> []" "\<And>x u. x \<in> set xs \<Longrightarrow> u \<in> set x \<Longrightarrow> \<not> is_comma u"
  shows "map trim (split_units is_comma (join (js '', '') xs)) = map trim xs"
  using assms
proof (induction xs rule: induct_list012)
  case (2 x)
  then show ?case by (simp add: split_units_none)
next
  case (3 x y xs)
  have "split_units is_comma (x @ 44 # 32 # join (js '', '') (y # xs)) = x # split_units is_comma (32 # join (js '', '') (y # xs))"
    by (rule split_units_append_sep) (use 3(4) in \<open>auto simp: is_comma_def\<close>)
  moreover obtain z zs where z: "split_units is_comma (join (js '', '') (y # xs)) = z # zs"
    by (meson neq_Nil_conv split_units_not_Nil)
  moreover have zs: "map trim (z # zs) = map trim (y # xs)" using 3(2,4) z by auto
  moreover have "split_units is_comma (32 # join (js '', '') (y # xs)) = (32 # z) # zs" by (simp add: z is_comma_def)
  moreover have "trim (32 # z) = trim z" by (simp add: trim_def trim_start_def is_ws_def)
  moreover have "join (js '', '') (x # y # xs) = x @ 44 # 32 # join (js '', '') (y # xs)" by (simp add: js_def)
  ultimately show ?case by (simp only: list.map list.inject)
qed simp

lemma read_shown_patterns:
  assumes "\<forall>x \<in> set xs. x \<noteq> [] \<and> trim x = x \<and> (\<forall>u \<in> set x. \<not> is_comma u)"
  shows "filter (\<lambda>s. s \<noteq> []) (map trim (split_units is_comma (join (js '', '') xs))) = xs"
proof (cases "xs = []")
  case False
  have "map trim xs = xs" using assms by (simp add: map_idI)
  then show ?thesis using split_shown_patterns [OF False] assms by (simp add: filter_id_conv)
qed simp

definition tidy_provider :: "zone_env \<Rightarrow> traffic_provider \<Rightarrow> bool" where
  "tidy_provider z q \<longleftrightarrow> tp_name q \<noteq> [] \<and> trim (tp_name q) = tp_name q \<and>
     tp_reset_day q \<in> num ` {1..31} \<and> tp_reset_hour q \<in> num ` {0..23} \<and> tp_reset_minute q \<in> num ` {0..59} \<and>
     trim (tp_reset_timezone q) = tp_reset_timezone q \<and> (tp_reset_timezone q = [] \<or> ze_known z (tp_reset_timezone q)) \<and>
     (\<forall>x \<in> set (tp_node_patterns q). x \<noteq> [] \<and> trim x = x \<and> (\<forall>u \<in> set x. \<not> is_comma u)) \<and>
     trim (tp_subscription_url q) = tp_subscription_url q"

lemma reset_field:
  assumes "x \<in> num ` {lo..hi}" "0 \<le> lo" "hi < 1000"
  shows "parse_int (num_str x) = x" "\<not> reset_out_of (parse_int (num_str x)) lo hi"
  using assms parse_int_num_str by (auto simp: reset_out_of_def is_nan_def num_def)

text \<open>
  C39: a provider opened and saved unchanged keeps everything but its quota, which is rounded. For a
  well-formed provider (a trimmed name, a reset in range, a zone the browser knows or none, patterns
  and a URL that are trimmed, patterns without commas) with a quota of at least one byte and below
  65536 GB the form is valid, and the name, the reset, the zone, the patterns, the URL and the switch
  are sent as they were. The quota sent is the number of bytes nearest to the hundredth of a gigabyte
  nearest to the quota, at most 5368709 bytes away; it is the quota itself exactly when the quota is
  a number of hundredths of a gigabyte rounded to bytes.
\<close>

theorem unchanged_provider_saved:
  assumes "tidy_provider z q" "tp_quota_bytes q = num n" "1 \<le> n" "n < 2 ^ 46"
  shows "let h = \<lfloor>of_int n / 2 ^ 30 * 100 + (1 / 2 :: rat)\<rfloor>; sent = \<lfloor>of_int h / 100 * 2 ^ 30 + (1 / 2 :: rat)\<rfloor>
    in \<not> provider_form_invalid z (tg_form (openEdit q p)) \<and>
       provider_input_of (tg_form (openEdit q p)) =
         \<lparr>in_name = tp_name q, in_quota_bytes = num sent, in_reset_day = tp_reset_day q,
          in_reset_hour = tp_reset_hour q, in_reset_minute = tp_reset_minute q,
          in_reset_timezone = tp_reset_timezone q, in_node_patterns = tp_node_patterns q,
          in_subscription_url = tp_subscription_url q, in_enabled = tp_enabled q\<rparr> \<and>
       \<bar>sent - n\<bar> \<le> 5368709 \<and>
       (in_quota_bytes (provider_input_of (tg_form (openEdit q p))) = tp_quota_bytes q \<longleftrightarrow>
          (\<exists>k::int. n = \<lfloor>of_int k / 100 * 2 ^ 30 + (1 / 2 :: rat)\<rfloor>))"
proof -
  let ?h = "quota_hundredths n"
  let ?text = "num_str (rnd (of_int ?h / 100))"
  have d: "tp_reset_day q \<in> num ` {1..31}" and h: "tp_reset_hour q \<in> num ` {0..23}"
    and m: "tp_reset_minute q \<in> num ` {0..59}" using assms(1) by (auto simp: tidy_provider_def)
  have n: "0 \<le> n" using assms(3) by simp
  obtain x where x: "0 \<le> x" "parse_float ?text = Fin x" "num_round (num_mul (Fin x) GB) = num (hundredths_bytes ?h)"
    using quota_sent [of ?h] quota_hundredths_range [OF n assms(4)] by blast
  have fields: "tg_form (openEdit q p) = \<lparr>tf_name = tp_name q, tf_quotaGB = ?text,
      tf_resetDay = num_str (tp_reset_day q), tf_resetHour = num_str (tp_reset_hour q),
      tf_resetMinute = num_str (tp_reset_minute q), tf_resetTimezone = tp_reset_timezone q,
      tf_patterns = join (js '', '') (tp_node_patterns q), tf_subscriptionUrl = tp_subscription_url q,
      tf_enabled = tp_enabled q\<rparr>"
    using assms(2,3) quota_shown [OF n assms(4)] by (simp add: openEdit_def)
  note ds = reset_field [OF d] and hs = reset_field [OF h] and ms = reset_field [OF m]
  have valid: "\<not> provider_form_invalid z (tg_form (openEdit q p))"
    using assms(1) ds hs ms x(1) unfolding fields
    by (auto simp: provider_form_invalid_def Let_def x(2) tidy_provider_def is_nan_def num_def)
  have sent: "provider_input_of (tg_form (openEdit q p)) =
      \<lparr>in_name = tp_name q, in_quota_bytes = num (hundredths_bytes ?h), in_reset_day = tp_reset_day q,
       in_reset_hour = tp_reset_hour q, in_reset_minute = tp_reset_minute q,
       in_reset_timezone = tp_reset_timezone q, in_node_patterns = tp_node_patterns q,
       in_subscription_url = tp_subscription_url q, in_enabled = tp_enabled q\<rparr>"
    using assms(1) ds(1) hs(1) ms(1) read_shown_patterns [of "tp_node_patterns q"]
    unfolding fields by (simp add: provider_input_of_def tidy_provider_def x(2) del: num_mul.simps) (rule x(3))
  show ?thesis
    using valid sent hundredths_near [of n] hundredths_kept [of n] assms(2)
    unfolding Let_def quota_hundredths_def [symmetric] hundredths_bytes_def [symmetric] by simp
qed

text \<open>A quota of one and a half gigabytes and one byte is saved as one and a half gigabytes.\<close>

definition odd_quota :: traffic_provider where
  "odd_quota = unlimited\<lparr>tp_quota_bytes := num 1610612737, tp_node_patterns := [js ''a-*'', js ''b-*'']\<rparr>"

theorem unchanged_provider_saved_witness:
  "in_quota_bytes (provider_input_of (tg_form (openEdit odd_quota initial_traffic_page))) = num 1610612736 \<and>
   in_node_patterns (provider_input_of (tg_form (openEdit odd_quota initial_traffic_page))) = [js ''a-*'', js ''b-*'']"
proof -
  have "trim (js s) = js s" if "s \<in> {''n'', ''a-*'', ''b-*''}" for s
    using that by (intro trim_no_ws) (auto simp: js_def is_ws_def)
  then have "trim (js ''n'') = js ''n''" "trim (js ''a-*'') = js ''a-*''" "trim (js ''b-*'') = js ''b-*''" by blast+
  then have t: "tidy_provider shanghai odd_quota"
    by (simp add: tidy_provider_def odd_quota_def unlimited_def) (simp add: js_def is_comma_def)
  have q: "tp_quota_bytes odd_quota = num 1610612737" by (simp add: odd_quota_def)
  have "\<lfloor>of_int 1610612737 / 2 ^ 30 * 100 + (1 / 2 :: rat)\<rfloor> = 150" "\<lfloor>of_int 150 / 100 * 2 ^ 30 + (1 / 2 :: rat)\<rfloor> = 1610612736"
    by (rule floor_unique; simp)+
  then show ?thesis
    using unchanged_provider_saved [OF t q, of initial_traffic_page] by (simp add: Let_def odd_quota_def)
qed

end
