(* ===== verification/Editors_View.thy ===== *)
theory Editors_View
  imports Rules_Page Groups_Page Rule_Providers_Page Settings_Page
begin

text \<open>
  What \<open>pages/rules.tsx\<close>, \<open>pages/proxy-groups.tsx\<close>, \<open>pages/rule-providers.tsx\<close> and
  \<open>pages/settings.tsx\<close> show with their dialogs. Each dialog hides fields that do not belong to the chosen type but keeps what was entered
  in them; the lemmas show that what is saved is determined by what is shown.
\<close>

text \<open>The menu of types over a list: its value and its items, of which the first stands for all.\<close>

definition filter_menu :: "jstring \<Rightarrow> string list \<Rightarrow> jstring \<times> jstring list" where
  "filter_menu chosen types = (chosen, js ''__all__'' # map js types)"

section \<open>Rules\<close>

record rule_form_view =
  rg_title :: string
  rg_kind :: "jstring \<times> string list"
  rg_shown_payload :: "jstring option"
  rg_target :: "jstring \<times> (string option \<times> jstring list) list"
  rg_noResolve :: "bool option"

definition RuleForm :: "rules_page \<Rightarrow> rule_form_view" where
  "RuleForm p = (let fm = rx_form p in
     \<lparr>rg_title = (if rx_editing p \<noteq> None then ''rules.editDialog'' else ''rules.addDialog''),
      rg_kind = (rf_type fm, RULE_TYPES),
      rg_shown_payload = (if showPayload fm then Some (rf_payload fm) else None),
      rg_target = (rf_target fm, target_choices p),
      rg_noResolve = (if showNoResolve fm then Some (rf_noResolve fm) else None)\<rparr>)"

record rules_view =
  rz_warning :: bool
  rz_search :: jstring
  rz_filter :: "jstring \<times> jstring list"
  rz_content :: rules_content
  rz_draggable :: "jstring list"
  rz_confirm :: bool
  rz_form :: "rule_form_view option"

text \<open>The question before a deletion belongs to the list, so it is there only with rules.\<close>

definition RulesPage :: "rules_page \<Rightarrow> rules_view" where
  "RulesPage p =
     \<lparr>rz_warning = no_match_warning p, rz_search = rx_search p, rz_filter = filter_menu (rx_typeFilter p) RULE_TYPES,
      rz_content = rules_content p,
      rz_draggable = (if rx_loading p then [] else sortableIds (rx_rules p)),
      rz_confirm = (\<not> rx_loading p \<and> rx_rules p \<noteq> [] \<and> rd_confirmOpen (rx_list p)),
      rz_form = (if rx_formOpen p then Some (RuleForm p) else None)\<rparr>"

lemma RuleForm_submitted:
  "RuleForm (p\<lparr>rx_form := fm\<rparr>) = RuleForm (p\<lparr>rx_form := fm'\<rparr>) \<longleftrightarrow> submitted_rule fm = submitted_rule fm'"
  by (auto simp: RuleForm_def submitted_rule_def showPayload_def showNoResolve_def target_choices_def Let_def
      split: if_splits)

section \<open>Proxy groups\<close>

record member_list_view =
  mv_empty :: bool
  mv_rows :: "jstring list"
  mv_menu :: "(jstring \<times> jstring list) option"

definition GroupMemberList :: "jstring list \<Rightarrow> member_list \<Rightarrow> member_list_view" where
  "GroupMemberList available s =
     \<lparr>mv_empty = (ml_members s = []), mv_rows = map to_str (ml_members s),
      mv_menu = (let rest = unselectedItems available s in if rest \<noteq> [] then Some (ml_addValue s, rest) else None)\<rparr>"

record group_form_view =
  gg_title :: string
  gg_name :: jstring
  gg_kind :: "jstring \<times> string list"
  gg_healthCheck :: "(jstring \<times> jstring) option"
  gg_strategy :: "(jstring \<times> string list) option"
  gg_members :: member_list_view

text \<open>\<open>addValue\<close> is the state of the list of members.\<close>

definition GroupForm :: "groups_page \<Rightarrow> jstring \<Rightarrow> group_form_view" where
  "GroupForm p addValue = (let fm = gx_form p in
     \<lparr>gg_title = (if gx_editing p \<noteq> None then ''proxyGroups.editDialog'' else ''proxyGroups.addDialog''),
      gg_name = gf_name fm, gg_kind = (gf_type fm, GROUP_TYPES),
      gg_healthCheck = (if showHealthCheck fm then Some (gf_url fm, gf_interval fm) else None),
      gg_strategy = (if showStrategy fm then Some (gf_strategy fm, [''consistent-hashing'', ''round-robin'']) else None),
      gg_members = GroupMemberList (availableMembers p) \<lparr>ml_members = gf_members fm, ml_addValue = addValue\<rparr>\<rparr>)"

record groups_view =
  gz_search :: jstring
  gz_filter :: "jstring \<times> jstring list"
  gz_content :: groups_content
  gz_form :: "group_form_view option"
  gz_confirm :: "message option"

definition ProxyGroupsPage :: "groups_page \<Rightarrow> jstring \<Rightarrow> groups_view" where
  "ProxyGroupsPage p addValue =
     \<lparr>gz_search = gx_search p, gz_filter = filter_menu (gx_typeFilter p) GROUP_TYPES, gz_content = groups_content p,
      gz_form = (if gx_formOpen p then Some (GroupForm p addValue) else None),
      gz_confirm = (if gx_confirmOpen p then Some (gx_confirmDescription p) else None)\<rparr>"

text \<open>Members that are texts are shown as they are; the code never has others.\<close>

definition text_members :: "group_form \<Rightarrow> bool" where
  "text_members fm \<longleftrightarrow> (\<forall>x \<in> set (gf_members fm). \<exists>s. x = JStr s)"

lemma rows_determine_members:
  assumes "\<forall>x \<in> set xs. \<exists>s. x = JStr s" "\<forall>x \<in> set ys. \<exists>s. x = JStr s" "map to_str xs = map to_str ys"
  shows "xs = ys"
proof -
  have "map JStr (map to_str zs) = zs" if "\<forall>x \<in> set zs. \<exists>s. x = JStr s" for zs
    using that by (induction zs) auto
  then show ?thesis using assms by metis
qed

lemma GroupForm_submitted:
  assumes "text_members fm" "text_members fm'"
    and "GroupForm (p\<lparr>gx_form := fm\<rparr>) a = GroupForm (p\<lparr>gx_form := fm'\<rparr>) a"
  shows "submitted_group fm = submitted_group fm'"
proof -
  have "gf_members fm = gf_members fm'"
    by (rule rows_determine_members) (use assms in \<open>auto simp: text_members_def GroupForm_def GroupMemberList_def Let_def\<close>)
  then show ?thesis using assms(3)
    by (auto simp: GroupForm_def submitted_group_def showHealthCheck_def showStrategy_def Let_def split: if_splits)
qed

section \<open>Rule providers\<close>

record provider_form_view =
  fg_title :: string
  fg_name :: jstring
  fg_kind :: "jstring \<times> string list"
  fg_behavior :: "jstring \<times> string list"
  fg_http :: "(jstring \<times> jstring) option"
  fg_path :: "jstring \<times> bool"

definition ProviderFormDialog :: "rule_providers_page \<Rightarrow> provider_form_view" where
  "ProviderFormDialog p = (let fm = qx_fields p in
     \<lparr>fg_title = (if qx_editing p \<noteq> None then ''ruleProviders.editDialog'' else ''ruleProviders.addDialog''),
      fg_name = ff_name fm, fg_kind = (ff_type fm, [''http'', ''file'']),
      fg_behavior = (ff_behavior fm, [''domain'', ''ipcidr'', ''classical'']),
      fg_http = (if ff_type fm = js ''http'' then Some (ff_url fm, ff_interval fm) else None),
      fg_path = (ff_path fm, ff_type fm = js ''file'')\<rparr>)"

record editor_view =
  ew_title :: "jstring option"
  ew_text :: "jstring option"
  ew_save_disabled :: bool

definition ContentEditor :: "rule_providers_page \<Rightarrow> editor_view" where
  "ContentEditor p =
     \<lparr>ew_title = map_option rpv_name (qx_contentProvider p),
      ew_text = (if ce_loading (qx_editor p) then None else Some (ce_content (qx_editor p))),
      ew_save_disabled = content_save_disabled p\<rparr>"

record rule_providers_view =
  qz_content :: providers_content
  qz_form :: "provider_form_view option"
  qz_editor :: "editor_view option"
  qz_confirm :: bool

definition RuleProvidersPage :: "rule_providers_page \<Rightarrow> rule_providers_view" where
  "RuleProvidersPage p =
     \<lparr>qz_content = providers_content p,
      qz_form = (if qx_formOpen p then Some (ProviderFormDialog p) else None),
      qz_editor = (if qx_contentOpen p then Some (ContentEditor p) else None), qz_confirm = qx_confirmOpen p\<rparr>"

section \<open>Settings\<close>

record user_dialog_view =
  uz_title :: string
  uz_username :: "jstring option"
  uz_password :: "jstring \<times> string"
  uz_role :: "jstring \<times> string list"
  uz_save :: "string \<times> bool"

definition UserDialog :: "users_card \<Rightarrow> user_dialog_view" where
  "UserDialog p = (let d = uc_dialog p; editing = uc_editingUser p \<noteq> None in
     \<lparr>uz_title = (if editing then ''settings.editUserDialog'' else ''settings.addUserDialog''),
      uz_username = (if editing then None else Some (ud_username d)),
      uz_password = (ud_password d, if editing then ''settings.passwordEditLabel'' else ''settings.passwordLabel''),
      uz_role = (ud_role d, [''admin'', ''readonly'']),
      uz_save = (if ud_saving d then ''common.saving'' else if editing then ''common.update'' else ''common.create'', ud_saving d)\<rparr>)"

record users_view =
  us_content :: users_content
  us_dialog :: "user_dialog_view option"
  us_confirm :: bool

definition users_view :: "('b, users_card) world \<Rightarrow> users_view option" where
  "users_view w = map_option (\<lambda>rows. let p = w_page w in
     \<lparr>us_content = rows, us_dialog = (if uc_dialogOpen p then Some (UserDialog p) else None), us_confirm = uc_confirmOpen p\<rparr>)
     (UserManagementCard w)"

text \<open>The three cards of the page, each with a state of its own.\<close>

definition SettingsPage :: "app_settings_card \<Rightarrow> config_editor \<Rightarrow> ('b, users_card) world \<Rightarrow>
    (bool \<times> jstring list) option \<times> (bool \<times> (jstring \<times> bool \<times> bool option) option) \<times> users_view option" where
  "SettingsPage a c w = (AppSettingsCard a, ConfigEditorCard c, users_view w)"

lemma UserDialog_request:
  "UserDialog (u\<lparr>uc_dialog := d\<rparr>) = UserDialog (u\<lparr>uc_dialog := d'\<rparr>) \<Longrightarrow>
     user_complaint (u\<lparr>uc_dialog := d\<rparr>) = user_complaint (u\<lparr>uc_dialog := d'\<rparr>) \<and>
     user_request (u\<lparr>uc_dialog := d\<rparr>) = user_request (u\<lparr>uc_dialog := d'\<rparr>)"
  by (cases "uc_editingUser u") (auto simp: UserDialog_def user_complaint_def user_request_def Let_def)

section \<open>What is shown is what is saved\<close>

text \<open>
  C40: input that a dialog hides is not saved. Two states of the dialog of rules show the same exactly
  when they would save the same rule; the dialogs of proxy groups, of rule providers and of users
  save the same whenever they show the same, although they keep what was entered in fields they
  hide. The editor of contents saves the text it shows.
\<close>

theorem saved_as_shown:
  "(RuleForm (p\<lparr>rx_form := fm\<rparr>) = RuleForm (p\<lparr>rx_form := fm'\<rparr>) \<longleftrightarrow> submitted_rule fm = submitted_rule fm') \<and>
   (text_members gm \<and> text_members gm' \<and> GroupForm (g\<lparr>gx_form := gm\<rparr>) a = GroupForm (g\<lparr>gx_form := gm'\<rparr>) a \<longrightarrow>
      submitted_group gm = submitted_group gm') \<and>
   (ProviderFormDialog (q\<lparr>qx_fields := pm\<rparr>) = ProviderFormDialog (q\<lparr>qx_fields := pm'\<rparr>) \<longrightarrow>
      submitted_provider pm = submitted_provider pm' \<and> provider_submittable is_url pm = provider_submittable is_url pm') \<and>
   (UserDialog (u\<lparr>uc_dialog := d\<rparr>) = UserDialog (u\<lparr>uc_dialog := d'\<rparr>) \<longrightarrow>
      user_complaint (u\<lparr>uc_dialog := d\<rparr>) = user_complaint (u\<lparr>uc_dialog := d'\<rparr>) \<and>
      user_request (u\<lparr>uc_dialog := d\<rparr>) = user_request (u\<lparr>uc_dialog := d'\<rparr>)) \<and>
   (ew_text (ContentEditor q) = Some s \<and> qx_contentProvider q = Some r \<and> w_page w = q \<longrightarrow>
      (\<exists>w'. handleSaveContent server w = (Inr (), w') \<and>
         map fst (w_sent w') = map fst (w_sent w) @ [ruleProvidersApi_updateContent (rpv_id r) s]))"
proof -
  have "\<exists>w'. handleSaveContent server w = (Inr (), w') \<and>
      map fst (w_sent w') = map fst (w_sent w) @ [ruleProvidersApi_updateContent (rpv_id r) s]"
    if "ew_text (ContentEditor q) = Some s" "qx_contentProvider q = Some r" "w_page w = q"
    using that by (intro wp_total)
      (auto simp: handleSaveContent_def on_editor_def onContentOpen_def ContentEditor_def split: sum.splits if_splits)
  moreover have "submitted_provider pm = submitted_provider pm' \<and> provider_submittable is_url pm = provider_submittable is_url pm'"
    if "ProviderFormDialog (q\<lparr>qx_fields := pm\<rparr>) = ProviderFormDialog (q\<lparr>qx_fields := pm'\<rparr>)"
    using that by (auto simp: ProviderFormDialog_def submitted_provider_def provider_submittable_def Let_def split: if_splits)
  ultimately show ?thesis using RuleForm_submitted GroupForm_submitted UserDialog_request [of d u d'] by blast
qed

theorem saved_as_shown_witness:
  "submitted_rule (DEFAULT_RULE\<lparr>rf_type := js ''MATCH'', rf_payload := js ''x''\<rparr>) =
     submitted_rule (DEFAULT_RULE\<lparr>rf_type := js ''MATCH''\<rparr>) \<and>
   submitted_group (DEFAULT_GROUP\<lparr>gf_url := js ''x''\<rparr>) = submitted_group DEFAULT_GROUP \<and>
   submitted_provider (DEFAULT_FORM\<lparr>ff_type := js ''file'', ff_url := js ''x''\<rparr>) =
     submitted_provider (DEFAULT_FORM\<lparr>ff_type := js ''file''\<rparr>)"
proof -
  have "RuleForm (initial_rules_page\<lparr>rx_form := DEFAULT_RULE\<lparr>rf_type := js ''MATCH'', rf_payload := js ''x''\<rparr>\<rparr>) =
      RuleForm (initial_rules_page\<lparr>rx_form := DEFAULT_RULE\<lparr>rf_type := js ''MATCH''\<rparr>\<rparr>)"
    by (simp add: RuleForm_def showPayload_def showNoResolve_def target_choices_def among_def NO_PAYLOAD_TYPES_def
        NO_RESOLVE_TYPES_def DEFAULT_RULE_def Let_def)
  moreover have "GroupForm (initial_groups_page\<lparr>gx_form := DEFAULT_GROUP\<lparr>gf_url := js ''x''\<rparr>\<rparr>) [] =
      GroupForm (initial_groups_page\<lparr>gx_form := DEFAULT_GROUP\<rparr>) []"
    by (simp add: GroupForm_def showHealthCheck_def showStrategy_def availableMembers_def DEFAULT_GROUP_def js_def Let_def)
  moreover have "text_members (DEFAULT_GROUP\<lparr>gf_url := js ''x''\<rparr>)" "text_members DEFAULT_GROUP"
    by (simp_all add: text_members_def DEFAULT_GROUP_def)
  moreover have "ProviderFormDialog (initial_rule_providers\<lparr>qx_fields := DEFAULT_FORM\<lparr>ff_type := js ''file'', ff_url := js ''x''\<rparr>\<rparr>) =
      ProviderFormDialog (initial_rule_providers\<lparr>qx_fields := DEFAULT_FORM\<lparr>ff_type := js ''file''\<rparr>\<rparr>)"
    by (simp add: ProviderFormDialog_def DEFAULT_FORM_def js_def Let_def)
  ultimately show ?thesis
    using saved_as_shown [where p = initial_rules_page and fm = "DEFAULT_RULE\<lparr>rf_type := js ''MATCH'', rf_payload := js ''x''\<rparr>"
        and fm' = "DEFAULT_RULE\<lparr>rf_type := js ''MATCH''\<rparr>" and gm = "DEFAULT_GROUP\<lparr>gf_url := js ''x''\<rparr>"
        and gm' = DEFAULT_GROUP and g = initial_groups_page and a = "[]" and q = initial_rule_providers
        and pm = "DEFAULT_FORM\<lparr>ff_type := js ''file'', ff_url := js ''x''\<rparr>"
        and pm' = "DEFAULT_FORM\<lparr>ff_type := js ''file''\<rparr>"] by blast
qed

end
