(* ===== verification/Publish_View.thy ===== *)
theory Publish_View
  imports Publish_Page
begin

text \<open>
  What \<open>pages/publish.tsx\<close>, \<open>components/publish/publish-preview.tsx\<close> and \<open>history-list.tsx\<close> show. The
  lemmas show that badge, hint and button of the panel agree, and which answers to a validation it
  cannot draw.
\<close>

section \<open>The preview panel\<close>

record panel_view =
  pw_badge :: validation_badge
  pw_diff :: "diff_line list option"
  pw_yaml :: jstring
  pw_errors :: "(bool \<times> jsval \<times> jsval) list"
  pw_output :: "jsval option"
  pw_note :: jstring
  pw_validate :: "string \<times> bool"
  pw_publish :: "string \<times> bool"
  pw_discard :: "string \<times> bool"
  pw_hint :: bool

text \<open>An issue: whether it is an error, its code and its message.\<close>

definition issue_alert :: "jsval \<Rightarrow> (bool \<times> jsval \<times> jsval) result" where
  "issue_alert e = map_result (\<lambda>level. (level = JStr (js ''error''), opt_member e ''code'', opt_member e ''message'')) (member e ''level'')"

fun issue_alerts :: "jsval list \<Rightarrow> (bool \<times> jsval \<times> jsval) list result" where
  "issue_alerts [] = Inr []"
| "issue_alerts (e # es) = (case issue_alert e of
     Inl err \<Rightarrow> Inl err | Inr a \<Rightarrow> map_result (\<lambda>rest. a # rest) (issue_alerts es))"

text \<open>\<open>x > 0\<close> for a value of any kind.\<close>

definition positive :: "jsval \<Rightarrow> bool" where
  "positive v = (case v of
     JNum n \<Rightarrow> num_lt (num 0) n | JBool b \<Rightarrow> b | Undef \<Rightarrow> False | Null \<Rightarrow> False
   | _ \<Rightarrow> num_lt (num 0) (to_number (to_str v)))"

text \<open>\<open>validation && validation.errors.length > 0 && validation.errors.map(..)\<close>; a text or an object with a length has no \<open>map\<close>.\<close>

definition panel_errors :: "jsval \<Rightarrow> (bool \<times> jsval \<times> jsval) list result" where
  "panel_errors v =
     (if \<not> truthy v then Inr []
      else case member v ''errors'' of
        Inl e \<Rightarrow> Inl e
      | Inr (JArr es) \<Rightarrow> issue_alerts es
      | Inr (JStr s) \<Rightarrow> if s = [] then Inr [] else Inl TypeError
      | Inr Undef \<Rightarrow> Inl TypeError
      | Inr Null \<Rightarrow> Inl TypeError
      | Inr (JObj kvs) \<Rightarrow> if positive (prop_of kvs ''length'') then Inl TypeError else Inr []
      | Inr _ \<Rightarrow> Inr [])"

definition PublishPreview :: "preview_data \<Rightarrow> preview_panel \<Rightarrow> panel_view result" where
  "PublishPreview pv s = (case validationBadge s of
     Inl e \<Rightarrow> Inl e
   | Inr badge \<Rightarrow> map_result (\<lambda>errs.
       \<lparr>pw_badge = badge, pw_diff = map_option DiffView (nonempty (Some (pd_diff pv))), pw_yaml = pd_yaml pv,
        pw_errors = errs,
        pw_output = (let out = opt_member (vp_validation s) ''output'' in if truthy out then Some out else None),
        pw_note = vp_note s,
        pw_validate = (if vp_validating s then ''publish.validating'' else ''publish.validate'', vp_validating s),
        pw_publish = (if vp_publishing s then ''publish.publishing'' else ''publish.publish'', publish_disabled s),
        pw_discard = (if vp_discarding s then ''publish.discarding'' else ''publish.discard'', vp_discarding s),
        pw_hint = (\<not> canPublish s \<and> vp_validation s = Null)\<rparr>) (panel_errors (vp_validation s)))"

section \<open>The history and the page\<close>

record history_view =
  hz_rows :: "history_row list"
  hz_confirm :: bool

text \<open>\<open>None\<close> is the line shown when nothing was published.\<close>

definition HistoryList :: "(jstring \<Rightarrow> jstring) \<Rightarrow> publish_page \<Rightarrow> history_view option" where
  "HistoryList show_date p =
     (if pu_history p = [] then None
      else Some \<lparr>hz_rows = history_rows show_date p, hz_confirm = hl_rollbackOpen (pu_list p)\<rparr>)"

datatype panel_place = No_Panel | Preview_Loading | Panel panel_view

datatype history_place = History_Loading | History "history_view option"

definition PublishPage :: "(jstring \<Rightarrow> jstring) \<Rightarrow> draft_state \<Rightarrow> publish_page \<Rightarrow> (draft_card \<times> panel_place \<times> history_place) result" where
  "PublishPage show_date d p = map_result (\<lambda>panel. (draft_card d p, panel,
       if pu_loadingHistory p then History_Loading else History (HistoryList show_date p)))
     (if \<not> truthy (dr_hasChanges d) then Inr No_Panel
      else if pu_loadingPreview p then Inr Preview_Loading
      else case pu_preview p of
        None \<Rightarrow> Inr No_Panel
      | Some pv \<Rightarrow> map_result Panel (PublishPreview pv (pu_panel p)))"

section \<open>What the panel can draw\<close>

lemma issue_alerts_drawn: "(\<exists>as. issue_alerts es = Inr as) \<longleftrightarrow> (\<forall>e \<in> set es. e \<noteq> Undef \<and> e \<noteq> Null)"
proof (induction es)
  case (Cons e es)
  have "(\<exists>a. issue_alert e = Inr a) \<longleftrightarrow> e \<noteq> Undef \<and> e \<noteq> Null"
    by (cases "e = Undef \<or> e = Null") (auto simp: issue_alert_def map_result_def member_def split: jsval.splits)
  then show ?case using Cons by (cases "issue_alert e"; cases "issue_alerts es") (auto simp: map_result_def)
qed simp

text \<open>
  The panel is drawn for every answer that has the promised form, a truth value with a list of
  issues. Then the button is enabled exactly when the badge says valid and no publication runs, the
  badge counts the issues of an invalid draft, and the hint to validate first is shown exactly
  without an answer. An answer without a list of issues is announced, but then the page raises.
\<close>

theorem panel_agrees:
  "(vp_validation s = Null \<longrightarrow> (\<exists>v. PublishPreview pv s = Inr v \<and> pw_badge v = Not_Validated \<and>
      pw_hint v \<and> snd (pw_publish v) \<and> pw_errors v = [])) \<and>
   (vp_validation s = JObj kvs \<and> prop_of kvs ''valid'' = JBool ok \<and> prop_of kvs ''errors'' = JArr es \<and>
      (\<forall>e \<in> set es. e \<noteq> Undef \<and> e \<noteq> Null) \<longrightarrow>
      (\<exists>v. PublishPreview pv s = Inr v \<and> \<not> pw_hint v \<and>
         (\<not> snd (pw_publish v) \<longleftrightarrow> pw_badge v = Valid \<and> \<not> vp_publishing s) \<and>
         pw_badge v = (if ok then Valid else Invalid (dec_digits (length es)) (length es \<noteq> 1)))) \<and>
   (vp_validation s = JObj kvs \<and> prop_of kvs ''errors'' \<in> {Undef, Null} \<longrightarrow>
      (\<exists>e. PublishPreview pv s = Inl e))"
proof -
  have one: "dec_digits n \<noteq> js ''1'' \<longleftrightarrow> n \<noteq> 1" for n
  proof -
    have "js ''1'' = dec_digits 1" using dec_digits_eval(1) [of 1] by (simp add: js_def)
    then show ?thesis by (simp only: dec_digits_inj)
  qed
  have "\<exists>v. PublishPreview pv s = Inr v \<and> \<not> pw_hint v \<and>
         (\<not> snd (pw_publish v) \<longleftrightarrow> pw_badge v = Valid \<and> \<not> vp_publishing s) \<and>
         pw_badge v = (if ok then Valid else Invalid (dec_digits (length es)) (length es \<noteq> 1))"
    if a: "vp_validation s = JObj kvs" "prop_of kvs ''valid'' = JBool ok" "prop_of kvs ''errors'' = JArr es"
      "\<forall>e \<in> set es. e \<noteq> Undef \<and> e \<noteq> Null"
  proof -
    obtain as where "issue_alerts es = Inr as" using issue_alerts_drawn a(4) by blast
    then show ?thesis using a
      by (simp add: PublishPreview_def validationBadge_def panel_errors_def length_text_def publish_disabled_def
          canPublish_def map_result_def one [unfolded One_nat_def])
  qed
  moreover have "\<exists>e. PublishPreview pv s = Inl e"
    if "vp_validation s = JObj kvs" "prop_of kvs ''errors'' \<in> {Undef, Null}"
    using that by (auto simp: PublishPreview_def panel_errors_def map_result_def split: sum.splits)
  moreover have "\<exists>v. PublishPreview pv s = Inr v \<and> pw_badge v = Not_Validated \<and> pw_hint v \<and> snd (pw_publish v) \<and> pw_errors v = []"
    if "vp_validation s = Null"
    using that by (simp add: PublishPreview_def validationBadge_def panel_errors_def publish_disabled_def canPublish_def map_result_def)
  ultimately show ?thesis by blast
qed

end
