(* ===== verification/Spec2Isabelle.thy ===== *)
theory Spec2Isabelle
  imports Subscription_Format Proxy_Path Node_Score Wall_Time Score_View Node_Inventory Client Api Session
    Subscription_Form Delay_Board En_Texts Zh_Texts I18n Proxy_List Connections Overview Runtime_Page
    Json Render_Loop Traffic_Page Subscriptions_Page Publish_Page Rules_Page Groups_Page Proxy_Form
    Rule_Providers_Page System_Config_Page Settings_Page Scores_Page Score_Detail
    Subscription_Card Form_View Shell Proxies_View Runtime_View Number_Text Traffic_View Editors_View Publish_View
begin

text \<open>
  This library models the web frontend of the mihomo control plane, the TypeScript code under
  \<open>src/web/src\<close>, and proves what it does. File names below are relative to that directory.

  \<^bold>\<open>The program.\<close> The frontend is a React application. The pages under \<open>pages\<close> load lists from a
  backend, show them, edit them in dialogs and send the edits back; \<open>components\<close> holds their parts,
  \<open>lib\<close> pure helpers, \<open>api\<close> one table of endpoints per resource over the client in \<open>api/client.ts\<close>,
  \<open>stores\<close> the session and the state of the draft, \<open>i18n\<close> two dictionaries with the translation
  function. All pages share the client, the session kept in local storage, the translation function
  and the messages shown to the user.

  \<^bold>\<open>The language layer.\<close> \<open>Js_String\<close> has strings as lists of UTF-16 code units with the operations the
  code uses, \<open>Js_Number\<close> IEEE 754 doubles as exact rationals with infinities and NaN, rounding
  written out, \<open>Js_Value\<close> JSON-like values, property access with the keys every object inherits, and
  percent encoding, \<open>Json\<close> the parser of JSON texts. A value that JavaScript may lack is an \<open>option\<close>,
  an exception the left of a sum. \<open>json_parse\<close> runs on fuel, twice the length of the text plus two;
  every call consumes at least one code unit for two units of fuel, and the round trips proved for
  it return a result.

  \<^bold>\<open>State and effects.\<close> \<open>Client\<close> has the world: local storage, the address, the two stores, the
  messages shown, the requests sent with their tokens, the backend and the state of the page. A
  handler is a function from worlds to a result or a thrown value and a new world; \<open>wp\<close> is its
  weakest precondition, and its simplification rules carry the proofs about handlers. A component's
  \<open>useState\<close> fields are a record; a setter is a record update; what a component shows is a function
  of its record to a view, a record of the values and of the conditions under which a control is
  shown or disabled.

  \<^bold>\<open>The theories\<close>, with the code they model:
  \<^item> \<open>Prelude\<close>: facts shared by all of them.
  \<^item> \<open>Subscription_Format\<close>, \<open>Proxy_Path\<close>, \<open>Node_Score\<close>, \<open>Node_Inventory\<close>: the files of \<open>lib\<close> with
    these names. \<open>Wall_Time\<close>: the time conversions of the subscription form.
  \<^item> \<open>Client\<close>, \<open>Api\<close>: \<open>api/client.ts\<close>, \<open>stores\<close> and the endpoint tables of \<open>api\<close>; \<open>Score_View\<close> is
    \<open>api/node-scores.ts\<close>, the view of a score row.
  \<^item> \<open>Session\<close>, \<open>Shell\<close>: \<open>pages/login.tsx\<close>, \<open>components/layout\<close>, \<open>routes.tsx\<close>, \<open>main.tsx\<close>.
  \<^item> \<open>En_Texts\<close>, \<open>Zh_Texts\<close>, \<open>I18n\<close>: the dictionaries and \<open>i18n/index.ts\<close>.
  \<^item> \<open>Delay_Board\<close>, \<open>Page_Actions\<close>, \<open>Render_Loop\<close>: what pages have in common, as locales: delay tests
    that interleave, saving and deleting with a reload, an effect that runs again when a function it
    depends on is created anew. The pages' theories interpret them on their own definitions;
    \<open>token_store\<close> in \<open>Client\<close> is interpreted for the session and for the language.
  \<^item> \<open>Proxy_List\<close>, \<open>Proxies_View\<close>, \<open>Proxy_Form\<close>: \<open>pages/proxies.tsx\<close> with \<open>components/proxies\<close> and the confirmation
    dialog. \<open>Groups_Page\<close>, \<open>Rules_Page\<close>, \<open>Rule_Providers_Page\<close>, \<open>System_Config_Page\<close>,
    \<open>Settings_Page\<close>, \<open>Publish_Page\<close>: the pages with these names and their components;
    \<open>Editors_View\<close>, \<open>Publish_View\<close>: what they and their dialogs show.
  \<^item> \<open>Overview\<close>, \<open>Connections\<close>, \<open>Runtime_Page\<close>, \<open>Runtime_View\<close>: \<open>pages/overview.tsx\<close>,
    \<open>pages/runtime.tsx\<close> and \<open>components/runtime\<close>, and the way from a connection to a new rule.
  \<^item> \<open>Subscription_Form\<close>, \<open>Form_View\<close>, \<open>Subscriptions_Page\<close>, \<open>Subscription_Card\<close>, \<open>Traffic_Page\<close>,
    \<open>Traffic_View\<close>: \<open>pages/subscriptions.tsx\<close>, \<open>components/subscriptions\<close>, \<open>lib/api-error.ts\<close>, \<open>pages/traffic.tsx\<close>.
  \<^item> \<open>Scores_Page\<close>, \<open>Score_Detail\<close>: \<open>pages/node-scores.tsx\<close> and \<open>components/node-scores\<close>.

  \<^bold>\<open>What the lemmas show.\<close> Sessions: for every interleaving of sign-ins, sign-outs, answers and page
  loads a request carries the current token or none (\<open>session_reach\<close>). Handlers: each returns, with
  exactly one outcome reported on every branch, refusals and unreadable answers included. Dialogs:
  whatever sequence of entries is made (\<open>entries\<close>, \<open>form_run\<close>, \<open>edited\<close>, \<open>selecting\<close>,
  \<open>panel_run\<close>, \<open>users_run\<close>, \<open>header_after\<close>, \<open>testing_reach\<close>), what is sent is well formed, depends
  on what was touched and, where the code sees to it, keeps what was not; the dialogs of
  \<open>Editors_View\<close> save what they show. Lists: merging, filtering, dragging and selecting keep what
  they should. Numbers and texts: paths, thresholds, schedules and times
  round-trip, meters and chart bars stay in their frames in spite of rounding, the dictionaries
  agree. Several theorems state where the code does something else than a user would expect.

  \<^bold>\<open>Parameters.\<close> The backend is an arbitrary function of the request, the token and its own state; an
  answer is a status with or without a body, or none. The HTTP library is part of it: a call is one
  logged request with one answer, and the library's own retries of GET, PUT and DELETE are not told
  apart. How an answer is read as typed rows, the
  formatting of dates, zones and numbers by the browser, the URL parser, the logarithm inside
  \<open>formatBytesExact\<close>, lower-casing, the list function of the drag library, and which menu link the
  router marks are parameters; what the code relies on is a named hypothesis (\<open>moves_elements\<close>,
  \<open>lower_laws\<close>, \<open>link_law\<close>, \<open>zone_offset\<close>: a zone's clock is off UTC by whole seconds, at most a day,
  \<open>healthy\<close>: list endpoints answer lists) with a concrete instance in the witnesses.

  \<^bold>\<open>Order.\<close> Requests that the code sends at once and answers that it does not wait for are run one
  after another, except where the interleaving is the point: delay tests, the publish panel, the
  deletion of proxies, the session. A polling interval is a repetition of the load.

  \<^bold>\<open>Not modelled.\<close> The Go backend, which is a parameter; the styled wrappers under \<open>components/ui\<close>,
  which only pass properties to third-party components; the tests; mounting of the React tree;
  layout, icons and style classes, except colours that depend on data; the constraint checks a
  browser adds to input fields before it submits a form.
\<close>

end
